(* ===== verification/Prelude.thy ===== *)
theory Prelude
  imports Main
begin

text \<open>
  Shared vocabulary of the development: identifiers and times, the error values of
  \<^verbatim>\<open>webitel-go-kit/pkg/errors\<close>, the result type with its sequencing operator, machine-integer
  conversions, and the few relational-algebra helpers (update-where, order-by-limit-1) in which
  the SQL statements of \<^verbatim>\<open>internal/store/postgres\<close> are written, with their lemmas.

  A \<^verbatim>\<open>uuid.UUID\<close> is the 128-bit number its sixteen bytes spell (most significant byte first), so
  \<^verbatim>\<open>uuid.Nil\<close> is 0. A \<^verbatim>\<open>time.Time\<close> is a number of nanoseconds since the Unix epoch.
  A Go pointer to a scalar is an option, nil being None.
\<close>

named_theorems store_simps \<open>equations that evaluate store operations\<close>
named_theorems frame_simps \<open>what an operation leaves unchanged\<close>

section \<open>Identifiers, time, machine integers\<close>

type_synonym uuid = nat
type_synonym time = int

abbreviation (input) uuid_nil :: uuid where "uuid_nil \<equiv> 0"

text \<open>The zero \<^verbatim>\<open>time.Time\<close> is midnight of January 1 of the year 1.\<close>

definition time_zero :: time where
  "time_zero = - 62135596800 * 1000000000"

text \<open>\<^verbatim>\<open>time.Time.UnixMilli\<close> rounds towards minus infinity (the nanosecond part is never negative).\<close>

definition UnixMilli :: "time \<Rightarrow> int" where
  "UnixMilli t = t div 1000000"

text \<open>Go's conversion of a 64-bit \<^verbatim>\<open>int\<close> to \<^verbatim>\<open>int32\<close> keeps the low 32 bits, two's complement.\<close>

definition to_int32 :: "int \<Rightarrow> int" where
  "to_int32 x = (x + 2 ^ 31) mod 2 ^ 32 - 2 ^ 31"

lemma to_int32_range: "- (2 ^ 31) \<le> to_int32 x \<and> to_int32 x < 2 ^ 31"
proof -
  have "0 \<le> (x + 2 ^ 31) mod (4294967296 :: int)" and "(x + 2 ^ 31) mod (4294967296 :: int) < 4294967296"
    by simp_all
  then show ?thesis by (simp add: to_int32_def)
qed

lemma to_int32_id: "- (2 ^ 31) \<le> x \<Longrightarrow> x < 2 ^ 31 \<Longrightarrow> to_int32 x = x"
  by (simp add: to_int32_def)

section \<open>Errors and results\<close>

text \<open>
  The gRPC codes the service attaches to its errors. A plain \<^verbatim>\<open>errors.New\<close> or \<^verbatim>\<open>fmt.Errorf\<close> has
  code Unknown; the second component is the message, which identifies the branch that failed.
\<close>

datatype code = InvalidArgument | NotFound | Forbidden | AlreadyExists | FailedPrecondition
  | Internal | Unknown

datatype err = Err (err_code: code) (err_msg: string)

type_synonym 'a res = "err + 'a"

definition bindr :: "'e + 'a \<Rightarrow> ('a \<Rightarrow> 'e + 'b) \<Rightarrow> 'e + 'b" where
  "bindr m f = (case m of Inl e \<Rightarrow> Inl e | Inr a \<Rightarrow> f a)"

lemma bindr_simps [simp]:
  "bindr (Inl e) f = Inl e"
  "bindr (Inr a) f = f a"
  by (simp_all add: bindr_def)

lemma bindr_Inr_iff: "bindr m f = Inr b \<longleftrightarrow> (\<exists>a. m = Inr a \<and> f a = Inr b)"
  by (cases m) auto

lemma bindr_Inr_eq_iff: "Inr b = bindr m f \<longleftrightarrow> (\<exists>a. m = Inr a \<and> f a = Inr b)"
  by (cases m) auto

text \<open>The same for a result that is matched on directly, the error replaced.\<close>

lemma case_res_Inr: "(case m of Inl e \<Rightarrow> Inl (g e) | Inr a \<Rightarrow> f a) = Inr b \<longleftrightarrow> (\<exists>a. m = Inr a \<and> f a = Inr b)"
  by (cases m) auto

lemma bindr_cong [fundef_cong]:
  "m = m' \<Longrightarrow> (\<And>a. m' = Inr a \<Longrightarrow> f a = f' a) \<Longrightarrow> bindr m f = bindr m' f'"
  by (cases m') auto

lemma bindr_split:
  "P (bindr m f) \<longleftrightarrow> (\<forall>e. m = Inl e \<longrightarrow> P (Inl e)) \<and> (\<forall>a. m = Inr a \<longrightarrow> P (f a))"
  by (cases m) auto

lemma bindr_split_asm:
  "P (bindr m f) \<longleftrightarrow> \<not> ((\<exists>e. m = Inl e \<and> \<not> P (Inl e)) \<or> (\<exists>a. m = Inr a \<and> \<not> P (f a)))"
  by (cases m) auto

text \<open>An early return of an error: the guard of \<^verbatim>\<open>if cond { return err }\<close>.\<close>

definition fail_if :: "bool \<Rightarrow> err \<Rightarrow> unit res" where
  "fail_if c e = (if c then Inl e else Inr ())"

lemma fail_if_Inr [simp]: "fail_if c e = Inr u \<longleftrightarrow> \<not> c"
  by (simp add: fail_if_def)

lemma fail_if_Inl [simp]: "fail_if c e = Inl e' \<longleftrightarrow> c \<and> e' = e"
  by (auto simp: fail_if_def)

lemma fail_if_simps [simp]:
  "fail_if True e = Inl e"
  "fail_if False e = Inr ()"
  by (simp_all add: fail_if_def)

text \<open>Effects over a sequence, stopping at the first error: \<^verbatim>\<open>for _, x := range xs { if err := f(x) ... }\<close>.\<close>

fun foldr_res :: "('x \<Rightarrow> 's \<Rightarrow> 's res) \<Rightarrow> 'x list \<Rightarrow> 's \<Rightarrow> 's res" where
  "foldr_res f [] s = Inr s"
| "foldr_res f (x # xs) s = bindr (f x s) (\<lambda>s'. foldr_res f xs s')"

lemma foldr_res_invariant:
  assumes "\<And>x s s'. x \<in> set xs \<Longrightarrow> P s \<Longrightarrow> f x s = Inr s' \<Longrightarrow> P s'"
    and "P s" and "foldr_res f xs s = Inr s'"
  shows "P s'"
  using assms
proof (induction xs arbitrary: s)
  case Nil
  then show ?case by simp
next
  case (Cons x xs)
  from Cons.prems(3) obtain t where t: "f x s = Inr t" "foldr_res f xs t = Inr s'"
    by (auto simp: bindr_Inr_iff)
  have "P t" by (rule Cons.prems(1) [of x s t]) (use Cons.prems(2) t(1) in simp_all)
  moreover have "\<And>x s s'. x \<in> set xs \<Longrightarrow> P s \<Longrightarrow> f x s = Inr s' \<Longrightarrow> P s'"
    using Cons.prems(1) by (meson list.set_intros(2))
  ultimately show ?case using Cons.IH t(2) by blast
qed

section \<open>Relational helpers\<close>

text \<open>\<^verbatim>\<open>UPDATE ... SET f WHERE p\<close>.\<close>

definition update_where :: "('r \<Rightarrow> bool) \<Rightarrow> ('r \<Rightarrow> 'r) \<Rightarrow> 'r list \<Rightarrow> 'r list" where
  "update_where p f rows = map (\<lambda>r. if p r then f r else r) rows"

lemma update_where_simps [simp]:
  "update_where p f [] = []"
  "update_where p f (r # rows) = (if p r then f r else r) # update_where p f rows"
  by (simp_all add: update_where_def)

lemma update_where_append [simp]:
  "update_where p f (xs @ ys) = update_where p f xs @ update_where p f ys"
  by (simp add: update_where_def)

lemma set_update_where: "set (update_where p f rows) = (\<lambda>r. if p r then f r else r) ` set rows"
  by (simp add: update_where_def)

lemma map_update_where [simp]:
  "(\<And>r. p r \<Longrightarrow> k (f r) = k r) \<Longrightarrow> map k (update_where p f rows) = map k rows"
  by (auto simp: update_where_def)

lemma length_update_where [simp]: "length (update_where p f rows) = length rows"
  by (simp add: update_where_def)

lemma update_where_none: "(\<And>r. r \<in> set rows \<Longrightarrow> \<not> p r) \<Longrightarrow> update_where p f rows = rows"
  by (induction rows) auto

lemma update_where_keys: "(\<And>r. f (g r) = f r) \<Longrightarrow> map f (update_where P g xs) = map f xs"
  by (induction xs) auto

lemma update_where_filter_other:
  "(\<And>r. P (g r) = P r) \<Longrightarrow> filter (\<lambda>r. \<not> P r) (update_where P g xs) = filter (\<lambda>r. \<not> P r) xs"
  by (induction xs) auto

lemma update_where_filter_same:
  "(\<And>r. P (g r) = P r) \<Longrightarrow> filter P (update_where P g xs) = map g (filter P xs)"
  by (induction xs) auto

text \<open>A key that is unique in a table selects at most one row.\<close>

lemma filter_key_unique:
  "distinct (map f xs) \<Longrightarrow> x \<in> set xs \<Longrightarrow> f x = k \<Longrightarrow> filter (\<lambda>y. f y = k) xs = [x]"
  by (induction xs) (auto simp: filter_empty_conv, metis imageI)

lemma filter_key_length: "distinct (map f xs) \<Longrightarrow> length (filter (\<lambda>y. f y = k) xs) \<le> 1"
  by (induction xs) (auto simp: filter_empty_conv image_iff)

text \<open>\<^verbatim>\<open>ORDER BY k DESC LIMIT 1\<close> and \<^verbatim>\<open>ORDER BY k ASC LIMIT 1\<close>.\<close>

fun first_max :: "('r \<Rightarrow> 'k::linorder) \<Rightarrow> 'r list \<Rightarrow> 'r option" where
  "first_max k [] = None"
| "first_max k (x # xs) =
     (case first_max k xs of None \<Rightarrow> Some x | Some y \<Rightarrow> if k y \<le> k x then Some x else Some y)"

fun first_min :: "('r \<Rightarrow> 'k::linorder) \<Rightarrow> 'r list \<Rightarrow> 'r option" where
  "first_min k [] = None"
| "first_min k (x # xs) =
     (case first_min k xs of None \<Rightarrow> Some x | Some y \<Rightarrow> if k x \<le> k y then Some x else Some y)"

lemma first_max_None [simp]: "first_max k xs = None \<longleftrightarrow> xs = []"
  by (cases xs) (auto split: option.splits)

lemma first_min_None [simp]: "first_min k xs = None \<longleftrightarrow> xs = []"
  by (cases xs) (auto split: option.splits)

lemma first_max_Some:
  "first_max k xs = Some x \<Longrightarrow> x \<in> set xs \<and> (\<forall>y \<in> set xs. k y \<le> k x)"
proof (induction xs arbitrary: x)
  case Nil
  then show ?case by simp
next
  case (Cons a xs)
  show ?case
  proof (cases "first_max k xs")
    case None
    with Cons.prems show ?thesis by simp
  next
    case (Some y)
    then have "y \<in> set xs" and "\<forall>z \<in> set xs. k z \<le> k y" using Cons.IH by auto
    with Some Cons.prems show ?thesis by (auto split: if_splits)
  qed
qed

lemma first_min_Some:
  "first_min k xs = Some x \<Longrightarrow> x \<in> set xs \<and> (\<forall>y \<in> set xs. k x \<le> k y)"
proof (induction xs arbitrary: x)
  case Nil
  then show ?case by simp
next
  case (Cons a xs)
  show ?case
  proof (cases "first_min k xs")
    case None
    with Cons.prems show ?thesis by simp
  next
    case (Some y)
    then have "y \<in> set xs" and "\<forall>z \<in> set xs. k y \<le> k z" using Cons.IH by auto
    with Some Cons.prems show ?thesis by (auto split: if_splits)
  qed
qed

lemma first_max_eqI:
  assumes "x \<in> set xs" and "\<And>y. y \<in> set xs \<Longrightarrow> y \<noteq> x \<Longrightarrow> k y < k x"
  shows "first_max k xs = Some x"
proof (cases "first_max k xs")
  case None
  with assms(1) show ?thesis by simp
next
  case (Some y)
  then have "y \<in> set xs" and "k x \<le> k y" using first_max_Some assms(1) by fastforce+
  with assms(2) have "y = x" using leD by blast
  with Some show ?thesis by simp
qed

text \<open>The first row a Go loop with \<^verbatim>\<open>break\<close> stops at.\<close>

lemma find_SomeD: "find p xs = Some x \<Longrightarrow> x \<in> set xs \<and> p x"
  by (auto simp: find_Some_iff)

lemma find_append:
  "find p (xs @ ys) = (case find p xs of Some x \<Rightarrow> Some x | None \<Rightarrow> find p ys)"
  by (induction xs) auto

lemma filter_ConsD: "filter p xs = y # ys \<Longrightarrow> y \<in> set xs \<and> p y"
  using filter_eq_ConsD by fastforce

lemma insort_key_snoc: "k x \<le> k y \<Longrightarrow> insort_key k x (xs @ [y]) = insort_key k x xs @ [y]"
  by (induction xs) auto

text \<open>Appending a row beyond the maximum appends it to the ordered result.\<close>

lemma sort_key_snoc_max:
  "(\<And>x. x \<in> set xs \<Longrightarrow> k x \<le> k y) \<Longrightarrow> sort_key k (xs @ [y]) = sort_key k xs @ [y]"
  by (induction xs) (auto simp: insort_key_snoc)

text \<open>\<^verbatim>\<open>ORDER BY k DESC LIMIT 1\<close> is the last row of \<^verbatim>\<open>ORDER BY k ASC\<close> when the keys are distinct.\<close>

lemma first_max_last_sort:
  assumes "distinct (map k xs)"
  shows "first_max k xs = (if xs = [] then None else Some (last (sort_key k xs)))"
proof (cases "xs = []")
  case False
  then have ne: "sort_key k xs \<noteq> []" by (metis set_empty set_sort)
  then have "last (sort_key k xs) \<in> set xs" by (metis last_in_set set_sort)
  moreover have "k y \<le> k (last (sort_key k xs))" if "y \<in> set xs" for y
  proof -
    from that obtain i where i: "i < length (sort_key k xs)" "y = sort_key k xs ! i"
      by (metis in_set_conv_nth set_sort)
    have "sorted (map k (sort_key k xs))" by simp
    then have "map k (sort_key k xs) ! i \<le> map k (sort_key k xs) ! (length (sort_key k xs) - 1)"
      by (rule sorted_nth_mono) (use i in auto)
    with i ne show ?thesis by (simp add: last_conv_nth)
  qed
  moreover have "y = last (sort_key k xs)" if "y \<in> set xs" "k y = k (last (sort_key k xs))" for y
    using that assms \<open>last (sort_key k xs) \<in> set xs\<close> by (simp add: distinct_map inj_on_def)
  ultimately have "first_max k xs = Some (last (sort_key k xs))"
    by (intro first_max_eqI) (auto simp: order_less_le)
  with False show ?thesis by simp
qed simp

end
