(* ===== verification/Shared.thy ===== *)
theory Shared
  imports Prelude
begin

text \<open>
  \<^verbatim>\<open>internal/domain/shared/base.go\<close>: peers, identities, the embedded base model and text
  entities, with their methods; and the \<^verbatim>\<open>any\<close> values the service stores in metadata maps.
  Go struct embedding is record extension.
\<close>

section \<open>Peers\<close>

type_synonym PeerType = int

abbreviation (input) PeerContact :: PeerType where "PeerContact \<equiv> 1"
abbreviation (input) PeerGroup :: PeerType where "PeerGroup \<equiv> 2"
abbreviation (input) PeerChannel :: PeerType where "PeerChannel \<equiv> 3"
abbreviation (input) PeerThread :: PeerType where "PeerThread \<equiv> 4"

record ViaInfo =
  vi_ID :: string
  vi_Name :: string
  vi_Type :: string

record Identity =
  idn_Issuer :: string
  idn_Name :: string
  idn_ChatName :: string
  idn_ViaInfo :: "ViaInfo option"

record Peer =
  pr_ID :: uuid
  pr_Type :: PeerType
  pr_Identity :: "Identity option"

definition empty_peer :: Peer where
  "empty_peer = \<lparr>pr_ID = uuid_nil, pr_Type = 0, pr_Identity = None\<rparr>"

definition ResolveContactID :: "Peer \<Rightarrow> uuid option" where
  "ResolveContactID p = (if pr_Type p \<noteq> PeerContact then None else Some (pr_ID p))"

definition ResolveThreadID :: "Peer \<Rightarrow> uuid option" where
  "ResolveThreadID p = (if pr_Type p \<noteq> PeerThread then None else Some (pr_ID p))"

definition ResolveVia :: "Peer \<Rightarrow> string option" where
  "ResolveVia p =
     (case pr_Identity p of
        None \<Rightarrow> None
      | Some i \<Rightarrow>
          (case idn_ViaInfo i of
             None \<Rightarrow> None
           | Some v \<Rightarrow> if vi_ID v = [] then None else Some (vi_ID v)))"

definition ResolveViaInfo :: "Peer \<Rightarrow> ViaInfo option" where
  "ResolveViaInfo p = (case pr_Identity p of None \<Rightarrow> None | Some i \<Rightarrow> idn_ViaInfo i)"

lemma ResolveVia_nonempty: "ResolveVia p = Some v \<Longrightarrow> v \<noteq> []"
  by (auto simp: ResolveVia_def split: option.splits if_splits)

lemma Resolve_exclusive: "ResolveContactID p = None \<or> ResolveThreadID p = None"
  by (simp add: ResolveContactID_def ResolveThreadID_def)

section \<open>The embedded base model and entities\<close>

record BaseModel =
  bm_ID :: uuid
  bm_DomainID :: int
  bm_CreatedBy :: int
  bm_UpdatedBy :: int
  bm_CreatedAt :: time
  bm_UpdatedAt :: time

definition CreatedAtMilliseconds :: "('m) BaseModel_scheme \<Rightarrow> int" where
  "CreatedAtMilliseconds b = max (UnixMilli (bm_CreatedAt b)) 0"

definition UpdatedAtMilliseconds :: "('m) BaseModel_scheme \<Rightarrow> int" where
  "UpdatedAtMilliseconds b = max (UnixMilli (bm_UpdatedAt b)) 0"

record Entity =
  en_Type :: string
  en_Offset :: int
  en_Length :: int
  en_Value :: string

text \<open>The dynamic values (\<^verbatim>\<open>any\<close>) the service itself puts into metadata maps.\<close>

datatype anyv = VStr string | VInt int | VBool bool | VUuid uuid | VEntities "Entity list"
  | VNil | VOpaque nat

type_synonym metadata = "string \<rightharpoonup> anyv"

section \<open>White space\<close>

text \<open>
  \<^verbatim>\<open>strings.TrimSpace\<close> on the bytes of a text: the encodings of the white space characters of Unicode are
  taken off at both ends. No encoding of one character ends or begins like that of another.
\<close>

definition bytes :: "nat list \<Rightarrow> string" where
  "bytes = map char_of"

definition white_space :: "string list" where
  "white_space = map bytes ([[9], [10], [11], [12], [13], [32], [194, 133], [194, 160], [225, 154, 128], [226, 128, 168], [226, 128, 169],
     [226, 128, 175], [226, 129, 159], [227, 128, 128]] @ map (\<lambda>n. [226, 128, n]) [128..<139])"

definition leading :: "string list \<Rightarrow> string \<Rightarrow> nat" where
  "leading ws s = (case find (\<lambda>w. w \<noteq> [] \<and> take (length w) s = w) ws of None \<Rightarrow> 0 | Some w \<Rightarrow> length w)"

lemma leading_le: "leading ws s \<le> length s"
  by (auto simp: leading_def dest!: find_SomeD split: option.split) (metis length_take min.cobounded1)

function strip :: "string list \<Rightarrow> string \<Rightarrow> string" where
  "strip ws s = (if leading ws s = 0 then s else strip ws (drop (leading ws s) s))"
  by pat_completeness auto

termination
proof (relation "measure (\<lambda>(ws, s). length s)")
  fix ws s
  assume "leading ws s \<noteq> 0"
  with leading_le [of ws s] show "((ws, drop (leading ws s) s), (ws, s)) \<in> measure (\<lambda>(ws, s). length s)" by simp
qed simp

declare strip.simps [simp del]

definition TrimSpace :: "string \<Rightarrow> string" where
  "TrimSpace s = rev (strip (map rev white_space) (rev (strip white_space s)))"

end
