(* ===== verification/Events.thy ===== *)
theory Events
  imports Shared
begin

text \<open>
  \<^verbatim>\<open>internal/domain/event\<close>: the payloads the service writes to the transactional outbox and the
  topics it writes them under. A topic is the list of its dot-separated segments before the ids
  are printed; \<^verbatim>\<open>json.Marshal\<close> and the row id of the outbox entry are not modelled.
\<close>

section \<open>Payloads\<close>

record ThreadMember =
  tm_ID :: "uuid option"
  tm_ContactID :: uuid
  tm_Role :: int
  tm_IsBot :: bool

record SystemPayload =
  sp_Type :: string
  sp_Metadata :: metadata

definition NewSystemPayload :: "string \<Rightarrow> metadata \<Rightarrow> SystemPayload" where
  "NewSystemPayload t m = \<lparr>sp_Type = t, sp_Metadata = m\<rparr>"

record ImagePayload =
  ip_FileID :: int
  ip_Mime :: string
  ip_Name :: string
  ip_URL :: string

record DocumentPayload =
  dp_FileID :: int
  dp_Mime :: string
  dp_Name :: string
  dp_Size :: int
  dp_URL :: string

record ContactPayload =
  cp_Name :: "string option"
  cp_Phone :: "string option"
  cp_Email :: "string option"

text \<open>Coordinates are never computed with; a \<^verbatim>\<open>float64\<close> is carried as its bit pattern.\<close>

record LocationPayload =
  lp_Latitude :: nat
  lp_Longitude :: nat
  lp_Address :: "string option"
  lp_Name :: "string option"

record ReplyToPayload =
  rp_MessageID :: uuid
  rp_SenderID :: uuid
  rp_Type :: string
  rp_Body :: string
  rp_CreatedAt :: int
  rp_AttachmentKind :: "string option"
  rp_AttachmentName :: "string option"
  rp_AttachmentMime :: "string option"
  rp_AttachmentAddress :: "string option"
  rp_IsDeleted :: bool

record ForwardOriginPayload =
  fp_Kind :: int
  fp_SenderID :: "uuid option"
  fp_SenderName :: string
  fp_OriginalSentAt :: int
  fp_SourceMessageID :: "uuid option"

record KeyboardButtonEv =
  kbe_ID :: string
  kbe_Label :: string
  kbe_Metadata :: metadata
  kbe_Type :: string
  kbe_URL :: "string option"
  kbe_Callback :: "string option"
  kbe_Request :: "string option"

record InteractivePayload =
  itp_SingleUse :: bool
  itp_Markup :: "KeyboardButtonEv list list option"
  itp_ListReply :: "(string \<times> (string \<times> KeyboardButtonEv list) list) option"

record MessageCreated =
  mc_MessageID :: uuid
  mc_ThreadID :: uuid
  mc_DomainID :: int
  mc_From :: "ThreadMember option"
  mc_To :: "ThreadMember list"
  mc_SendID :: string
  mc_Body :: string
  mc_Type :: string
  mc_OccurredAt :: time
  mc_Metadata :: metadata
  mc_Images :: "ImagePayload list"
  mc_Documents :: "DocumentPayload list"
  mc_Location :: "LocationPayload option"
  mc_Contact :: "ContactPayload option"
  mc_Interactive :: "InteractivePayload option"
  mc_System :: "SystemPayload option"
  mc_BotControllerMemberID :: "uuid option"
  mc_ReplyTo :: "ReplyToPayload option"
  mc_ForwardOrigin :: "ForwardOriginPayload option"
  mc_Seq :: int
  mc_ExternalMetadata :: "string \<rightharpoonup> string"

record MemberChange =
  mch_MessageID :: uuid
  mch_ThreadID :: uuid
  mch_DomainID :: int
  mch_ContactID :: uuid
  mch_OccurredAt :: time
  mch_System :: SystemPayload
  mch_Participants :: "uuid list"

record BotControlAgent =
  bca_MemberID :: uuid
  bca_Sub :: "int option"

record BotControlGranted =
  bg_ThreadID :: uuid
  bg_DomainID :: int
  bg_MemberID :: uuid
  bg_ContactID :: uuid
  bg_Position :: int
  bg_AutoLeave :: bool
  bg_Reason :: string
  bg_IsResume :: bool
  bg_PreviousPosition :: "int option"
  bg_PreviousMemberID :: "uuid option"
  bg_Sub :: "int option"
  bg_ReleasedSub :: "int option"
  bg_Agents :: "BotControlAgent list"
  bg_OccurredAt :: time

record BotControlReleased =
  br_ThreadID :: uuid
  br_DomainID :: int
  br_MemberID :: uuid
  br_Position :: int
  br_Reason :: string
  br_NextMemberID :: "uuid option"
  br_Sub :: "int option"
  br_OccurredAt :: time

record ThreadTagsChanged =
  tc_ThreadID :: uuid
  tc_DomainID :: int
  tc_ContactID :: uuid
  tc_Tags :: "string list"
  tc_OccurredAt :: time
  tc_Participants :: "uuid list"

definition NewThreadTagsChanged :: "time \<Rightarrow> uuid \<Rightarrow> uuid \<Rightarrow> int \<Rightarrow> string list \<Rightarrow> ThreadTagsChanged" where
  "NewThreadTagsChanged now threadID contactID domainID tags =
     \<lparr>tc_ThreadID = threadID, tc_DomainID = domainID, tc_ContactID = contactID, tc_Tags = tags,
      tc_OccurredAt = now, tc_Participants = [contactID]\<rparr>"

record ThreadUpdated =
  tu_ThreadID :: uuid
  tu_DomainID :: int
  tu_UpdatedBy :: uuid
  tu_CRMContactID :: string
  tu_OccurredAt :: time
  tu_Participants :: "uuid list"

record ThreadCreated =
  tcr_ID :: uuid
  tcr_DomainID :: int
  tcr_CreatedAt :: time
  tcr_Subject :: string
  tcr_RecipientID :: uuid
  tcr_RecipientName :: string
  tcr_Kind :: string
  tcr_Members :: "ThreadMember list"

record MessageStatusChanged =
  sc_ThreadID :: uuid
  sc_DomainID :: int
  sc_MemberID :: uuid
  sc_Member :: "ThreadMember option"
  sc_MessageIDs :: "uuid list"
  sc_UpToSeq :: int
  sc_UnreadCount :: "int option"
  sc_Status :: string
  sc_Via :: string
  sc_Error :: metadata
  sc_OccurredAt :: time
  sc_Participants :: "uuid list"

record MessageEdited =
  med_MessageID :: uuid
  med_ThreadID :: uuid
  med_DomainID :: int
  med_EditedBy :: "ThreadMember option"
  med_To :: "ThreadMember list"
  med_Body :: string
  med_Type :: string
  med_Revision :: int
  med_CreatedAt :: time
  med_OccurredAt :: time
  med_Metadata :: metadata
  med_ExternalMetadata :: "string \<rightharpoonup> string"

text \<open>
  \<^verbatim>\<open>MemberContact\<close> and \<^verbatim>\<open>Member\<close>; the ids are printed uuids in the code, the empty text being None.
\<close>

record MemberContact =
  mct_ID :: uuid
  mct_Sub :: string
  mct_Iss :: string
  mct_Name :: string
  mct_Username :: string
  mct_Type :: string
  mct_IsBot :: bool

record EventMember =
  emb_ID :: "uuid option"
  emb_Contact :: "MemberContact option"
  emb_Role :: string

record MessageDeleted =
  mdl_MessageID :: uuid
  mdl_ThreadID :: uuid
  mdl_DomainID :: int
  mdl_DeletedBy :: "EventMember option"
  mdl_To :: "ThreadMember list"
  mdl_Type :: string
  mdl_CreatedAt :: time
  mdl_OccurredAt :: time
  mdl_ExternalMetadata :: "string \<rightharpoonup> string"

record ReactionAggregate =
  ra_Emoji :: string
  ra_Count :: int
  ra_ReactorIDs :: "uuid list"
  ra_LastReactedAt :: int

record MessageReaction =
  mre_MessageID :: uuid
  mre_ThreadID :: uuid
  mre_DomainID :: int
  mre_Reactor :: "ThreadMember option"
  mre_To :: "ThreadMember list"
  mre_Emoji :: string
  mre_Action :: string
  mre_OccurredAt :: time
  mre_SendID :: string
  mre_Reactions :: "ReactionAggregate list"
  mre_ExternalMetadata :: "string \<rightharpoonup> string"

record InteractiveCallbackPayload =
  icp_ReactedBy :: Peer
  icp_InReplyTo :: uuid
  icp_ButtonCode :: string
  icp_CallbackData :: string
  icp_ReactedAt :: time
  icp_DomainID :: int
  icp_ThreadID :: uuid
  icp_Receiver :: uuid
  icp_ExternalMetadata :: "string \<rightharpoonup> string"

datatype event =
    EvMessageCreated MessageCreated
  | EvMessageEdited MessageEdited
  | EvMessageDeleted MessageDeleted
  | EvMessageReaction MessageReaction
  | EvMemberJoined MemberChange
  | EvMemberLeft MemberChange
  | EvBotControlGranted BotControlGranted
  | EvBotControlReleased BotControlReleased
  | EvThreadTagsChanged ThreadTagsChanged
  | EvThreadUpdated ThreadUpdated
  | EvThreadCreated ThreadCreated
  | EvMessageStatusChanged MessageStatusChanged
  | EvInteractiveCallback InteractiveCallbackPayload

section \<open>Topics\<close>

datatype segment = S string | U uuid

type_synonym topic = "segment list"

fun event_topic :: "event \<Rightarrow> topic" where
  "event_topic (EvMessageCreated e) =
     [S ''im_message'', U (mc_ThreadID e), S ''message'', S ''created'', S ''v1'']"
| "event_topic (EvMessageEdited e) =
     [S ''im_message'', U (med_ThreadID e), S ''message'', S ''edited'', S ''v1'']"
| "event_topic (EvMessageDeleted e) =
     [S ''im_message'', U (mdl_ThreadID e), S ''message'', S ''deleted'', S ''v1'']"
| "event_topic (EvMessageReaction e) =
     [S ''im_message'', U (mre_ThreadID e), S ''message'', S ''reaction'', S ''v1'']"
| "event_topic (EvMemberJoined e) =
     [S ''im_thread'', U (mch_ThreadID e), S ''member'', U (mch_ContactID e), S ''joined'', S ''v1'']"
| "event_topic (EvMemberLeft e) =
     [S ''im_thread'', U (mch_ThreadID e), S ''member'', U (mch_ContactID e), S ''left'', S ''v1'']"
| "event_topic (EvBotControlGranted e) =
     [S ''im_thread'', U (bg_ThreadID e), S ''bot'', S ''control'', S ''granted'', S ''v1'']"
| "event_topic (EvBotControlReleased e) =
     [S ''im_thread'', U (br_ThreadID e), S ''bot'', S ''control'', S ''released'', S ''v1'']"
| "event_topic (EvThreadTagsChanged e) =
     [S ''im_thread'', U (tc_ThreadID e), S ''thread'', S ''tags'', S ''v1'']"
| "event_topic (EvThreadUpdated e) =
     [S ''im_thread'', U (tu_ThreadID e), S ''thread'', S ''updated'', S ''v1'']"
| "event_topic (EvThreadCreated e) =
     [S ''im_thread'', U (tcr_RecipientID e), S ''thread'', S ''created'', S ''v1'']"
| "event_topic (EvMessageStatusChanged e) =
     [S ''im_message'', U (sc_ThreadID e), S ''message'', S ''status'', S ''v1'']"
| "event_topic (EvInteractiveCallback e) =
     [S ''im_message'', U (icp_InReplyTo e), S ''interactive_callback'', S ''reacted'', S ''v1'']"

fun event_thread :: "event \<Rightarrow> uuid" where
  "event_thread (EvMessageCreated e) = mc_ThreadID e"
| "event_thread (EvMessageEdited e) = med_ThreadID e"
| "event_thread (EvMessageDeleted e) = mdl_ThreadID e"
| "event_thread (EvMessageReaction e) = mre_ThreadID e"
| "event_thread (EvMemberJoined e) = mch_ThreadID e"
| "event_thread (EvMemberLeft e) = mch_ThreadID e"
| "event_thread (EvBotControlGranted e) = bg_ThreadID e"
| "event_thread (EvBotControlReleased e) = br_ThreadID e"
| "event_thread (EvThreadTagsChanged e) = tc_ThreadID e"
| "event_thread (EvThreadUpdated e) = tu_ThreadID e"
| "event_thread (EvThreadCreated e) = tcr_ID e"
| "event_thread (EvMessageStatusChanged e) = sc_ThreadID e"
| "event_thread (EvInteractiveCallback e) = icp_ThreadID e"

end
