(* ===== verification/Dialogs.thy ===== *)
theory Dialogs
  imports Events
begin

text \<open>
  \<^verbatim>\<open>internal/domain/model\<close>: thread roles, permissions and thread members
  (\<^verbatim>\<open>thread_dialog.go\<close>, \<^verbatim>\<open>thread_permission.go\<close>, \<^verbatim>\<open>bot_control.go\<close>), with the resolution of a
  thread's external recipients and its correctness. Slices of member pointers are filled by
  \<^verbatim>\<open>collectRows\<close> and \<^verbatim>\<open>utils.Map\<close>, which never produce a nil element, so they are plain lists
  and the \<^verbatim>\<open>m != nil\<close> tests of the code are always true.
\<close>

section \<open>Roles and permissions\<close>

type_synonym ThreadRole = int

abbreviation (input) UnspecifiedRole :: ThreadRole where "UnspecifiedRole \<equiv> 0"
abbreviation (input) RoleMember :: ThreadRole where "RoleMember \<equiv> 1"
abbreviation (input) RoleAdmin :: ThreadRole where "RoleAdmin \<equiv> 2"
abbreviation (input) RoleSupervisor :: ThreadRole where "RoleSupervisor \<equiv> 3"
abbreviation (input) RoleOwner :: ThreadRole where "RoleOwner \<equiv> 4"

definition ThreadRole_String :: "ThreadRole \<Rightarrow> string" where
  "ThreadRole_String r =
     (if r = RoleMember then ''ROLE_MEMBER''
      else if r = RoleAdmin then ''ROLE_ADMIN''
      else if r = RoleSupervisor then ''ROLE_SUPERVISOR''
      else if r = RoleOwner then ''ROLE_OWNER''
      else ''ROLE_UNSPECIFIED'')"

record ThreadPermissions =
  CanSendMessages :: bool
  CanAddMembers :: bool
  CanRemoveMembers :: bool
  CanChangeMembersPermissions :: bool
  CanChangeThreadInfo :: bool
  CanDeleteMessages :: bool
  CanReactMessages :: bool

record BaseThreadSetting = BaseModel +
  bts_ThreadDialogID :: uuid
  bts_Title :: string

section \<open>Members\<close>

record ThreadDialog = BaseModel +
  td_ContactID :: uuid
  td_ThreadID :: uuid
  td_ThreadRole :: ThreadRole
  td_DeletedAt :: "time option"
  td_InvitedBy :: "uuid option"
  td_LeaveReason :: "string option"
  td_Via :: "string option"
  td_IsBot :: bool
  td_AutoLeave :: bool

record ThreadDialogExtended = BaseModel +
  tdx_ContactID :: uuid
  tdx_ThreadID :: uuid
  tdx_ThreadRole :: ThreadRole
  tdx_DeletedAt :: "time option"
  tdx_InvitedBy :: "uuid option"
  tdx_LeaveReason :: "string option"
  tdx_Via :: "string option"
  tdx_QueueID :: "int option"
  tdx_IsBot :: bool
  tdx_AutoLeave :: bool
  tdx_Permissions :: ThreadPermissions
  tdx_Settings :: BaseThreadSetting

text \<open>The zero values a Go composite literal leaves in the fields it does not name.\<close>

definition zero_dialog :: ThreadDialog where
  "zero_dialog =
     \<lparr>bm_ID = uuid_nil, bm_DomainID = 0, bm_CreatedBy = 0, bm_UpdatedBy = 0,
      bm_CreatedAt = time_zero, bm_UpdatedAt = time_zero,
      td_ContactID = uuid_nil, td_ThreadID = uuid_nil, td_ThreadRole = UnspecifiedRole,
      td_DeletedAt = None, td_InvitedBy = None, td_LeaveReason = None, td_Via = None,
      td_IsBot = False, td_AutoLeave = False\<rparr>"

definition zero_permissions :: ThreadPermissions where
  "zero_permissions =
     \<lparr>CanSendMessages = False, CanAddMembers = False, CanRemoveMembers = False,
      CanChangeMembersPermissions = False, CanChangeThreadInfo = False,
      CanDeleteMessages = False, CanReactMessages = False\<rparr>"

definition zero_setting :: BaseThreadSetting where
  "zero_setting =
     \<lparr>bm_ID = uuid_nil, bm_DomainID = 0, bm_CreatedBy = 0, bm_UpdatedBy = 0,
      bm_CreatedAt = time_zero, bm_UpdatedAt = time_zero,
      bts_ThreadDialogID = uuid_nil, bts_Title = []\<rparr>"

definition zero_dialog_extended :: ThreadDialogExtended where
  "zero_dialog_extended =
     \<lparr>bm_ID = uuid_nil, bm_DomainID = 0, bm_CreatedBy = 0, bm_UpdatedBy = 0,
      bm_CreatedAt = time_zero, bm_UpdatedAt = time_zero,
      tdx_ContactID = uuid_nil, tdx_ThreadID = uuid_nil, tdx_ThreadRole = UnspecifiedRole,
      tdx_DeletedAt = None, tdx_InvitedBy = None, tdx_LeaveReason = None, tdx_Via = None,
      tdx_QueueID = None, tdx_IsBot = False, tdx_AutoLeave = False,
      tdx_Permissions = zero_permissions, tdx_Settings = zero_setting\<rparr>"

lemmas zero_defs = zero_dialog_def zero_permissions_def zero_setting_def zero_dialog_extended_def

section \<open>External recipients\<close>

record ExternalPeerPair =
  ep_ContactID :: uuid
  ep_Via :: string

text \<open>\<^verbatim>\<open>via != nil && *via != ""\<close>.\<close>

definition has_via :: "string option \<Rightarrow> bool" where
  "has_via v = (v \<noteq> None \<and> v \<noteq> Some [])"

text \<open>The first loop of \<^verbatim>\<open>ExtractExternalPeers\<close>: the gate id and the non-bot members so far.\<close>

fun extract_loop :: "ThreadDialog list \<Rightarrow> string \<Rightarrow> ThreadDialog list \<Rightarrow> string \<times> ThreadDialog list" where
  "extract_loop [] gateVia nonBots = (gateVia, nonBots)"
| "extract_loop (d # ds) gateVia nonBots =
     extract_loop ds
       (if has_via (td_Via d) \<and> gateVia = [] then the (td_Via d) else gateVia)
       (if \<not> td_IsBot d then nonBots @ [d] else nonBots)"

definition ExtractExternalPeers :: "ThreadDialog list \<Rightarrow> ExternalPeerPair list" where
  "ExtractExternalPeers ds =
     (if ds = [] then []
      else
        (let (gateVia, nonBots) = extract_loop ds [] [];
             external = map (\<lambda>d. \<lparr>ep_ContactID = td_ContactID d, ep_Via = the (td_Via d)\<rparr>)
                            (filter (\<lambda>d. has_via (td_Via d)) nonBots)
         in if external = [] \<and> length nonBots = 1 \<and> gateVia \<noteq> []
            then [\<lparr>ep_ContactID = td_ContactID (nonBots ! 0), ep_Via = gateVia\<rparr>]
            else external))"

lemma extract_loop_nonBots:
  "snd (extract_loop ds g nb) = nb @ filter (\<lambda>d. \<not> td_IsBot d) ds"
  by (induction ds arbitrary: g nb) auto

lemma extract_loop_gate:
  "fst (extract_loop ds g nb) =
     (if g \<noteq> [] then g
      else case find (\<lambda>d. has_via (td_Via d)) ds of None \<Rightarrow> [] | Some d \<Rightarrow> the (td_Via d))"
  by (induction ds arbitrary: g nb) (auto simp: has_via_def split: option.splits)

text \<open>The declarative reading: what the two loops compute.\<close>

lemma ExtractExternalPeers_eq:
  "ExtractExternalPeers ds =
     (let nonBots = filter (\<lambda>d. \<not> td_IsBot d) ds;
          external = map (\<lambda>d. \<lparr>ep_ContactID = td_ContactID d, ep_Via = the (td_Via d)\<rparr>)
                         (filter (\<lambda>d. has_via (td_Via d)) nonBots)
      in if external = [] \<and> length nonBots = 1
         then (case find (\<lambda>d. has_via (td_Via d)) ds of
                 None \<Rightarrow> []
               | Some d \<Rightarrow> [\<lparr>ep_ContactID = td_ContactID (nonBots ! 0), ep_Via = the (td_Via d)\<rparr>])
         else external)"
proof -
  have split: "extract_loop ds [] [] =
      (case find (\<lambda>d. has_via (td_Via d)) ds of None \<Rightarrow> [] | Some d \<Rightarrow> the (td_Via d),
       filter (\<lambda>d. \<not> td_IsBot d) ds)"
    using extract_loop_gate [of ds "[]" "[]"] extract_loop_nonBots [of ds "[]" "[]"]
    by (simp add: prod_eq_iff)
  have ne: "find (\<lambda>d. has_via (td_Via d)) ds = Some d \<Longrightarrow> the (td_Via d) \<noteq> []" for d
    by (auto dest!: find_SomeD simp: has_via_def)
  show ?thesis
    unfolding ExtractExternalPeers_def split Let_def
    by (auto split: option.splits dest: ne)
qed

lemma external_peer_cases:
  assumes "p \<in> set (ExtractExternalPeers ds)"
  obtains d d' where "d \<in> set ds" "\<not> td_IsBot d" "ep_ContactID p = td_ContactID d"
    "d' \<in> set ds" "has_via (td_Via d')" "ep_Via p = the (td_Via d')"
proof -
  let ?nb = "filter (\<lambda>d. \<not> td_IsBot d) ds"
  have single: "length ?nb = 1 \<Longrightarrow> ?nb ! 0 \<in> set ds \<and> \<not> td_IsBot (?nb ! 0)"
    using nth_mem [of 0 ?nb] by auto
  show thesis
  proof (cases "filter (\<lambda>d. has_via (td_Via d)) ?nb = [] \<and> length ?nb = 1")
    case True
    with assms have "find (\<lambda>d. has_via (td_Via d)) ds \<noteq> None"
      by (cases "find (\<lambda>d. has_via (td_Via d)) ds") (simp_all add: ExtractExternalPeers_eq Let_def)
    then obtain d' where d': "find (\<lambda>d. has_via (td_Via d)) ds = Some d'" by auto
    with assms True have "p = \<lparr>ep_ContactID = td_ContactID (?nb ! 0), ep_Via = the (td_Via d')\<rparr>"
      by (simp add: ExtractExternalPeers_eq Let_def)
    with single True find_SomeD [OF d'] show thesis by (intro that [of "?nb ! 0" d']) auto
  next
    case False
    then obtain d where "d \<in> set ?nb" "has_via (td_Via d)"
        "p = \<lparr>ep_ContactID = td_ContactID d, ep_Via = the (td_Via d)\<rparr>"
      using assms by (auto simp: ExtractExternalPeers_eq Let_def split: if_splits)
    then show thesis by (intro that [of d d]) auto
  qed
qed

text \<open>
  An outbound recipient is never a bot and always has a gate: every pair that
  \<^verbatim>\<open>ExtractExternalPeers\<close> returns is a non-bot member of the thread, with a non-empty gate id
  that some member of the thread carries.
\<close>

theorem external_peers_sound:
  assumes "p \<in> set (ExtractExternalPeers ds)"
  shows "(\<exists>d \<in> set ds. \<not> td_IsBot d \<and> td_ContactID d = ep_ContactID p)
     \<and> ep_Via p \<noteq> [] \<and> (\<exists>d \<in> set ds. td_Via d = Some (ep_Via p))"
proof -
  from assms obtain d d' where *: "d \<in> set ds" "\<not> td_IsBot d" "ep_ContactID p = td_ContactID d"
      "d' \<in> set ds" "has_via (td_Via d')" "ep_Via p = the (td_Via d')"
    by (rule external_peer_cases)
  then have "td_Via d' = Some (ep_Via p)" "ep_Via p \<noteq> []" by (auto simp: has_via_def)
  with * show ?thesis by metis
qed

definition example_bot :: ThreadDialog where
  "example_bot = zero_dialog\<lparr>bm_ID := 11, td_ContactID := 1, td_IsBot := True, td_Via := Some ''gate''\<rparr>"

definition example_client :: ThreadDialog where
  "example_client = zero_dialog\<lparr>bm_ID := 12, td_ContactID := 2\<rparr>"

theorem external_peers_sound_witness:
  "let p = \<lparr>ep_ContactID = 2, ep_Via = ''gate''\<rparr>
   in p \<in> set (ExtractExternalPeers [example_bot, example_client])
      \<and> ep_Via p \<noteq> []"
proof -
  have h: "\<lparr>ep_ContactID = 2, ep_Via = ''gate''\<rparr>
      \<in> set (ExtractExternalPeers [example_bot, example_client])"
    by (simp add: ExtractExternalPeers_def has_via_def example_bot_def example_client_def zero_defs)
  show ?thesis using h external_peers_sound [OF h] by (simp add: Let_def)
qed

text \<open>
  No external recipient is lost: every non-bot member that carries a gate id of its own is
  returned with exactly that gate id, and in a thread whose only non-bot member lost its gate id
  while another member (the bot) still has one, that member is returned with the recovered id.
\<close>

theorem external_peers_complete:
  assumes "d \<in> set ds" "\<not> td_IsBot d"
    and "td_Via d = Some v \<and> v \<noteq> [] \<or>
         filter (\<lambda>x. \<not> td_IsBot x) ds = [d] \<and> (\<exists>x \<in> set ds. has_via (td_Via x))"
  shows "\<exists>p \<in> set (ExtractExternalPeers ds). ep_ContactID p = td_ContactID d
     \<and> (\<forall>w. td_Via d = Some w \<and> w \<noteq> [] \<longrightarrow> ep_Via p = w)"
proof (cases "has_via (td_Via d)")
  case True
  let ?p = "\<lparr>ep_ContactID = td_ContactID d, ep_Via = the (td_Via d)\<rparr>"
  have "?p \<in> set (ExtractExternalPeers ds)"
    using assms(1,2) True by (auto simp: ExtractExternalPeers_eq Let_def filter_empty_conv)
  then show ?thesis by (rule rev_bexI) auto
next
  case False
  with assms(3) have nb: "filter (\<lambda>x. \<not> td_IsBot x) ds = [d]"
      and ex: "\<exists>x \<in> set ds. has_via (td_Via x)"
    by (auto simp: has_via_def)
  then obtain x where x: "find (\<lambda>x. has_via (td_Via x)) ds = Some x"
    by (metis find_None_iff option.exhaust)
  with nb False show ?thesis
    by (auto simp: ExtractExternalPeers_eq has_via_def)
qed

theorem external_peers_complete_witness:
  "\<exists>p \<in> set (ExtractExternalPeers [example_bot, example_client]). ep_ContactID p = 2"
proof -
  have "\<exists>p \<in> set (ExtractExternalPeers [example_bot, example_client]).
      ep_ContactID p = td_ContactID example_client
      \<and> (\<forall>w. td_Via example_client = Some w \<and> w \<noteq> [] \<longrightarrow> ep_Via p = w)"
    by (rule external_peers_complete [where v = "''x''"])
       (simp_all add: example_bot_def example_client_def zero_defs has_via_def)
  then show ?thesis by (simp add: example_client_def zero_defs)
qed

section \<open>Bot control vocabulary\<close>

datatype BotControlReason = ReasonInitial | ReasonTransfer | ReasonCompleted | ReasonRemoved
  | ReasonClientLeave | ReasonHandoff | ReasonAgentTakeover | ReasonAgentHandback | ReasonAgentLeft

fun reason_string :: "BotControlReason \<Rightarrow> string" where
  "reason_string ReasonInitial = ''initial''"
| "reason_string ReasonTransfer = ''transfer''"
| "reason_string ReasonCompleted = ''completed''"
| "reason_string ReasonRemoved = ''removed''"
| "reason_string ReasonClientLeave = ''client_leave''"
| "reason_string ReasonHandoff = ''handoff''"
| "reason_string ReasonAgentTakeover = ''agent_takeover''"
| "reason_string ReasonAgentHandback = ''agent_handback''"
| "reason_string ReasonAgentLeft = ''agent_left''"

record BotControlStackEntry =
  be_ID :: uuid
  be_ThreadID :: uuid
  be_MemberID :: "uuid option"
  be_Position :: int
  be_ContactID :: uuid
  be_DomainID :: int
  be_AutoLeave :: bool

definition zero_stack_entry :: BotControlStackEntry where
  "zero_stack_entry = \<lparr>be_ID = uuid_nil, be_ThreadID = uuid_nil, be_MemberID = None,
     be_Position = 0, be_ContactID = uuid_nil, be_DomainID = 0, be_AutoLeave = False\<rparr>"

record BotControlTransition =
  bt_ThreadID :: uuid
  bt_NewMemberID :: uuid
  bt_PrevMemberID :: "uuid option"
  bt_Reason :: BotControlReason
  bt_TriggeredBy :: "uuid option"

end
