(* ===== verification/Content.thy ===== *)
theory Content
  imports Shared
begin

text \<open>
  The content of a message beside its text (\<^verbatim>\<open>internal/domain/model/attachments.go\<close>,
  \<^verbatim>\<open>internal/domain/model/message_content.go\<close>): attached files, system notes, locations, contacts and keyboards. These are the values
  that the message and its rows share; a column of type \<^verbatim>\<open>jsonb\<close> keeps the value that was written to it.
\<close>

record MessageImage =
  im_ID :: uuid
  im_FileID :: int
  im_Name :: string
  im_Mime :: string
  im_Width :: int
  im_Height :: int
  im_URL :: string
  im_Size :: int
  im_Thumbnails :: metadata

record MessageDocument =
  dc_ID :: uuid
  dc_FileID :: int
  dc_Name :: string
  dc_Mime :: string
  dc_Size :: int
  dc_URL :: string

record MessageSystem =
  sy_Type :: string
  sy_Metadata :: metadata

record MessageLocation =
  lo_Address :: "string option"
  lo_Latitude :: nat
  lo_Longitude :: nat
  lo_Name :: "string option"

record MessageContact =
  co_PhoneNumber :: "string option"
  co_Name :: "string option"
  co_Email :: "string option"

record KeyboardButton =
  kb_ID :: string
  kb_Label :: string
  kb_Metadata :: metadata
  kb_Type :: string
  kb_URL :: "string option"
  kb_Data :: "string option"
  kb_Action :: "string option"

text \<open>Rows, sections and buttons are pointers; the code skips the nil ones.\<close>

type_synonym KeyboardButtonRow = "KeyboardButton option list"

record ListReplySection =
  ls_Section :: string
  ls_Buttons :: "KeyboardButton option list"

record KeyboardListReply =
  lr_Title :: string
  lr_Sections :: "ListReplySection option list"

text \<open>Which attachments an interactive message says it has.\<close>

record MessageContent =
  ct_Images :: bool
  ct_Documents :: bool

record MessageInteractive =
  ia_Attachments :: "MessageContent option"
  ia_SingleUse :: bool
  ia_Markup :: "KeyboardButtonRow option list option"
  ia_ListReply :: "KeyboardListReply option"
  ia_Placement :: int
  ia_InputFieldState :: int

end
