(* ===== verification/Database.thy ===== *)
theory Database
  imports Dialogs Content
begin

text \<open>
  The state the service keeps: the tables of the schemas \<^verbatim>\<open>im_thread\<close> and \<^verbatim>\<open>im_message\<close> that
  the modelled statements touch, with the constraints the migrations declare, and
  \<^verbatim>\<open>WithinTransaction\<close>. A table is the list of its rows; a query without
  \<^verbatim>\<open>ORDER BY\<close> returns them in list order. \<^verbatim>\<open>now()\<close> is \<open>db_now\<close> and
  \<^verbatim>\<open>pg_current_xact_id()\<close> is \<open>db_tx\<close>, both constant within a transaction, which takes no time of
  \<^verbatim>\<open>clock_timestamp()\<close>;
  \<^verbatim>\<open>uuidv7()\<close> takes the next number of an increasing supply, so generated ids are fresh, non-nil
  and time-ordered. A statement fails exactly where a constraint is violated; loss of the
  connection is not modelled.
\<close>

section \<open>Rows\<close>

record thread_row =
  th_id :: uuid
  th_domain_id :: int
  th_created_at :: time
  th_updated_at :: time
  th_kind :: int
  th_owner :: uuid
  th_subject :: string
  th_description :: string
  th_bot_controller_id :: "uuid option"
  th_owner_bot_id :: "uuid option"
  th_crm_contact_id :: "string option"
  th_last_seq :: int

record dialog_row =
  dl_id :: uuid
  dl_domain_id :: int
  dl_created_at :: time
  dl_updated_at :: time
  dl_deleted_at :: "time option"
  dl_invited_by :: "uuid option"
  dl_leave_reason :: "string option"
  dl_member_id :: uuid
  dl_thread_id :: uuid
  dl_thread_role :: ThreadRole
  dl_via :: "string option"
  dl_queue_id :: "int option"
  dl_is_bot :: bool
  dl_auto_leave :: bool
  dl_unread_count :: int
  dl_last_read_seq :: "int option"
  dl_last_delivered_seq :: "int option"
  dl_last_read_message_id :: "uuid option"

record permission_row =
  pm_id :: uuid
  pm_thread_id :: uuid
  pm_thread_dialog_id :: uuid
  pm_perms :: ThreadPermissions
  pm_created_at :: time
  pm_updated_at :: time

record settings_row =
  st_thread_dialog_id :: uuid
  st_domain_id :: int
  st_title :: string

record stack_row =
  sk_id :: uuid
  sk_thread_id :: uuid
  sk_member_id :: "uuid option"
  sk_position :: int

record message_row =
  ms_id :: uuid
  ms_thread_id :: uuid
  ms_domain_id :: int
  ms_sender_id :: uuid
  ms_member_id :: uuid
  ms_type :: int
  ms_body :: string
  ms_metadata :: metadata
  ms_seq :: int
  ms_created_at :: time
  ms_updated_at :: time
  ms_deleted_at :: "time option"
  ms_deleted_by :: "uuid option"
  ms_edited :: bool
  ms_origin_sender :: "uuid option"
  ms_reply_to :: "uuid option"
  ms_forward :: "(int \<times> uuid option \<times> string \<times> string option \<times> string option \<times> time option \<times> uuid option) option"
  ms_system :: "(string \<times> metadata) option"
  ms_interactive :: "MessageInteractive option"

record revision_row =
  rv_message_id :: uuid
  rv_domain_id :: int
  rv_version :: int
  rv_body :: string
  rv_changed_by :: uuid
  rv_changed_at :: time

text \<open>
  The update journal and the marks that tell a contact which threads changed
  (\<^verbatim>\<open>im_message.thread_updates\<close>, \<^verbatim>\<open>im_thread.contact_updates\<close>). The serial id of a journal row
  is its place in the table.
\<close>

record journal_row =
  jr_thread_id :: uuid
  jr_kind :: string
  jr_fields :: metadata
  jr_tx_id :: int
  jr_created_at :: time

record mark_row =
  mk_contact_id :: uuid
  mk_thread_id :: uuid
  mk_tx_id :: int
  mk_updated_at :: time

record error_row =
  me_domain_id :: int
  me_thread_id :: uuid
  me_message_id :: uuid
  me_member_id :: uuid
  me_failed_at :: time
  me_error :: metadata
  me_via :: "string option"
  me_updated_at :: time

record tag_row =
  tg_id :: uuid
  tg_thread_id :: uuid
  tg_contact_id :: uuid
  tg_tag :: string
  tg_created_at :: time

datatype PreviewRevokeReason = RevokeRemove | RevokeUpgrade | RevokeExpired

record preview_row =
  pv_id :: uuid
  pv_domain_id :: int
  pv_thread_id :: uuid
  pv_contact_id :: uuid
  pv_initiator_id :: uuid
  pv_created_at :: time
  pv_expires_at :: time
  pv_revoked :: "(time \<times> PreviewRevokeReason) option"

text \<open>A message waiting for the relay: its routing key, the event, and the cursor stamped on it.\<close>

text \<open>
  Reactions (\<^verbatim>\<open>im_message.message_reactions\<close>), the ids a message has at an external gate with the
  delivery state reported from there (\<^verbatim>\<open>message_external_ids\<close>), attachments and other content of a
  message, and the variables of a thread (\<^verbatim>\<open>im_thread.thread_variables\<close>).
\<close>

record reaction_row =
  rx_id :: uuid
  rx_message_id :: uuid
  rx_thread_id :: uuid
  rx_domain_id :: int
  rx_reactor_id :: uuid
  rx_member_id :: uuid
  rx_emoji :: string
  rx_created_at :: time
  rx_updated_at :: time

record external_row =
  xr_message_id :: uuid
  xr_thread_id :: uuid
  xr_gate_id :: string
  xr_external_id :: string
  xr_direction :: int
  xr_delivered_at :: "time option"
  xr_read_at :: "time option"
  xr_failed_at :: "time option"
  xr_failed_reason :: "string option"

record attachment_row =
  ar_message_id :: uuid
  ar_file_id :: int
  ar_name :: string
  ar_mime :: string
  ar_size :: int
  ar_width :: int
  ar_height :: int
  ar_thumbnails :: metadata

record location_row =
  lr_message_id :: uuid
  lr_address :: "string option"
  lr_name :: "string option"
  lr_latitude :: nat
  lr_longitude :: nat

record card_row =
  cr_message_id :: uuid
  cr_name :: "string option"
  cr_phone_number :: "string option"
  cr_email :: "string option"

text \<open>\<^verbatim>\<open>im_message.buttons_callback\<close>: at most one row for a button of a message.\<close>

record callback_row =
  cb_in_reply_to :: uuid
  cb_button_code :: string
  cb_callback_data :: string
  cb_reacted_at :: time
  cb_reacted_by :: uuid

record VariableEntry =
  ve_Value :: anyv
  ve_SetBy :: uuid
  ve_SetAt :: time

record variables_row =
  vr_thread_id :: uuid
  vr_variables :: "string \<rightharpoonup> VariableEntry"

type_synonym outbox_row = "topic \<times> event \<times> int option"

text \<open>\<open>db_contacts\<close> is \<^verbatim>\<open>im_contact.contact.is_bot\<close>, a table of another service that one query joins.\<close>

record db =
  db_threads :: "thread_row list"
  db_dialogs :: "dialog_row list"
  db_perms :: "permission_row list"
  db_settings :: "settings_row list"
  db_stack :: "stack_row list"
  db_messages :: "message_row list"
  db_errors :: "error_row list"
  db_tags :: "tag_row list"
  db_previews :: "preview_row list"
  db_contacts :: "uuid \<rightharpoonup> bool"
  db_revisions :: "revision_row list"
  db_journal :: "journal_row list"
  db_marks :: "mark_row list"
  db_trim :: "int option"
  db_reactions :: "reaction_row list"
  db_externals :: "external_row list"
  db_documents :: "attachment_row list"
  db_images :: "attachment_row list"
  db_locations :: "location_row list"
  db_cards :: "card_row list"
  db_callbacks :: "callback_row list"
  db_variables :: "variables_row list"
  db_outbox :: "outbox_row list"
  db_tx :: int
  db_now :: time
  db_next_id :: uuid

definition empty_db :: db where
  "empty_db = \<lparr>db_threads = [], db_dialogs = [], db_perms = [], db_settings = [], db_stack = [],
     db_messages = [], db_errors = [], db_tags = [], db_previews = [], db_contacts = Map.empty,
     db_revisions = [], db_journal = [], db_marks = [], db_trim = None, db_reactions = [], db_externals = [],
     db_documents = [], db_images = [], db_locations = [], db_cards = [], db_callbacks = [], db_variables = [], db_outbox = [], db_tx = 0, db_now = 0, db_next_id = 1\<rparr>"

section \<open>Lookups\<close>

definition thread_of :: "db \<Rightarrow> uuid \<Rightarrow> thread_row option" where
  "thread_of db t = find (\<lambda>r. th_id r = t) (db_threads db)"

definition dialog_of :: "db \<Rightarrow> uuid \<Rightarrow> dialog_row option" where
  "dialog_of db d = find (\<lambda>r. dl_id r = d) (db_dialogs db)"

definition update_thread :: "uuid \<Rightarrow> (thread_row \<Rightarrow> thread_row) \<Rightarrow> db \<Rightarrow> db" where
  "update_thread t f db = db\<lparr>db_threads := update_where (\<lambda>r. th_id r = t) f (db_threads db)\<rparr>"

definition update_dialog :: "uuid \<Rightarrow> (dialog_row \<Rightarrow> dialog_row) \<Rightarrow> db \<Rightarrow> db" where
  "update_dialog d f db = db\<lparr>db_dialogs := update_where (\<lambda>r. dl_id r = d) f (db_dialogs db)\<rparr>"

lemma find_update_where_key:
  assumes "\<And>r. p r \<Longrightarrow> key (f r) = key r"
  shows "find (\<lambda>r. key r = k) (update_where p f rows) =
     map_option (\<lambda>r. if p r then f r else r) (find (\<lambda>r. key r = k) rows)"
  using assms by (induction rows) auto

lemma thread_of_update_thread:
  assumes "\<And>r. th_id (f r) = th_id r"
  shows "thread_of (update_thread t f db) t' =
     (if t' = t then map_option f (thread_of db t) else thread_of db t')"
proof -
  have "thread_of (update_thread t f db) t' =
      map_option (\<lambda>r. if th_id r = t then f r else r) (thread_of db t')"
    unfolding thread_of_def update_thread_def
    using find_update_where_key [of "\<lambda>r. th_id r = t" th_id f t'] assms by simp
  moreover have "thread_of db t' = Some r \<Longrightarrow> th_id r = t'" for r
    by (auto simp: thread_of_def dest: find_SomeD)
  ultimately show ?thesis by (cases "thread_of db t'") auto
qed

lemma dialog_of_update_dialog:
  assumes "\<And>r. dl_id (f r) = dl_id r"
  shows "dialog_of (update_dialog d f db) d' =
     (if d' = d then map_option f (dialog_of db d) else dialog_of db d')"
proof -
  have "dialog_of (update_dialog d f db) d' =
      map_option (\<lambda>r. if dl_id r = d then f r else r) (dialog_of db d')"
    unfolding dialog_of_def update_dialog_def
    using find_update_where_key [of "\<lambda>r. dl_id r = d" dl_id f d'] assms by simp
  moreover have "dialog_of db d' = Some r \<Longrightarrow> dl_id r = d'" for r
    by (auto simp: dialog_of_def dest: find_SomeD)
  ultimately show ?thesis by (cases "dialog_of db d'") auto
qed

lemma thread_of_SomeD: "thread_of db t = Some r \<Longrightarrow> r \<in> set (db_threads db) \<and> th_id r = t"
  by (auto simp: thread_of_def dest: find_SomeD)

lemma dialog_of_SomeD: "dialog_of db d = Some r \<Longrightarrow> r \<in> set (db_dialogs db) \<and> dl_id r = d"
  by (auto simp: dialog_of_def dest: find_SomeD)

lemma dialog_of_None_iff: "dialog_of db d = None \<longleftrightarrow> d \<notin> dl_id ` set (db_dialogs db)"
  by (auto simp: dialog_of_def find_None_iff)

lemma find_unique_key:
  "distinct (map key rows) \<Longrightarrow> r \<in> set rows \<Longrightarrow> find (\<lambda>x. key x = key r) rows = Some r"
  by (induction rows) (auto simp: rev_image_eqI)

lemma dialog_of_eqI:
  "distinct (map dl_id (db_dialogs db)) \<Longrightarrow> r \<in> set (db_dialogs db) \<Longrightarrow> dialog_of db (dl_id r) = Some r"
  unfolding dialog_of_def by (rule find_unique_key)

lemma thread_of_eqI:
  "distinct (map th_id (db_threads db)) \<Longrightarrow> r \<in> set (db_threads db) \<Longrightarrow> thread_of db (th_id r) = Some r"
  unfolding thread_of_def by (rule find_unique_key)

text \<open>The tables each lookup depends on.\<close>

lemma thread_of_cong: "db_threads db' = db_threads db \<Longrightarrow> thread_of db' t = thread_of db t"
  by (simp add: thread_of_def)

lemma dialog_of_cong: "db_dialogs db' = db_dialogs db \<Longrightarrow> dialog_of db' d = dialog_of db d"
  by (simp add: dialog_of_def)

lemma update_thread_frame [simp]:
  "db_dialogs (update_thread t f db) = db_dialogs db"
  "db_perms (update_thread t f db) = db_perms db"
  "db_settings (update_thread t f db) = db_settings db"
  "db_stack (update_thread t f db) = db_stack db"
  "db_messages (update_thread t f db) = db_messages db"
  "db_errors (update_thread t f db) = db_errors db"
  "db_tags (update_thread t f db) = db_tags db"
  "db_previews (update_thread t f db) = db_previews db"
  "db_contacts (update_thread t f db) = db_contacts db"
  "db_revisions (update_thread t f db) = db_revisions db"
  "db_journal (update_thread t f db) = db_journal db"
  "db_marks (update_thread t f db) = db_marks db"
  "db_trim (update_thread t f db) = db_trim db"
  "db_reactions (update_thread t f db) = db_reactions db"
  "db_externals (update_thread t f db) = db_externals db"
  "db_documents (update_thread t f db) = db_documents db"
  "db_images (update_thread t f db) = db_images db"
  "db_locations (update_thread t f db) = db_locations db"
  "db_cards (update_thread t f db) = db_cards db"
  "db_callbacks (update_thread t f db) = db_callbacks db"
  "db_variables (update_thread t f db) = db_variables db"
  "db_outbox (update_thread t f db) = db_outbox db"
  "db_tx (update_thread t f db) = db_tx db"
  "db_now (update_thread t f db) = db_now db"
  "db_next_id (update_thread t f db) = db_next_id db"
  by (simp_all add: update_thread_def)

lemma update_dialog_frame [simp]:
  "db_threads (update_dialog t g db) = db_threads db"
  "db_perms (update_dialog t g db) = db_perms db"
  "db_settings (update_dialog t g db) = db_settings db"
  "db_stack (update_dialog t g db) = db_stack db"
  "db_messages (update_dialog t g db) = db_messages db"
  "db_errors (update_dialog t g db) = db_errors db"
  "db_tags (update_dialog t g db) = db_tags db"
  "db_previews (update_dialog t g db) = db_previews db"
  "db_contacts (update_dialog t g db) = db_contacts db"
  "db_revisions (update_dialog t g db) = db_revisions db"
  "db_journal (update_dialog t g db) = db_journal db"
  "db_marks (update_dialog t g db) = db_marks db"
  "db_trim (update_dialog t g db) = db_trim db"
  "db_reactions (update_dialog t g db) = db_reactions db"
  "db_externals (update_dialog t g db) = db_externals db"
  "db_documents (update_dialog t g db) = db_documents db"
  "db_images (update_dialog t g db) = db_images db"
  "db_locations (update_dialog t g db) = db_locations db"
  "db_cards (update_dialog t g db) = db_cards db"
  "db_callbacks (update_dialog t g db) = db_callbacks db"
  "db_variables (update_dialog t g db) = db_variables db"
  "db_outbox (update_dialog t g db) = db_outbox db"
  "db_tx (update_dialog t g db) = db_tx db"
  "db_now (update_dialog t g db) = db_now db"
  "db_next_id (update_dialog t g db) = db_next_id db"
  by (simp_all add: update_dialog_def)

section \<open>Locks and transactions\<close>

text \<open>
  \<^verbatim>\<open>WithinTransaction\<close>: the body runs on the state and its result is committed; on an error the
  state is the one before. The result pairs the returned value with the state that remains.
\<close>

definition WithinTransaction :: "(db \<Rightarrow> ('a \<times> db) res) \<Rightarrow> db \<Rightarrow> 'a res \<times> db" where
  "WithinTransaction fn db =
     (case fn db of Inl e \<Rightarrow> (Inl e, db) | Inr (a, db') \<Rightarrow> (Inr a, db'))"

lemma WithinTransaction_rollback: "fst (WithinTransaction fn db) = Inl e \<Longrightarrow> snd (WithinTransaction fn db) = db"
  by (auto simp: WithinTransaction_def split: sum.splits prod.splits)

lemma WithinTransaction_Inr:
  "WithinTransaction fn db = (Inr a, db') \<longleftrightarrow> fn db = Inr (a, db')"
  by (auto simp: WithinTransaction_def split: sum.splits)

text \<open>The row lock serializes writers of a thread; in a single transaction it only checks the row.\<close>

definition LockForUpdate :: "uuid \<Rightarrow> db \<Rightarrow> unit res" where
  "LockForUpdate t db =
     (case thread_of db t of None \<Rightarrow> Inl (Err NotFound ''thread not found'') | Some _ \<Rightarrow> Inr ())"

section \<open>Schema constraints\<close>

definition active :: "dialog_row \<Rightarrow> bool" where
  "active d = (dl_deleted_at d = None)"

definition threads_ok :: "db \<Rightarrow> bool" where
  "threads_ok db =
     (distinct (map th_id (db_threads db))
      \<and> (\<forall>r \<in> set (db_threads db). 0 < th_id r \<and> th_id r < db_next_id db \<and> 0 < th_domain_id r))"

text \<open>\<^verbatim>\<open>idx_thread_dialog_member_unique\<close>: one active membership of a contact per thread.\<close>

definition dialogs_ok :: "db \<Rightarrow> bool" where
  "dialogs_ok db =
     (distinct (map dl_id (db_dialogs db))
      \<and> (\<forall>r \<in> set (db_dialogs db). 0 < dl_id r \<and> dl_id r < db_next_id db)
      \<and> distinct (map (\<lambda>r. (dl_thread_id r, dl_member_id r)) (filter active (db_dialogs db))))"

text \<open>
  \<^verbatim>\<open>bot_control_stack\<close>: unique position and unique member per thread, every member a dialog of
  the thread (the foreign key, and what the writers insert).
\<close>

definition stack_ok :: "db \<Rightarrow> bool" where
  "stack_ok db =
     (distinct (map (\<lambda>r. (sk_thread_id r, sk_position r)) (db_stack db))
      \<and> distinct (map (\<lambda>r. (sk_thread_id r, sk_member_id r)) (db_stack db))
      \<and> distinct (map sk_id (db_stack db))
      \<and> (\<forall>r \<in> set (db_stack db). sk_id r < db_next_id db \<and> 0 \<le> sk_position r \<and>
           (\<exists>m d. sk_member_id r = Some m \<and> dialog_of db m = Some d \<and> dl_thread_id d = sk_thread_id r)))"

definition db_ok :: "db \<Rightarrow> bool" where
  "db_ok db = (threads_ok db \<and> dialogs_ok db \<and> stack_ok db \<and> 0 < db_next_id db)"

lemma db_ok_empty: "db_ok empty_db"
  by (simp add: db_ok_def threads_ok_def dialogs_ok_def stack_ok_def empty_db_def)

lemma active_unique:
  assumes "dialogs_ok db" "d \<in> set (db_dialogs db)" "d' \<in> set (db_dialogs db)"
    "active d" "active d'" "dl_thread_id d = dl_thread_id d'" "dl_member_id d = dl_member_id d'"
  shows "d = d'"
proof -
  have "inj_on (\<lambda>r. (dl_thread_id r, dl_member_id r)) (set (filter active (db_dialogs db)))"
    using assms(1) by (auto simp: dialogs_ok_def distinct_map)
  then show ?thesis using assms(2-) by (auto dest: inj_onD)
qed

end
