(* ===== verification/Outbox.thy ===== *)
theory Outbox
  imports Database
begin

text \<open>
  \<^verbatim>\<open>internal/store/postgres/outbox.go\<close> and \<^verbatim>\<open>internal/adapter/journal/project.go\<close>: publishing an
  event in the transaction of the change. An event of a thread's history is stamped with the
  transaction as its cursor, written to the update journal, and marked for every contact that
  may see it; every event goes to the outbox. JSON is not modelled: the projection reads the
  event itself where the code decodes the payload it has just encoded.
\<close>

section \<open>The journal projection\<close>

text \<open>\<^verbatim>\<open>JournalEvent\<close>: the event types that embed \<^verbatim>\<open>Journaled\<close>.\<close>

fun journaled :: "event \<Rightarrow> bool" where
  "journaled (EvBotControlGranted _) = False"
| "journaled (EvBotControlReleased _) = False"
| "journaled (EvInteractiveCallback _) = False"
| "journaled _ = True"

definition memberContact :: "ThreadMember option \<Rightarrow> anyv" where
  "memberContact m = (case m of None \<Rightarrow> VStr [] | Some x \<Rightarrow> VUuid (tm_ContactID x))"

definition memberContactFromMember :: "EventMember option \<Rightarrow> anyv" where
  "memberContactFromMember m =
     (case m of None \<Rightarrow> VStr []
      | Some x \<Rightarrow> (case emb_Contact x of None \<Rightarrow> VStr [] | Some c \<Rightarrow> VUuid (mct_ID c)))"

definition messageUpdate :: "uuid \<Rightarrow> string \<Rightarrow> uuid \<Rightarrow> anyv \<Rightarrow> metadata \<Rightarrow> uuid \<times> string \<times> metadata" where
  "messageUpdate t kind msgID actor extra =
     (t, kind, [''msg_id'' \<mapsto> VUuid msgID, ''actor'' \<mapsto> actor] ++ extra)"

definition memberUpdate :: "uuid \<Rightarrow> uuid \<Rightarrow> string \<Rightarrow> uuid \<times> string \<times> metadata" where
  "memberUpdate t c action =
     (t, ''member.changed'', [''contact_id'' \<mapsto> VUuid c, ''actor'' \<mapsto> VUuid c, ''action'' \<mapsto> VStr action])"

definition errorText :: "metadata \<Rightarrow> string \<Rightarrow> string" where
  "errorText details key = (case details key of Some (VStr s) \<Rightarrow> s | _ \<Rightarrow> [])"

text \<open>The watermark is printed with \<^verbatim>\<open>strconv.FormatInt\<close> in the code and kept as the number here.\<close>

definition statusUpdate :: "MessageStatusChanged \<Rightarrow> uuid \<times> string \<times> metadata" where
  "statusUpdate e =
     (let fs = [''actor'' \<mapsto> VUuid (sc_MemberID e), ''up_to_seq'' \<mapsto> VInt (sc_UpToSeq e)]
      in if sc_Status e = ''failed'' then
           (sc_ThreadID e, ''message.failed'',
            (case sc_MessageIDs e of [] \<Rightarrow> fs | i # _ \<Rightarrow> fs(''msg_id'' \<mapsto> VUuid i))
              (''error_code'' \<mapsto> VStr (errorText (sc_Error e) ''code''),
               ''error_message'' \<mapsto> VStr (errorText (sc_Error e) ''message'')))
         else if sc_Status e = ''delivered'' then (sc_ThreadID e, ''delivered.changed'', fs)
         else (sc_ThreadID e, ''read.changed'', fs))"

fun ProjectEvent :: "event \<Rightarrow> (uuid \<times> string \<times> metadata) option" where
  "ProjectEvent (EvMessageStatusChanged e) = Some (statusUpdate e)"
| "ProjectEvent (EvThreadCreated e) = Some (tcr_ID e, ''thread.created'', Map.empty)"
| "ProjectEvent (EvThreadUpdated e) = Some (tu_ThreadID e, ''thread.updated'', [''actor'' \<mapsto> VUuid (tu_UpdatedBy e)])"
| "ProjectEvent (EvMessageCreated e) =
     Some (messageUpdate (mc_ThreadID e) ''message.new'' (mc_MessageID e) (memberContact (mc_From e)) Map.empty)"
| "ProjectEvent (EvMessageEdited e) =
     Some (messageUpdate (med_ThreadID e) ''message.edited'' (med_MessageID e) (memberContact (med_EditedBy e)) Map.empty)"
| "ProjectEvent (EvMessageDeleted e) =
     Some (messageUpdate (mdl_ThreadID e) ''message.deleted'' (mdl_MessageID e)
             (memberContactFromMember (mdl_DeletedBy e)) Map.empty)"
| "ProjectEvent (EvMessageReaction e) =
     Some (messageUpdate (mre_ThreadID e) ''message.reaction'' (mre_MessageID e) (memberContact (mre_Reactor e))
             [''emoji'' \<mapsto> VStr (mre_Emoji e), ''action'' \<mapsto> VStr (mre_Action e)])"
| "ProjectEvent (EvMemberJoined e) = Some (memberUpdate (mch_ThreadID e) (mch_ContactID e) ''joined'')"
| "ProjectEvent (EvThreadTagsChanged e) =
     Some (tc_ThreadID e, ''tags.changed'', [''actor'' \<mapsto> VUuid (tc_ContactID e)])"
| "ProjectEvent (EvMemberLeft e) = Some (memberUpdate (mch_ThreadID e) (mch_ContactID e) ''left'')"
| "ProjectEvent _ = None"

lemma ProjectEvent_total: "ProjectEvent e = None \<longleftrightarrow> \<not> journaled e"
  by (cases e) (simp_all add: statusUpdate_def Let_def split: if_splits)

lemma ProjectEvent_thread: "ProjectEvent e = Some (t, k, f) \<Longrightarrow> t = event_thread e"
  by (cases e) (auto simp: statusUpdate_def messageUpdate_def memberUpdate_def Let_def split: if_splits)

text \<open>\<^verbatim>\<open>JournalAudience\<close> and \<^verbatim>\<open>JournalSubject\<close>: a private event names its readers, a membership event its subject.\<close>

fun JournalAudience :: "event \<Rightarrow> uuid list option" where
  "JournalAudience (EvThreadTagsChanged e) = Some [tc_ContactID e]"
| "JournalAudience _ = None"

fun JournalSubject :: "event \<Rightarrow> uuid option" where
  "JournalSubject (EvThreadCreated e) = Some (tcr_RecipientID e)"
| "JournalSubject (EvMemberJoined e) = Some (mch_ContactID e)"
| "JournalSubject (EvMemberLeft e) = Some (mch_ContactID e)"
| "JournalSubject _ = None"

section \<open>Marks\<close>

text \<open>\<^verbatim>\<open>insert ... on conflict (contact_id, thread_id) do update\<close>.\<close>

definition upsert_mark :: "uuid \<Rightarrow> int \<Rightarrow> time \<Rightarrow> uuid \<Rightarrow> mark_row list \<Rightarrow> mark_row list" where
  "upsert_mark t tx now c marks =
     (if \<exists>r \<in> set marks. mk_contact_id r = c \<and> mk_thread_id r = t
      then update_where (\<lambda>r. mk_contact_id r = c \<and> mk_thread_id r = t)
             (\<lambda>r. r\<lparr>mk_tx_id := tx, mk_updated_at := now\<rparr>) marks
      else marks @ [\<lparr>mk_contact_id = c, mk_thread_id = t, mk_tx_id = tx, mk_updated_at = now\<rparr>])"

definition human_members :: "uuid \<Rightarrow> db \<Rightarrow> uuid list" where
  "human_members t db =
     map dl_member_id (filter (\<lambda>d. dl_thread_id d = t \<and> active d \<and> \<not> dl_is_bot d) (db_dialogs db))"

definition mark_targets :: "event \<Rightarrow> db \<Rightarrow> uuid list" where
  "mark_targets e db =
     (case JournalAudience e of
        Some cs \<Rightarrow> cs
      | None \<Rightarrow> remdups (sort (human_members (event_thread e) db @
                  (case JournalSubject e of None \<Rightarrow> [] | Some c \<Rightarrow> [c]))))"

definition markContacts :: "event \<Rightarrow> db \<Rightarrow> db" where
  "markContacts e db =
     db\<lparr>db_marks := fold (upsert_mark (event_thread e) (db_tx db) (db_now db)) (mark_targets e db) (db_marks db)\<rparr>"

section \<open>Publishing\<close>

definition appendJournal :: "event \<Rightarrow> db \<Rightarrow> db res" where
  "appendJournal e db =
     (case ProjectEvent e of
        None \<Rightarrow> Inl (Err Internal ''journal event has no projection'')
      | Some (t, kind, fs) \<Rightarrow>
          Inr (db\<lparr>db_journal := db_journal db @ [\<lparr>jr_thread_id = t, jr_kind = kind, jr_fields = fs,
                 jr_tx_id = db_tx db, jr_created_at = db_now db\<rparr>]\<rparr>))"

definition Publish :: "topic \<Rightarrow> event \<Rightarrow> db \<Rightarrow> db res" where
  "Publish tp e db =
     (if journaled e then
        bindr (appendJournal e db) (\<lambda>db1.
          (let db2 = markContacts e db1
           in Inr (db2\<lparr>db_outbox := db_outbox db2 @ [(tp, e, Some (db_tx db))]\<rparr>)))
      else Inr (db\<lparr>db_outbox := db_outbox db @ [(tp, e, None)]\<rparr>))"

definition publish_event :: "event \<Rightarrow> db \<Rightarrow> db res" where
  "publish_event e db = Publish (event_topic e) e db"

text \<open>Publishing never fails, and it changes the journal, the marks and the outbox only.\<close>

definition cursor_of :: "event \<Rightarrow> db \<Rightarrow> int option" where
  "cursor_of e db = (if journaled e then Some (db_tx db) else None)"

definition journal_of :: "event \<Rightarrow> db \<Rightarrow> journal_row list" where
  "journal_of e db =
     (case ProjectEvent e of None \<Rightarrow> []
      | Some (t, kind, fs) \<Rightarrow> [\<lparr>jr_thread_id = t, jr_kind = kind, jr_fields = fs,
                 jr_tx_id = db_tx db, jr_created_at = db_now db\<rparr>])"

definition marks_after :: "event \<Rightarrow> db \<Rightarrow> mark_row list" where
  "marks_after e db =
     (if journaled e
      then fold (upsert_mark (event_thread e) (db_tx db) (db_now db)) (mark_targets e db) (db_marks db)
      else db_marks db)"

definition published :: "event \<Rightarrow> db \<Rightarrow> db" where
  "published e db = db\<lparr>db_journal := db_journal db @ journal_of e db, db_marks := marks_after e db,
     db_outbox := db_outbox db @ [(event_topic e, e, cursor_of e db)]\<rparr>"

lemma mark_targets_journal [simp]: "mark_targets e (db\<lparr>db_journal := j\<rparr>) = mark_targets e db"
  by (simp add: mark_targets_def human_members_def split: option.split)

lemma publish_event_eq: "publish_event e db = Inr (published e db)"
proof (cases "ProjectEvent e")
  case None
  then have "\<not> journaled e" by (simp add: ProjectEvent_total)
  with None show ?thesis
    by (simp add: publish_event_def Publish_def published_def cursor_of_def journal_of_def marks_after_def)
next
  case (Some u)
  then have "journaled e" using ProjectEvent_total [of e] by auto
  with Some show ?thesis
    by (cases u) (simp add: publish_event_def Publish_def published_def cursor_of_def journal_of_def marks_after_def
        appendJournal_def markContacts_def)
qed

lemma published_frame [simp]:
  "db_threads (published e db) = db_threads db" "db_dialogs (published e db) = db_dialogs db"
  "db_perms (published e db) = db_perms db" "db_settings (published e db) = db_settings db"
  "db_stack (published e db) = db_stack db" "db_messages (published e db) = db_messages db"
  "db_errors (published e db) = db_errors db" "db_tags (published e db) = db_tags db"
  "db_previews (published e db) = db_previews db" "db_contacts (published e db) = db_contacts db"
  "db_revisions (published e db) = db_revisions db" "db_trim (published e db) = db_trim db"
  "db_reactions (published e db) = db_reactions db"
  "db_externals (published e db) = db_externals db"
  "db_documents (published e db) = db_documents db"
  "db_images (published e db) = db_images db"
  "db_locations (published e db) = db_locations db"
  "db_cards (published e db) = db_cards db"
  "db_callbacks (published e db) = db_callbacks db"
  "db_variables (published e db) = db_variables db"
  "db_tx (published e db) = db_tx db" "db_now (published e db) = db_now db"
  "db_next_id (published e db) = db_next_id db"
  "db_outbox (published e db) = db_outbox db @ [(event_topic e, e, cursor_of e db)]"
  "db_journal (published e db) = db_journal db @ journal_of e db"
  "db_marks (published e db) = marks_after e db"
  by (simp_all add: published_def)

section \<open>Who is told\<close>

definition marked :: "uuid \<Rightarrow> int \<Rightarrow> time \<Rightarrow> mark_row list \<Rightarrow> uuid \<Rightarrow> bool" where
  "marked t tx now marks c \<longleftrightarrow>
     (\<exists>r \<in> set marks. mk_contact_id r = c \<and> mk_thread_id r = t \<and> mk_tx_id r = tx \<and> mk_updated_at r = now)"

lemma upsert_mark_marked: "marked t tx now (upsert_mark t tx now c' marks) c \<longleftrightarrow> c = c' \<or> marked t tx now marks c"
proof -
  let ?p = "\<lambda>r. mk_contact_id r = c' \<and> mk_thread_id r = t"
  have "marked t tx now (update_where ?p (\<lambda>r. r\<lparr>mk_tx_id := tx, mk_updated_at := now\<rparr>) marks) c \<longleftrightarrow>
      c = c' \<and> (\<exists>r \<in> set marks. ?p r) \<or> marked t tx now marks c"
    by (induction marks) (auto simp: marked_def)
  then show ?thesis by (auto simp: upsert_mark_def marked_def)
qed

lemma fold_upsert_mark: "marked t tx now (fold (upsert_mark t tx now) cs marks) c \<longleftrightarrow> c \<in> set cs \<or> marked t tx now marks c"
  by (induction cs arbitrary: marks) (auto simp: upsert_mark_marked)

lemma upsert_mark_other:
  "r \<in> set (upsert_mark t tx now c marks) \<Longrightarrow> r \<in> set marks \<or> mk_contact_id r = c \<and> mk_thread_id r = t"
  by (auto simp: upsert_mark_def update_where_def split: if_splits)

lemma fold_upsert_other:
  "r \<in> set (fold (upsert_mark t tx now) cs marks) \<Longrightarrow> r \<in> set marks \<or> mk_contact_id r \<in> set cs \<and> mk_thread_id r = t"
  by (induction cs arbitrary: marks) (auto dest: upsert_mark_other)


definition example_left :: MemberChange where
  "example_left = \<lparr>mch_MessageID = 9, mch_ThreadID = 6, mch_DomainID = 7, mch_ContactID = 50, mch_OccurredAt = 0,
     mch_System = NewSystemPayload ''member_removed'' Map.empty, mch_Participants = []\<rparr>"


end
