(* ===== verification/Dialog_Store.thy ===== *)
theory Dialog_Store
  imports Outbox "HOL-Library.Product_Lexorder"
begin

text \<open>
  \<^verbatim>\<open>internal/store/postgres/thread_dialog_store.go\<close>: creating, soft-deleting, adopting and
  reading thread members. The scan is \<^verbatim>\<open>pgx.RowToAddrOfStructByNameLax\<close>: a struct field whose
  column is not selected keeps its zero value, so each reader below returns exactly the columns
  its SELECT names.
\<close>

section \<open>Create and delete\<close>

definition dialog_to_extended :: "dialog_row \<Rightarrow> ThreadPermissions \<Rightarrow> string \<Rightarrow> ThreadDialogExtended" where
  "dialog_to_extended d p title =
     zero_dialog_extended\<lparr>
       bm_ID := dl_id d, bm_DomainID := dl_domain_id d, bm_CreatedAt := dl_created_at d,
       bm_UpdatedAt := dl_updated_at d, tdx_InvitedBy := dl_invited_by d,
       tdx_LeaveReason := dl_leave_reason d, tdx_ContactID := dl_member_id d,
       tdx_ThreadID := dl_thread_id d, tdx_ThreadRole := dl_thread_role d, tdx_Via := dl_via d,
       tdx_QueueID := dl_queue_id d, tdx_IsBot := dl_is_bot d, tdx_AutoLeave := dl_auto_leave d,
       tdx_Permissions := p\<lparr>CanReactMessages := False\<rparr>,
       tdx_Settings := zero_setting\<lparr>bts_Title := title\<rparr>\<rparr>"

definition new_dialog_row :: "uuid \<Rightarrow> time \<Rightarrow> int \<Rightarrow> ThreadDialogExtended \<Rightarrow> dialog_row" where
  "new_dialog_row i now domain m =
     \<lparr>dl_id = i, dl_domain_id = domain, dl_created_at = now, dl_updated_at = now,
      dl_deleted_at = None, dl_invited_by = tdx_InvitedBy m, dl_leave_reason = None,
      dl_member_id = tdx_ContactID m, dl_thread_id = tdx_ThreadID m,
      dl_thread_role = tdx_ThreadRole m, dl_via = tdx_Via m, dl_queue_id = tdx_QueueID m,
      dl_is_bot = tdx_IsBot m, dl_auto_leave = tdx_AutoLeave m, dl_unread_count = 0,
      dl_last_read_seq = None, dl_last_delivered_seq = None, dl_last_read_message_id = None\<rparr>"

text \<open>
  The permission row takes six of the seven permissions from the request;
  \<^verbatim>\<open>can_react_messages\<close> is not in the column list and gets its default, true.
\<close>

definition dialog_Create :: "ThreadDialogExtended \<Rightarrow> db \<Rightarrow> (ThreadDialogExtended \<times> db) res" where
  "dialog_Create m db =
     (if tdx_ThreadID m = uuid_nil then Inl (Err InvalidArgument ''threadID cannot be nil'')
      else if tdx_ContactID m = uuid_nil then Inl (Err InvalidArgument ''newMemberID cannot be nil'')
      else
        (case thread_of db (tdx_ThreadID m) of
           None \<Rightarrow> Inl (Err NotFound ''creating thread dialog for given thread'')
         | Some th \<Rightarrow>
             (if \<exists>d \<in> set (db_dialogs db). active d \<and> dl_thread_id d = tdx_ThreadID m
                   \<and> dl_member_id d = tdx_ContactID m
              then Inl (Err Internal ''collecting created thread result'')
              else
                (let i = db_next_id db;
                     d = new_dialog_row i (db_now db) (th_domain_id th) m;
                     p = \<lparr>pm_id = Suc i, pm_thread_id = tdx_ThreadID m, pm_thread_dialog_id = i,
                          pm_perms = (tdx_Permissions m)\<lparr>CanReactMessages := True\<rparr>,
                          pm_created_at = db_now db, pm_updated_at = db_now db\<rparr>;
                     s = \<lparr>st_thread_dialog_id = i, st_domain_id = th_domain_id th,
                          st_title = bts_Title (tdx_Settings m)\<rparr>
                 in Inr (dialog_to_extended d (tdx_Permissions m) (bts_Title (tdx_Settings m)),
                         db\<lparr>db_dialogs := db_dialogs db @ [d], db_perms := db_perms db @ [p],
                            db_settings := db_settings db @ [s], db_next_id := i + 2\<rparr>)))))"

definition dialog_Delete :: "uuid \<Rightarrow> string option \<Rightarrow> db \<Rightarrow> db res" where
  "dialog_Delete memberID leaveReason db =
     (if memberID = uuid_nil then Inl (Err Unknown ''newMemberID cannot be nil'')
      else if dialog_of db memberID = None then Inl (Err Unknown ''no thread member found to delete'')
      else Inr (update_dialog memberID
             (\<lambda>d. d\<lparr>dl_deleted_at := Some (db_now db), dl_leave_reason := leaveReason\<rparr>) db))"

text \<open>
  \<^verbatim>\<open>AdoptUntrackedBot\<close>: with an empty control stack, the earliest active member that is a bot by
  its contact but not by its row becomes a bot. \<^verbatim>\<open>uuid.Nil\<close> when there is none.
\<close>

definition AdoptUntrackedBot :: "uuid \<Rightarrow> uuid \<Rightarrow> db \<Rightarrow> (uuid \<times> db) res" where
  "AdoptUntrackedBot threadID newMemberID db =
     (if threadID = uuid_nil then Inl (Err Unknown ''threadID cannot be nil'')
      else
        (let candidates = filter (\<lambda>d. dl_thread_id d = threadID \<and> dl_id d \<noteq> newMemberID \<and> active d
                \<and> \<not> dl_is_bot d \<and> db_contacts db (dl_member_id d) = Some True
                \<and> \<not> (\<exists>s \<in> set (db_stack db). sk_thread_id s = threadID)) (db_dialogs db)
         in (case first_min (\<lambda>d. (dl_created_at d, dl_id d)) candidates of
               None \<Rightarrow> Inr (uuid_nil, db)
             | Some c \<Rightarrow> Inr (dl_id c, update_dialog (dl_id c)
                 (\<lambda>d. d\<lparr>dl_is_bot := True, dl_updated_at := db_now db\<rparr>) db))))"

section \<open>Readers\<close>

record ThreadDialogStoreFilter =
  f_Limit :: nat
  f_Offset :: nat
  f_ThreadIDs :: "uuid list option"
  f_ContactIDs :: "uuid list option"
  f_IDs :: "uuid list option"
  f_IncludeDeleted :: bool
  f_DomainID :: int

definition thread_filter :: "uuid \<Rightarrow> ThreadDialogStoreFilter" where
  "thread_filter t = \<lparr>f_Limit = 0, f_Offset = 0, f_ThreadIDs = Some [t], f_ContactIDs = None,
     f_IDs = None, f_IncludeDeleted = False, f_DomainID = 0\<rparr>"

text \<open>\<^verbatim>\<open>(@Xs::uuid[] IS NULL OR x = ANY(@Xs))\<close>.\<close>

definition any_of :: "uuid list option \<Rightarrow> uuid \<Rightarrow> bool" where
  "any_of xs x = (case xs of None \<Rightarrow> True | Some ys \<Rightarrow> x \<in> set ys)"

definition limited :: "nat \<Rightarrow> nat \<Rightarrow> 'r list \<Rightarrow> 'r list" where
  "limited offset limit rows = (let rows' = drop offset rows in if 0 < limit then take limit rows' else rows')"

definition quick_row :: "dialog_row \<Rightarrow> ThreadDialog" where
  "quick_row d =
     zero_dialog\<lparr>bm_ID := dl_id d, bm_DomainID := dl_domain_id d, bm_CreatedAt := dl_created_at d,
       bm_UpdatedAt := dl_updated_at d, td_InvitedBy := dl_invited_by d,
       td_LeaveReason := dl_leave_reason d, td_ContactID := dl_member_id d,
       td_ThreadID := dl_thread_id d, td_ThreadRole := dl_thread_role d, td_IsBot := dl_is_bot d,
       td_Via := dl_via d\<rparr>"

definition GetQuickView :: "ThreadDialogStoreFilter \<Rightarrow> db \<Rightarrow> ThreadDialog list" where
  "GetQuickView f db =
     map quick_row (limited (f_Offset f) (f_Limit f)
       (filter (\<lambda>d. any_of (f_ThreadIDs f) (dl_thread_id d) \<and> any_of (f_ContactIDs f) (dl_member_id d)
              \<and> (f_DomainID f = 0 \<or> dl_domain_id d = f_DomainID f)
              \<and> (f_IncludeDeleted f \<or> active d)) (db_dialogs db)))"

text \<open>
  A joined permission or settings row that is missing is a NULL that cannot be scanned into a
  Go bool or string, so the whole read fails.
\<close>

definition joined :: "db \<Rightarrow> dialog_row \<Rightarrow> (ThreadPermissions \<times> string) res" where
  "joined db d =
     (case (find (\<lambda>p. pm_thread_dialog_id p = dl_id d) (db_perms db),
            find (\<lambda>s. st_thread_dialog_id s = dl_id d) (db_settings db)) of
        (Some p, Some s) \<Rightarrow> Inr (pm_perms p, st_title s)
      | _ \<Rightarrow> Inl (Err Unknown ''cannot scan NULL''))"

definition full_row :: "db \<Rightarrow> dialog_row \<Rightarrow> ThreadDialogExtended res" where
  "full_row db d =
     bindr (joined db d) (\<lambda>(p, title).
       Inr ((dialog_to_extended d p title)\<lparr>tdx_Via := None, tdx_QueueID := None\<rparr>))"

fun collect_rows :: "('r \<Rightarrow> 'm res) \<Rightarrow> 'r list \<Rightarrow> 'm list res" where
  "collect_rows f [] = Inr []"
| "collect_rows f (r # rs) = bindr (f r) (\<lambda>m. bindr (collect_rows f rs) (\<lambda>ms. Inr (m # ms)))"

definition GetFullView :: "ThreadDialogStoreFilter \<Rightarrow> db \<Rightarrow> ThreadDialogExtended list res" where
  "GetFullView f db =
     collect_rows (full_row db) (limited (f_Offset f) (f_Limit f)
       (filter (\<lambda>d. any_of (f_ThreadIDs f) (dl_thread_id d) \<and> any_of (f_ContactIDs f) (dl_member_id d)
              \<and> any_of (f_IDs f) (dl_id d) \<and> (f_IncludeDeleted f \<or> active d)) (db_dialogs db)))"

text \<open>The loop that picks the initiator and the target, stopping once both are known.\<close>

fun pick_actors :: "('m \<Rightarrow> bool) \<Rightarrow> ('m \<Rightarrow> bool) \<Rightarrow> 'm list \<Rightarrow> 'm option \<Rightarrow> 'm option
    \<Rightarrow> 'm option \<times> 'm option" where
  "pick_actors p q [] i t = (i, t)"
| "pick_actors p q (d # ds) i t =
     (if i \<noteq> None \<and> t \<noteq> None then (i, t)
      else pick_actors p q ds (if p d then Some d else i) (if q d then Some d else t))"

text \<open>
  \<^verbatim>\<open>FindActorsPair\<close> selects neither \<^verbatim>\<open>is_bot\<close> nor \<^verbatim>\<open>auto_leave\<close>: both come back false.
\<close>

definition FindActorsPair :: "uuid \<Rightarrow> uuid \<Rightarrow> db
    \<Rightarrow> (ThreadDialogExtended option \<times> ThreadDialogExtended option) res" where
  "FindActorsPair initiatorContactID targetMemberID db =
     (let thread = map dl_thread_id (filter (\<lambda>d. dl_id d = targetMemberID) (db_dialogs db));
          rows = filter (\<lambda>d. dl_thread_id d \<in> set (take 1 thread) \<and> active d
                 \<and> (dl_member_id d = initiatorContactID \<or> dl_id d = targetMemberID)) (db_dialogs db)
      in bindr (collect_rows (\<lambda>d. bindr (full_row db d)
                  (\<lambda>m. Inr (m\<lparr>tdx_IsBot := False, tdx_AutoLeave := False\<rparr>))) rows)
           (\<lambda>ms. Inr (pick_actors (\<lambda>m. tdx_ContactID m = initiatorContactID)
                                  (\<lambda>m. bm_ID m = targetMemberID) ms None None)))"

section \<open>What the readers return\<close>

lemma collect_rows_Inr:
  "collect_rows f rows = Inr ms \<Longrightarrow> m \<in> set ms \<Longrightarrow> \<exists>r \<in> set rows. f r = Inr m"
  by (induction rows arbitrary: ms) (auto simp: bindr_Inr_iff)

lemma pick_actors_mem:
  "pick_actors p q ms i t = (i', t') \<Longrightarrow>
     (\<forall>m. i' = Some m \<longrightarrow> (m \<in> set ms \<and> p m) \<or> i = Some m) \<and> (\<forall>m. t' = Some m \<longrightarrow> (m \<in> set ms \<and> q m) \<or> t = Some m)"
  by (induction p q ms i t rule: pick_actors.induct) (auto split: if_splits)

text \<open>The columns \<^verbatim>\<open>FindActorsPair\<close> does not select come back false for everybody.\<close>

lemma FindActorsPair_rows:
  assumes "FindActorsPair i tid db = Inr (ini, tar)" "m \<in> {x. ini = Some x \<or> tar = Some x}"
  shows "\<exists>d \<in> set (db_dialogs db). active d \<and> bm_ID m = dl_id d \<and> tdx_ContactID m = dl_member_id d
     \<and> tdx_ThreadID m = dl_thread_id d \<and> tdx_ThreadRole m = dl_thread_role d \<and> bm_DomainID m = dl_domain_id d
     \<and> \<not> tdx_IsBot m \<and> \<not> tdx_AutoLeave m \<and> \<not> CanReactMessages (tdx_Permissions m)"
proof -
  let ?f = "\<lambda>d. bindr (full_row db d) (\<lambda>m. Inr (m\<lparr>tdx_IsBot := False, tdx_AutoLeave := False\<rparr>))"
  obtain rows ms where r: "collect_rows ?f rows = Inr ms" "\<forall>d \<in> set rows. d \<in> set (db_dialogs db) \<and> active d"
      "pick_actors (\<lambda>m. tdx_ContactID m = i) (\<lambda>m. bm_ID m = tid) ms None None = (ini, tar)"
    using assms(1) unfolding FindActorsPair_def Let_def by (auto simp: bindr_Inr_iff)
  then have "m \<in> set ms" using pick_actors_mem [OF r(3)] assms(2) by auto
  then obtain d where "d \<in> set rows" "?f d = Inr m" using collect_rows_Inr [OF r(1)] by blast
  with r(2) show ?thesis
    by (intro bexI [of _ d])
       (auto simp: bindr_Inr_iff full_row_def dialog_to_extended_def zero_defs split: prod.splits)
qed

lemma FindActorsPair_react:
  "FindActorsPair i tid db = Inr (Some m, tar) \<Longrightarrow> \<not> CanReactMessages (tdx_Permissions m)"
  using FindActorsPair_rows [of i tid db "Some m" tar m] by auto

section \<open>What the writers keep and change\<close>

lemma stack_ok_dialogs:
  assumes "stack_ok db" "db_stack db' = db_stack db" "db_next_id db \<le> db_next_id db'"
    and "\<And>m d. dialog_of db m = Some d \<Longrightarrow> \<exists>d'. dialog_of db' m = Some d' \<and> dl_thread_id d' = dl_thread_id d"
  shows "stack_ok db'"
  using assms unfolding stack_ok_def by (metis (no_types, lifting) order_less_le_trans)

text \<open>A row update that keeps ids, thread and contact, and never revives a row, keeps the schema.\<close>

lemma dialogs_ok_update:
  assumes ok: "dialogs_ok db"
    and f: "\<And>r. dl_id (f r) = dl_id r \<and> dl_thread_id (f r) = dl_thread_id r
              \<and> dl_member_id (f r) = dl_member_id r \<and> (active (f r) \<longrightarrow> active r)"
    and d: "db_dialogs db' = update_where p f (db_dialogs db)" and n: "db_next_id db' = db_next_id db"
  shows "dialogs_ok db'"
proof -
  let ?g = "\<lambda>r. if p r then f r else r"
  let ?k = "\<lambda>r. (dl_thread_id r, dl_member_id r)"
  have ids: "map dl_id (db_dialogs db') = map dl_id (db_dialogs db)"
    using f d by simp
  have "distinct (map ?k (filter active (map ?g xs)))" if "distinct (map ?k (filter active xs))" for xs
    using that
  proof (induction xs)
    case (Cons x xs)
    have sub: "?k ` set (filter active (map ?g xs)) \<subseteq> ?k ` set (filter active xs)"
      using f by (auto split: if_splits)
    show ?case
    proof (cases "active (?g x)")
      case True
      then have "active x" "?k (?g x) = ?k x" using f by (auto split: if_splits)
      with Cons True sub show ?thesis by (auto simp: image_iff split: if_splits)
    next
      case False
      with Cons show ?thesis by (auto split: if_splits)
    qed
  qed simp
  then have "distinct (map ?k (filter active (db_dialogs db')))"
    using ok d by (simp add: dialogs_ok_def update_where_def)
  moreover have "\<forall>r \<in> set (db_dialogs db'). 0 < dl_id r \<and> dl_id r < db_next_id db'"
    using ok d n f by (auto simp: dialogs_ok_def set_update_where)
  ultimately show ?thesis using ids ok by (simp add: dialogs_ok_def)
qed

lemma dialogs_ok_append:
  assumes ok: "dialogs_ok db" and d: "db_dialogs db' = db_dialogs db @ [r]"
    and n: "dl_id r = db_next_id db" "db_next_id db < db_next_id db'" "0 < db_next_id db"
    and fresh: "\<not> (\<exists>x \<in> set (db_dialogs db). active x \<and> dl_thread_id x = dl_thread_id r
                  \<and> dl_member_id x = dl_member_id r)"
  shows "dialogs_ok db'"
  using assms unfolding dialogs_ok_def by fastforce

lemma dialog_of_append:
  "db_dialogs db' = db_dialogs db @ [r] \<Longrightarrow>
     dialog_of db' m = (case dialog_of db m of Some d \<Rightarrow> Some d | None \<Rightarrow> if dl_id r = m then Some r else None)"
  by (simp add: dialog_of_def find_append split: option.splits)

lemma dialog_Create_shape:
  assumes "dialog_Create m db = Inr (x, db')"
  shows "\<exists>th. tdx_ThreadID m \<noteq> uuid_nil \<and> tdx_ContactID m \<noteq> uuid_nil
    \<and> thread_of db (tdx_ThreadID m) = Some th
    \<and> \<not> (\<exists>d \<in> set (db_dialogs db). active d \<and> dl_thread_id d = tdx_ThreadID m \<and> dl_member_id d = tdx_ContactID m)
    \<and> bm_ID x = db_next_id db \<and> bm_DomainID x = th_domain_id th \<and> tdx_ContactID x = tdx_ContactID m
    \<and> tdx_ThreadID x = tdx_ThreadID m \<and> tdx_ThreadRole x = tdx_ThreadRole m \<and> tdx_IsBot x = tdx_IsBot m
    \<and> tdx_AutoLeave x = tdx_AutoLeave m \<and> tdx_Via x = tdx_Via m
    \<and> db_dialogs db' = db_dialogs db @ [new_dialog_row (db_next_id db) (db_now db) (th_domain_id th) m]
    \<and> db_next_id db' = db_next_id db + 2 \<and> db_threads db' = db_threads db \<and> db_stack db' = db_stack db
    \<and> db_outbox db' = db_outbox db \<and> db_messages db' = db_messages db \<and> db_tags db' = db_tags db
    \<and> db_previews db' = db_previews db \<and> db_contacts db' = db_contacts db \<and> db_now db' = db_now db"
  using assms
  by (auto simp: dialog_Create_def Let_def dialog_to_extended_def new_dialog_row_def zero_defs
      split: if_splits option.splits)

lemma dialog_Create_db_ok:
  assumes "db_ok db" "dialog_Create m db = Inr (x, db')"
  shows "db_ok db'"
proof -
  obtain th :: thread_row where c:
    "\<not> (\<exists>d \<in> set (db_dialogs db). active d \<and> dl_thread_id d = tdx_ThreadID m \<and> dl_member_id d = tdx_ContactID m)"
    "db_dialogs db' = db_dialogs db @ [new_dialog_row (db_next_id db) (db_now db) (th_domain_id th) m]"
    "db_next_id db' = db_next_id db + 2" "db_threads db' = db_threads db" "db_stack db' = db_stack db"
    using dialog_Create_shape [OF assms(2)] by blast
  have "dialogs_ok db'"
    by (rule dialogs_ok_append [OF _ c(2)]) (use assms(1) c in \<open>auto simp: db_ok_def new_dialog_row_def\<close>)
  moreover have "stack_ok db'"
    by (rule stack_ok_dialogs [of db]) (use assms(1) c in \<open>auto simp: db_ok_def dialog_of_append\<close>)
  moreover have "threads_ok db'"
    using assms(1) c unfolding db_ok_def threads_ok_def by fastforce
  ultimately show ?thesis using assms(1) c by (simp add: db_ok_def)
qed

lemma update_dialog_db_ok:
  assumes "db_ok db"
    and f: "\<And>r. dl_id (f r) = dl_id r \<and> dl_thread_id (f r) = dl_thread_id r
              \<and> dl_member_id (f r) = dl_member_id r \<and> (active (f r) \<longrightarrow> active r)"
  shows "db_ok (update_dialog i f db)"
proof -
  have "dialogs_ok (update_dialog i f db)"
    by (rule dialogs_ok_update [of db f]) (use assms in \<open>auto simp: db_ok_def update_dialog_def\<close>)
  moreover have "stack_ok (update_dialog i f db)"
    by (rule stack_ok_dialogs [of db]) (use assms in \<open>auto simp: db_ok_def dialog_of_update_dialog\<close>)
  ultimately show ?thesis using assms by (simp add: db_ok_def threads_ok_def)
qed

lemma dialog_Delete_db_ok: "db_ok db \<Longrightarrow> dialog_Delete i r db = Inr db' \<Longrightarrow> db_ok db'"
  by (auto simp: dialog_Delete_def active_def intro!: update_dialog_db_ok split: if_splits)

lemma AdoptUntrackedBot_db_ok: "db_ok db \<Longrightarrow> AdoptUntrackedBot t n db = Inr (i, db') \<Longrightarrow> db_ok db'"
  by (auto simp: AdoptUntrackedBot_def active_def Let_def intro!: update_dialog_db_ok
      split: if_splits option.splits)

text \<open>A member that was just created is found, and one that was deleted is not, by the readers.\<close>

lemma GetQuickView_thread:
  "GetQuickView (thread_filter t) db =
     map quick_row (filter (\<lambda>d. dl_thread_id d = t \<and> active d) (db_dialogs db))"
  by (simp add: GetQuickView_def thread_filter_def any_of_def limited_def)

lemma quick_row_simps [simp]:
  "bm_ID (quick_row d) = dl_id d" "td_ContactID (quick_row d) = dl_member_id d"
  "td_ThreadID (quick_row d) = dl_thread_id d" "td_ThreadRole (quick_row d) = dl_thread_role d"
  "td_IsBot (quick_row d) = dl_is_bot d" "td_Via (quick_row d) = dl_via d"
  "bm_DomainID (quick_row d) = dl_domain_id d" "td_DeletedAt (quick_row d) = None"
  by (simp_all add: quick_row_def zero_dialog_def)

text \<open>
  Create then read: a member that the store has created is in the thread's member list with
  exactly the role, contact, gate and bot flag it was created with, next to all the members the
  thread already had.
\<close>

theorem create_then_quick_view:
  assumes "dialog_Create m db = Inr (x, db')"
  shows "GetQuickView (thread_filter (tdx_ThreadID m)) db' =
     GetQuickView (thread_filter (tdx_ThreadID m)) db @
       [zero_dialog\<lparr>bm_ID := bm_ID x, bm_DomainID := bm_DomainID x, bm_CreatedAt := db_now db,
          bm_UpdatedAt := db_now db, td_InvitedBy := tdx_InvitedBy m, td_ContactID := tdx_ContactID m,
          td_ThreadID := tdx_ThreadID m, td_ThreadRole := tdx_ThreadRole m, td_IsBot := tdx_IsBot m,
          td_Via := tdx_Via m\<rparr>]"
proof -
  obtain th :: thread_row where
    "bm_ID x = db_next_id db" "bm_DomainID x = th_domain_id th"
    "db_dialogs db' = db_dialogs db @ [new_dialog_row (db_next_id db) (db_now db) (th_domain_id th) m]"
    using dialog_Create_shape [OF assms] by blast
  then show ?thesis
    by (simp add: GetQuickView_thread new_dialog_row_def active_def quick_row_def zero_dialog_def)
qed

definition example_thread :: thread_row where
  "example_thread = \<lparr>th_id = 6, th_domain_id = 7, th_created_at = 0, th_updated_at = 0, th_kind = 1,
     th_owner = 0, th_subject = [], th_description = [], th_bot_controller_id = None,
     th_owner_bot_id = None, th_crm_contact_id = None, th_last_seq = 0\<rparr>"

definition example_member :: ThreadDialogExtended where
  "example_member = zero_dialog_extended\<lparr>tdx_ThreadID := 6, tdx_ContactID := 50,
     tdx_ThreadRole := RoleOwner, tdx_IsBot := True\<rparr>"

definition example_db :: db where
  "example_db = empty_db\<lparr>db_threads := [example_thread], db_next_id := 10\<rparr>"

lemmas example_defs = example_db_def example_thread_def example_member_def empty_db_def zero_defs

theorem create_then_quick_view_witness:
  "\<exists>x db'. dialog_Create example_member example_db = Inr (x, db')
     \<and> map td_ContactID (GetQuickView (thread_filter 6) db') = [50]"
proof -
  obtain x db' where c: "dialog_Create example_member example_db = Inr (x, db')"
    by (simp add: dialog_Create_def example_defs thread_of_def Let_def)
  from create_then_quick_view [OF c] have "map td_ContactID (GetQuickView (thread_filter 6) db') = [50]"
    by (simp add: example_defs GetQuickView_def)
       (simp add: limited_def)
  with c show ?thesis by (intro exI conjI)
qed

end
