(* ===== verification/Bot_Control_Store.thy ===== *)
theory Bot_Control_Store
  imports Dialog_Store
begin

text \<open>
  \<^verbatim>\<open>internal/store/postgres/bot_control_store.go\<close>: the bot control stack of a thread and the two
  pointers of the thread row it moves (\<^verbatim>\<open>bot_controller_id\<close>, \<^verbatim>\<open>owner_bot_id\<close>). Each definition
  follows the CTEs of one method. The second half states the abstract contract (a stack of member
  ids, a controller and an owner), shows that the statements implement it, and derives the
  control invariant once, in a locale over the contract.
\<close>

section \<open>The statements\<close>

definition stack_of :: "db \<Rightarrow> uuid \<Rightarrow> stack_row list" where
  "stack_of db t = filter (\<lambda>r. sk_thread_id r = t) (db_stack db)"

definition contact_of_member :: "db \<Rightarrow> uuid option \<Rightarrow> uuid" where
  "contact_of_member db m =
     (case m of None \<Rightarrow> uuid_nil
      | Some i \<Rightarrow> (case dialog_of db i of None \<Rightarrow> uuid_nil | Some d \<Rightarrow> dl_member_id d))"

definition mapBotControlStackEntry :: "db \<Rightarrow> stack_row \<Rightarrow> BotControlStackEntry" where
  "mapBotControlStackEntry db r =
     \<lparr>be_ID = sk_id r, be_ThreadID = sk_thread_id r, be_MemberID = sk_member_id r,
      be_Position = sk_position r, be_ContactID = contact_of_member db (sk_member_id r),
      be_DomainID = 0, be_AutoLeave = False\<rparr>"

text \<open>
  The earliest active bot of the thread that is not on the stack: the subquery that initialises
  \<^verbatim>\<open>owner_bot_id\<close>, evaluated on the snapshot before the insert.
\<close>

definition untracked_bot :: "db \<Rightarrow> uuid \<Rightarrow> uuid option" where
  "untracked_bot db t =
     map_option dl_id (first_min dl_created_at
       (filter (\<lambda>d. dl_thread_id d = t \<and> dl_is_bot d \<and> active d
              \<and> Some (dl_id d) \<notin> sk_member_id ` set (stack_of db t)) (db_dialogs db)))"

text \<open>
  \<^verbatim>\<open>Push\<close>. \<^verbatim>\<open>position\<close> is a smallint; a second entry of the same member violates
  \<^verbatim>\<open>bot_control_stack_thread_member_unique\<close>, an unknown thread or member a foreign key.
\<close>

definition Push :: "BotControlTransition \<Rightarrow> db \<Rightarrow> (BotControlStackEntry option \<times> db) res" where
  "Push tr db =
     (let t = bt_ThreadID tr; m = bt_NewMemberID tr;
          prev_top = first_max sk_position (stack_of db t);
          pos = (case prev_top of None \<Rightarrow> 0 | Some r \<Rightarrow> sk_position r + 1)
      in if 32767 < pos \<or> thread_of db t = None \<or> dialog_of db m = None
            \<or> (\<exists>r \<in> set (stack_of db t). sk_member_id r = Some m)
         then Inl (Err Internal ''scanning push result'')
         else
           (let ins = \<lparr>sk_id = db_next_id db, sk_thread_id = t, sk_member_id = Some m, sk_position = pos\<rparr>;
                owner = untracked_bot db t;
                db' = update_thread t (\<lambda>th. th\<lparr>th_bot_controller_id := Some m,
                          th_owner_bot_id := (case th_owner_bot_id th of None \<Rightarrow> owner | Some w \<Rightarrow> Some w)\<rparr>)
                        (db\<lparr>db_stack := db_stack db @ [ins], db_next_id := Suc (db_next_id db)\<rparr>);
                prev = (case prev_top of None \<Rightarrow> None
                        | Some r \<Rightarrow> if sk_member_id r = None then None
                                    else Some (mapBotControlStackEntry db r))
            in Inr (prev, db')))"

text \<open>
  \<^verbatim>\<open>Pop\<close>, first statement: remove the member's entry and soft-delete its dialog when it is
  marked \<^verbatim>\<open>auto_leave\<close> and still active; report whether the entry was the top.
\<close>

definition pop_entry :: "uuid \<Rightarrow> uuid \<Rightarrow> BotControlReason \<Rightarrow> db \<Rightarrow> (bool \<times> db) res" where
  "pop_entry t m reason db =
     (case find (\<lambda>r. sk_member_id r = Some m) (stack_of db t) of
        None \<Rightarrow> Inl (Err NotFound ''member not found in bot control stack'')
      | Some e \<Rightarrow>
          (let auto_leave = (case dialog_of db m of None \<Rightarrow> False | Some d \<Rightarrow> dl_auto_leave d);
               is_top = (case first_max sk_position (stack_of db t) of None \<Rightarrow> False
                         | Some r \<Rightarrow> sk_position e = sk_position r);
               db1 = db\<lparr>db_stack := filter (\<lambda>r. sk_id r \<noteq> sk_id e) (db_stack db)\<rparr>;
               db2 = (if auto_leave
                      then update_dialog m (\<lambda>d. if dl_deleted_at d = None
                             then d\<lparr>dl_deleted_at := Some (db_now db),
                                    dl_leave_reason := Some (reason_string reason)\<rparr>
                             else d) db1
                      else db1)
           in Inr (is_top, db2)))"

text \<open>\<^verbatim>\<open>Pop\<close>, second statement: the new top, the thread's controller, and the entry reported.\<close>

definition Pop :: "uuid \<Rightarrow> uuid \<Rightarrow> BotControlReason \<Rightarrow> db \<Rightarrow> (BotControlStackEntry option \<times> db) res" where
  "Pop t m reason db =
     bindr (pop_entry t m reason db) (\<lambda>(isTop, db1).
       (let joined_rows = filter (\<lambda>r. sk_member_id r \<noteq> None
                            \<and> dialog_of db1 (the (sk_member_id r)) \<noteq> None) (stack_of db1 t);
            new_top = first_max sk_position joined_rows;
            handoff = (reason = ReasonHandoff);
            client_leave = (reason = ReasonClientLeave)
        in (case thread_of db1 t of
              None \<Rightarrow> Inl (Err Internal ''scanning new top after pop'')
            | Some th \<Rightarrow>
                (let controller =
                       (if handoff then None
                        else case new_top of Some r \<Rightarrow> sk_member_id r
                        | None \<Rightarrow> if client_leave then None
                                   else if isTop then th_owner_bot_id th else th_bot_controller_id th);
                     db2 = update_thread t (\<lambda>th. th\<lparr>th_bot_controller_id := controller\<rparr>) db1;
                     top_dialog = (case new_top of None \<Rightarrow> None | Some r \<Rightarrow> dialog_of db1 (the (sk_member_id r)));
                     owner_dialog = (case th_owner_bot_id th of None \<Rightarrow> None | Some w \<Rightarrow> dialog_of db1 w);
                     shown = (case top_dialog of Some d \<Rightarrow> Some d | None \<Rightarrow> owner_dialog);
                     entry = (\<lambda>mem pos. \<lparr>be_ID = uuid_nil, be_ThreadID = t, be_MemberID = mem,
                                be_Position = pos,
                                be_ContactID = (case shown of None \<Rightarrow> uuid_nil | Some d \<Rightarrow> dl_member_id d),
                                be_DomainID = (case shown of None \<Rightarrow> 0 | Some d \<Rightarrow> dl_domain_id d),
                                be_AutoLeave = (case shown of None \<Rightarrow> False | Some d \<Rightarrow> dl_auto_leave d)\<rparr>)
                 in (case new_top of
                       Some r \<Rightarrow> Inr (if handoff then None else Some (entry (sk_member_id r) (sk_position r)), db2)
                     | None \<Rightarrow>
                         Inr (if isTop \<and> th_owner_bot_id th \<noteq> None \<and> \<not> client_leave \<and> \<not> handoff
                              then Some (entry (th_owner_bot_id th) 0) else None, db2))))))"

definition GetStack :: "uuid \<Rightarrow> db \<Rightarrow> BotControlStackEntry list" where
  "GetStack t db = map (mapBotControlStackEntry db) (sort_key sk_position (stack_of db t))"

definition ClearController :: "uuid \<Rightarrow> db \<Rightarrow> uuid option \<times> db" where
  "ClearController t db =
     (case thread_of db t of
        None \<Rightarrow> (None, db)
      | Some th \<Rightarrow> (th_bot_controller_id th,
                    update_thread t (\<lambda>th. th\<lparr>th_bot_controller_id := None\<rparr>) db))"

text \<open>\<^verbatim>\<open>bot_controller_id\<close> references a dialog; an update that matches no thread is no error.\<close>

definition SetController :: "uuid \<Rightarrow> uuid \<Rightarrow> db \<Rightarrow> db res" where
  "SetController t m db =
     (if thread_of db t \<noteq> None \<and> dialog_of db m = None
      then Inl (Err Internal ''set bot controller'')
      else Inr (update_thread t (\<lambda>th. th\<lparr>th_bot_controller_id := Some m\<rparr>) db))"

definition RestoreController :: "uuid \<Rightarrow> db \<Rightarrow> (BotControlStackEntry option \<times> bool) \<times> db" where
  "RestoreController t db =
     (case thread_of db t of
        None \<Rightarrow> ((None, False), db)
      | Some th \<Rightarrow>
          (let candidate = (case first_max sk_position
                                   (filter (\<lambda>r. sk_member_id r \<noteq> None) (stack_of db t)) of
                              Some r \<Rightarrow> sk_member_id r | None \<Rightarrow> th_owner_bot_id th);
               granted = (th_bot_controller_id th = None \<and> candidate \<noteq> None);
               db' = (if granted then update_thread t (\<lambda>th. th\<lparr>th_bot_controller_id := candidate\<rparr>) db else db);
               shown = (case th_bot_controller_id th of Some c \<Rightarrow> Some c | None \<Rightarrow> candidate)
           in (case shown of
                 None \<Rightarrow> ((None, False), db')
               | Some s \<Rightarrow>
                   (case dialog_of db s of
                      None \<Rightarrow> ((None, False), db')
                    | Some d \<Rightarrow>
                        ((Some \<lparr>be_ID = uuid_nil, be_ThreadID = t, be_MemberID = Some s,
                            be_Position = (case find (\<lambda>r. sk_member_id r = Some s) (stack_of db t) of
                                             None \<Rightarrow> 0 | Some r \<Rightarrow> sk_position r),
                            be_ContactID = dl_member_id d, be_DomainID = dl_domain_id d,
                            be_AutoLeave = dl_auto_leave d\<rparr>, granted), db')))))"

section \<open>The contract\<close>

text \<open>
  What the stack means to its clients: the members from bottom to top, who holds control, and
  which bot owns the thread.
\<close>

record control =
  ct_stack :: "uuid list"
  ct_controller :: "uuid option"
  ct_owner :: "uuid option"

definition control_of :: "db \<Rightarrow> uuid \<Rightarrow> control option" where
  "control_of db t =
     map_option (\<lambda>th. \<lparr>ct_stack = map (\<lambda>r. the (sk_member_id r)) (sort_key sk_position (stack_of db t)),
                       ct_controller = th_bot_controller_id th, ct_owner = th_owner_bot_id th\<rparr>)
       (thread_of db t)"

definition spec_push :: "uuid \<Rightarrow> uuid option \<Rightarrow> control \<Rightarrow> control" where
  "spec_push m candidate c =
     c\<lparr>ct_stack := ct_stack c @ [m], ct_controller := Some m,
       ct_owner := (case ct_owner c of None \<Rightarrow> candidate | Some w \<Rightarrow> Some w)\<rparr>"

definition spec_pop :: "uuid \<Rightarrow> BotControlReason \<Rightarrow> control \<Rightarrow> control" where
  "spec_pop m reason c =
     (let rest = filter (\<lambda>x. x \<noteq> m) (ct_stack c)
      in c\<lparr>ct_stack := rest,
           ct_controller :=
             (if reason = ReasonHandoff then None
              else if rest \<noteq> [] then Some (last rest)
              else if reason = ReasonClientLeave then None else ct_owner c)\<rparr>)"

definition spec_clear :: "control \<Rightarrow> control" where
  "spec_clear c = c\<lparr>ct_controller := None\<rparr>"

definition spec_restore :: "control \<Rightarrow> control" where
  "spec_restore c =
     c\<lparr>ct_controller :=
         (case ct_controller c of Some m \<Rightarrow> Some m
          | None \<Rightarrow> if ct_stack c \<noteq> [] then Some (last (ct_stack c)) else ct_owner c)\<rparr>"

definition spec_set_top :: "control \<Rightarrow> control" where
  "spec_set_top c = (if ct_stack c = [] then c else c\<lparr>ct_controller := Some (last (ct_stack c))\<rparr>)"

text \<open>
  Nobody holds control from below: a controller is the top of the stack, or the owner when the
  stack is empty.
\<close>

definition control_inv :: "control \<Rightarrow> bool" where
  "control_inv c =
     (distinct (ct_stack c)
      \<and> (case ct_controller c of None \<Rightarrow> True
         | Some m \<Rightarrow> if ct_stack c = [] then ct_owner c = Some m else m = last (ct_stack c)))"

lemma spec_push_inv: "control_inv c \<Longrightarrow> m \<notin> set (ct_stack c) \<Longrightarrow> control_inv (spec_push m w c)"
  by (simp add: control_inv_def spec_push_def)

lemma spec_pop_inv: "control_inv c \<Longrightarrow> control_inv (spec_pop m r c)"
  by (auto simp: control_inv_def spec_pop_def Let_def split: option.splits)

lemma spec_clear_inv: "control_inv c \<Longrightarrow> control_inv (spec_clear c)"
  by (simp add: control_inv_def spec_clear_def)

lemma spec_restore_inv: "control_inv c \<Longrightarrow> control_inv (spec_restore c)"
  by (auto simp: control_inv_def spec_restore_def split: option.splits)

lemma spec_set_top_inv: "control_inv c \<Longrightarrow> control_inv (spec_set_top c)"
  by (auto simp: control_inv_def spec_set_top_def)

lemmas spec_invs = spec_push_inv spec_pop_inv spec_clear_inv spec_restore_inv spec_set_top_inv

section \<open>The statements implement the contract\<close>

definition members_of :: "db \<Rightarrow> uuid \<Rightarrow> uuid list" where
  "members_of db t = map (\<lambda>r. the (sk_member_id r)) (sort_key sk_position (stack_of db t))"

lemma control_of_alt:
  "control_of db t = map_option (\<lambda>th. \<lparr>ct_stack = members_of db t,
     ct_controller = th_bot_controller_id th, ct_owner = th_owner_bot_id th\<rparr>) (thread_of db t)"
  by (simp add: control_of_def members_of_def)

lemma set_stack_of: "r \<in> set (stack_of db t) \<longleftrightarrow> r \<in> set (db_stack db) \<and> sk_thread_id r = t"
  by (auto simp: stack_of_def)

lemma stack_of_member:
  "stack_ok db \<Longrightarrow> r \<in> set (stack_of db t) \<Longrightarrow>
     \<exists>m d. sk_member_id r = Some m \<and> dialog_of db m = Some d \<and> dl_thread_id d = t"
  by (auto simp: stack_ok_def set_stack_of)

lemma distinct_map_filter_pair:
  "distinct (map (\<lambda>r. (g r, f r)) rows) \<Longrightarrow> distinct (map f (filter (\<lambda>r. g r = t) rows))"
  by (induction rows) (auto simp: image_iff)

lemma stack_of_distinct:
  assumes "stack_ok db"
  shows "distinct (map sk_position (stack_of db t))" "distinct (map sk_member_id (stack_of db t))"
  using assms unfolding stack_ok_def stack_of_def by (auto dest: distinct_map_filter_pair)

lemma members_of_distinct:
  assumes "stack_ok db"
  shows "distinct (members_of db t)"
proof -
  have "inj_on sk_member_id (set (stack_of db t))" "distinct (stack_of db t)"
    using stack_of_distinct(2) [OF assms] by (auto simp: distinct_map)
  moreover have "sk_member_id r = Some (the (sk_member_id r))" if "r \<in> set (stack_of db t)" for r
    using stack_of_member [OF assms that] by auto
  ultimately show ?thesis
    unfolding members_of_def by (auto simp: distinct_map inj_on_def) (metis)
qed

lemma set_members_of:
  "stack_ok db \<Longrightarrow> set (members_of db t) = {m. \<exists>r \<in> set (stack_of db t). sk_member_id r = Some m}"
  unfolding members_of_def by (force dest: stack_of_member)

lemma members_of_nil: "members_of db t = [] \<longleftrightarrow> stack_of db t = []"
  by (simp add: members_of_def) (metis set_empty set_sort)

lemma top_member:
  assumes "stack_ok db"
  shows "map_option sk_member_id (first_max sk_position (stack_of db t)) =
     (if members_of db t = [] then None else Some (Some (last (members_of db t))))"
proof (cases "stack_of db t = []")
  case False
  let ?l = "last (sort_key sk_position (stack_of db t))"
  have ne: "sort_key sk_position (stack_of db t) \<noteq> []" using False by (metis set_empty set_sort)
  then have "?l \<in> set (stack_of db t)" by (metis last_in_set set_sort)
  then have "sk_member_id ?l = Some (the (sk_member_id ?l))" using stack_of_member [OF assms] by force
  moreover have "last (members_of db t) = the (sk_member_id ?l)"
    using ne by (simp add: members_of_def last_map)
  ultimately show ?thesis
    using False first_max_last_sort [OF stack_of_distinct(1) [OF assms]] by (simp add: members_of_nil)
qed (simp add: members_of_nil)

lemma stack_of_cong: "db_stack db' = db_stack db \<Longrightarrow> stack_of db' t = stack_of db t"
  by (simp add: stack_of_def)

lemma members_of_cong: "db_stack db' = db_stack db \<Longrightarrow> members_of db' t = members_of db t"
  by (simp add: members_of_def stack_of_def)

lemma stack_frame [simp]:
  "stack_of (update_thread t f db) = stack_of db" "members_of (update_thread t f db) = members_of db"
  "stack_of (update_dialog i g db) = stack_of db" "members_of (update_dialog i g db) = members_of db"
  by (auto simp: fun_eq_iff members_of_def stack_of_def)

lemma thread_of_frame [simp]:
  "thread_of (update_dialog i g db) = thread_of db"
  "thread_of (db\<lparr>db_stack := st\<rparr>) = thread_of db"
  "thread_of (db\<lparr>db_next_id := n\<rparr>) = thread_of db"
  "dialog_of (update_thread t f db) = dialog_of db"
  "dialog_of (db\<lparr>db_stack := st\<rparr>) = dialog_of db"
  "dialog_of (db\<lparr>db_next_id := n\<rparr>) = dialog_of db"
  by (auto simp: fun_eq_iff thread_of_def dialog_of_def)

lemma update_thread_control:
  assumes "\<And>r. th_id (f r) = th_id r"
  shows "control_of (update_thread t f db) t' =
     (if t' = t then map_option (\<lambda>th. \<lparr>ct_stack = members_of db t,
          ct_controller = th_bot_controller_id (f th), ct_owner = th_owner_bot_id (f th)\<rparr>) (thread_of db t)
      else control_of db t')"
  using assms
  by (simp add: control_of_alt thread_of_update_thread option.map_comp comp_def)

text \<open>Push.\<close>

lemma Push_shape:
  assumes ok: "stack_ok db" and push: "Push tr db = Inr (prev, db')"
  shows "\<exists>th d. thread_of db (bt_ThreadID tr) = Some th \<and> dialog_of db (bt_NewMemberID tr) = Some d
    \<and> bt_NewMemberID tr \<notin> set (members_of db (bt_ThreadID tr))
    \<and> members_of db' (bt_ThreadID tr) = members_of db (bt_ThreadID tr) @ [bt_NewMemberID tr]
    \<and> (\<forall>t'. t' \<noteq> bt_ThreadID tr \<longrightarrow> stack_of db' t' = stack_of db t')
    \<and> db_dialogs db' = db_dialogs db \<and> db_next_id db' = Suc (db_next_id db)
    \<and> map_option be_MemberID prev = map_option Some (if members_of db (bt_ThreadID tr) = [] then None
          else Some (last (members_of db (bt_ThreadID tr))))"
proof -
  let ?t = "bt_ThreadID tr" and ?m = "bt_NewMemberID tr"
  let ?top = "first_max sk_position (stack_of db ?t)"
  let ?ins = "\<lparr>sk_id = db_next_id db, sk_thread_id = ?t, sk_member_id = Some ?m,
      sk_position = (case ?top of None \<Rightarrow> 0 | Some r \<Rightarrow> sk_position r + 1)\<rparr>"
  from push have g: "thread_of db ?t \<noteq> None" "dialog_of db ?m \<noteq> None"
      "\<not> (\<exists>r \<in> set (stack_of db ?t). sk_member_id r = Some ?m)"
      "db_stack db' = db_stack db @ [?ins]" "db_dialogs db' = db_dialogs db"
      "db_next_id db' = Suc (db_next_id db)"
      "prev = (case ?top of None \<Rightarrow> None | Some r \<Rightarrow> if sk_member_id r = None then None
                 else Some (mapBotControlStackEntry db r))"
    unfolding Push_def Let_def by (auto split: if_splits)
  have "sk_position x \<le> sk_position ?ins" if "x \<in> set (stack_of db ?t)" for x
    using that first_max_Some [of sk_position "stack_of db ?t"]
    by (cases ?top) (auto dest!: bspec [where x = x])
  moreover have "stack_of db' ?t = stack_of db ?t @ [?ins]" using g(4) by (simp add: stack_of_def)
  ultimately have "members_of db' ?t = members_of db ?t @ [?m]"
    by (simp add: members_of_def sort_key_snoc_max)
  moreover have "map_option be_MemberID prev =
      map_option Some (if members_of db ?t = [] then None else Some (last (members_of db ?t)))"
    using top_member [OF ok, of ?t] g(7)
    by (cases ?top) (auto simp: mapBotControlStackEntry_def split: if_splits)
  moreover have "?m \<notin> set (members_of db ?t)" using g(3) by (simp add: set_members_of [OF ok])
  moreover have "t' \<noteq> ?t \<longrightarrow> stack_of db' t' = stack_of db t'" for t' using g(4) by (simp add: stack_of_def)
  ultimately show ?thesis using g by auto
qed

lemma Push_control:
  assumes ok: "stack_ok db" and push: "Push tr db = Inr (prev, db')"
  shows "control_of db' t' =
     (if t' = bt_ThreadID tr
      then map_option (spec_push (bt_NewMemberID tr) (untracked_bot db t')) (control_of db t')
      else control_of db t')"
proof -
  let ?t = "bt_ThreadID tr" and ?m = "bt_NewMemberID tr"
  from push obtain ins where db': "db' = update_thread ?t
       (\<lambda>th. th\<lparr>th_bot_controller_id := Some ?m,
          th_owner_bot_id := (case th_owner_bot_id th of None \<Rightarrow> untracked_bot db ?t | Some w \<Rightarrow> Some w)\<rparr>)
       (db\<lparr>db_stack := db_stack db @ [ins], db_next_id := Suc (db_next_id db)\<rparr>)"
    unfolding Push_def Let_def by (auto split: if_splits)
  have m: "members_of db' ?t = members_of db ?t @ [?m]" and s: "t' \<noteq> ?t \<Longrightarrow> stack_of db' t' = stack_of db t'"
    using Push_shape [OF assms] by auto
  have th: "thread_of db' t' = (if t' = ?t then map_option
       (\<lambda>th. th\<lparr>th_bot_controller_id := Some ?m,
          th_owner_bot_id := (case th_owner_bot_id th of None \<Rightarrow> untracked_bot db ?t | Some w \<Rightarrow> Some w)\<rparr>)
       (thread_of db ?t) else thread_of db t')"
    unfolding db' by (subst thread_of_update_thread) simp_all
  show ?thesis
  proof (cases "t' = ?t")
    case True
    with m th show ?thesis
      by (simp add: control_of_alt spec_push_def option.map_comp comp_def)
  next
    case False
    with s th show ?thesis by (simp add: control_of_alt members_of_def)
  qed
qed

lemma update_thread_db_ok:
  assumes "db_ok db" and "\<And>r. th_id (f r) = th_id r \<and> th_domain_id (f r) = th_domain_id r"
  shows "db_ok (update_thread t f db)"
proof -
  have "threads_ok (update_thread t f db)"
    using assms by (auto simp: db_ok_def threads_ok_def update_thread_def set_update_where)
  moreover have "stack_ok (update_thread t f db)"
    using assms by (simp add: db_ok_def stack_ok_def)
  ultimately show ?thesis using assms by (simp add: db_ok_def dialogs_ok_def)
qed

lemma Push_db_ok:
  assumes ok: "db_ok db" and push: "Push tr db = Inr (prev, db')"
    and same: "\<And>d. dialog_of db (bt_NewMemberID tr) = Some d \<Longrightarrow> dl_thread_id d = bt_ThreadID tr"
  shows "db_ok db'"
proof -
  let ?t = "bt_ThreadID tr" and ?m = "bt_NewMemberID tr"
  let ?top = "first_max sk_position (stack_of db ?t)"
  let ?pos = "case ?top of None \<Rightarrow> 0 | Some r \<Rightarrow> sk_position r + 1"
  let ?ins = "\<lparr>sk_id = db_next_id db, sk_thread_id = ?t, sk_member_id = Some ?m, sk_position = ?pos\<rparr>"
  let ?mid = "db\<lparr>db_stack := db_stack db @ [?ins], db_next_id := Suc (db_next_id db)\<rparr>"
  let ?f = "\<lambda>th. th\<lparr>th_bot_controller_id := Some ?m,
      th_owner_bot_id := (case th_owner_bot_id th of None \<Rightarrow> untracked_bot db ?t | Some w \<Rightarrow> Some w)\<rparr>"
  from push have g: "dialog_of db ?m \<noteq> None" "\<not> (\<exists>r \<in> set (stack_of db ?t). sk_member_id r = Some ?m)"
      and db': "db' = update_thread ?t ?f ?mid"
    unfolding Push_def Let_def by (auto split: if_splits)
  have st: "stack_ok db" using ok by (simp add: db_ok_def)
  have above: "sk_position x < ?pos" if "x \<in> set (stack_of db ?t)" for x
    using that first_max_Some [of sk_position "stack_of db ?t"]
    by (cases ?top) (auto dest!: bspec [where x = x])
  have nn: "0 \<le> ?pos"
    using st first_max_Some [of sk_position "stack_of db ?t"]
    by (cases ?top) (fastforce simp: stack_ok_def set_stack_of)+
  have "stack_ok ?mid"
    using st g nn same above unfolding stack_ok_def
    by (auto simp: set_stack_of image_iff less_Suc_eq) (metis order_less_irrefl)+
  moreover have "threads_ok ?mid" using ok unfolding db_ok_def threads_ok_def by fastforce
  moreover have "dialogs_ok ?mid" using ok unfolding db_ok_def dialogs_ok_def by fastforce
  ultimately have "db_ok ?mid" by (simp add: db_ok_def)
  then show ?thesis unfolding db' by (rule update_thread_db_ok) simp
qed

text \<open>Pop.\<close>

lemma filter_sk_id_member:
  assumes "stack_ok db" "find (\<lambda>r. sk_member_id r = Some m) (stack_of db t) = Some e"
  shows "filter (\<lambda>r. sk_id r \<noteq> sk_id e) (stack_of db t) = filter (\<lambda>r. sk_member_id r \<noteq> Some m) (stack_of db t)"
proof (rule filter_cong)
  fix r assume r: "r \<in> set (stack_of db t)"
  from assms(2) have e: "e \<in> set (stack_of db t)" "sk_member_id e = Some m" by (auto dest: find_SomeD)
  have "inj_on sk_id (set (db_stack db))" "inj_on sk_member_id (set (stack_of db t))"
    using assms(1) stack_of_distinct(2) [OF assms(1), of t] by (auto simp: stack_ok_def distinct_map)
  moreover have "r \<in> set (db_stack db)" "e \<in> set (db_stack db)" using r e by (simp_all add: set_stack_of)
  ultimately show "(sk_id r \<noteq> sk_id e) = (sk_member_id r \<noteq> Some m)"
    using r e by (metis inj_onD)
qed simp

lemma pop_entry_shape:
  assumes ok: "stack_ok db" and pop: "pop_entry t m reason db = Inr (isTop, db1)"
  shows "m \<in> set (members_of db t) \<and> (isTop \<longleftrightarrow> m = last (members_of db t))
    \<and> stack_of db1 t = filter (\<lambda>r. sk_member_id r \<noteq> Some m) (stack_of db t)
    \<and> (\<forall>t'. t' \<noteq> t \<longrightarrow> stack_of db1 t' = stack_of db t')
    \<and> thread_of db1 = thread_of db \<and> db_next_id db1 = db_next_id db
    \<and> (\<forall>i. map_option dl_thread_id (dialog_of db1 i) = map_option dl_thread_id (dialog_of db i))"
proof -
  from pop obtain e where e: "find (\<lambda>r. sk_member_id r = Some m) (stack_of db t) = Some e"
    by (auto simp: pop_entry_def split: option.splits)
  then have es: "e \<in> set (stack_of db t)" "sk_member_id e = Some m" by (auto dest: find_SomeD)
  from pop e have st: "db_stack db1 = filter (\<lambda>r. sk_id r \<noteq> sk_id e) (db_stack db)"
    by (auto simp: pop_entry_def Let_def)
  have stt: "stack_of db1 t = filter (\<lambda>r. sk_id r \<noteq> sk_id e) (stack_of db t)"
    by (simp add: stack_of_def st conj_commute)
  have other: "stack_of db1 t' = stack_of db t'" if "t' \<noteq> t" for t'
  proof -
    have "sk_id r \<noteq> sk_id e" if "r \<in> set (db_stack db)" "sk_thread_id r = t'" for r
      using that \<open>t' \<noteq> t\<close> es ok by (auto simp: stack_ok_def set_stack_of distinct_map inj_on_def)
    then show ?thesis by (auto simp: stack_of_def st intro!: filter_cong)
  qed
  obtain r where r: "first_max sk_position (stack_of db t) = Some r"
    using es(1) by (cases "first_max sk_position (stack_of db t)") auto
  then have rs: "r \<in> set (stack_of db t)" by (auto dest: first_max_Some)
  have "inj_on sk_position (set (stack_of db t))"
    using stack_of_distinct(1) [OF ok, of t] by (simp add: distinct_map)
  then have "sk_position e = sk_position r \<longleftrightarrow> e = r" using es(1) rs by (auto dest: inj_onD)
  moreover have "e = r \<longleftrightarrow> sk_member_id r = Some m"
    using stack_of_distinct(2) [OF ok, of t] es rs by (auto simp: distinct_map inj_on_def)
  moreover have "sk_member_id r = Some (last (members_of db t))" "members_of db t \<noteq> []"
    using top_member [OF ok, of t] r by (auto split: if_splits)
  moreover from pop e r have "isTop \<longleftrightarrow> sk_position e = sk_position r" "thread_of db1 = thread_of db"
      "db_next_id db1 = db_next_id db"
    by (auto simp: pop_entry_def Let_def)
  moreover have "map_option dl_thread_id (dialog_of db1 i) = map_option dl_thread_id (dialog_of db i)" for i
  proof -
    have "map_option dl_thread_id (dialog_of (update_dialog m f db0) i) = map_option dl_thread_id (dialog_of db0 i)"
      if "\<And>d. dl_id (f d) = dl_id d \<and> dl_thread_id (f d) = dl_thread_id d" for f db0
      using that by (auto simp: dialog_of_update_dialog option.map_comp comp_def)
    with pop e show ?thesis by (auto simp: pop_entry_def Let_def split: if_splits)
  qed
  ultimately show ?thesis
    using stt other filter_sk_id_member [OF ok e] es by (auto simp: set_members_of [OF ok])
qed

lemma members_of_filter:
  assumes "stack_ok db" and "stack_of db1 t = filter (\<lambda>r. sk_member_id r \<noteq> Some m) (stack_of db t)"
  shows "members_of db1 t = filter (\<lambda>x. x \<noteq> m) (members_of db t)"
proof -
  have "filter (\<lambda>r. sk_member_id r \<noteq> Some m) (sort_key sk_position (stack_of db t)) =
      filter (\<lambda>r. the (sk_member_id r) \<noteq> m) (sort_key sk_position (stack_of db t))"
    by (rule filter_cong) (use stack_of_member [OF assms(1)] in force)+
  then show ?thesis
    by (simp add: members_of_def assms(2) filter_map comp_def flip: filter_sort)
qed

lemma filter_db_stack_ok:
  "stack_ok db \<Longrightarrow> stack_ok (db\<lparr>db_stack := filter p (db_stack db)\<rparr>)"
  unfolding stack_ok_def by (auto simp: distinct_map inj_on_def)

lemma filter_db_stack_db_ok:
  "db_ok db \<Longrightarrow> db_ok (db\<lparr>db_stack := filter p (db_stack db)\<rparr>)"
  using filter_db_stack_ok [of db p]
  by (simp add: db_ok_def threads_ok_def dialogs_ok_def)

lemma pop_entry_db_ok:
  assumes "db_ok db" "pop_entry t m reason db = Inr (isTop, db1)"
  shows "db_ok db1"
  using assms
  by (auto simp: pop_entry_def Let_def active_def filter_db_stack_db_ok
      intro!: update_dialog_db_ok split: option.splits if_splits)

lemma joined_stack:
  assumes "stack_ok db"
  shows "filter (\<lambda>r. sk_member_id r \<noteq> None \<and> dialog_of db (the (sk_member_id r)) \<noteq> None) (stack_of db t) = stack_of db t"
  using stack_of_member [OF assms, of _ t] by (fastforce simp: filter_id_conv)

lemma Pop_shape:
  assumes ok: "db_ok db" and pop: "Pop t m reason db = Inr (next, db')"
  shows "\<exists>th db1. thread_of db t = Some th \<and> m \<in> set (members_of db t)
    \<and> members_of db' t = filter (\<lambda>x. x \<noteq> m) (members_of db t)
    \<and> (\<forall>t'. t' \<noteq> t \<longrightarrow> stack_of db' t' = stack_of db t')
    \<and> db_ok db1 \<and> thread_of db1 = thread_of db \<and> (\<forall>i. dialog_of db' i = dialog_of db1 i)
    \<and> db' = update_thread t (\<lambda>x. x\<lparr>th_bot_controller_id :=
           ct_controller (spec_pop m reason \<lparr>ct_stack = members_of db t,
              ct_controller = th_bot_controller_id th, ct_owner = th_owner_bot_id th\<rparr>)\<rparr>) db1"
proof -
  have st: "stack_ok db" using ok by (simp add: db_ok_def)
  from pop obtain isTop db1 where e: "pop_entry t m reason db = Inr (isTop, db1)"
    by (auto simp: Pop_def bindr_Inr_iff)
  note sh = pop_entry_shape [OF st e]
  have ok1: "db_ok db1" by (rule pop_entry_db_ok [OF ok e])
  then have st1: "stack_ok db1" by (simp add: db_ok_def)
  have m1: "members_of db1 t = filter (\<lambda>x. x \<noteq> m) (members_of db t)"
    using sh by (intro members_of_filter [OF st]) simp
  from pop e obtain th :: thread_row where th: "thread_of db1 t = Some th"
    by (auto simp: Pop_def Let_def split: option.splits)
  have isTop: "isTop" if "members_of db1 t = []"
  proof -
    have "set (members_of db t) = {m}" using that m1 sh by (auto simp: filter_empty_conv)
    then have "members_of db t \<noteq> []" by auto
    then have "last (members_of db t) = m" using \<open>set (members_of db t) = {m}\<close> last_in_set by blast
    with sh show ?thesis by simp
  qed
  define c where "c = (if reason = ReasonHandoff then None
     else case first_max sk_position (stack_of db1 t) of Some r \<Rightarrow> sk_member_id r
     | None \<Rightarrow> if reason = ReasonClientLeave then None
                else if isTop then th_owner_bot_id th else th_bot_controller_id th)"
  have "db' = update_thread t (\<lambda>th. th\<lparr>th_bot_controller_id := c\<rparr>) db1"
    using pop e th unfolding Pop_def c_def
    by (auto simp: Let_def joined_stack [OF st1, simplified] split: option.splits if_splits)
  moreover have "c = ct_controller (spec_pop m reason \<lparr>ct_stack = members_of db t,
        ct_controller = th_bot_controller_id th, ct_owner = th_owner_bot_id th\<rparr>)"
  proof (cases "members_of db1 t = []")
    case True
    then have "first_max sk_position (stack_of db1 t) = None" by (simp add: members_of_nil)
    with True isTop m1 show ?thesis by (simp add: c_def spec_pop_def)
  next
    case False
    then obtain r where "first_max sk_position (stack_of db1 t) = Some r"
        "sk_member_id r = Some (last (members_of db1 t))"
      using top_member [OF st1, of t] by auto
    with False m1 show ?thesis by (simp add: c_def spec_pop_def Let_def)
  qed
  ultimately show ?thesis using sh ok1 th m1 by (intro exI [of _ th] exI [of _ db1]) auto
qed

lemma Pop_control:
  assumes ok: "db_ok db" and pop: "Pop t m reason db = Inr (next, db')"
  shows "control_of db' t' =
     (if t' = t then map_option (spec_pop m reason) (control_of db t') else control_of db t')"
proof -
  obtain th :: thread_row and db1 where p: "thread_of db t = Some th"
      "members_of db' t = filter (\<lambda>x. x \<noteq> m) (members_of db t)"
      "\<forall>t'. t' \<noteq> t \<longrightarrow> stack_of db' t' = stack_of db t'" "thread_of db1 = thread_of db"
      "db' = update_thread t (\<lambda>x. x\<lparr>th_bot_controller_id :=
           ct_controller (spec_pop m reason \<lparr>ct_stack = members_of db t,
              ct_controller = th_bot_controller_id th, ct_owner = th_owner_bot_id th\<rparr>)\<rparr>) db1"
    using Pop_shape [OF assms] by blast
  let ?c = "ct_controller (spec_pop m reason \<lparr>ct_stack = members_of db t,
              ct_controller = th_bot_controller_id th, ct_owner = th_owner_bot_id th\<rparr>)"
  have th: "thread_of db' t' = (if t' = t then map_option (\<lambda>x. x\<lparr>th_bot_controller_id := ?c\<rparr>) (thread_of db t)
      else thread_of db t')"
    unfolding p(5) using p(4) by (subst thread_of_update_thread) simp_all
  show ?thesis
  proof (cases "t' = t")
    case True
    with th p(1,2) show ?thesis by (simp add: control_of_alt spec_pop_def Let_def)
  next
    case False
    with th p(3) show ?thesis by (simp add: control_of_alt members_of_def)
  qed
qed

lemma Pop_db_ok:
  assumes "db_ok db" "Pop t m reason db = Inr (next, db')"
  shows "db_ok db'"
proof -
  obtain db1 c where "db_ok db1" "db' = update_thread t (\<lambda>x. x\<lparr>th_bot_controller_id := c\<rparr>) db1"
    using Pop_shape [OF assms] by blast
  then show ?thesis by (auto intro!: update_thread_db_ok)
qed

lemma Pop_fails_iff:
  assumes "db_ok db" "thread_of db t \<noteq> None"
  shows "(\<exists>e. Pop t m reason db = Inl e) \<longleftrightarrow> m \<notin> set (members_of db t)"
proof -
  have st: "stack_ok db" using assms by (simp add: db_ok_def)
  have none: "find (\<lambda>r. sk_member_id r = Some m) (stack_of db t) = None \<longleftrightarrow> m \<notin> set (members_of db t)"
    by (auto simp: find_None_iff set_members_of [OF st])
  show ?thesis
  proof (cases "find (\<lambda>r. sk_member_id r = Some m) (stack_of db t)")
    case None
    then show ?thesis using none by (simp add: Pop_def pop_entry_def)
  next
    case (Some e)
    then obtain b db1 where "pop_entry t m reason db = Inr (b, db1)"
      by (auto simp: pop_entry_def Let_def)
    moreover have "thread_of db1 t \<noteq> None" using pop_entry_shape [OF st calculation] assms(2) by simp
    ultimately show ?thesis using none Some
      by (auto simp: Pop_def Let_def split: option.splits)
  qed
qed

text \<open>The entry returned names the new controller, and is absent exactly when there is none.\<close>

lemma Pop_next:
  assumes ok: "db_ok db" and pop: "Pop t m reason db = Inr (nxt, db')"
  shows "map_option ct_controller (control_of db' t) =
     Some (case nxt of None \<Rightarrow> None | Some e \<Rightarrow> be_MemberID e)"
proof -
  have st: "stack_ok db" using ok by (simp add: db_ok_def)
  from pop obtain isTop db1 where e: "pop_entry t m reason db = Inr (isTop, db1)"
    by (auto simp: Pop_def bindr_Inr_iff)
  have st1: "stack_ok db1" using pop_entry_db_ok [OF ok e] by (simp add: db_ok_def)
  have top: "isTop" if "stack_of db1 t = []"
  proof -
    have "members_of db1 t = filter (\<lambda>x. x \<noteq> m) (members_of db t)"
      using pop_entry_shape [OF st e] by (intro members_of_filter [OF st]) simp
    with that members_of_nil [of db1 t] have "\<forall>x \<in> set (members_of db t). x = m"
      by (auto simp: filter_empty_conv)
    with pop_entry_shape [OF st e] show ?thesis by (metis last_in_set length_pos_if_in_set list.size(3) less_irrefl)
  qed
  have mem: "sk_member_id r \<noteq> None" if "first_max sk_position (stack_of db1 t) = Some r" for r
    using that stack_of_member [OF st1, of r t] by (auto dest: first_max_Some)
  from pop e obtain th :: thread_row where th: "thread_of db1 t = Some th"
    by (auto simp: Pop_def Let_def split: option.splits)
  show ?thesis
    using pop e th top mem unfolding Pop_def
    by (auto simp: Let_def joined_stack [OF st1, simplified] control_of_alt thread_of_update_thread
        split: option.splits if_splits)
qed

text \<open>Clear, set and restore.\<close>

lemma Clear_control:
  "control_of (snd (ClearController t db)) t' =
     (if t' = t then map_option spec_clear (control_of db t') else control_of db t')"
  by (cases "thread_of db t")
     (auto simp: ClearController_def thread_of_update_thread control_of_alt spec_clear_def)

lemma Clear_db_ok: "db_ok db \<Longrightarrow> db_ok (snd (ClearController t db))"
  by (cases "thread_of db t") (auto simp: ClearController_def intro!: update_thread_db_ok)

lemma SetController_control:
  "SetController t m db = Inr db' \<Longrightarrow> control_of db' t' =
     (if t' = t then map_option (\<lambda>c. c\<lparr>ct_controller := Some m\<rparr>) (control_of db t') else control_of db t')"
  by (auto simp: SetController_def thread_of_update_thread control_of_alt option.map_comp comp_def
      split: if_splits)

lemma SetController_db_ok: "db_ok db \<Longrightarrow> SetController t m db = Inr db' \<Longrightarrow> db_ok db'"
  by (auto simp: SetController_def intro!: update_thread_db_ok split: if_splits)

definition candidate_of :: "db \<Rightarrow> thread_row \<Rightarrow> uuid \<Rightarrow> uuid option" where
  "candidate_of db th t = (if members_of db t = [] then th_owner_bot_id th else Some (last (members_of db t)))"

lemma candidate_eq:
  assumes "stack_ok db"
  shows "(case first_max sk_position (filter (\<lambda>r. sk_member_id r \<noteq> None) (stack_of db t)) of
      Some r \<Rightarrow> sk_member_id r | None \<Rightarrow> th_owner_bot_id th) = candidate_of db th t"
proof -
  have "filter (\<lambda>r. sk_member_id r \<noteq> None) (stack_of db t) = stack_of db t"
    using stack_of_member [OF assms, of _ t] by (fastforce simp: filter_id_conv)
  then show ?thesis
    using top_member [OF assms, of t]
    by (auto simp: candidate_of_def members_of_nil split: option.splits if_splits)
qed

lemma Restore_state:
  assumes "stack_ok db"
  shows "snd (RestoreController t db) =
     (case thread_of db t of None \<Rightarrow> db
      | Some th \<Rightarrow> if th_bot_controller_id th = None \<and> candidate_of db th t \<noteq> None
                   then update_thread t (\<lambda>x. x\<lparr>th_bot_controller_id := candidate_of db th t\<rparr>) db else db)"
  unfolding RestoreController_def candidate_eq [OF assms] Let_def
  by (auto split: option.splits)

lemma Restore_control:
  assumes "stack_ok db"
  shows "control_of (snd (RestoreController t db)) t' =
     (if t' = t then map_option spec_restore (control_of db t') else control_of db t')"
  by (cases "thread_of db t")
     (auto simp: Restore_state [OF assms] thread_of_update_thread control_of_alt spec_restore_def
        candidate_of_def split: option.splits)

lemma Restore_db_ok: "db_ok db \<Longrightarrow> db_ok (snd (RestoreController t db))"
  by (auto simp: Restore_state db_ok_def [THEN iffD1, THEN conjunct2, THEN conjunct2, THEN conjunct1]
      intro!: update_thread_db_ok split: option.splits)

section \<open>The interface its clients use\<close>

text \<open>
  A control store is anything that keeps, per thread, a control value and moves it by the
  contract's transitions. The statements of \<^verbatim>\<open>botControlStore\<close> are one (below); the lemmas of
  the locale are what the service may rely on whatever the store.
\<close>

locale control_store =
  fixes invar :: "'s \<Rightarrow> bool"
    and view :: "'s \<Rightarrow> uuid \<Rightarrow> control option"
    and admits :: "'s \<Rightarrow> uuid \<Rightarrow> uuid \<Rightarrow> bool"
    and push :: "uuid \<Rightarrow> uuid \<Rightarrow> 's \<Rightarrow> 's res"
    and pop :: "uuid \<Rightarrow> uuid \<Rightarrow> BotControlReason \<Rightarrow> 's \<Rightarrow> 's res"
    and clear :: "uuid \<Rightarrow> 's \<Rightarrow> 's"
    and restore :: "uuid \<Rightarrow> 's \<Rightarrow> 's"
  assumes push_invar: "invar s \<Longrightarrow> admits s t m \<Longrightarrow> push t m s = Inr s' \<Longrightarrow> invar s'"
    and push_view: "invar s \<Longrightarrow> push t m s = Inr s' \<Longrightarrow>
      \<exists>c w. view s t = Some c \<and> m \<notin> set (ct_stack c) \<and> view s' = (view s)(t \<mapsto> spec_push m w c)"
    and pop_invar: "invar s \<Longrightarrow> pop t m r s = Inr s' \<Longrightarrow> invar s'"
    and pop_view: "invar s \<Longrightarrow> pop t m r s = Inr s' \<Longrightarrow>
      \<exists>c. view s t = Some c \<and> m \<in> set (ct_stack c) \<and> view s' = (view s)(t \<mapsto> spec_pop m r c)"
    and pop_total: "invar s \<Longrightarrow> view s t = Some c \<Longrightarrow> m \<in> set (ct_stack c) \<Longrightarrow> \<exists>s'. pop t m r s = Inr s'"
    and clear_invar: "invar s \<Longrightarrow> invar (clear t s)"
    and clear_view: "invar s \<Longrightarrow> view (clear t s) = (view s)(t := map_option spec_clear (view s t))"
    and restore_invar: "invar s \<Longrightarrow> invar (restore t s)"
    and restore_view: "invar s \<Longrightarrow> view (restore t s) = (view s)(t := map_option spec_restore (view s t))"
begin

definition controlled :: "'s \<Rightarrow> bool" where
  "controlled s \<longleftrightarrow> invar s \<and> (\<forall>t c. view s t = Some c \<longrightarrow> control_inv c)"

lemma controlled_push: "controlled s \<Longrightarrow> admits s t m \<Longrightarrow> push t m s = Inr s' \<Longrightarrow> controlled s'"
  unfolding controlled_def using push_invar [of s t m s'] push_view [of s t m s']
  by (auto intro!: spec_push_inv split: if_splits)

lemma controlled_pop: "controlled s \<Longrightarrow> pop t m r s = Inr s' \<Longrightarrow> controlled s'"
  unfolding controlled_def using pop_invar [of s t m r s'] pop_view [of s t m r s']
  by (auto intro!: spec_pop_inv split: if_splits)

lemma controlled_clear: "controlled s \<Longrightarrow> controlled (clear t s)"
  unfolding controlled_def
  by (auto simp: clear_view intro: clear_invar spec_clear_inv split: if_splits)

lemma controlled_restore: "controlled s \<Longrightarrow> controlled (restore t s)"
  unfolding controlled_def
  by (auto simp: restore_view intro: restore_invar spec_restore_inv split: if_splits)

text \<open>A bot that is pushed and then finishes gives control back to where it was.\<close>

lemma push_pop:
  assumes inv: "invar s" and adm: "admits s t m" and push: "push t m s = Inr s1"
    and r: "r \<noteq> ReasonHandoff" "r \<noteq> ReasonClientLeave" and c: "view s t = Some c"
    and held: "ct_controller c = (if ct_stack c = [] then ct_owner c else Some (last (ct_stack c)))"
    and owned: "ct_owner c \<noteq> None"
  shows "\<exists>s2. pop t m r s1 = Inr s2 \<and> view s2 = view s"
proof -
  obtain w where w: "m \<notin> set (ct_stack c)" "view s1 = (view s)(t \<mapsto> spec_push m w c)"
    using push_view [OF inv push] c by auto
  have inv1: "invar s1" by (rule push_invar [OF inv adm push])
  have "m \<in> set (ct_stack (spec_push m w c))" by (simp add: spec_push_def)
  then obtain s2 where s2: "pop t m r s1 = Inr s2"
    using pop_total [OF inv1, of t "spec_push m w c"] w(2) by auto
  have "filter (\<lambda>x. x \<noteq> m) (ct_stack c) = ct_stack c" using w(1) by (auto simp: filter_id_conv)
  then have "spec_pop m r (spec_push m w c) = c"
    using held r owned by (intro control.equality) (auto simp: spec_pop_def spec_push_def Let_def)
  with pop_view [OF inv1 s2] w(2) c have "view s2 = view s" by auto
  with s2 show ?thesis by blast
qed

text \<open>The owner of a thread is decided once.\<close>

lemma push_owner: "invar s \<Longrightarrow> push t m s = Inr s' \<Longrightarrow> view s t' = Some c \<Longrightarrow> ct_owner c = Some w \<Longrightarrow>
    \<exists>c'. view s' t' = Some c' \<and> ct_owner c' = Some w"
  by (auto dest!: push_view simp: spec_push_def)

lemma pop_owner: "invar s \<Longrightarrow> pop t m r s = Inr s' \<Longrightarrow> view s t' = Some c \<Longrightarrow> ct_owner c = Some w \<Longrightarrow>
    \<exists>c'. view s' t' = Some c' \<and> ct_owner c' = Some w"
  by (auto dest!: pop_view simp: spec_pop_def Let_def)

text \<open>Restoring after clearing hands control to the top of the stack, else to the owner.\<close>

lemma clear_restore:
  assumes "invar s" "view s t = Some c"
    "ct_controller c = (if ct_stack c = [] then ct_owner c else Some (last (ct_stack c)))"
  shows "view (restore t (clear t s)) = view s"
proof -
  have "spec_restore (spec_clear c) = c"
    using assms(3) by (intro control.equality) (auto simp: spec_restore_def spec_clear_def)
  with assms(1,2) show ?thesis by (auto simp: clear_view restore_view clear_invar)
qed

end

definition push_member :: "uuid \<Rightarrow> uuid \<Rightarrow> db \<Rightarrow> db res" where
  "push_member t m db = bindr (Push \<lparr>bt_ThreadID = t, bt_NewMemberID = m, bt_PrevMemberID = None,
     bt_Reason = ReasonTransfer, bt_TriggeredBy = None\<rparr> db) (\<lambda>(_, db'). Inr db')"

definition pop_member :: "uuid \<Rightarrow> uuid \<Rightarrow> BotControlReason \<Rightarrow> db \<Rightarrow> db res" where
  "pop_member t m r db = bindr (Pop t m r db) (\<lambda>(_, db'). Inr db')"

definition member_of_thread :: "db \<Rightarrow> uuid \<Rightarrow> uuid \<Rightarrow> bool" where
  "member_of_thread db t m = (case dialog_of db m of None \<Rightarrow> False | Some d \<Rightarrow> dl_thread_id d = t)"

lemma Push_only_ids:
  "bt_ThreadID tr = bt_ThreadID tr' \<Longrightarrow> bt_NewMemberID tr = bt_NewMemberID tr' \<Longrightarrow> Push tr db = Push tr' db"
  by (simp add: Push_def)

lemma push_member_view:
  assumes "db_ok db" "push_member t m db = Inr db'"
  shows "\<exists>c w. control_of db t = Some c \<and> m \<notin> set (ct_stack c)
     \<and> control_of db' = (control_of db)(t \<mapsto> spec_push m w c)"
proof -
  let ?tr = "\<lparr>bt_ThreadID = t, bt_NewMemberID = m, bt_PrevMemberID = None,
     bt_Reason = ReasonTransfer, bt_TriggeredBy = None\<rparr>"
  have st: "stack_ok db" using assms(1) by (simp add: db_ok_def)
  from assms(2) obtain prev where p: "Push ?tr db = Inr (prev, db')"
    by (auto simp: push_member_def bindr_Inr_iff)
  obtain th :: thread_row where "thread_of db t = Some th" "m \<notin> set (members_of db t)"
    using Push_shape [OF st p] by auto
  then have "control_of db t = Some \<lparr>ct_stack = members_of db t, ct_controller = th_bot_controller_id th,
      ct_owner = th_owner_bot_id th\<rparr>" "m \<notin> set (members_of db t)" by (simp_all add: control_of_alt)
  moreover have "control_of db' = (control_of db)(t := map_option (spec_push m (untracked_bot db t)) (control_of db t))"
    using Push_control [OF st p] by (auto simp: fun_eq_iff)
  ultimately show ?thesis by auto
qed

lemma pop_member_view:
  assumes "db_ok db" "pop_member t m r db = Inr db'"
  shows "\<exists>c. control_of db t = Some c \<and> m \<in> set (ct_stack c)
     \<and> control_of db' = (control_of db)(t \<mapsto> spec_pop m r c)"
proof -
  from assms(2) obtain nxt where p: "Pop t m r db = Inr (nxt, db')"
    by (auto simp: pop_member_def bindr_Inr_iff)
  obtain th :: thread_row where "thread_of db t = Some th" "m \<in> set (members_of db t)"
    using Pop_shape [OF assms(1) p] by auto
  then have "control_of db t = Some \<lparr>ct_stack = members_of db t, ct_controller = th_bot_controller_id th,
      ct_owner = th_owner_bot_id th\<rparr>" "m \<in> set (members_of db t)" by (simp_all add: control_of_alt)
  moreover have "control_of db' = (control_of db)(t := map_option (spec_pop m r) (control_of db t))"
    using Pop_control [OF assms(1) p] by (auto simp: fun_eq_iff)
  ultimately show ?thesis by auto
qed

interpretation bcs: control_store db_ok control_of member_of_thread push_member pop_member
  "\<lambda>t db. snd (ClearController t db)" "\<lambda>t db. snd (RestoreController t db)"
proof (unfold_locales, goal_cases)
  case (1 s t m s')
  then show ?case
    by (auto simp: push_member_def bindr_Inr_iff member_of_thread_def intro: Push_db_ok split: option.splits)
next
  case (2 s t m s')
  then show ?case by (rule push_member_view)
next
  case (3 s t m r s')
  then show ?case by (auto simp: pop_member_def bindr_Inr_iff intro: Pop_db_ok)
next
  case (4 s t m r s')
  then show ?case by (rule pop_member_view)
next
  case (5 s t c m r)
  then have "thread_of s t \<noteq> None" "m \<in> set (members_of s t)" by (auto simp: control_of_alt)
  with 5 Pop_fails_iff [of s t m r] obtain a where "Pop t m r s = Inr a"
    by (cases "Pop t m r s") auto
  then show ?case by (cases a) (simp add: pop_member_def)
next
  case (6 s t)
  then show ?case by (rule Clear_db_ok)
next
  case (7 s t)
  show ?case by (auto simp: fun_eq_iff Clear_control)
next
  case (8 s t)
  then show ?case by (rule Restore_db_ok)
next
  case (9 s t)
  then show ?case by (auto simp: fun_eq_iff Restore_control db_ok_def)
qed

section \<open>Properties\<close>

definition example_dialog :: "uuid \<Rightarrow> uuid \<Rightarrow> bool \<Rightarrow> ThreadRole \<Rightarrow> dialog_row" where
  "example_dialog i contact isbot role =
     \<lparr>dl_id = i, dl_domain_id = 7, dl_created_at = int i, dl_updated_at = int i, dl_deleted_at = None,
      dl_invited_by = None, dl_leave_reason = None, dl_member_id = contact, dl_thread_id = 6,
      dl_thread_role = role, dl_via = None, dl_queue_id = None, dl_is_bot = isbot, dl_auto_leave = False,
      dl_unread_count = 0, dl_last_read_seq = None, dl_last_delivered_seq = None,
      dl_last_read_message_id = None\<rparr>"

text \<open>A thread with its owner bot (dialog 2, in control), a second bot (3) and a client (4).\<close>

definition bots_db :: db where
  "bots_db = example_db\<lparr>
     db_threads := [example_thread\<lparr>th_bot_controller_id := Some 2, th_owner_bot_id := Some 2\<rparr>],
     db_dialogs := [example_dialog 2 52 True RoleOwner, example_dialog 3 53 True RoleMember,
                    example_dialog 4 54 False RoleMember],
     db_stack := [\<lparr>sk_id = 5, sk_thread_id = 6, sk_member_id = Some 2, sk_position = 0\<rparr>]\<rparr>"

lemmas bots_defs = bots_db_def example_dialog_def example_defs

lemma bots_db_ok: "db_ok bots_db"
  by (simp add: db_ok_def threads_ok_def dialogs_ok_def stack_ok_def bots_defs dialog_of_def active_def)

lemma bots_db_thread: "thread_of bots_db 6 = Some (example_thread\<lparr>th_bot_controller_id := Some 2, th_owner_bot_id := Some 2\<rparr>)"
  by (simp add: thread_of_def bots_defs)

lemma bots_db_members: "members_of bots_db 6 = [2]"
  by (simp add: members_of_def stack_of_def bots_defs)

lemma bots_db_control:
  "control_of bots_db 6 = Some \<lparr>ct_stack = [2], ct_controller = Some 2, ct_owner = Some 2\<rparr>"
  by (simp add: control_of_alt bots_db_thread bots_db_members)

text \<open>
  C9. \<^verbatim>\<open>Pop\<close> refines the abstract removal: it succeeds exactly on a member of the stack; then the
  member is gone and the others keep their order, control goes to nobody on a handoff, else to
  the new top, else (empty stack) to the owner, or to nobody when the client left; the entry it
  returns names the new controller and is absent exactly when there is none; no other thread is
  touched and the schema's constraints still hold.
\<close>

theorem Pop_refines:
  assumes "db_ok db" "control_of db t = Some c"
  shows "(m \<notin> set (ct_stack c) \<longrightarrow> Pop t m reason db = Inl (Err NotFound ''member not found in bot control stack''))
    \<and> (m \<in> set (ct_stack c) \<longrightarrow> (\<exists>next db'. Pop t m reason db = Inr (next, db') \<and> db_ok db'
         \<and> control_of db' = (control_of db)(t \<mapsto> spec_pop m reason c)
         \<and> (case next of None \<Rightarrow> None | Some e \<Rightarrow> be_MemberID e) = ct_controller (spec_pop m reason c)))"
proof (intro conjI impI)
  have st: "stack_ok db" using assms by (simp add: db_ok_def)
  have c: "ct_stack c = members_of db t" using assms(2) by (auto simp: control_of_alt)
  {
    assume "m \<notin> set (ct_stack c)"
    then have "find (\<lambda>r. sk_member_id r = Some m) (stack_of db t) = None"
      by (auto simp: find_None_iff c set_members_of [OF st])
    then show "Pop t m reason db = Inl (Err NotFound ''member not found in bot control stack'')"
      by (simp add: Pop_def pop_entry_def)
  next
    assume m: "m \<in> set (ct_stack c)"
    have "thread_of db t \<noteq> None" using assms(2) by (auto simp: control_of_alt)
    then obtain nxt db' where p: "Pop t m reason db = Inr (nxt, db')"
      using Pop_fails_iff [OF assms(1), of t m reason] m c by (cases "Pop t m reason db") auto
    have "control_of db' = (control_of db)(t \<mapsto> spec_pop m reason c)"
      using Pop_control [OF assms(1) p] assms(2) by (auto simp: fun_eq_iff)
    moreover have "(case nxt of None \<Rightarrow> None | Some e \<Rightarrow> be_MemberID e) = ct_controller (spec_pop m reason c)"
      using Pop_next [OF assms(1) p] \<open>control_of db' = _\<close> by (simp add: control_of_alt)
    ultimately show "\<exists>next db'. Pop t m reason db = Inr (next, db') \<and> db_ok db'
         \<and> control_of db' = (control_of db)(t \<mapsto> spec_pop m reason c)
         \<and> (case next of None \<Rightarrow> None | Some e \<Rightarrow> be_MemberID e) = ct_controller (spec_pop m reason c)"
      using p Pop_db_ok [OF assms(1) p] by blast
  }
qed

theorem Pop_refines_witness:
  "(\<exists>next db'. Pop 6 2 ReasonHandoff bots_db = Inr (next, db') \<and> db_ok db'
       \<and> (case next of None \<Rightarrow> None | Some e \<Rightarrow> be_MemberID e) = None)
   \<and> Pop 6 3 ReasonHandoff bots_db = Inl (Err NotFound ''member not found in bot control stack'')"
proof -
  note r = Pop_refines [OF bots_db_ok bots_db_control]
  have "\<exists>next db'. Pop 6 2 ReasonHandoff bots_db = Inr (next, db') \<and> db_ok db'
       \<and> (case next of None \<Rightarrow> None | Some e \<Rightarrow> be_MemberID e) = None"
    using r [of 2 ReasonHandoff] by (auto simp: spec_pop_def)
  moreover have "Pop 6 3 ReasonHandoff bots_db = Inl (Err NotFound ''member not found in bot control stack'')"
    using r [of 3 ReasonHandoff] by simp
  ultimately show ?thesis by blast
qed

end
