(* ===== verification/Text_Entities.thy ===== *)
theory Text_Entities
  imports Shared
begin

text \<open>
  \<^verbatim>\<open>internal/domain/model/mesaage_processing.go\<close>: text entities of a message body. A Go string is
  its list of bytes. The two regular expressions are written out as the scanners they denote:
  every piece of them is deterministic, so leftmost-first matching needs no backtracking.
  Entities carry offsets that arrive as 32-bit protobuf fields, so the sums below do not overflow
  Go's 64-bit \<^verbatim>\<open>int\<close>. The grapheme counter and the NFC normaliser are packages outside the
  repository and are parameters.
\<close>

section \<open>UTF-8\<close>

definition byte :: "char \<Rightarrow> nat" where
  "byte c = of_char c"

text \<open>\<^verbatim>\<open>utf8.RuneStart\<close>: not a continuation byte 10xxxxxx.\<close>

definition RuneStart :: "char \<Rightarrow> bool" where
  "RuneStart c = (byte c div 64 \<noteq> 2)"

definition cont_in :: "nat \<Rightarrow> nat \<Rightarrow> string \<Rightarrow> nat \<Rightarrow> bool" where
  "cont_in lo hi s i = (i < length s \<and> lo \<le> byte (s ! i) \<and> byte (s ! i) \<le> hi)"

text \<open>The width of the first rune; an invalid sequence is one byte wide, as \<^verbatim>\<open>DecodeRune\<close> has it.\<close>

definition rune_width :: "string \<Rightarrow> nat" where
  "rune_width s =
     (case s of [] \<Rightarrow> 0
      | c # _ \<Rightarrow>
         (let b = byte c; lo = (if b = 224 then 160 else if b = 240 then 144 else 128);
              hi = (if b = 237 then 159 else if b = 244 then 143 else 191)
          in if 194 \<le> b \<and> b \<le> 223 \<and> cont_in 128 191 s 1 then 2
             else if 224 \<le> b \<and> b \<le> 239 \<and> cont_in lo hi s 1 \<and> cont_in 128 191 s 2 then 3
             else if 240 \<le> b \<and> b \<le> 244 \<and> cont_in lo hi s 1 \<and> cont_in 128 191 s 2
                     \<and> cont_in 128 191 s 3 then 4
             else 1))"

section \<open>The regular expressions\<close>

text \<open>\<^verbatim>\<open>\s\<close> is tab, newline, form feed, carriage return, space; \<^verbatim>\<open>\w\<close> is ASCII.\<close>

definition is_space :: "char \<Rightarrow> bool" where
  "is_space c = (byte c \<in> {9, 10, 12, 13, 32})"

definition is_word :: "char \<Rightarrow> bool" where
  "is_word c = (48 \<le> byte c \<and> byte c \<le> 57 \<or> 65 \<le> byte c \<and> byte c \<le> 90
                \<or> byte c = 95 \<or> 97 \<le> byte c \<and> byte c \<le> 122)"

text \<open>\<^verbatim>\<open>@[\w]+\<close>: the length of the match at the start of the string, if there is one.\<close>

definition match_mention :: "string \<Rightarrow> nat option" where
  "match_mention s =
     (case s of [] \<Rightarrow> None
      | c # r \<Rightarrow> let n = length (takeWhile is_word r)
                 in if c = CHR ''@'' \<and> 0 < n then Some (Suc n) else None)"

definition starts_with :: "string \<Rightarrow> string \<Rightarrow> bool" where
  "starts_with p s = (take (length p) s = p)"

text \<open>\<^verbatim>\<open>https?://[^\s/$.?#].[^\s]*\<close>.\<close>

definition match_link :: "string \<Rightarrow> nat option" where
  "match_link s =
     (let h = (if starts_with ''https://'' s then 8 else if starts_with ''http://'' s then 7 else 0);
          r = drop h s; w = rune_width r; r' = drop w r; w' = rune_width r'
      in if h = 0 \<or> r = [] \<or> is_space (hd r) \<or> hd r \<in> set ''/$.?#'' \<or> r' = [] \<or> byte (hd r') = 10 then None
         else Some (h + w + w' + length (takeWhile (\<lambda>c. \<not> is_space c) (drop w' r'))))"

text \<open>
  \<^verbatim>\<open>FindAllStringIndex(text, -1)\<close>: leftmost matches from left to right, the search resuming at the
  end of the previous match. Both expressions match only non-empty strings.
\<close>

function find_all :: "(string \<Rightarrow> nat option) \<Rightarrow> nat \<Rightarrow> string \<Rightarrow> (nat \<times> nat) list" where
  "find_all m i s =
     (case s of [] \<Rightarrow> []
      | c # r \<Rightarrow>
         (case m s of
            Some (Suc n) \<Rightarrow> (i, i + Suc n) # find_all m (i + Suc n) (drop n r)
          | _ \<Rightarrow> find_all m (Suc i) r))"
  by pat_completeness auto
termination
  by (relation "measure (\<lambda>(m, i, s). length s)") auto

declare find_all.simps [simp del]

section \<open>Entities\<close>

definition slice :: "string \<Rightarrow> nat \<Rightarrow> nat \<Rightarrow> string" where
  "slice s i j = take (j - i) (drop i s)"

definition collect :: "string \<Rightarrow> (string \<Rightarrow> nat option) \<Rightarrow> string \<Rightarrow> Entity list" where
  "collect text re ty =
     map (\<lambda>(i, j). \<lparr>en_Type = ty, en_Offset = int i, en_Length = int j - int i, en_Value = slice text i j\<rparr>)
         (find_all re 0 text)"

definition extractEntities :: "string \<Rightarrow> Entity list" where
  "extractEntities text = collect text match_link ''link'' @ collect text match_mention ''mention''"

definition overlaps :: "Entity \<Rightarrow> Entity \<Rightarrow> bool" where
  "overlaps c e = (en_Offset c < en_Offset e + en_Length e \<and> en_Offset e < en_Offset c + en_Length c)"

fun nonOverlapping :: "Entity list \<Rightarrow> Entity list \<Rightarrow> Entity list" where
  "nonOverlapping [] existing = []"
| "nonOverlapping (c # cs) existing =
     (if \<exists>e \<in> set existing. overlaps c e then nonOverlapping cs existing
      else c # nonOverlapping cs existing)"

text \<open>The test of one entity: inside the text, and both ends on rune boundaries.\<close>

definition valid_entity :: "string \<Rightarrow> Entity \<Rightarrow> bool" where
  "valid_entity text e =
     (let n = int (length text); fin = en_Offset e + en_Length e
      in if en_Offset e < 0 \<or> en_Length e \<le> 0 \<or> fin > n then False
         else if \<not> RuneStart (text ! nat (en_Offset e)) then False
         else if fin < n \<and> \<not> RuneStart (text ! nat fin) then False
         else True)"

definition validateEntityBounds :: "string \<Rightarrow> Entity list \<Rightarrow> Entity list" where
  "validateEntityBounds text es = filter (valid_entity text) es"

definition metadata_entities :: "string \<Rightarrow> Entity list \<Rightarrow> Entity list" where
  "metadata_entities text entities =
     validateEntityBounds text
       (if entities = [] then extractEntities text
        else entities @ nonOverlapping (extractEntities text) entities)"

definition BuildMetadata :: "(string \<Rightarrow> int) \<Rightarrow> string \<Rightarrow> Entity list \<Rightarrow> metadata" where
  "BuildMetadata graphemes text entities =
     [''entities'' \<mapsto> VEntities (metadata_entities text entities), ''graphemes'' \<mapsto> VInt (graphemes text)]"

text \<open>
  \<^verbatim>\<open>DecodeEntitiesFromMetadata\<close> for maps built in this process; entries that came back from the
  database go through the JSON decoder, a parameter here.
\<close>

definition DecodeEntitiesFromMetadata :: "(anyv \<Rightarrow> Entity list option) \<Rightarrow> metadata \<Rightarrow> Entity list" where
  "DecodeEntitiesFromMetadata json m =
     (case m ''entities'' of
        None \<Rightarrow> [] | Some VNil \<Rightarrow> []
      | Some (VEntities es) \<Rightarrow> es
      | Some v \<Rightarrow> (case json v of None \<Rightarrow> [] | Some es \<Rightarrow> es))"

section \<open>Correctness\<close>

lemma nonOverlapping_filter: "nonOverlapping cs ex = filter (\<lambda>c. \<not> (\<exists>e \<in> set ex. overlaps c e)) cs"
  by (induction cs) auto

text \<open>The matches are in order, disjoint, inside the string, and each is a match at its position.\<close>

lemma find_all_sound:
  assumes "\<And>s n. m s = Some n \<Longrightarrow> n \<le> length s" and "i \<le> length text"
  shows "\<forall>(a, b) \<in> set (find_all m i (drop i text)).
     i \<le> a \<and> a < b \<and> b \<le> length text \<and> m (drop a text) = Some (b - a)"
  using assms(2)
proof (induction "length text - i" arbitrary: i rule: less_induct)
  case less
  show ?case
  proof (cases "drop i text")
    case Nil
    then show ?thesis by (simp add: find_all.simps)
  next
    case (Cons c r)
    then have i: "i < length text" by (metis drop_all linorder_not_less list.distinct(1))
    have r: "r = drop (Suc i) text" using Cons by (metis drop_Suc list.sel(3) tl_drop)
    show ?thesis
    proof (cases "\<exists>n. m (drop i text) = Some (Suc n)")
      case True
      then obtain n where n: "m (drop i text) = Some (Suc n)" by blast
      then have le: "i + Suc n \<le> length text" using assms(1) [OF n] by simp
      have step: "find_all m i (drop i text) = (i, i + Suc n) # find_all m (i + Suc n) (drop (i + Suc n) text)"
        using Cons n by (subst find_all.simps) (simp add: r add.commute)
      have "\<forall>(a, b) \<in> set (find_all m (i + Suc n) (drop (i + Suc n) text)).
          i + Suc n \<le> a \<and> a < b \<and> b \<le> length text \<and> m (drop a text) = Some (b - a)"
        by (rule less) (use i le in auto)
      then show ?thesis unfolding step using n le by fastforce
    next
      case False
      then have step: "find_all m i (drop i text) = find_all m (Suc i) (drop (Suc i) text)"
        using Cons by (subst find_all.simps) (auto simp: r split: option.splits nat.splits)
      have "\<forall>(a, b) \<in> set (find_all m (Suc i) (drop (Suc i) text)).
          Suc i \<le> a \<and> a < b \<and> b \<le> length text \<and> m (drop a text) = Some (b - a)"
        by (rule less) (use i in auto)
      then show ?thesis unfolding step by fastforce
    qed
  qed
qed

lemma cont_inD: "cont_in lo hi s i \<Longrightarrow> i < length s"
  by (simp add: cont_in_def)

lemma rune_width_le: "rune_width s \<le> length s"
proof (cases s)
  case (Cons c r)
  have "rune_width s \<in> {1, 2, 3, 4}" "rune_width s = 2 \<Longrightarrow> cont_in 128 191 s 1"
    "rune_width s = 3 \<Longrightarrow> cont_in 128 191 s 2" "rune_width s = 4 \<Longrightarrow> cont_in 128 191 s 3"
    unfolding rune_width_def Let_def Cons list.case by (simp_all split: if_splits)
  then have "rune_width s = 1 \<or> rune_width s \<le> length s" by (auto dest!: cont_inD)
  with Cons show ?thesis by auto
qed (simp add: rune_width_def)

lemma match_link_le: "match_link s = Some n \<Longrightarrow> n \<le> length s"
proof -
  assume m: "match_link s = Some n"
  define h where "h = (if starts_with ''https://'' s then 8 else if starts_with ''http://'' s then 7 else (0::nat))"
  define r where "r = drop h s"
  define r' where "r' = drop (rune_width r) r"
  from m have n: "n = h + rune_width r + rune_width r' +
      length (takeWhile (\<lambda>c. \<not> is_space c) (drop (rune_width r') r'))" "h \<noteq> 0" "r \<noteq> []"
    unfolding match_link_def h_def r_def r'_def Let_def by (auto split: if_splits)
  have "length (takeWhile (\<lambda>c. \<not> is_space c) (drop (rune_width r') r')) \<le> length r' - rune_width r'"
    by (metis length_drop length_takeWhile_le)
  moreover have "rune_width r' \<le> length r'" "length r' = length r - rune_width r" "rune_width r \<le> length r"
    using rune_width_le [of r'] by (simp_all add: rune_width_le r'_def)
  moreover have "h + length r = length s"
    using n(3) unfolding r_def by auto
  ultimately show ?thesis using n(1) by linarith
qed

lemma match_mention_le: "match_mention s = Some n \<Longrightarrow> n \<le> length s"
  by (auto simp: match_mention_def Let_def length_takeWhile_le split: list.splits if_splits)

lemma starts_with_take:
  assumes "starts_with p s" "length p \<le> n"
  shows "\<exists>r. take n s = p @ r"
proof -
  have "take n s = take (length p) s @ drop (length p) (take n s)"
    by (metis append_take_drop_id assms(2) min.absorb1 take_take)
  with assms(1) show ?thesis unfolding starts_with_def by metis
qed

lemma collect_sound:
  assumes m: "\<And>s n. re s = Some n \<Longrightarrow> n \<le> length s" and e: "e \<in> set (collect text re ty)"
  shows "en_Type e = ty \<and> 0 \<le> en_Offset e \<and> 0 < en_Length e \<and> en_Offset e + en_Length e \<le> int (length text)
    \<and> en_Value e = take (nat (en_Length e)) (drop (nat (en_Offset e)) text)
    \<and> re (drop (nat (en_Offset e)) text) = Some (nat (en_Length e))"
proof -
  from e obtain a b where ab: "(a, b) \<in> set (find_all re 0 text)"
      and e': "e = \<lparr>en_Type = ty, en_Offset = int a, en_Length = int b - int a, en_Value = slice text a b\<rparr>"
    by (auto simp: collect_def)
  have "a < b" "b \<le> length text" "re (drop a text) = Some (b - a)"
    using find_all_sound [of re 0 "text"] m ab by auto
  then show ?thesis by (auto simp: e' slice_def nat_diff_distrib)
qed

text \<open>
  C18. Every entity stored with a message can be sliced out of its body: it lies inside the text,
  is not empty, and both of its ends are on rune boundaries, whatever spans the caller supplied.
  The caller's own entities that pass that test come first and in their order, and an entity the
  regular expressions add next to them overlaps none of them.
\<close>

theorem metadata_entities_correct:
  shows "(\<forall>e \<in> set (metadata_entities text entities).
       0 \<le> en_Offset e \<and> 0 < en_Length e \<and> en_Offset e + en_Length e \<le> int (length text)
     \<and> RuneStart (text ! nat (en_Offset e))
     \<and> (en_Offset e + en_Length e < int (length text) \<longrightarrow> RuneStart (text ! nat (en_Offset e + en_Length e))))
   \<and> (\<exists>added. metadata_entities text entities = filter (valid_entity text) entities @ added
        \<and> set added \<subseteq> set (extractEntities text)
        \<and> (\<forall>a \<in> set added. \<forall>e \<in> set entities. \<not> overlaps a e))"
proof (intro conjI exI)
  show "\<forall>e \<in> set (metadata_entities text entities).
       0 \<le> en_Offset e \<and> 0 < en_Length e \<and> en_Offset e + en_Length e \<le> int (length text)
     \<and> RuneStart (text ! nat (en_Offset e))
     \<and> (en_Offset e + en_Length e < int (length text) \<longrightarrow> RuneStart (text ! nat (en_Offset e + en_Length e)))"
    unfolding metadata_entities_def validateEntityBounds_def valid_entity_def Let_def
    by (auto split: if_splits)
  show "metadata_entities text entities = filter (valid_entity text) entities @
      filter (valid_entity text) (nonOverlapping (extractEntities text) entities)"
    by (simp add: metadata_entities_def validateEntityBounds_def nonOverlapping_filter)
qed (auto simp: nonOverlapping_filter)

text \<open>The witness: a caller span that splits the two-byte letter of the body is dropped.\<close>

theorem metadata_entities_correct_witness:
  "let text = ''a'' @ [CHR 0xC3, CHR 0xA9]; bad = \<lparr>en_Type = ''bold'', en_Offset = 0, en_Length = 2, en_Value = []\<rparr>;
       good = \<lparr>en_Type = ''bold'', en_Offset = 1, en_Length = 2, en_Value = []\<rparr>
   in (\<exists>added. metadata_entities text [bad, good] = [good] @ added \<and> set added \<subseteq> set (extractEntities text))"
proof -
  let ?t = "''a'' @ [CHR 0xC3, CHR 0xA9]"
  let ?b = "\<lparr>en_Type = ''bold'', en_Offset = 0, en_Length = 2, en_Value = []\<rparr>"
  let ?g = "\<lparr>en_Type = ''bold'', en_Offset = 1, en_Length = 2, en_Value = []\<rparr>"
  have "filter (valid_entity ?t) [?b, ?g] = [?g]"
    by (simp add: valid_entity_def RuneStart_def byte_def)
  with metadata_entities_correct [of ?t "[?b, ?g]"] show ?thesis by (simp only: Let_def) blast
qed

text \<open>
  C19. The regular expressions find what they are meant to: each extracted entity is a non-empty
  span of the body whose value is exactly that span; a link starts with http:// or https://, and
  a mention is an at sign followed by word characters only.
\<close>

theorem extractEntities_sound:
  assumes "e \<in> set (extractEntities text)"
  shows "en_Value e = take (nat (en_Length e)) (drop (nat (en_Offset e)) text)
    \<and> 0 \<le> en_Offset e \<and> 0 < en_Length e \<and> en_Offset e + en_Length e \<le> int (length text)
    \<and> (en_Type e = ''link'' \<and> (\<exists>r. en_Value e = ''http://'' @ r \<or> en_Value e = ''https://'' @ r)
       \<or> en_Type e = ''mention'' \<and> (\<exists>w. en_Value e = CHR ''@'' # w \<and> w \<noteq> [] \<and> (\<forall>c \<in> set w. is_word c)))"
proof -
  let ?s = "drop (nat (en_Offset e)) text" and ?n = "nat (en_Length e)"
  consider "e \<in> set (collect text match_link ''link'')" | "e \<in> set (collect text match_mention ''mention'')"
    using assms by (auto simp: extractEntities_def)
  then show ?thesis
  proof cases
    case 1
    have c: "match_link ?s = Some ?n" "en_Value e = take ?n ?s" "en_Type e = ''link''"
      using collect_sound [OF match_link_le 1] by auto
    have "starts_with ''https://'' ?s \<and> 8 \<le> ?n \<or> starts_with ''http://'' ?s \<and> 7 \<le> ?n"
      using c(1) unfolding match_link_def Let_def by (auto split: if_splits)
    then have "\<exists>r. take ?n ?s = ''http://'' @ r \<or> take ?n ?s = ''https://'' @ r"
      using starts_with_take [of "''https://''" ?s ?n] starts_with_take [of "''http://''" ?s ?n] by auto
    with c collect_sound [OF match_link_le 1] show ?thesis by auto
  next
    case 2
    have c: "match_mention ?s = Some ?n" "en_Value e = take ?n ?s" "en_Type e = ''mention''"
      using collect_sound [OF match_mention_le 2] by auto
    then obtain r where r: "?s = CHR ''@'' # r" "?n = Suc (length (takeWhile is_word r))" "takeWhile is_word r \<noteq> []"
      by (auto simp: match_mention_def Let_def split: list.splits if_splits)
    have "take ?n ?s = CHR ''@'' # takeWhile is_word r"
      using r(1,2) by (metis take_Suc_Cons takeWhile_eq_take)
    with r(3) c collect_sound [OF match_mention_le 2] show ?thesis by (auto dest: set_takeWhileD)
  qed
qed

theorem extractEntities_sound_witness:
  "\<exists>e \<in> set (extractEntities ''hi @bob''). en_Value e = ''@bob'' \<and> en_Offset e = 3"
proof -
  let ?e = "\<lparr>en_Type = ''mention'', en_Offset = 3, en_Length = 4, en_Value = ''@bob''\<rparr>"
  have e: "?e \<in> set (extractEntities ''hi @bob'')"
    by (simp add: extractEntities_def collect_def find_all.simps match_link_def match_mention_def
        starts_with_def is_word_def byte_def slice_def Let_def)
  from extractEntities_sound [OF e] e show ?thesis by (intro bexI [of _ ?e]) simp_all
qed

end
