(* ===== verification/Messages.thy ===== *)
theory Messages
  imports Dialogs Content Text_Entities
begin

text \<open>
  \<^verbatim>\<open>internal/domain/model\<close>: the message aggregate (\<^verbatim>\<open>message.go\<close>, \<^verbatim>\<open>attachments.go\<close>,
  \<^verbatim>\<open>message_content.go\<close>, \<^verbatim>\<open>message_factory.go\<close>, \<^verbatim>\<open>context.go\<close>): recipients, the staged domain
  events and the payload of \<^verbatim>\<open>message.created.v1\<close>. The request context carries the two values
  the code looks up in it; \<^verbatim>\<open>uuid.Validate\<close> is a package function and a parameter.
\<close>

section \<open>Types\<close>

type_synonym MessageType = int

abbreviation (input) MessageTypeUnknown :: MessageType where "MessageTypeUnknown \<equiv> 0"
abbreviation (input) MessageTypeText :: MessageType where "MessageTypeText \<equiv> 1"
abbreviation (input) MessageTypeFile :: MessageType where "MessageTypeFile \<equiv> 2"
abbreviation (input) MessageTypeImage :: MessageType where "MessageTypeImage \<equiv> 3"
abbreviation (input) MessageTypeSystem :: MessageType where "MessageTypeSystem \<equiv> 4"
abbreviation (input) MessageTypeInteractive :: MessageType where "MessageTypeInteractive \<equiv> 5"
abbreviation (input) MessageTypeLocation :: MessageType where "MessageTypeLocation \<equiv> 6"
abbreviation (input) MessageTypeContact :: MessageType where "MessageTypeContact \<equiv> 7"

definition messageTypeNames :: "MessageType \<rightharpoonup> string" where
  "messageTypeNames =
     [1 \<mapsto> ''text'', 2 \<mapsto> ''document'', 3 \<mapsto> ''image'', 4 \<mapsto> ''system'', 5 \<mapsto> ''interactive'',
      6 \<mapsto> ''location'', 7 \<mapsto> ''contact'']"

definition MessageType_String :: "MessageType \<Rightarrow> string" where
  "MessageType_String t = (case messageTypeNames t of Some s \<Rightarrow> s | None \<Rightarrow> ''text'')"

text \<open>Why \<^verbatim>\<open>DeleteMessages\<close> left a message untouched.\<close>

type_synonym MessageSkipReason = int

definition MessageSkipReason_String :: "MessageSkipReason \<Rightarrow> string" where
  "MessageSkipReason_String r =
     (if r = 1 then ''not_found'' else if r = 2 then ''not_author'' else if r = 3 then ''already_deleted''
      else if r = 4 then ''chat_closed'' else if r = 5 then ''not_allowed'' else ''unspecified'')"

record ReplyAttachment =
  ra_Kind :: string
  ra_Name :: "string option"
  ra_Mime :: "string option"
  ra_Address :: "string option"

record ReplyToPreview =
  rt_MessageID :: uuid
  rt_ThreadID :: uuid
  rt_SenderID :: uuid
  rt_Type :: MessageType
  rt_Body :: string
  rt_CreatedAt :: int
  rt_Attachment :: "ReplyAttachment option"
  rt_IsDeleted :: bool

type_synonym ForwardOriginKind = int

definition IsExternal :: "ForwardOriginKind \<Rightarrow> bool" where
  "IsExternal k = (k = 2 \<or> k = 3 \<or> k = 4)"

record ForwardOrigin =
  fo_Kind :: ForwardOriginKind
  fo_SenderID :: "uuid option"
  fo_SenderName :: string
  fo_SenderIss :: string
  fo_SenderSub :: string
  fo_OriginalSentAt :: int
  fo_SourceMessageID :: "uuid option"

record Message =
  m_ID :: uuid
  m_SendAs :: "uuid option"
  m_IdempotencyKey :: string
  m_ExternalID :: string
  m_ReplyToExternalID :: string
  m_ThreadID :: uuid
  m_DomainID :: int
  m_From :: Peer
  m_SendTo :: Peer
  m_To :: "ThreadDialog list"
  m_Body :: string
  m_Type :: MessageType
  m_Metadata :: metadata
  m_CreatedAt :: time
  m_UpdatedAt :: time
  m_Edited :: bool
  m_SenderID :: uuid
  m_MemberID :: uuid
  m_DeletedAt :: "time option"
  m_SkipReason :: MessageSkipReason
  m_Version :: int
  m_Seq :: int
  m_Images :: "MessageImage list"
  m_Documents :: "MessageDocument list"
  m_Location :: "MessageLocation option"
  m_Contact :: "MessageContact option"
  m_Interactive :: "MessageInteractive option"
  m_System :: "MessageSystem option"
  m_Member :: "ThreadDialog option"
  m_BotControllerMemberID :: "uuid option"
  m_ReplyTo :: "ReplyToPreview option"
  m_ForwardOrigin :: "ForwardOrigin option"
  m_domainEvents :: "event list"

definition zero_message :: Message where
  "zero_message =
     \<lparr>m_ID = uuid_nil, m_SendAs = None, m_IdempotencyKey = [], m_ExternalID = [], m_ReplyToExternalID = [], m_ThreadID = uuid_nil, m_DomainID = 0, m_From = empty_peer,
      m_SendTo = empty_peer, m_To = [], m_Body = [], m_Type = 0, m_Metadata = Map.empty,
      m_CreatedAt = time_zero, m_UpdatedAt = time_zero, m_Edited = False, m_SenderID = uuid_nil, m_MemberID = uuid_nil,
      m_DeletedAt = None, m_SkipReason = 0, m_Version = 0, m_Seq = 0, m_Images = [], m_Documents = [], m_Location = None,
      m_Contact = None, m_Interactive = None, m_System = None, m_Member = None,
      m_BotControllerMemberID = None, m_ReplyTo = None, m_ForwardOrigin = None, m_domainEvents = []\<rparr>"

record ctx =
  cx_jwt :: "string option"
  cx_device :: "string option"

section \<open>Methods\<close>

definition CreatedAtUnixMillis :: "Message \<Rightarrow> int" where
  "CreatedAtUnixMillis m = max (UnixMilli (m_CreatedAt m)) 0"

definition UpdatedAtUnixMillis :: "Message \<Rightarrow> int" where
  "UpdatedAtUnixMillis m = max (UnixMilli (m_UpdatedAt m)) 0"

definition NewInternalForwardOrigin :: "Message option \<Rightarrow> string \<Rightarrow> ForwardOrigin option" where
  "NewInternalForwardOrigin src senderName =
     map_option (\<lambda>m. \<lparr>fo_Kind = 1, fo_SenderID = Some (m_SenderID m), fo_SenderName = senderName,
        fo_SenderIss = [], fo_SenderSub = [], fo_OriginalSentAt = CreatedAtUnixMillis m,
        fo_SourceMessageID = Some (m_ID m)\<rparr>) src"

definition ForwardOrigin_AsEvent :: "ForwardOrigin option \<Rightarrow> ForwardOriginPayload option" where
  "ForwardOrigin_AsEvent f =
     map_option (\<lambda>o'. \<lparr>fp_Kind = fo_Kind o', fp_SenderID = fo_SenderID o', fp_SenderName = fo_SenderName o',
        fp_OriginalSentAt = fo_OriginalSentAt o', fp_SourceMessageID = fo_SourceMessageID o'\<rparr>) f"

definition NewReplyTarget :: "uuid option \<Rightarrow> ReplyToPreview option" where
  "NewReplyTarget i =
     map_option (\<lambda>x. \<lparr>rt_MessageID = x, rt_ThreadID = uuid_nil, rt_SenderID = uuid_nil, rt_Type = 0,
        rt_Body = [], rt_CreatedAt = 0, rt_Attachment = None, rt_IsDeleted = False\<rparr>) i"

definition FirstViaOrDefault :: "Message \<Rightarrow> string" where
  "FirstViaOrDefault m =
     (case find (\<lambda>d. has_via (td_Via d)) (m_To m) of Some d \<Rightarrow> the (td_Via d) | None \<Rightarrow> [])"

definition GetSender :: "Message \<Rightarrow> uuid" where
  "GetSender m =
     (case m_SendAs m of
        Some s \<Rightarrow> if s \<noteq> uuid_nil then s else pr_ID (m_From m)
      | None \<Rightarrow> pr_ID (m_From m))"

definition Recipients :: "Message \<Rightarrow> ThreadDialog list" where
  "Recipients m = filter (\<lambda>d. td_ContactID d \<noteq> GetSender m) (m_To m)"

definition RecipientIDs :: "Message \<Rightarrow> uuid list" where
  "RecipientIDs m = map td_ContactID (Recipients m)"

definition GetOriginSender :: "Message \<Rightarrow> uuid option" where
  "GetOriginSender m =
     (case m_SendAs m of
        Some s \<Rightarrow> if s \<noteq> uuid_nil then Some (pr_ID (m_From m)) else None
      | None \<Rightarrow> None)"

definition SetMemberFromSlice :: "ThreadDialog list \<Rightarrow> Message \<Rightarrow> Message" where
  "SetMemberFromSlice members m =
     (case find (\<lambda>d. GetSender m = td_ContactID d) members of
        None \<Rightarrow> m
      | Some d \<Rightarrow> m\<lparr>m_MemberID := bm_ID d, m_Member := Some (zero_dialog\<lparr>bm_ID := bm_ID d\<rparr>)\<rparr>)"

definition DeletedAtUnixMillis :: "Message \<Rightarrow> int" where
  "DeletedAtUnixMillis m = (case m_DeletedAt m of None \<Rightarrow> 0 | Some t \<Rightarrow> max (UnixMilli t) 0)"

text \<open>The staged events and their hand-over to the service layer.\<close>

definition AddEvent :: "event \<Rightarrow> Message \<Rightarrow> Message" where
  "AddEvent e m = m\<lparr>m_domainEvents := m_domainEvents m @ [e]\<rparr>"

definition Message_Events :: "Message \<Rightarrow> event list \<times> Message" where
  "Message_Events m = (m_domainEvents m, m\<lparr>m_domainEvents := []\<rparr>)"

section \<open>The payload of message.created.v1\<close>

definition event_member :: "ThreadDialog \<Rightarrow> ThreadMember" where
  "event_member d =
     \<lparr>tm_ID = (if bm_ID d \<noteq> uuid_nil then Some (bm_ID d) else None), tm_ContactID = td_ContactID d,
      tm_Role = td_ThreadRole d, tm_IsBot = td_IsBot d\<rparr>"

definition threadDialogsAsEventMembers :: "ThreadDialog list \<Rightarrow> ThreadMember list" where
  "threadDialogsAsEventMembers ds = map event_member ds"

text \<open>The loop that looks for the sender among the recipients; it has no break.\<close>

fun from_loop :: "uuid \<Rightarrow> ThreadDialog list \<Rightarrow> ThreadMember option \<Rightarrow> ThreadMember option" where
  "from_loop c [] acc = acc"
| "from_loop c (d # ds) acc =
     from_loop c ds
       (if td_ContactID d = c
        then Some \<lparr>tm_ID = Some (bm_ID d), tm_ContactID = td_ContactID d, tm_Role = td_ThreadRole d,
                   tm_IsBot = td_IsBot d\<rparr>
        else acc)"

definition mapImagesToPayload :: "MessageImage list \<Rightarrow> ImagePayload list" where
  "mapImagesToPayload = map (\<lambda>i. \<lparr>ip_FileID = im_FileID i, ip_Mime = im_Mime i, ip_Name = im_Name i, ip_URL = im_URL i\<rparr>)"

definition mapDocumentsToPayload :: "MessageDocument list \<Rightarrow> DocumentPayload list" where
  "mapDocumentsToPayload = map (\<lambda>d. \<lparr>dp_FileID = dc_FileID d, dp_Mime = dc_Mime d, dp_Name = dc_Name d,
     dp_Size = dc_Size d, dp_URL = dc_URL d\<rparr>)"

definition mapButton :: "KeyboardButton \<Rightarrow> KeyboardButtonEv" where
  "mapButton b =
     \<lparr>kbe_ID = kb_ID b, kbe_Label = kb_Label b, kbe_Metadata = kb_Metadata b, kbe_Type = kb_Type b,
      kbe_URL = (if kb_Type b = ''url'' then kb_URL b else None),
      kbe_Callback = (if kb_Type b = ''callback'' then kb_Data b else None),
      kbe_Request = (if kb_Type b = ''request'' then kb_Action b else None)\<rparr>"

definition mapButtonsToEvent :: "KeyboardButton option list \<Rightarrow> KeyboardButtonEv list" where
  "mapButtonsToEvent bs = map (\<lambda>b. mapButton (the b)) (filter (\<lambda>b. b \<noteq> None) bs)"

definition mapMarkupToEvent :: "KeyboardButtonRow option list option \<Rightarrow> KeyboardButtonEv list list option" where
  "mapMarkupToEvent = map_option (\<lambda>rows. map (\<lambda>r. mapButtonsToEvent (the r)) (filter (\<lambda>r. r \<noteq> None) rows))"

definition mapListReplyToEvent :: "KeyboardListReply option \<Rightarrow> (string \<times> (string \<times> KeyboardButtonEv list) list) option" where
  "mapListReplyToEvent = map_option (\<lambda>l. (lr_Title l,
     map (\<lambda>s. (ls_Section (the s), mapButtonsToEvent (ls_Buttons (the s)))) (filter (\<lambda>s. s \<noteq> None) (lr_Sections l))))"

definition Interactive_AsEvent :: "MessageInteractive option \<Rightarrow> InteractivePayload option" where
  "Interactive_AsEvent = map_option (\<lambda>i. \<lparr>itp_SingleUse = ia_SingleUse i,
     itp_Markup = mapMarkupToEvent (ia_Markup i), itp_ListReply = mapListReplyToEvent (ia_ListReply i)\<rparr>)"

definition reply_payload :: "ReplyToPreview \<Rightarrow> ReplyToPayload" where
  "reply_payload r =
     \<lparr>rp_MessageID = rt_MessageID r, rp_SenderID = rt_SenderID r, rp_Type = MessageType_String (rt_Type r),
      rp_Body = rt_Body r, rp_CreatedAt = rt_CreatedAt r,
      rp_AttachmentKind = map_option ra_Kind (rt_Attachment r),
      rp_AttachmentName = Option.bind (rt_Attachment r) ra_Name,
      rp_AttachmentMime = Option.bind (rt_Attachment r) ra_Mime,
      rp_AttachmentAddress = Option.bind (rt_Attachment r) ra_Address,
      rp_IsDeleted = rt_IsDeleted r\<rparr>"

definition AddMetadata :: "string \<Rightarrow> string \<Rightarrow> MessageCreated \<Rightarrow> MessageCreated" where
  "AddMetadata k v e = e\<lparr>mc_ExternalMetadata := (mc_ExternalMetadata e)(k \<mapsto> v)\<rparr>"

definition WithContextPropogatedMetadata :: "ctx \<Rightarrow> MessageCreated \<Rightarrow> MessageCreated" where
  "WithContextPropogatedMetadata cx e =
     (let e1 = (case cx_jwt cx of Some p \<Rightarrow> AddMetadata ''x-jwt-payload'' p e | None \<Rightarrow> e)
      in (case cx_device cx of Some d \<Rightarrow> AddMetadata ''x-webitel-device'' d e1 | None \<Rightarrow> e1))"

definition WithCreatedEvent :: "(string \<Rightarrow> bool) \<Rightarrow> ctx \<Rightarrow> string \<Rightarrow> Message \<Rightarrow> Message" where
  "WithCreatedEvent uuid_valid cx sendID m =
     (let e = \<lparr>mc_MessageID = m_ID m, mc_ThreadID = m_ThreadID m, mc_DomainID = m_DomainID m,
                mc_From = from_loop (pr_ID (m_From m)) (m_To m) None,
                mc_To = threadDialogsAsEventMembers (m_To m), mc_SendID = sendID, mc_Body = m_Body m,
                mc_Type = MessageType_String (m_Type m), mc_OccurredAt = m_CreatedAt m,
                mc_Metadata = m_Metadata m, mc_Images = mapImagesToPayload (m_Images m),
                mc_Documents = mapDocumentsToPayload (m_Documents m),
                mc_Location = map_option (\<lambda>l. \<lparr>lp_Latitude = lo_Latitude l, lp_Longitude = lo_Longitude l,
                    lp_Address = lo_Address l, lp_Name = lo_Name l\<rparr>) (m_Location m),
                mc_Contact = map_option (\<lambda>c. \<lparr>cp_Name = co_Name c, cp_Phone = co_PhoneNumber c,
                    cp_Email = co_Email c\<rparr>) (m_Contact m),
                mc_Interactive = Interactive_AsEvent (m_Interactive m),
                mc_System = map_option (\<lambda>s. NewSystemPayload (sy_Type s) (sy_Metadata s)) (m_System m),
                mc_BotControllerMemberID = m_BotControllerMemberID m,
                mc_ReplyTo = map_option reply_payload (m_ReplyTo m),
                mc_ForwardOrigin = ForwardOrigin_AsEvent (m_ForwardOrigin m),
                mc_Seq = m_Seq m, mc_ExternalMetadata = Map.empty\<rparr>;
          e1 = (case cx_jwt cx of Some p \<Rightarrow> AddMetadata ''x-jwt-payload'' p e | None \<Rightarrow> e);
          e2 = WithContextPropogatedMetadata cx e1;
          via = FirstViaOrDefault m;
          e3 = (if via \<noteq> [] \<and> uuid_valid via then AddMetadata ''x-webitel-via'' via e2 else e2)
      in AddEvent (EvMessageCreated e3) m)"

section \<open>Lemmas\<close>

lemma RecipientIDs_eq: "set (RecipientIDs m) = td_ContactID ` set (m_To m) - {GetSender m}"
  by (auto simp: RecipientIDs_def Recipients_def)

lemma WithCreatedEvent_adds:
  "\<exists>e. m_domainEvents (WithCreatedEvent v cx s m) = m_domainEvents m @ [EvMessageCreated e]
     \<and> mc_MessageID e = m_ID m \<and> mc_ThreadID e = m_ThreadID m \<and> mc_DomainID e = m_DomainID m
     \<and> mc_Seq e = m_Seq m \<and> map tm_ContactID (mc_To e) = map td_ContactID (m_To m)"
  by (simp add: WithCreatedEvent_def AddEvent_def Let_def WithContextPropogatedMetadata_def
      AddMetadata_def threadDialogsAsEventMembers_def event_member_def split: option.splits)

lemma from_loop_last:
  "from_loop c ds acc =
     (case rev (filter (\<lambda>d. td_ContactID d = c) ds) of
        [] \<Rightarrow> acc
      | d # _ \<Rightarrow> Some \<lparr>tm_ID = Some (bm_ID d), tm_ContactID = c, tm_Role = td_ThreadRole d,
                       tm_IsBot = td_IsBot d\<rparr>)"
  by (induction ds arbitrary: acc) (auto split: list.splits)

end
