(* ===== verification/Message_Store.thy ===== *)
theory Message_Store
  imports Bot_Control_Store Messages
begin

text \<open>
  \<^verbatim>\<open>internal/store/postgres/message.go\<close>: saving a message. Both statements take the next number
  of the thread's \<^verbatim>\<open>last_seq\<close> counter in the same statement that inserts the row; the lemmas
  below show what that gives the thread's history.
\<close>

section \<open>The statements\<close>

definition validateMessageForSave :: "Message option \<Rightarrow> unit res" where
  "validateMessageForSave msg =
     (case msg of None \<Rightarrow> Inl (Err InvalidArgument ''message cannot be nil'')
      | Some m \<Rightarrow>
         if m_ThreadID m = uuid_nil then Inl (Err InvalidArgument ''message thread id cannot be nil'')
         else if m_DomainID m \<le> 0 then Inl (Err InvalidArgument ''message domain id must be greater than zero'')
         else if m_Type m = MessageTypeSystem then Inr ()
         else (case m_Member m of
                 None \<Rightarrow> Inl (Err InvalidArgument ''message member cannot be nil'')
               | Some d \<Rightarrow> if bm_ID d = uuid_nil
                           then Inl (Err InvalidArgument ''message member id cannot be nil'') else Inr ()))"

definition replyToArg :: "Message \<Rightarrow> uuid option" where
  "replyToArg m = map_option rt_MessageID (m_ReplyTo m)"

definition nullIfEmpty :: "string \<Rightarrow> string option" where
  "nullIfEmpty s = (if s = [] then None else Some s)"

text \<open>\<^verbatim>\<open>time.UnixMilli\<close> of a positive number of milliseconds, in nanoseconds.\<close>

definition addForwardOriginArgs ::
    "Message \<Rightarrow> (int \<times> uuid option \<times> string \<times> string option \<times> string option \<times> time option \<times> uuid option) option" where
  "addForwardOriginArgs m =
     map_option (\<lambda>f. (fo_Kind f, fo_SenderID f, fo_SenderName f, nullIfEmpty (fo_SenderIss f),
        nullIfEmpty (fo_SenderSub f),
        (if fo_OriginalSentAt f > 0 then Some (fo_OriginalSentAt f * 1000000) else None),
        fo_SourceMessageID f)) (m_ForwardOrigin m)"

text \<open>
  \<^verbatim>\<open>with s as (update thread set last_seq = last_seq + 1 ...) insert into messages ... from s\<close>:
  no row when the thread does not exist; the id, the time stamps and the number are the row's.
\<close>

definition message_exists :: "db \<Rightarrow> uuid option \<Rightarrow> bool" where
  "message_exists db i = (case i of None \<Rightarrow> True | Some x \<Rightarrow> x \<in> ms_id ` set (db_messages db))"

definition insert_message :: "uuid \<Rightarrow> message_row \<Rightarrow> db \<Rightarrow> (message_row \<times> db) option" where
  "insert_message t row db =
     (case thread_of db t of
        None \<Rightarrow> None
      | Some th \<Rightarrow>
         (let r = row\<lparr>ms_id := db_next_id db, ms_thread_id := t, ms_seq := th_last_seq th + 1,
                       ms_created_at := db_now db, ms_updated_at := db_now db\<rparr>
          in Some (r, (update_thread t (\<lambda>x. x\<lparr>th_last_seq := th_last_seq x + 1\<rparr>) db)
                      \<lparr>db_messages := db_messages db @ [r], db_next_id := Suc (db_next_id db)\<rparr>)))"

definition zero_message_row :: message_row where
  "zero_message_row =
     \<lparr>ms_id = uuid_nil, ms_thread_id = uuid_nil, ms_domain_id = 0, ms_sender_id = uuid_nil,
      ms_member_id = uuid_nil, ms_type = 0, ms_body = [], ms_metadata = Map.empty, ms_seq = 0,
      ms_created_at = 0, ms_updated_at = 0, ms_deleted_at = None, ms_deleted_by = None, ms_edited = False, ms_origin_sender = None,
      ms_reply_to = None, ms_forward = None, ms_system = None, ms_interactive = None\<rparr>"

text \<open>The columns both statements return, scanned into a fresh message.\<close>

definition scan_message :: "message_row \<Rightarrow> Message" where
  "scan_message r =
     zero_message\<lparr>m_ID := ms_id r, m_DomainID := ms_domain_id r, m_ThreadID := ms_thread_id r,
       m_MemberID := ms_member_id r, m_Type := ms_type r, m_Body := ms_body r, m_Metadata := ms_metadata r,
       m_CreatedAt := ms_created_at r, m_UpdatedAt := ms_updated_at r, m_Seq := ms_seq r,
       m_From := empty_peer\<lparr>pr_ID := ms_sender_id r\<rparr>\<rparr>"

definition SaveMessage :: "Message \<Rightarrow> db \<Rightarrow> (Message \<times> db) res" where
  "SaveMessage msg db =
     bindr (validateMessageForSave (Some msg)) (\<lambda>_.
       (let fwd = addForwardOriginArgs msg;
            row = zero_message_row\<lparr>ms_domain_id := m_DomainID msg, ms_sender_id := GetSender msg,
                    ms_member_id := (case m_Member msg of None \<Rightarrow> uuid_nil | Some d \<Rightarrow> bm_ID d),
                    ms_type := m_Type msg, ms_body := m_Body msg, ms_metadata := m_Metadata msg,
                    ms_origin_sender := GetOriginSender msg, ms_reply_to := replyToArg msg,
                    ms_forward := fwd\<rparr>
        in (if \<not> (0 \<le> m_Type msg \<and> m_Type msg \<le> 7) \<or> \<not> message_exists db (replyToArg msg)
               \<or> \<not> message_exists db (Option.bind fwd (\<lambda>(_, _, _, _, _, _, i). i))
            then Inl (Err Internal ''collecting saved message'')
            else (case insert_message (m_ThreadID msg) row db of
                    None \<Rightarrow> Inl (Err Internal ''collecting saved message'')
                  | Some (r, db') \<Rightarrow>
                      Inr ((scan_message r)\<lparr>m_BotControllerMemberID := m_BotControllerMemberID msg\<rparr>, db')))))"

text \<open>\<^verbatim>\<open>btrim(type) <> ''\<close>: a system type of blanks only is rejected; it is at most 64 bytes here.\<close>

definition SaveSystemMessage :: "Message \<Rightarrow> db \<Rightarrow> (Message \<times> db) res" where
  "SaveSystemMessage msg db =
     bindr (validateMessageForSave (Some msg)) (\<lambda>_.
       (case m_System msg of
          None \<Rightarrow> Inl (Err Internal ''collecting saved system message'')
        | Some sy \<Rightarrow>
           (let row = zero_message_row\<lparr>ms_domain_id := m_DomainID msg, ms_sender_id := pr_ID (m_From msg),
                        ms_member_id := (case m_Member msg of None \<Rightarrow> uuid_nil | Some d \<Rightarrow> bm_ID d),
                        ms_type := m_Type msg, ms_body := m_Body msg, ms_metadata := m_Metadata msg,
                        ms_system := Some (sy_Type sy, sy_Metadata sy)\<rparr>
            in (if \<not> (0 \<le> m_Type msg \<and> m_Type msg \<le> 7) \<or> (\<forall>c \<in> set (sy_Type sy). c = CHR '' '')
                then Inl (Err Internal ''collecting saved system message'')
                else (case insert_message (m_ThreadID msg) row db of
                        None \<Rightarrow> Inl (Err Internal ''collecting saved system message'')
                      | Some (r, db') \<Rightarrow> Inr ((scan_message r)\<lparr>m_System := Some sy\<rparr>, db'))))))"

section \<open>What saving keeps\<close>

text \<open>
  An operation is quiet when it leaves members, control stacks and control pointers alone and
  keeps the schema's constraints. Quietness composes.
\<close>

definition quiet :: "db \<Rightarrow> db \<Rightarrow> bool" where
  "quiet db db' \<longleftrightarrow> (db_ok db \<longrightarrow> db_ok db') \<and> control_of db' = control_of db
     \<and> db_dialogs db' = db_dialogs db \<and> db_stack db' = db_stack db
     \<and> db_next_id db \<le> db_next_id db' \<and> db_now db' = db_now db"

lemma quiet_refl [simp]: "quiet db db"
  by (simp add: quiet_def)

lemma quiet_trans [trans]: "quiet a b \<Longrightarrow> quiet b c \<Longrightarrow> quiet a c"
  by (auto simp: quiet_def)

lemma control_of_cong: "db_threads db' = db_threads db \<Longrightarrow> db_stack db' = db_stack db \<Longrightarrow> control_of db' = control_of db"
  by (simp add: fun_eq_iff control_of_def thread_of_def stack_of_def)

lemma db_ok_cong:
  assumes "db_threads db' = db_threads db" "db_dialogs db' = db_dialogs db" "db_stack db' = db_stack db"
    "db_next_id db \<le> db_next_id db'" "db_ok db"
  shows "db_ok db'"
proof -
  have "threads_ok db'" using assms unfolding db_ok_def threads_ok_def by force
  moreover have "dialogs_ok db'" using assms unfolding db_ok_def dialogs_ok_def by force
  moreover have "stack_ok db'"
    by (rule stack_ok_dialogs [of db]) (use assms in \<open>auto simp: db_ok_def dialog_of_def\<close>)
  ultimately show ?thesis using assms by (auto simp: db_ok_def)
qed

text \<open>An operation on other tables is quiet.\<close>

lemma quietI:
  "db_threads db' = db_threads db \<Longrightarrow> db_dialogs db' = db_dialogs db \<Longrightarrow> db_stack db' = db_stack db \<Longrightarrow>
   db_next_id db \<le> db_next_id db' \<Longrightarrow> db_now db' = db_now db \<Longrightarrow> quiet db db'"
  unfolding quiet_def using db_ok_cong control_of_cong by metis

lemma quiet_publish_event: "publish_event e db = Inr db' \<Longrightarrow> quiet db db'"
  by (auto simp: publish_event_eq intro!: quietI)

lemma update_thread_quiet:
  assumes "\<And>r. th_id (f r) = th_id r \<and> th_domain_id (f r) = th_domain_id r
     \<and> th_bot_controller_id (f r) = th_bot_controller_id r \<and> th_owner_bot_id (f r) = th_owner_bot_id r"
  shows "quiet db (update_thread t f db)"
proof -
  have "control_of (update_thread t f db) t' = control_of db t'" for t'
    using assms by (subst update_thread_control) (auto simp: control_of_alt)
  then show ?thesis using assms by (auto simp: quiet_def fun_eq_iff intro: update_thread_db_ok)
qed

lemma insert_message_quiet: "insert_message t row db = Some (r, db') \<Longrightarrow> quiet db db'"
proof -
  assume ins: "insert_message t row db = Some (r, db')"
  let ?d1 = "update_thread t (\<lambda>x. x\<lparr>th_last_seq := th_last_seq x + 1\<rparr>) db"
  have "quiet db ?d1" by (rule update_thread_quiet) simp
  moreover have "quiet ?d1 db'"
    using ins by (intro quietI) (auto simp: insert_message_def Let_def split: option.splits)
  ultimately show ?thesis by (rule quiet_trans)
qed

lemma SaveSystemMessage_quiet: "SaveSystemMessage msg db = Inr (m, db') \<Longrightarrow> quiet db db'"
  by (auto simp: SaveSystemMessage_def bindr_Inr_iff Let_def split: option.splits if_splits
      intro: insert_message_quiet)

lemma SaveMessage_quiet: "SaveMessage msg db = Inr (m, db') \<Longrightarrow> quiet db db'"
  by (auto simp: SaveMessage_def bindr_Inr_iff Let_def split: option.splits if_splits
      intro: insert_message_quiet)

section \<open>The sequence numbers of a thread\<close>

definition seq_ok :: "db \<Rightarrow> bool" where
  "seq_ok db =
     ((\<forall>r \<in> set (db_messages db). (case thread_of db (ms_thread_id r) of None \<Rightarrow> False
                                  | Some th \<Rightarrow> ms_seq r \<le> th_last_seq th))
      \<and> distinct (map (\<lambda>r. (ms_thread_id r, ms_seq r)) (db_messages db)))"

lemma insert_message_seq:
  assumes ok: "seq_ok db" and ins: "insert_message t row db = Some (r, db')"
  shows "seq_ok db' \<and> db_messages db' = db_messages db @ [r] \<and> ms_thread_id r = t
     \<and> (\<forall>x \<in> set (db_messages db). ms_thread_id x = t \<longrightarrow> ms_seq x < ms_seq r)
     \<and> (\<exists>th. thread_of db t = Some th \<and> ms_seq r = th_last_seq th + 1)"
proof -
  from ins obtain th where th: "thread_of db t = Some th" by (auto simp: insert_message_def split: option.splits)
  with ins have r: "db_messages db' = db_messages db @ [r]" "ms_thread_id r = t" "ms_seq r = th_last_seq th + 1"
      "db_threads db' = db_threads (update_thread t (\<lambda>x. x\<lparr>th_last_seq := th_last_seq x + 1\<rparr>) db)"
    by (auto simp: insert_message_def Let_def)
  have th': "thread_of db' t' = (if t' = t then map_option (\<lambda>x. x\<lparr>th_last_seq := th_last_seq x + 1\<rparr>) (thread_of db t)
      else thread_of db t')" for t'
  proof -
    have "thread_of db' t' = thread_of (update_thread t (\<lambda>x. x\<lparr>th_last_seq := th_last_seq x + 1\<rparr>) db) t'"
      using r(4) by (rule thread_of_cong)
    also have "\<dots> = (if t' = t then map_option (\<lambda>x. x\<lparr>th_last_seq := th_last_seq x + 1\<rparr>) (thread_of db t)
      else thread_of db t')" by (rule thread_of_update_thread) simp
    finally show ?thesis .
  qed
  have below: "ms_seq x < ms_seq r" if "x \<in> set (db_messages db)" "ms_thread_id x = t" for x
    using ok that th r(3) by (auto simp: seq_ok_def)
  have "\<forall>x \<in> set (db_messages db'). (case thread_of db' (ms_thread_id x) of None \<Rightarrow> False
                                  | Some th \<Rightarrow> ms_seq x \<le> th_last_seq th)"
  proof
    fix x assume "x \<in> set (db_messages db')"
    then consider "x = r" | "x \<in> set (db_messages db)" using r(1) by auto
    then show "case thread_of db' (ms_thread_id x) of None \<Rightarrow> False | Some th \<Rightarrow> ms_seq x \<le> th_last_seq th"
    proof cases
      case 1
      then show ?thesis using r th th' by simp
    next
      case 2
      then have "case thread_of db (ms_thread_id x) of None \<Rightarrow> False | Some th \<Rightarrow> ms_seq x \<le> th_last_seq th"
        using ok by (simp add: seq_ok_def)
      then show ?thesis using th' by (auto split: option.splits if_splits)
    qed
  qed
  moreover have "distinct (map (\<lambda>r. (ms_thread_id r, ms_seq r)) (db_messages db'))"
    using ok below r(1,2) by (force simp: seq_ok_def)
  ultimately show ?thesis using r th below by (auto simp: seq_ok_def)
qed

text \<open>
  C10. Message numbering: a saved message, ordinary or system, is appended to the history with a
  number that is exactly one above the thread's counter and above every number the thread has
  used, so numbers within a thread never repeat and follow the order of saving; the counter
  never falls behind and the threads' control state is untouched.
\<close>

theorem saved_message_seq:
  assumes "seq_ok db" "SaveMessage msg db = Inr (m, db') \<or> SaveSystemMessage msg db = Inr (m, db')"
  shows "seq_ok db'
    \<and> (\<exists>r th. db_messages db' = db_messages db @ [r] \<and> ms_id r = m_ID m \<and> ms_seq r = m_Seq m
          \<and> ms_thread_id r = m_ThreadID msg \<and> thread_of db (m_ThreadID msg) = Some th \<and> m_Seq m = th_last_seq th + 1)
    \<and> (\<forall>x \<in> set (db_messages db). ms_thread_id x = m_ThreadID msg \<longrightarrow> ms_seq x < m_Seq m)
    \<and> control_of db' = control_of db"
proof -
  obtain row r where i: "insert_message (m_ThreadID msg) row db = Some (r, db')"
      and s: "m_ID m = ms_id r" "m_Seq m = ms_seq r"
    using assms(2)
    by (auto simp: SaveMessage_def SaveSystemMessage_def bindr_Inr_iff Let_def scan_message_def
        split: option.splits if_splits)
  have "control_of db' = control_of db" using insert_message_quiet [OF i] by (simp add: quiet_def)
  with insert_message_seq [OF assms(1) i] s show ?thesis by auto
qed

theorem saved_message_seq_witness:
  "\<exists>m db'. SaveSystemMessage (zero_message\<lparr>m_ThreadID := 6, m_DomainID := 7, m_Type := MessageTypeSystem,
       m_System := Some \<lparr>sy_Type = ''member_added'', sy_Metadata = Map.empty\<rparr>\<rparr>) example_db = Inr (m, db')
     \<and> seq_ok db' \<and> length (db_messages db') = 1"
proof -
  let ?msg = "zero_message\<lparr>m_ThreadID := 6, m_DomainID := 7, m_Type := MessageTypeSystem,
       m_System := Some \<lparr>sy_Type = ''member_added'', sy_Metadata = Map.empty\<rparr>\<rparr>"
  obtain m db' where m: "SaveSystemMessage ?msg example_db = Inr (m, db')"
    by (simp add: SaveSystemMessage_def validateMessageForSave_def insert_message_def example_defs
        thread_of_def Let_def)
  have ok: "seq_ok example_db" by (simp add: seq_ok_def example_defs)
  have e: "db_messages example_db = []" by (simp add: example_defs)
  have "seq_ok db' \<and> length (db_messages db') = 1"
    using saved_message_seq [OF ok disjI2 [OF m]] e by auto
  with m show ?thesis by (intro exI conjI) auto
qed

end
