(* ===== verification/Thread_Store.thy ===== *)
theory Thread_Store
  imports Message_Store
begin

text \<open>
  \<^verbatim>\<open>internal/store/postgres/thread_store.go\<close> and \<^verbatim>\<open>internal/domain/model/thread.go\<close>: creating a
  thread, finding the thread of a conversation, reading it, the CRM contact and the folder
  counters. \<^verbatim>\<open>Get\<close> is the query the control service builds: by id and domain, default fields.
\<close>

section \<open>The thread as the service sees it\<close>

type_synonym ThreadKind = int

abbreviation (input) ThreadUnspecified :: ThreadKind where "ThreadUnspecified \<equiv> 0"
abbreviation (input) ThreadDirect :: ThreadKind where "ThreadDirect \<equiv> 1"
abbreviation (input) ThreadGroup :: ThreadKind where "ThreadGroup \<equiv> 2"
abbreviation (input) ThreadChannel :: ThreadKind where "ThreadChannel \<equiv> 3"

record Thread =
  t_ID :: uuid
  t_DomainID :: int
  t_CreatedAt :: time
  t_UpdatedAt :: time
  t_Kind :: ThreadKind
  t_Subject :: string
  t_Description :: string
  t_Owner :: uuid
  t_Members :: "ThreadDialog list"
  t_BotControllerID :: "uuid option"
  t_OwnerBotID :: "uuid option"
  t_CRMContactID :: string

definition zero_thread :: Thread where
  "zero_thread = \<lparr>t_ID = uuid_nil, t_DomainID = 0, t_CreatedAt = time_zero, t_UpdatedAt = time_zero,
     t_Kind = ThreadUnspecified, t_Subject = [], t_Description = [], t_Owner = uuid_nil, t_Members = [],
     t_BotControllerID = None, t_OwnerBotID = None, t_CRMContactID = []\<rparr>"

record ResolveThreadQuery =
  q_From :: Peer
  q_To :: Peer
  q_SendAs :: "uuid option"

definition SendAsPtr :: "ResolveThreadQuery \<Rightarrow> uuid option" where
  "SendAsPtr q = (case q_SendAs q of Some s \<Rightarrow> if s \<noteq> uuid_nil then Some s else None | None \<Rightarrow> None)"

section \<open>The statements\<close>

definition thread_Create :: "Thread \<Rightarrow> db \<Rightarrow> (Thread \<times> db) res" where
  "thread_Create req db =
     (if t_DomainID req \<le> 0 then Inl (Err Internal ''creating thread'')
      else (let i = db_next_id db;
                row = \<lparr>th_id = i, th_domain_id = t_DomainID req, th_created_at = t_CreatedAt req,
                       th_updated_at = t_UpdatedAt req, th_kind = t_Kind req, th_owner = t_Owner req,
                       th_subject = t_Subject req, th_description = t_Description req,
                       th_bot_controller_id = None, th_owner_bot_id = None, th_crm_contact_id = None,
                       th_last_seq = 0\<rparr>
            in Inr (req\<lparr>t_ID := i\<rparr>, db\<lparr>db_threads := db_threads db @ [row], db_next_id := Suc i\<rparr>)))"

definition store_SetCRMContact :: "uuid \<Rightarrow> string \<Rightarrow> db \<Rightarrow> db res" where
  "store_SetCRMContact t crm db =
     (case thread_of db t of
        None \<Rightarrow> Inl (Err NotFound ''thread not found'')
      | Some _ \<Rightarrow> Inr (update_thread t (\<lambda>th. th\<lparr>th_crm_contact_id := (if crm = [] then None else Some crm),
                        th_updated_at := db_now db\<rparr>) db))"

text \<open>A member inside the thread's JSON: its thread id and the columns not listed stay zero.\<close>

definition json_member :: "dialog_row \<Rightarrow> ThreadDialog" where
  "json_member d = zero_dialog\<lparr>bm_ID := dl_id d, td_ContactID := dl_member_id d, td_ThreadRole := dl_thread_role d,
     td_Via := dl_via d, td_IsBot := dl_is_bot d, td_AutoLeave := dl_auto_leave d\<rparr>"

definition active_members :: "db \<Rightarrow> uuid \<Rightarrow> dialog_row list" where
  "active_members db t = filter (\<lambda>d. dl_thread_id d = t \<and> active d) (db_dialogs db)"

definition mapThreadRecordToModel :: "db \<Rightarrow> thread_row \<Rightarrow> Thread" where
  "mapThreadRecordToModel db r =
     zero_thread\<lparr>t_ID := th_id r, t_DomainID := th_domain_id r, t_CreatedAt := th_created_at r,
       t_UpdatedAt := th_updated_at r, t_Kind := th_kind r, t_Subject := th_subject r,
       t_Description := th_description r, t_Members := map json_member (active_members db (th_id r)),
       t_BotControllerID := th_bot_controller_id r, t_OwnerBotID := th_owner_bot_id r,
       t_CRMContactID := (case th_crm_contact_id r of None \<Rightarrow> [] | Some c \<Rightarrow> c)\<rparr>"

definition thread_Get :: "uuid \<Rightarrow> int \<Rightarrow> db \<Rightarrow> Thread res" where
  "thread_Get t domain db =
     (case filter (\<lambda>r. th_id r = t \<and> th_domain_id r = domain) (db_threads db) of
        [] \<Rightarrow> Inl (Err NotFound ''thread not found'')
      | [r] \<Rightarrow> Inr (mapThreadRecordToModel db r)
      | _ \<Rightarrow> Inl (Err Internal ''collecting get thread record''))"

text \<open>
  \<^verbatim>\<open>prepareResolveThreadQuery\<close>: the first thread with a live member that the recipient designates
  (the thread itself, or a direct thread of the recipient contact), in which the sender, through
  its gate if it has one, is a live member too.
\<close>

definition resolves :: "ResolveThreadQuery \<Rightarrow> db \<Rightarrow> thread_row \<Rightarrow> bool" where
  "resolves q db t \<longleftrightarrow>
     (\<exists>m \<in> set (db_dialogs db). dl_thread_id m = th_id t
        \<and> (case ResolveThreadID (q_To q) of None \<Rightarrow> True | Some i \<Rightarrow> th_id t = i \<and> active m)
        \<and> (case ResolveContactID (q_To q) of None \<Rightarrow> True
           | Some c \<Rightarrow> th_kind t = ThreadDirect \<and> dl_member_id m = c \<and> active m))
     \<and> (\<exists>s \<in> set (db_dialogs db). dl_thread_id s = th_id t \<and> active s
        \<and> (case SendAsPtr q of Some c \<Rightarrow> dl_member_id s = c
           | None \<Rightarrow> ResolveContactID (q_From q) = Some (dl_member_id s))
        \<and> (case ResolveVia (q_From q) of None \<Rightarrow> True | Some v \<Rightarrow> dl_via s = Some v))"

definition ResolveThread :: "ResolveThreadQuery \<Rightarrow> db \<Rightarrow> Thread option res" where
  "ResolveThread q db =
     (case find (resolves q db) (db_threads db) of
        Some r \<Rightarrow> Inr (Some (zero_thread\<lparr>t_ID := th_id r, t_DomainID := th_domain_id r, t_Kind := th_kind r,
            t_Subject := th_subject r, t_Description := th_description r, t_CreatedAt := th_created_at r,
            t_UpdatedAt := th_updated_at r, t_BotControllerID := th_bot_controller_id r,
            t_Members := map json_member (active_members db (th_id r))\<rparr>))
      | None \<Rightarrow> if pr_Type (q_To q) = PeerContact \<and> SendAsPtr q = None then Inr None
                else Inl (Err Forbidden ''member isn`t part of the thread''))"

record FolderCounters =
  fc_Total :: nat
  fc_UnreadChats :: nat

record ThreadCounters =
  c_All :: FolderCounters
  c_Active :: FolderCounters
  c_Snoozed :: FolderCounters

definition folder :: "dialog_row list \<Rightarrow> FolderCounters" where
  "folder ds = \<lparr>fc_Total = length ds, fc_UnreadChats = length (filter (\<lambda>d. dl_unread_count d > 0) ds)\<rparr>"

definition Counters :: "uuid \<Rightarrow> int \<Rightarrow> ThreadKind list \<Rightarrow> string \<Rightarrow> db \<Rightarrow> ThreadCounters" where
  "Counters member domain kinds snoozedTag db =
     (let ds = filter (\<lambda>d. dl_member_id d = member \<and> dl_domain_id d = domain \<and> active d
                \<and> (kinds = [] \<or> (\<exists>t \<in> set (db_threads db). th_id t = dl_thread_id d \<and> th_kind t \<in> set kinds)))
                (db_dialogs db);
          snoozed = (\<lambda>d. \<exists>g \<in> set (db_tags db). tg_thread_id g = dl_thread_id d
                           \<and> tg_contact_id g = dl_member_id d \<and> tg_tag g = snoozedTag)
      in \<lparr>c_All = folder ds, c_Active = folder (filter (\<lambda>d. \<not> snoozed d) ds), c_Snoozed = folder (filter snoozed ds)\<rparr>)"

section \<open>Lemmas\<close>

lemma thread_Create_shape:
  assumes "thread_Create req db = Inr (th, db')"
  shows "th = req\<lparr>t_ID := db_next_id db\<rparr> \<and> db_dialogs db' = db_dialogs db \<and> db_stack db' = db_stack db
    \<and> db_next_id db' = Suc (db_next_id db) \<and> db_now db' = db_now db \<and> 0 < t_DomainID req
    \<and> (\<exists>row. db_threads db' = db_threads db @ [row] \<and> th_id row = db_next_id db
          \<and> th_domain_id row = t_DomainID req \<and> th_bot_controller_id row = None \<and> th_owner_bot_id row = None)"
  using assms by (auto simp: thread_Create_def Let_def split: if_splits)

lemma thread_Create_db_ok:
  assumes "db_ok db" "thread_Create req db = Inr (th, db')"
  shows "db_ok db'"
proof -
  obtain row where s: "db_threads db' = db_threads db @ [row]" "th_id row = db_next_id db"
      "th_domain_id row = t_DomainID req" "0 < t_DomainID req"
      "db_dialogs db' = db_dialogs db" "db_stack db' = db_stack db" "db_next_id db' = Suc (db_next_id db)"
    using thread_Create_shape [OF assms(2)] by blast
  have "threads_ok db'" using assms(1) s by (fastforce simp: db_ok_def threads_ok_def)
  moreover have "dialogs_ok db'" using assms(1) s unfolding db_ok_def dialogs_ok_def by force
  moreover have "stack_ok db'"
    by (rule stack_ok_dialogs [of db]) (use assms(1) s in \<open>auto simp: db_ok_def dialog_of_def\<close>)
  ultimately show ?thesis using s by (simp add: db_ok_def)
qed

lemma store_SetCRMContact_quiet: "store_SetCRMContact t c db = Inr db' \<Longrightarrow> quiet db db'"
  by (auto simp: store_SetCRMContact_def split: option.splits intro!: update_thread_quiet)

lemma folder_split:
  "fc_Total (folder ds) = fc_Total (folder (filter (\<lambda>d. \<not> p d) ds)) + fc_Total (folder (filter p ds))
   \<and> fc_UnreadChats (folder ds) = fc_UnreadChats (folder (filter (\<lambda>d. \<not> p d) ds)) + fc_UnreadChats (folder (filter p ds))"
  by (induction ds) (auto simp: folder_def)

lemma folder_unread: "fc_UnreadChats (folder ds) \<le> fc_Total (folder ds)"
  by (simp add: folder_def)

text \<open>
  The folders partition the inbox: for every member, domain, kinds and tag, the active and
  the snoozed folder add up to all chats, in totals and in unread chats, and a folder never has
  more unread chats than chats.
\<close>

theorem counters_partition:
  "let c = Counters member domain kinds tag db
   in fc_Total (c_All c) = fc_Total (c_Active c) + fc_Total (c_Snoozed c)
      \<and> fc_UnreadChats (c_All c) = fc_UnreadChats (c_Active c) + fc_UnreadChats (c_Snoozed c)
      \<and> fc_UnreadChats (c_All c) \<le> fc_Total (c_All c)"
  unfolding Counters_def Let_def ThreadCounters.select_convs
  by (intro conjI folder_split [THEN conjunct1] folder_split [THEN conjunct2] folder_unread)

end
