(* ===== verification/Permissions.thy ===== *)
theory Permissions
  imports Dialog_Store
begin

text \<open>
  Member permissions: \<^verbatim>\<open>internal/service/thread_permission.go\<close> and
  \<^verbatim>\<open>internal/store/postgres/thread_permission_store.go\<close>. A \<^verbatim>\<open>*bool\<close> of the request is an option;
  a nil request pointer is None.
\<close>

section \<open>The tables of the service\<close>

definition all_permissions :: ThreadPermissions where
  "all_permissions =
     \<lparr>CanSendMessages = True, CanAddMembers = True, CanRemoveMembers = True,
      CanChangeMembersPermissions = True, CanChangeThreadInfo = True,
      CanDeleteMessages = True, CanReactMessages = True\<rparr>"

definition allowedPermissionsByRole :: "ThreadRole \<rightharpoonup> ThreadPermissions" where
  "allowedPermissionsByRole =
     [RoleOwner \<mapsto> all_permissions,
      RoleAdmin \<mapsto> all_permissions,
      RoleSupervisor \<mapsto> all_permissions\<lparr>CanChangeMembersPermissions := False, CanChangeThreadInfo := False\<rparr>,
      RoleMember \<mapsto> all_permissions\<lparr>CanChangeMembersPermissions := False, CanChangeThreadInfo := False\<rparr>]"

definition defaultPermissionsByRole :: "ThreadRole \<rightharpoonup> ThreadPermissions" where
  "defaultPermissionsByRole =
     [RoleOwner \<mapsto> all_permissions,
      RoleAdmin \<mapsto> all_permissions,
      RoleSupervisor \<mapsto> all_permissions\<lparr>CanChangeMembersPermissions := False, CanChangeThreadInfo := False\<rparr>,
      RoleMember \<mapsto> all_permissions\<lparr>CanChangeMembersPermissions := False, CanChangeThreadInfo := False\<rparr>]"

definition getAllowedPermissionsByRole :: "ThreadRole \<Rightarrow> ThreadPermissions res" where
  "getAllowedPermissionsByRole r =
     (case allowedPermissionsByRole r of None \<Rightarrow> Inl (Err Unknown ''unknown member role'') | Some p \<Rightarrow> Inr p)"

definition getDefaultPermissionsByRole :: "ThreadRole \<Rightarrow> ThreadPermissions res" where
  "getDefaultPermissionsByRole r =
     (case defaultPermissionsByRole r of None \<Rightarrow> Inl (Err Unknown ''unknown member role'') | Some p \<Rightarrow> Inr p)"

section \<open>Requests and the store\<close>

record UpdateThreadPermissionRequest =
  up_InitiatorContactID :: "uuid option"
  up_TargetMemberID :: uuid
  up_ThreadID :: uuid
  up_CanSendMessages :: "bool option"
  up_CanAddMembers :: "bool option"
  up_CanRemoveMembers :: "bool option"
  up_CanChangeMembersPermissions :: "bool option"
  up_CanChangeThreadInfo :: "bool option"
  up_CanDeleteMessages :: "bool option"
  up_CanReactMessages :: "bool option"

record ThreadPermissionStoreFilters =
  pf_Size :: int
  pf_Offset :: nat
  pf_ThreadID :: "uuid option"
  pf_MemberIDs :: "uuid list"

text \<open>\<^verbatim>\<open>MemberIDs\<close> is a nil slice when empty, which pgx sends as NULL.\<close>

definition permission_Get :: "ThreadPermissionStoreFilters option \<Rightarrow> db \<Rightarrow> permission_row list res" where
  "permission_Get flt db =
     (case flt of None \<Rightarrow> Inl (Err InvalidArgument ''request must not be nil'')
      | Some f \<Rightarrow>
         if pf_ThreadID f = None \<and> pf_MemberIDs f = []
         then Inl (Err InvalidArgument ''thread id or member id required'')
         else (let rows = drop (pf_Offset f) (filter (\<lambda>p.
                 (case pf_ThreadID f of None \<Rightarrow> True | Some t \<Rightarrow> pm_thread_id p = t)
                 \<and> (pf_MemberIDs f = [] \<or> pm_thread_dialog_id p \<in> set (pf_MemberIDs f))) (db_perms db))
               in Inr (if pf_Size f > 0 then take (nat (pf_Size f)) rows else rows)))"

definition coalesce :: "'a option \<Rightarrow> 'a \<Rightarrow> 'a" where
  "coalesce v old = (case v of None \<Rightarrow> old | Some x \<Rightarrow> x)"

definition apply_changes :: "UpdateThreadPermissionRequest \<Rightarrow> ThreadPermissions \<Rightarrow> ThreadPermissions" where
  "apply_changes r p =
     \<lparr>CanSendMessages = coalesce (up_CanSendMessages r) (CanSendMessages p),
      CanAddMembers = coalesce (up_CanAddMembers r) (CanAddMembers p),
      CanRemoveMembers = coalesce (up_CanRemoveMembers r) (CanRemoveMembers p),
      CanChangeMembersPermissions = coalesce (up_CanChangeMembersPermissions r) (CanChangeMembersPermissions p),
      CanChangeThreadInfo = coalesce (up_CanChangeThreadInfo r) (CanChangeThreadInfo p),
      CanDeleteMessages = coalesce (up_CanDeleteMessages r) (CanDeleteMessages p),
      CanReactMessages = coalesce (up_CanReactMessages r) (CanReactMessages p)\<rparr>"

text \<open>
  The rows the statement matches: those of the dialogs of \<^verbatim>\<open>@ThreadID\<close> whose \<^verbatim>\<open>member_id\<close>, the
  contact, is \<^verbatim>\<open>@TargetMemberID\<close>. The call needs exactly one of them; the statement runs in a
  transaction of its own, so its effect stays even when more than one row makes the call fail.
\<close>

definition permission_matches :: "UpdateThreadPermissionRequest \<Rightarrow> db \<Rightarrow> permission_row \<Rightarrow> bool" where
  "permission_matches r db p =
     (\<exists>d \<in> set (db_dialogs db). dl_id d = pm_thread_dialog_id p \<and> dl_thread_id d = up_ThreadID r
        \<and> dl_member_id d = up_TargetMemberID r)"

definition permission_Update :: "UpdateThreadPermissionRequest \<Rightarrow> db \<Rightarrow> permission_row res \<times> db" where
  "permission_Update r db =
     (if up_TargetMemberID r = uuid_nil then (Inl (Err InvalidArgument ''initiator and target must be provided''), db)
      else (let upd = (\<lambda>p. p\<lparr>pm_perms := apply_changes r (pm_perms p), pm_updated_at := db_now db\<rparr>);
                db' = db\<lparr>db_perms := update_where (permission_matches r db) upd (db_perms db)\<rparr>
            in (case filter (permission_matches r db) (db_perms db) of
                  [] \<Rightarrow> (Inl (Err Unknown ''no rows in result set''), db')
                | [p] \<Rightarrow> (Inr (upd p), db')
                | _ \<Rightarrow> (Inl (Err Unknown ''too many rows in result set''), db'))))"

section \<open>The checks of a permission change\<close>

record permissionChange =
  pc_Initiator :: ThreadDialogExtended
  pc_Target :: ThreadDialogExtended
  pc_Changes :: UpdateThreadPermissionRequest

definition checkForSelfPermissionChange :: "permissionChange \<Rightarrow> unit res" where
  "checkForSelfPermissionChange c =
     fail_if (bm_ID (pc_Initiator c) = bm_ID (pc_Target c)) (Err Unknown ''can't change self permissions'')"

definition checkForDownRoleHierarchy :: "permissionChange \<Rightarrow> unit res" where
  "checkForDownRoleHierarchy c =
     fail_if (tdx_ThreadRole (pc_Initiator c) \<le> tdx_ThreadRole (pc_Target c))
       (Err Unknown ''initiator does not have enough role permissions to change target'')"

definition checkForPermissionToChangeMembersPermissions :: "permissionChange \<Rightarrow> unit res" where
  "checkForPermissionToChangeMembersPermissions c =
     fail_if (\<not> CanChangeMembersPermissions (tdx_Permissions (pc_Initiator c)))
       (Err Unknown ''initiator does not have permission to change members permissions'')"

text \<open>The table-driven loop: the first requested change that is not allowed is the error.\<close>

fun check_rules :: "(bool option \<times> bool \<times> string) list \<Rightarrow> unit res" where
  "check_rules [] = Inr ()"
| "check_rules ((requested, allowed, msg) # rules) =
     (if requested \<noteq> None \<and> \<not> allowed then Inl (Err Unknown msg) else check_rules rules)"

definition checkPermissionChangeAllowedByTargetRole :: "permissionChange \<Rightarrow> unit res" where
  "checkPermissionChangeAllowedByTargetRole c =
     (case getAllowedPermissionsByRole (tdx_ThreadRole (pc_Target c)) of
        Inl _ \<Rightarrow> Inl (Err Unknown ''failed to get allowed permissions by target role'')
      | Inr a \<Rightarrow>
         (let ch = pc_Changes c in check_rules
           [(up_CanSendMessages ch, CanSendMessages a, ''change send messages permission is not allowed for the target role''),
            (up_CanAddMembers ch, CanAddMembers a, ''change invite members permission is not allowed for the target role''),
            (up_CanRemoveMembers ch, CanRemoveMembers a, ''change add admins permission is not allowed for the target role''),
            (up_CanChangeMembersPermissions ch, CanChangeMembersPermissions a, ''change members permissions permission is not allowed for the target role''),
            (up_CanChangeThreadInfo ch, CanChangeThreadInfo a, ''change thread info permission is not allowed for the target role''),
            (up_CanDeleteMessages ch, CanDeleteMessages a, ''change delete messages permission is not allowed for the target role''),
            (up_CanReactMessages ch, CanReactMessages a, ''change react messages permission is not allowed for the target role'')]))"

definition checkInitiatorHasSamePermissionThatChanged :: "permissionChange \<Rightarrow> unit res" where
  "checkInitiatorHasSamePermissionThatChanged c =
     (let i = tdx_Permissions (pc_Initiator c); ch = pc_Changes c in check_rules
       [(up_CanSendMessages ch, CanSendMessages i, ''initiator does not have permission to change send messages permission''),
        (up_CanAddMembers ch, CanAddMembers i, ''initiator does not have permission to change invite members permission''),
        (up_CanRemoveMembers ch, CanRemoveMembers i, ''initiator does not have permission to remove members''),
        (up_CanChangeMembersPermissions ch, CanChangeMembersPermissions i, ''initiator does not have permission to change members permissions permission''),
        (up_CanChangeThreadInfo ch, CanChangeThreadInfo i, ''initiator does not have permission to change thread info permission''),
        (up_CanDeleteMessages ch, CanDeleteMessages i, ''initiator does not have permission to change delete messages permission''),
        (up_CanReactMessages ch, CanReactMessages i, ''initiator does not have permission to change react messages permission'')])"

definition validatePermissionChangeRequest :: "permissionChange \<Rightarrow> unit res" where
  "validatePermissionChangeRequest c =
     bindr (checkForSelfPermissionChange c) (\<lambda>_.
     bindr (checkForDownRoleHierarchy c) (\<lambda>_.
     bindr (checkForPermissionToChangeMembersPermissions c) (\<lambda>_.
     bindr (checkInitiatorHasSamePermissionThatChanged c) (\<lambda>_.
     checkPermissionChangeAllowedByTargetRole c))))"

section \<open>The service\<close>

definition ThreadPermission_Get :: "(uuid option \<times> uuid) option \<Rightarrow> db \<Rightarrow> permission_row list res" where
  "ThreadPermission_Get req db =
     (case req of None \<Rightarrow> Inl (Err InvalidArgument ''invalid permission get request'')
      | Some (initiatorID, memberID) \<Rightarrow>
         bindr (case initiatorID of
                  None \<Rightarrow> Inr ()
                | Some i \<Rightarrow>
                    bindr (FindActorsPair i memberID db) (\<lambda>(initiator, target).
                      (case initiator of
                         None \<Rightarrow> Inl (Err Unknown ''request initiator is not a member of the thread'')
                       | Some ini \<Rightarrow>
                          (case target of
                             None \<Rightarrow> Inl (Err Unknown ''target member is not a member of the thread'')
                           | Some tar \<Rightarrow> fail_if (tdx_ThreadRole ini < tdx_ThreadRole tar)
                               (Err Unknown ''request initiator does not have enough role permissions to get target permissions'')))))
           (\<lambda>_. permission_Get (Some \<lparr>pf_Size = 0, pf_Offset = 0, pf_ThreadID = None, pf_MemberIDs = [memberID]\<rparr>) db))"

definition ThreadPermission_Update :: "UpdateThreadPermissionRequest option \<Rightarrow> db \<Rightarrow> permission_row res \<times> db" where
  "ThreadPermission_Update req db =
     (case req of None \<Rightarrow> (Inl (Err InvalidArgument ''invalid permission change request''), db)
      | Some r \<Rightarrow>
         (case (case up_InitiatorContactID r of
                  None \<Rightarrow> Inr ()
                | Some i \<Rightarrow>
                    bindr (FindActorsPair i (up_TargetMemberID r) db) (\<lambda>(initiator, target).
                      (case initiator of
                         None \<Rightarrow> Inl (Err Unknown ''request initiator is not a member of the thread'')
                       | Some ini \<Rightarrow>
                          (case target of
                             None \<Rightarrow> Inl (Err Unknown ''target member is not a member of the thread'')
                           | Some tar \<Rightarrow> validatePermissionChangeRequest
                               \<lparr>pc_Initiator = ini, pc_Target = tar, pc_Changes = r\<rparr>)))) of
            Inl e \<Rightarrow> (Inl e, db)
          | Inr _ \<Rightarrow> permission_Update r db))"

section \<open>Properties\<close>

lemma check_rules_Inr: "check_rules rules = Inr u \<longleftrightarrow> (\<forall>(req, ok, _) \<in> set rules. req \<noteq> None \<longrightarrow> ok)"
  by (induction rules rule: check_rules.induct) auto

text \<open>The order of permissions: one set of permissions is within another.\<close>

definition perm_le :: "ThreadPermissions \<Rightarrow> ThreadPermissions \<Rightarrow> bool" where
  "perm_le p q \<longleftrightarrow> (CanSendMessages p \<longrightarrow> CanSendMessages q) \<and> (CanAddMembers p \<longrightarrow> CanAddMembers q)
     \<and> (CanRemoveMembers p \<longrightarrow> CanRemoveMembers q)
     \<and> (CanChangeMembersPermissions p \<longrightarrow> CanChangeMembersPermissions q)
     \<and> (CanChangeThreadInfo p \<longrightarrow> CanChangeThreadInfo q) \<and> (CanDeleteMessages p \<longrightarrow> CanDeleteMessages q)
     \<and> (CanReactMessages p \<longrightarrow> CanReactMessages q)"

text \<open>Changes outside what \<open>i\<close> and \<open>a\<close> hold: what a change must not touch.\<close>

definition within :: "UpdateThreadPermissionRequest \<Rightarrow> ThreadPermissions \<Rightarrow> bool" where
  "within r q \<longleftrightarrow> (up_CanSendMessages r \<noteq> None \<longrightarrow> CanSendMessages q) \<and> (up_CanAddMembers r \<noteq> None \<longrightarrow> CanAddMembers q)
     \<and> (up_CanRemoveMembers r \<noteq> None \<longrightarrow> CanRemoveMembers q)
     \<and> (up_CanChangeMembersPermissions r \<noteq> None \<longrightarrow> CanChangeMembersPermissions q)
     \<and> (up_CanChangeThreadInfo r \<noteq> None \<longrightarrow> CanChangeThreadInfo q) \<and> (up_CanDeleteMessages r \<noteq> None \<longrightarrow> CanDeleteMessages q)
     \<and> (up_CanReactMessages r \<noteq> None \<longrightarrow> CanReactMessages q)"

lemma same_permission_Inr:
  "checkInitiatorHasSamePermissionThatChanged c = Inr u \<longleftrightarrow> within (pc_Changes c) (tdx_Permissions (pc_Initiator c))"
  by (simp add: checkInitiatorHasSamePermissionThatChanged_def Let_def check_rules_Inr within_def)

lemma target_role_Inr:
  "checkPermissionChangeAllowedByTargetRole c = Inr u \<longleftrightarrow>
     (\<exists>a. allowedPermissionsByRole (tdx_ThreadRole (pc_Target c)) = Some a \<and> within (pc_Changes c) a)"
  by (cases "allowedPermissionsByRole (tdx_ThreadRole (pc_Target c))")
     (simp_all add: checkPermissionChangeAllowedByTargetRole_def getAllowedPermissionsByRole_def Let_def
        check_rules_Inr within_def)

lemma validate_Inr:
  "validatePermissionChangeRequest c = Inr u \<longleftrightarrow>
     bm_ID (pc_Initiator c) \<noteq> bm_ID (pc_Target c)
     \<and> tdx_ThreadRole (pc_Target c) < tdx_ThreadRole (pc_Initiator c)
     \<and> CanChangeMembersPermissions (tdx_Permissions (pc_Initiator c))
     \<and> within (pc_Changes c) (tdx_Permissions (pc_Initiator c))
     \<and> (\<exists>a. allowedPermissionsByRole (tdx_ThreadRole (pc_Target c)) = Some a \<and> within (pc_Changes c) a)"
  by (simp add: validatePermissionChangeRequest_def bindr_Inr_iff checkForSelfPermissionChange_def
      checkForDownRoleHierarchy_def checkForPermissionToChangeMembersPermissions_def same_permission_Inr
      target_role_Inr not_le)

text \<open>A change that stays within what somebody holds grants nothing beyond it.\<close>

lemma coalesce_le: "(v \<noteq> None \<longrightarrow> b) \<Longrightarrow> (x \<longrightarrow> b) \<Longrightarrow> coalesce v x \<longrightarrow> b"
  by (cases v) (simp_all add: coalesce_def)

lemma apply_changes_within: "within r q \<Longrightarrow> perm_le p q \<Longrightarrow> perm_le (apply_changes r p) q"
  unfolding within_def perm_le_def apply_changes_def ThreadPermissions.select_convs
  by (intro conjI; rule coalesce_le; blast)


text \<open>
  The default permissions of a role never exceed what the role is allowed, and exactly the
  four named roles have either.
\<close>

theorem default_within_allowed:
  "(getDefaultPermissionsByRole r = Inr p \<longrightarrow> (\<exists>a. getAllowedPermissionsByRole r = Inr a \<and> perm_le p a))
   \<and> ((\<exists>e. getDefaultPermissionsByRole r = Inl e) \<longleftrightarrow> r \<notin> {RoleMember, RoleAdmin, RoleSupervisor, RoleOwner})"
  by (auto simp: getDefaultPermissionsByRole_def getAllowedPermissionsByRole_def defaultPermissionsByRole_def
      allowedPermissionsByRole_def perm_le_def all_permissions_def split: if_splits)

theorem default_within_allowed_witness:
  "\<exists>p a. getDefaultPermissionsByRole RoleMember = Inr p \<and> getAllowedPermissionsByRole RoleMember = Inr a \<and> perm_le p a"
proof -
  obtain p where p: "getDefaultPermissionsByRole RoleMember = Inr p"
    by (simp add: getDefaultPermissionsByRole_def defaultPermissionsByRole_def)
  with default_within_allowed [of RoleMember p] show ?thesis by blast
qed

text \<open>
  The store looks the target up by contact and thread, while the service and the gRPC mapper
  name it by its dialog and leave the thread unset. As no dialog belongs to the nil thread, no
  request without a thread id ever changes a permission: every such call fails and every
  permission row stays as it is.
\<close>

theorem update_without_thread_fails:
  assumes "up_ThreadID r = uuid_nil" "\<forall>d \<in> set (db_dialogs db). dl_thread_id d \<noteq> uuid_nil"
  shows "\<exists>e db'. ThreadPermission_Update (Some r) db = (Inl e, db') \<and> db_perms db' = db_perms db"
proof -
  have none: "\<not> permission_matches r db p" for p using assms by (auto simp: permission_matches_def)
  then have "filter (permission_matches r db) (db_perms db) = []" by simp
  moreover have "update_where (permission_matches r db) f (db_perms db) = db_perms db" for f
    using none by (simp add: update_where_none)
  ultimately have "\<exists>e db'. permission_Update r db = (Inl e, db') \<and> db_perms db' = db_perms db"
    by (simp add: permission_Update_def Let_def)
  then show ?thesis by (auto simp: ThreadPermission_Update_def split: sum.splits)
qed

text \<open>
  The initiator's permission to react is never read from the database, so a member can never
  change anybody's react permission, whatever its own row says.
\<close>

theorem react_change_always_rejected:
  assumes "up_InitiatorContactID r = Some i" "up_CanReactMessages r = Some b"
  shows "\<exists>e. ThreadPermission_Update (Some r) db = (Inl e, db)"
proof -
  have "\<not> CanReactMessages (tdx_Permissions ini)"
    if "FindActorsPair i (up_TargetMemberID r) db = Inr (Some ini, tar)" for ini tar
    using FindActorsPair_react [OF that] by simp
  then have "\<And>ini tar u. FindActorsPair i (up_TargetMemberID r) db = Inr (Some ini, Some tar) \<Longrightarrow>
      validatePermissionChangeRequest \<lparr>pc_Initiator = ini, pc_Target = tar, pc_Changes = r\<rparr> \<noteq> Inr u"
    using assms(2) by (simp add: validate_Inr within_def)
  then show ?thesis using assms(1)
    by (auto simp: ThreadPermission_Update_def bindr_def split: sum.splits option.splits)
qed

text \<open>
  Witnesses: the owner (dialog 2, contact 52) and a member whose dialog and contact ids coincide
  (3), the only way a request can name both the dialog the checks read and the row the store
  updates.
\<close>

definition perm_row :: "uuid \<Rightarrow> permission_row" where
  "perm_row d = \<lparr>pm_id = 20 + d, pm_thread_id = 6, pm_thread_dialog_id = d, pm_perms = all_permissions,
     pm_created_at = 0, pm_updated_at = 0\<rparr>"

definition perm_db :: db where
  "perm_db = example_db\<lparr>
     db_dialogs := [new_dialog_row 2 0 7 (example_member\<lparr>tdx_ContactID := 52\<rparr>),
                    new_dialog_row 3 0 7 (example_member\<lparr>tdx_ContactID := 3, tdx_ThreadRole := RoleMember\<rparr>)],
     db_perms := [perm_row 2, perm_row 3],
     db_settings := [\<lparr>st_thread_dialog_id = 2, st_domain_id = 7, st_title = []\<rparr>,
                     \<lparr>st_thread_dialog_id = 3, st_domain_id = 7, st_title = []\<rparr>]\<rparr>"

definition perm_request :: UpdateThreadPermissionRequest where
  "perm_request = \<lparr>up_InitiatorContactID = Some 52, up_TargetMemberID = 3, up_ThreadID = 6,
     up_CanSendMessages = Some False, up_CanAddMembers = None, up_CanRemoveMembers = None,
     up_CanChangeMembersPermissions = None, up_CanChangeThreadInfo = None, up_CanDeleteMessages = None,
     up_CanReactMessages = None\<rparr>"

lemmas perm_defs = perm_db_def perm_row_def perm_request_def all_permissions_def new_dialog_row_def example_defs


theorem update_without_thread_fails_witness:
  "\<exists>e db'. ThreadPermission_Update (Some (perm_request\<lparr>up_ThreadID := uuid_nil\<rparr>)) perm_db = (Inl e, db')
     \<and> db_perms db' = [perm_row 2, perm_row 3]"
proof -
  have "\<exists>e db'. ThreadPermission_Update (Some (perm_request\<lparr>up_ThreadID := uuid_nil\<rparr>)) perm_db = (Inl e, db')
     \<and> db_perms db' = db_perms perm_db"
    by (rule update_without_thread_fails) (simp_all add: perm_db_def new_dialog_row_def example_member_def)
  then show ?thesis by (simp add: perm_db_def)
qed

theorem react_change_always_rejected_witness:
  "\<exists>e. ThreadPermission_Update (Some (perm_request\<lparr>up_CanReactMessages := Some True\<rparr>)) perm_db = (Inl e, perm_db)
     \<and> CanReactMessages (pm_perms (perm_row 2))"
proof -
  have "\<exists>e. ThreadPermission_Update (Some (perm_request\<lparr>up_CanReactMessages := Some True\<rparr>)) perm_db = (Inl e, perm_db)"
    by (rule react_change_always_rejected [where i = 52 and b = True]) (simp_all add: perm_request_def)
  then show ?thesis by (simp add: perm_row_def all_permissions_def)
qed

end
