(* ===== verification/Tags.thy ===== *)
theory Tags
  imports Dialog_Store Messages "HOL-Library.List_Lexorder" "HOL-Library.Char_ord"
begin

text \<open>
  Thread tags: \<^verbatim>\<open>internal/store/postgres/thread_tag_store.go\<close> and
  \<^verbatim>\<open>internal/service/thread_tag.go\<close>, with the two hooks the other services call when a message
  arrives and when a member leaves. Text is ordered bytewise (the C collation). The Go clock is
  the parameter \<open>now\<close>; a nil request pointer is None.
\<close>

section \<open>The store\<close>

type_synonym ThreadTag = tag_row

definition same_tag :: "uuid \<Rightarrow> uuid \<Rightarrow> string \<Rightarrow> tag_row \<Rightarrow> bool" where
  "same_tag t c tag r = (tg_thread_id r = t \<and> tg_contact_id r = c \<and> tg_tag r = tag)"

text \<open>\<^verbatim>\<open>CHECK (char_length(tag) BETWEEN 1 AND 64)\<close>, in characters of the UTF-8 text.\<close>

definition char_length :: "string \<Rightarrow> nat" where
  "char_length s = length (filter RuneStart s)"

definition tag_Add :: "uuid \<Rightarrow> uuid \<Rightarrow> string \<Rightarrow> db \<Rightarrow> ((ThreadTag \<times> bool) \<times> db) res" where
  "tag_Add t c tag db =
     (if \<not> (1 \<le> char_length tag \<and> char_length tag \<le> 64)
      then Inl (Err Internal ''error executing tag insert query'')
      else case find (same_tag t c tag) (db_tags db) of
        Some r \<Rightarrow> Inr ((r, False), db)
      | None \<Rightarrow>
          (if thread_of db t = None then Inl (Err NotFound ''thread not found'')
           else (let r = \<lparr>tg_id = db_next_id db, tg_thread_id = t, tg_contact_id = c, tg_tag = tag,
                          tg_created_at = db_now db\<rparr>
                 in Inr ((r, True), db\<lparr>db_tags := db_tags db @ [r], db_next_id := Suc (db_next_id db)\<rparr>))))"

definition tag_Remove :: "uuid \<Rightarrow> uuid \<Rightarrow> db \<Rightarrow> (uuid \<times> db) res" where
  "tag_Remove tagID c db =
     (case find (\<lambda>r. tg_id r = tagID \<and> tg_contact_id r = c) (db_tags db) of
        None \<Rightarrow> Inl (Err NotFound ''tag not found'')
      | Some r \<Rightarrow> Inr (tg_thread_id r,
                     db\<lparr>db_tags := filter (\<lambda>x. \<not> (tg_id x = tagID \<and> tg_contact_id x = c)) (db_tags db)\<rparr>))"

definition tag_RemoveByName :: "uuid \<Rightarrow> uuid \<Rightarrow> string \<Rightarrow> db \<Rightarrow> bool \<times> db" where
  "tag_RemoveByName t c tag db =
     ((\<exists>r \<in> set (db_tags db). same_tag t c tag r),
      db\<lparr>db_tags := filter (\<lambda>r. \<not> same_tag t c tag r) (db_tags db)\<rparr>)"

text \<open>No tag names means all of them. The order of \<^verbatim>\<open>SELECT DISTINCT\<close> is that of first occurrence.\<close>

definition RemoveForContacts :: "uuid \<Rightarrow> uuid list \<Rightarrow> string list \<Rightarrow> db \<Rightarrow> uuid list \<times> db" where
  "RemoveForContacts t contacts tags db =
     (if t = uuid_nil \<or> contacts = [] then ([], db)
      else (let hit = (\<lambda>r. tg_thread_id r = t \<and> tg_contact_id r \<in> set contacts
                           \<and> (tags = [] \<or> tg_tag r \<in> set tags))
            in (remdups (map tg_contact_id (filter hit (db_tags db))),
                db\<lparr>db_tags := filter (\<lambda>r. \<not> hit r) (db_tags db)\<rparr>)))"

definition ListNames :: "uuid \<Rightarrow> uuid \<Rightarrow> db \<Rightarrow> string list" where
  "ListNames t c db =
     map tg_tag (sort_key (\<lambda>r. (tg_created_at r, tg_tag r))
       (filter (\<lambda>r. tg_thread_id r = t \<and> tg_contact_id r = c) (db_tags db)))"

definition ListForContact :: "uuid \<Rightarrow> uuid list \<Rightarrow> db \<Rightarrow> uuid \<Rightarrow> ThreadTag list" where
  "ListForContact c threads db =
     (if c = uuid_nil \<or> threads = [] then (\<lambda>_. [])
      else (let rows = sort_key tg_created_at
                  (filter (\<lambda>r. tg_contact_id r = c \<and> tg_thread_id r \<in> set threads) (db_tags db))
            in (\<lambda>t. filter (\<lambda>r. tg_thread_id r = t) rows)))"

text \<open>One row more than the page holds is fetched, so the caller can tell whether more follow.\<close>

definition tag_SearchTags :: "uuid \<Rightarrow> int \<Rightarrow> int \<Rightarrow> db \<Rightarrow> string list res" where
  "tag_SearchTags c page sz db =
     (if c = uuid_nil then Inl (Err InvalidArgument ''contact_id is required'')
      else (let limit0 = (if sz \<le> 0 then 20 else sz);
                limit = (if limit0 > 100 then 100 else limit0);
                offset = (if page > 1 then (page - 1) * limit else 0)
            in Inr (take (nat (limit + 1)) (drop (nat offset)
                 (sort (remdups (map tg_tag (filter (\<lambda>r. tg_contact_id r = c) (db_tags db)))))))))"

section \<open>The service\<close>

definition activeMember :: "uuid \<Rightarrow> uuid \<Rightarrow> db \<Rightarrow> ThreadDialog option" where
  "activeMember t c db =
     (case GetQuickView ((thread_filter t)\<lparr>f_ContactIDs := Some [c], f_Limit := 1\<rparr>) db of
        [] \<Rightarrow> None | m # _ \<Rightarrow> Some m)"

definition publishTagsChanged :: "time \<Rightarrow> uuid \<Rightarrow> uuid \<Rightarrow> int \<Rightarrow> db \<Rightarrow> db res" where
  "publishTagsChanged now t c domain db =
     publish_event (EvThreadTagsChanged (NewThreadTagsChanged now t c domain (ListNames t c db))) db"

definition notifyMemberTagsChanged :: "time \<Rightarrow> uuid \<Rightarrow> uuid \<Rightarrow> db \<Rightarrow> db res" where
  "notifyMemberTagsChanged now t c db =
     (case activeMember t c db of
        None \<Rightarrow> Inr db
      | Some m \<Rightarrow> publishTagsChanged now t c (to_int32 (bm_DomainID m)) db)"

record AddTagRequest =
  at_ContactID :: uuid
  at_ThreadID :: uuid
  at_Tag :: string

definition AddTag :: "time \<Rightarrow> AddTagRequest option \<Rightarrow> db \<Rightarrow> ThreadTag res \<times> db" where
  "AddTag now req db =
     (case req of None \<Rightarrow> (Inl (Err InvalidArgument ''request cannot be nil''), db)
      | Some r \<Rightarrow>
         if at_ContactID r = uuid_nil then (Inl (Err InvalidArgument ''contact_id is required''), db)
         else if at_ThreadID r = uuid_nil then (Inl (Err InvalidArgument ''thread_id is required''), db)
         else if at_Tag r = [] then (Inl (Err InvalidArgument ''tag is required''), db)
         else WithinTransaction (\<lambda>db.
           case activeMember (at_ThreadID r) (at_ContactID r) db of
             None \<Rightarrow> Inl (Err Forbidden ''only thread members can tag the thread'')
           | Some m \<Rightarrow>
               bindr (tag_Add (at_ThreadID r) (at_ContactID r) (at_Tag r) db) (\<lambda>((tag, inserted), db1).
                 if \<not> inserted then Inr (tag, db1)
                 else bindr (publishTagsChanged now (at_ThreadID r) (at_ContactID r)
                               (to_int32 (bm_DomainID m)) db1)
                        (\<lambda>db2. Inr (tag, db2)))) db)"

definition RemoveTag :: "time \<Rightarrow> (uuid \<times> uuid) option \<Rightarrow> db \<Rightarrow> unit res \<times> db" where
  "RemoveTag now req db =
     (case req of None \<Rightarrow> (Inl (Err InvalidArgument ''request cannot be nil''), db)
      | Some (tagID, contactID) \<Rightarrow>
         if tagID = uuid_nil then (Inl (Err InvalidArgument ''tag_id is required''), db)
         else if contactID = uuid_nil then (Inl (Err InvalidArgument ''contact_id is required''), db)
         else WithinTransaction (\<lambda>db.
           bindr (tag_Remove tagID contactID db) (\<lambda>(t, db1).
             bindr (notifyMemberTagsChanged now t contactID db1) (\<lambda>db2. Inr ((), db2)))) db)"

definition RemoveTagByName :: "time \<Rightarrow> AddTagRequest option \<Rightarrow> db \<Rightarrow> unit res \<times> db" where
  "RemoveTagByName now req db =
     (case req of None \<Rightarrow> (Inl (Err InvalidArgument ''request cannot be nil''), db)
      | Some r \<Rightarrow>
         if at_ContactID r = uuid_nil then (Inl (Err InvalidArgument ''contact_id is required''), db)
         else if at_ThreadID r = uuid_nil then (Inl (Err InvalidArgument ''thread_id is required''), db)
         else if at_Tag r = [] then (Inl (Err InvalidArgument ''tag is required''), db)
         else WithinTransaction (\<lambda>db.
           case tag_RemoveByName (at_ThreadID r) (at_ContactID r) (at_Tag r) db of
             (removed, db1) \<Rightarrow>
               if \<not> removed then Inr ((), db1)
               else bindr (notifyMemberTagsChanged now (at_ThreadID r) (at_ContactID r) db1)
                      (\<lambda>db2. Inr ((), db2))) db)"

definition SearchTags :: "(uuid \<times> int \<times> int) option \<Rightarrow> db \<Rightarrow> string list res" where
  "SearchTags req db =
     (case req of None \<Rightarrow> Inl (Err InvalidArgument ''request cannot be nil'')
      | Some (c, page, sz) \<Rightarrow>
         if c = uuid_nil then Inl (Err InvalidArgument ''contact_id is required'')
         else tag_SearchTags c page sz db)"

definition SnoozedTag :: string where
  "SnoozedTag = ''snoozed''"

definition Snooze :: "time \<Rightarrow> uuid \<Rightarrow> uuid \<Rightarrow> db \<Rightarrow> ThreadTag res \<times> db" where
  "Snooze now t c db = AddTag now (Some \<lparr>at_ContactID = c, at_ThreadID = t, at_Tag = SnoozedTag\<rparr>) db"

definition Unsnooze :: "time \<Rightarrow> uuid \<Rightarrow> uuid \<Rightarrow> db \<Rightarrow> unit res \<times> db" where
  "Unsnooze now t c db = RemoveTagByName now (Some \<lparr>at_ContactID = c, at_ThreadID = t, at_Tag = SnoozedTag\<rparr>) db"

definition OnMessage :: "time \<Rightarrow> Message \<Rightarrow> db \<Rightarrow> db res" where
  "OnMessage now msg db =
     (if RecipientIDs msg = [] then Inr db
      else (case RemoveForContacts (m_ThreadID msg) (RecipientIDs msg) [SnoozedTag] db of
              (cleared, db1) \<Rightarrow>
                foldr_res (\<lambda>c. publishTagsChanged now (m_ThreadID msg) c (m_DomainID msg)) cleared db1))"

definition OnMemberLeft :: "uuid \<Rightarrow> uuid \<Rightarrow> db \<Rightarrow> db res" where
  "OnMemberLeft t c db = Inr (snd (RemoveForContacts t [c] [] db))"

section \<open>Lemmas\<close>

definition tags_ok :: "db \<Rightarrow> bool" where
  "tags_ok db = (distinct (map (\<lambda>r. (tg_thread_id r, tg_contact_id r, tg_tag r)) (db_tags db))
     \<and> distinct (map tg_id (db_tags db)) \<and> (\<forall>r \<in> set (db_tags db). tg_id r < db_next_id db))"

lemma set_ListNames: "set (ListNames t c db) = {g. \<exists>r \<in> set (db_tags db). same_tag t c g r}"
  by (auto simp: ListNames_def same_tag_def)

lemma ListNames_published [simp]: "ListNames t c (published e db) = ListNames t c db"
  by (simp add: ListNames_def)

lemma publishTagsChanged_total: "publishTagsChanged now t c d db =
    Inr (published (EvThreadTagsChanged (NewThreadTagsChanged now t c d (ListNames t c db))) db)"
  by (simp add: publishTagsChanged_def publish_event_eq)

definition publish_tags :: "time \<Rightarrow> uuid \<Rightarrow> int \<Rightarrow> uuid list \<Rightarrow> db \<Rightarrow> db" where
  "publish_tags now t d cs db =
     fold (\<lambda>c db. published (EvThreadTagsChanged (NewThreadTagsChanged now t c d (ListNames t c db))) db) cs db"

lemma publish_tags_fold:
  "foldr_res (\<lambda>c. publishTagsChanged now t c d) cs db = Inr (publish_tags now t d cs db)"
  by (induction cs arbitrary: db) (simp_all add: publishTagsChanged_total publish_tags_def)

lemma publish_tags_frame [simp]:
  "db_threads (publish_tags now t d cs db) = db_threads db" "db_dialogs (publish_tags now t d cs db) = db_dialogs db"
  "db_perms (publish_tags now t d cs db) = db_perms db" "db_settings (publish_tags now t d cs db) = db_settings db"
  "db_stack (publish_tags now t d cs db) = db_stack db" "db_messages (publish_tags now t d cs db) = db_messages db"
  "db_tags (publish_tags now t d cs db) = db_tags db" "db_next_id (publish_tags now t d cs db) = db_next_id db"
  "db_now (publish_tags now t d cs db) = db_now db" "db_tx (publish_tags now t d cs db) = db_tx db"
  by (induction cs arbitrary: db) (simp_all add: publish_tags_def)

lemma publish_tags_outbox:
  "db_outbox (publish_tags now t d cs db) = db_outbox db @ map (\<lambda>c. ([S ''im_thread'', U t, S ''thread'', S ''tags'', S ''v1''],
     EvThreadTagsChanged (NewThreadTagsChanged now t c d (ListNames t c db)), Some (db_tx db))) cs"
  by (induction cs arbitrary: db) (simp_all add: publish_tags_def cursor_of_def NewThreadTagsChanged_def)

lemma OnMessage_total: "\<exists>db'. OnMessage now msg db = Inr db'"
  by (auto simp: OnMessage_def publish_tags_fold split: prod.splits)

text \<open>The tables a tag operation does not touch.\<close>

definition tags_only :: "db \<Rightarrow> db \<Rightarrow> bool" where
  "tags_only db db' \<longleftrightarrow> db_threads db' = db_threads db \<and> db_dialogs db' = db_dialogs db
     \<and> db_perms db' = db_perms db \<and> db_settings db' = db_settings db \<and> db_stack db' = db_stack db
     \<and> db_messages db' = db_messages db \<and> db_next_id db' = db_next_id db \<and> db_now db' = db_now db"

lemma tags_only_refl [simp]: "tags_only db db"
  by (simp add: tags_only_def)

lemma tags_only_RemoveForContacts: "tags_only db (snd (RemoveForContacts t cs tags db))"
  by (simp add: RemoveForContacts_def tags_only_def Let_def)

lemma OnMessage_tags:
  "OnMessage now msg db = Inr db' \<Longrightarrow>
     db_tags db' = filter (\<lambda>r. \<not> (m_ThreadID msg \<noteq> uuid_nil \<and> tg_thread_id r = m_ThreadID msg
        \<and> tg_contact_id r \<in> set (RecipientIDs msg) \<and> tg_tag r = SnoozedTag)) (db_tags db)"
  by (auto simp: OnMessage_def publish_tags_fold RemoveForContacts_def Let_def split: if_splits)

lemma OnMessage_frame: "OnMessage now msg db = Inr db' \<Longrightarrow> tags_only db db'"
  by (auto simp: OnMessage_def publish_tags_fold RemoveForContacts_def tags_only_def Let_def split: if_splits)

lemma OnMemberLeft_tags:
  "OnMemberLeft t c db = Inr db' \<Longrightarrow> t \<noteq> uuid_nil \<Longrightarrow>
     db_tags db' = filter (\<lambda>r. \<not> (tg_thread_id r = t \<and> tg_contact_id r = c)) (db_tags db)"
  by (auto simp: OnMemberLeft_def RemoveForContacts_def Let_def split: if_splits)

lemma OnMemberLeft_frame: "OnMemberLeft t c db = Inr db' \<Longrightarrow> tags_only db db'"
  using tags_only_RemoveForContacts by (auto simp: OnMemberLeft_def)

section \<open>Properties\<close>

lemma activeMember_eq:
  "activeMember t c db =
     (case filter (\<lambda>d. dl_thread_id d = t \<and> dl_member_id d = c \<and> active d) (db_dialogs db) of
        [] \<Rightarrow> None | d # _ \<Rightarrow> Some (quick_row d))"
  by (simp add: activeMember_def GetQuickView_def thread_filter_def any_of_def limited_def split: list.splits)

lemma activeMember_Some:
  assumes "activeMember t c db = Some m"
  shows "\<exists>d \<in> set (db_dialogs db). m = quick_row d \<and> dl_thread_id d = t \<and> dl_member_id d = c \<and> active d"
proof -
  obtain d ds where "filter (\<lambda>d. dl_thread_id d = t \<and> dl_member_id d = c \<and> active d) (db_dialogs db) = d # ds"
      "m = quick_row d"
    using assms by (auto simp: activeMember_eq split: list.splits)
  then show ?thesis by (auto dest: filter_ConsD)
qed

text \<open>
  Tagging is idempotent and announced once. When \<^verbatim>\<open>AddTag\<close> succeeds the caller is an active
  member of the thread and the tag is in the caller's list; repeating the call returns the same
  tag and leaves the whole state, outbox included, as it was; and the first call's event carries
  the list as it stands after the change. A failed call changes nothing.
\<close>

theorem AddTag_idempotent:
  assumes "AddTag now (Some r) db = (Inr tag, db')"
  shows "at_Tag r \<in> set (ListNames (at_ThreadID r) (at_ContactID r) db')
    \<and> (\<exists>d \<in> set (db_dialogs db). dl_thread_id d = at_ThreadID r \<and> dl_member_id d = at_ContactID r \<and> active d)
    \<and> AddTag now2 (Some r) db' = (Inr tag, db')
    \<and> (db' = db \<or> (\<exists>domain. db_outbox db' = db_outbox db @
         [([S ''im_thread'', U (at_ThreadID r), S ''thread'', S ''tags'', S ''v1''],
           EvThreadTagsChanged (NewThreadTagsChanged now (at_ThreadID r) (at_ContactID r) domain
             (ListNames (at_ThreadID r) (at_ContactID r) db')), Some (db_tx db))]))"
proof -
  let ?t = "at_ThreadID r" and ?c = "at_ContactID r" and ?g = "at_Tag r"
  from assms have g: "?c \<noteq> uuid_nil" "?t \<noteq> uuid_nil" "?g \<noteq> []"
    by (auto simp: AddTag_def split: if_splits)
  then obtain m where m: "activeMember ?t ?c db = Some m"
    using assms by (auto simp: AddTag_def WithinTransaction_Inr split: option.splits)
  obtain tag' ins db1 where a': "tag_Add ?t ?c ?g db = Inr ((tag', ins), db1)"
    using assms g m
    by (cases "tag_Add ?t ?c ?g db") (auto simp: AddTag_def WithinTransaction_Inr)
  then have a: "tag_Add ?t ?c ?g db = Inr ((tag, ins), db1)"
      and db': "db' = (if ins then published (EvThreadTagsChanged
           (NewThreadTagsChanged now ?t ?c (to_int32 (bm_DomainID m)) (ListNames ?t ?c db1))) db1 else db1)"
    using assms g m
    by (auto simp: AddTag_def WithinTransaction_Inr publishTagsChanged_total split: if_splits)
  from a have len: "1 \<le> char_length ?g" "char_length ?g \<le> 64"
    by (auto simp: tag_Add_def split: if_splits)
  have f: "find (same_tag ?t ?c ?g) (db_tags db1) = Some tag" and same: "\<not> ins \<Longrightarrow> db1 = db"
      and new: "db_dialogs db1 = db_dialogs db" "db_outbox db1 = db_outbox db" "db_tx db1 = db_tx db"
    using a len
    by (auto simp: tag_Add_def same_tag_def find_append Let_def split: option.splits if_splits)
  have f': "find (same_tag ?t ?c ?g) (db_tags db') = Some tag" and d': "db_dialogs db' = db_dialogs db"
    using f new db' by auto
  have ln: "ListNames ?t ?c db' = ListNames ?t ?c db1" unfolding db' by (simp add: ListNames_def)
  have "activeMember ?t ?c db' = Some m" using m d' by (simp add: activeMember_def GetQuickView_def)
  moreover have "tag_Add ?t ?c ?g db' = Inr ((tag, False), db')" using f' len by (simp add: tag_Add_def)
  ultimately have "AddTag now2 (Some r) db' = (Inr tag, db')"
    using g by (simp add: AddTag_def WithinTransaction_def)
  moreover have "?g \<in> set (ListNames ?t ?c db')" using find_SomeD [OF f'] by (auto simp: set_ListNames)
  moreover have "\<exists>d \<in> set (db_dialogs db). dl_thread_id d = ?t \<and> dl_member_id d = ?c \<and> active d"
    using activeMember_Some [OF m] by auto
  moreover have "db' = db \<or> (\<exists>domain. db_outbox db' = db_outbox db @
         [([S ''im_thread'', U ?t, S ''thread'', S ''tags'', S ''v1''],
           EvThreadTagsChanged (NewThreadTagsChanged now ?t ?c domain (ListNames ?t ?c db')), Some (db_tx db))])"
    using db' same new ln by (auto simp: cursor_of_def NewThreadTagsChanged_def)
  ultimately show ?thesis by blast
qed

text \<open>Thread 6 with the member of contact 50, and that member's snooze tag.\<close>

definition tag_db :: db where
  "tag_db = example_db\<lparr>db_dialogs := [new_dialog_row 2 0 7 example_member]\<rparr>"

definition snoozed_db :: db where
  "snoozed_db = tag_db\<lparr>db_tags := [\<lparr>tg_id = 3, tg_thread_id = 6, tg_contact_id = 50, tg_tag = SnoozedTag, tg_created_at = 0\<rparr>]\<rparr>"

theorem AddTag_idempotent_witness:
  "\<exists>tag db'. AddTag 1 (Some \<lparr>at_ContactID = 50, at_ThreadID = 6, at_Tag = ''vip''\<rparr>) tag_db = (Inr tag, db')
     \<and> ''vip'' \<in> set (ListNames 6 50 db')
     \<and> AddTag 2 (Some \<lparr>at_ContactID = 50, at_ThreadID = 6, at_Tag = ''vip''\<rparr>) db' = (Inr tag, db')"
proof -
  let ?r = "\<lparr>at_ContactID = 50, at_ThreadID = 6, at_Tag = ''vip''\<rparr>"
  obtain tag db' where a: "AddTag 1 (Some ?r) tag_db = (Inr tag, db')"
    by (simp add: AddTag_def WithinTransaction_def activeMember_eq tag_db_def new_dialog_row_def active_def
        tag_Add_def char_length_def RuneStart_def byte_def example_defs thread_of_def publishTagsChanged_total Let_def)
  from AddTag_idempotent [OF a, of 2] have
    "''vip'' \<in> set (ListNames 6 50 db')" "AddTag 2 (Some ?r) db' = (Inr tag, db')" by simp_all
  with a show ?thesis by (intro exI conjI)
qed

text \<open>
  A message wakes the thread for its recipients only: the hook never fails, removes the
  snooze tag of every recipient of the message and no other tag of anybody (the sender keeps
  its own), and publishes one tag change per contact that lost the tag, each with the tags the
  contact has left.
\<close>

theorem OnMessage_unsnoozes:
  assumes "m_ThreadID msg \<noteq> uuid_nil"
  shows "\<exists>db' cleared. OnMessage now msg db = Inr db'
    \<and> (\<forall>t c g. g \<in> set (ListNames t c db') \<longleftrightarrow>
          g \<in> set (ListNames t c db) \<and> \<not> (t = m_ThreadID msg \<and> g = SnoozedTag
            \<and> c \<noteq> GetSender msg \<and> c \<in> td_ContactID ` set (m_To msg)))
    \<and> distinct cleared
    \<and> set cleared = {c \<in> td_ContactID ` set (m_To msg). c \<noteq> GetSender msg
                       \<and> SnoozedTag \<in> set (ListNames (m_ThreadID msg) c db)}
    \<and> db_outbox db' = db_outbox db @ map (\<lambda>c. ([S ''im_thread'', U (m_ThreadID msg), S ''thread'', S ''tags'', S ''v1''],
        EvThreadTagsChanged (NewThreadTagsChanged now (m_ThreadID msg) c (m_DomainID msg)
          (ListNames (m_ThreadID msg) c db')), Some (db_tx db))) cleared"
proof -
  let ?t = "m_ThreadID msg"
  let ?cl = "fst (RemoveForContacts ?t (RecipientIDs msg) [SnoozedTag] db)"
  let ?db1 = "snd (RemoveForContacts ?t (RecipientIDs msg) [SnoozedTag] db)"
  obtain db' where db': "OnMessage now msg db = Inr db'" using OnMessage_total by blast
  have "g \<in> set (ListNames t c db') \<longleftrightarrow> g \<in> set (ListNames t c db) \<and> \<not> (t = ?t \<and> g = SnoozedTag
            \<and> c \<noteq> GetSender msg \<and> c \<in> td_ContactID ` set (m_To msg))" for t c g
    using assms by (auto simp: set_ListNames OnMessage_tags [OF db'] RecipientIDs_eq same_tag_def)
  moreover have "distinct ?cl" by (simp add: RemoveForContacts_def Let_def)
  moreover have "set ?cl = {c \<in> td_ContactID ` set (m_To msg). c \<noteq> GetSender msg
                       \<and> SnoozedTag \<in> set (ListNames ?t c db)}"
  proof (cases "RecipientIDs msg = []")
    case True
    then have "td_ContactID ` set (m_To msg) - {GetSender msg} = {}" using RecipientIDs_eq [of msg] by simp
    then show ?thesis using True by (auto simp: RemoveForContacts_def)
  next
    case False
    then show ?thesis using assms RecipientIDs_eq [of msg]
      by (auto simp: RemoveForContacts_def Let_def set_ListNames same_tag_def intro: rev_image_eqI)
  qed
  moreover have "db_outbox db' = db_outbox db @ map (\<lambda>c. ([S ''im_thread'', U ?t, S ''thread'', S ''tags'', S ''v1''],
        EvThreadTagsChanged (NewThreadTagsChanged now ?t c (m_DomainID msg) (ListNames ?t c db')), Some (db_tx db))) ?cl"
  proof (cases "RecipientIDs msg = []")
    case True
    then show ?thesis using db' by (simp add: OnMessage_def RemoveForContacts_def)
  next
    case False
    then have e: "db' = publish_tags now ?t (m_DomainID msg) ?cl ?db1"
      using db' by (simp add: OnMessage_def publish_tags_fold split: prod.splits)
    have "ListNames ?t c db' = ListNames ?t c ?db1" for c by (subst e) (simp add: ListNames_def)
    moreover have "db_outbox ?db1 = db_outbox db" "db_tx ?db1 = db_tx db" by (simp_all add: RemoveForContacts_def Let_def)
    ultimately show ?thesis using publish_tags_outbox [of now ?t "m_DomainID msg" ?cl ?db1] e by simp
  qed
  ultimately show ?thesis using db' by blast
qed

definition example_message :: Message where
  "example_message = zero_message\<lparr>m_ThreadID := 6, m_DomainID := 7,
       m_From := \<lparr>pr_ID = 40, pr_Type = PeerContact, pr_Identity = None\<rparr>,
       m_To := [zero_dialog\<lparr>td_ContactID := 50\<rparr>, zero_dialog\<lparr>td_ContactID := 40\<rparr>]\<rparr>"

theorem OnMessage_unsnoozes_witness:
  "\<exists>db'. OnMessage 9 example_message snoozed_db = Inr db' \<and> SnoozedTag \<notin> set (ListNames 6 50 db')
     \<and> SnoozedTag \<in> set (ListNames 6 50 snoozed_db)"
proof -
  have m: "m_ThreadID example_message \<noteq> uuid_nil" "m_ThreadID example_message = 6"
      "GetSender example_message = 40" "td_ContactID ` set (m_To example_message) = {50, 40}"
    by (simp_all add: example_message_def GetSender_def zero_message_def)
  obtain db' where db': "OnMessage 9 example_message snoozed_db = Inr db'"
      and *: "\<forall>t c g. g \<in> set (ListNames t c db') \<longleftrightarrow> g \<in> set (ListNames t c snoozed_db) \<and>
       \<not> (t = m_ThreadID example_message \<and> g = SnoozedTag \<and> c \<noteq> GetSender example_message
          \<and> c \<in> td_ContactID ` set (m_To example_message))"
    using OnMessage_unsnoozes [OF m(1), of 9 snoozed_db] by (elim exE conjE)
  have "SnoozedTag \<in> set (ListNames 6 50 snoozed_db)"
    by (simp add: set_ListNames snoozed_db_def same_tag_def)
  moreover have "SnoozedTag \<notin> set (ListNames 6 50 db')" using spec [OF spec [OF spec [OF *, of 6], of 50], of SnoozedTag] m by simp
  ultimately show ?thesis using db' by blast
qed

end
