(* ===== verification/Thread_Manager.thy ===== *)
theory Thread_Manager
  imports Thread_Store Permissions Tags
begin

text \<open>
  \<^verbatim>\<open>internal/service/thread_manager.go\<close>: membership, transfer and bot control of threads, every
  operation with its guards, its transaction, its system messages and its events. What the
  service asks other services for is in the record \<open>env\<close>: the privacy checker, the contact
  directory, the clock, the context values and the package functions; a nil contact directory
  behaves as one whose every answer is an error. The reference cache (\<^verbatim>\<open>refreshQueue\<close>,
  \<^verbatim>\<open>refreshSource\<close>) writes display names to other tables, and \<^verbatim>\<open>dispatchSystemMessages\<close> calls the
  providers after the commit; neither touches this state. A nil request pointer is None; member
  slices come from \<^verbatim>\<open>collectRows\<close> and are never nil.
\<close>

section \<open>The outside world\<close>

record env =
  ev_CanInvite :: "uuid \<Rightarrow> uuid \<Rightarrow> unit res"
  ev_CanSend :: "uuid \<Rightarrow> uuid \<Rightarrow> unit res"
  ev_IsBot :: "uuid \<Rightarrow> int \<Rightarrow> bool res"
  ev_GetSub :: "uuid \<Rightarrow> int \<Rightarrow> int option res"
  ev_now :: time
  ev_graphemes :: "string \<Rightarrow> int"
  ev_uuid_valid :: "string \<Rightarrow> bool"
  ev_sendID :: string
  ev_ctx :: ctx

definition peerIsBot :: "env \<Rightarrow> uuid \<Rightarrow> int \<Rightarrow> bool" where
  "peerIsBot env c domain = (case ev_IsBot env c domain of Inl _ \<Rightarrow> False | Inr b \<Rightarrow> b)"

text \<open>The lookup of a contact's scheme id, with its failures logged and dropped.\<close>

definition sub_of :: "env \<Rightarrow> uuid \<Rightarrow> int \<Rightarrow> int option" where
  "sub_of env c domain =
     (if c = uuid_nil then None else case ev_GetSub env c domain of Inl _ \<Rightarrow> None | Inr s \<Rightarrow> s)"

section \<open>Roles\<close>

definition isOperator :: "bool \<Rightarrow> ThreadRole \<Rightarrow> bool" where
  "isOperator isBot role \<longleftrightarrow> \<not> isBot \<and> role \<noteq> RoleOwner"

definition hasOperator :: "ThreadDialog list \<Rightarrow> bool" where
  "hasOperator members \<longleftrightarrow> (\<exists>m \<in> set members. isOperator (td_IsBot m) (td_ThreadRole m))"

definition isBotMember :: "ThreadDialog list \<Rightarrow> uuid \<Rightarrow> bool" where
  "isBotMember members c =
     (case find (\<lambda>m. td_ContactID m = c) members of None \<Rightarrow> False | Some m \<Rightarrow> td_IsBot m)"

definition findAddMemberActors :: "uuid \<Rightarrow> uuid \<Rightarrow> uuid \<Rightarrow> db
    \<Rightarrow> (ThreadDialogExtended option \<times> ThreadDialogExtended option) res" where
  "findAddMemberActors t initiatorContactID targetContactID db =
     bindr (GetFullView ((thread_filter t)\<lparr>f_ContactIDs := Some [initiatorContactID, targetContactID]\<rparr>) db)
       (\<lambda>ms. Inr (pick_actors (\<lambda>m. tdx_ContactID m = initiatorContactID)
                              (\<lambda>m. tdx_ContactID m = targetContactID) ms None None))"

definition verifyOperator :: "uuid \<Rightarrow> uuid \<Rightarrow> db \<Rightarrow> unit res" where
  "verifyOperator t c db =
     (if t = uuid_nil \<or> c = uuid_nil then Inl (Err InvalidArgument ''thread_id and initiator are required'')
      else bindr (findAddMemberActors t c uuid_nil db) (\<lambda>(initiator, _).
        (case initiator of
           None \<Rightarrow> Inl (Err Forbidden ''only an operator of the thread can switch it between the bot and the operator'')
         | Some i \<Rightarrow> fail_if (\<not> isOperator (tdx_IsBot i) (tdx_ThreadRole i))
             (Err Forbidden ''only an operator of the thread can switch it between the bot and the operator''))))"

definition verifyAddMemberInitiatorPermissions :: "ThreadRole \<Rightarrow> ThreadRole \<Rightarrow> ThreadPermissions \<Rightarrow> unit res" where
  "verifyAddMemberInitiatorPermissions initiatorRole targetRole p =
     (if \<not> CanAddMembers p then Inl (Err Forbidden ''initiator does not have permission to invite members'')
      else if initiatorRole < targetRole
      then Inl (Err Forbidden ''initiator does not have permission to invite a member with higher role'')
      else Inr ())"

definition verifyAddMember :: "env \<Rightarrow> ThreadDialogExtended option \<Rightarrow> uuid \<Rightarrow> ThreadRole \<Rightarrow> unit res" where
  "verifyAddMember env initiator targetContactID role =
     (case initiator of
        None \<Rightarrow> Inl (Err NotFound ''thread not found or initiator does not have permission'')
      | Some i \<Rightarrow>
         if tdx_ContactID i = targetContactID then Inl (Err InvalidArgument ''cannot add self as member'')
         else bindr (verifyAddMemberInitiatorPermissions (tdx_ThreadRole i) role (tdx_Permissions i)) (\<lambda>_.
              ev_CanInvite env (tdx_ContactID i) targetContactID))"

definition verifyRemoveMemberInitiatorPermissions ::
    "ThreadRole \<Rightarrow> ThreadRole \<Rightarrow> ThreadPermissions \<Rightarrow> bool \<Rightarrow> unit res" where
  "verifyRemoveMemberInitiatorPermissions initiatorRole targetRole p targetIsBot =
     (if \<not> CanRemoveMembers p then Inl (Err Forbidden ''initiator does not have permission to remove members'')
      else if targetIsBot
      then (if initiatorRole < targetRole
            then Inl (Err Forbidden ''initiator does not have permission to remove members'') else Inr ())
      else if initiatorRole \<le> targetRole
      then Inl (Err Forbidden ''initiator does not have permission to remove members'')
      else Inr ())"

definition verifyRemoveMember :: "ThreadDialogExtended option \<Rightarrow> ThreadDialogExtended option \<Rightarrow> unit res" where
  "verifyRemoveMember initiator target =
     (case initiator of
        None \<Rightarrow> Inl (Err NotFound ''thread not found or initiator does not have permission'')
      | Some i \<Rightarrow>
         (case target of
            None \<Rightarrow> Inl (Err NotFound ''target not found'')
          | Some t \<Rightarrow>
             if bm_ID i = bm_ID t then Inr ()
             else verifyRemoveMemberInitiatorPermissions (tdx_ThreadRole i) (tdx_ThreadRole t)
                    (tdx_Permissions i) (tdx_IsBot t)))"

section \<open>Bot control events\<close>

definition botControlStackEntryToDialog :: "BotControlStackEntry \<Rightarrow> ThreadDialogExtended" where
  "botControlStackEntryToDialog e =
     zero_dialog_extended\<lparr>bm_ID := (case be_MemberID e of Some m \<Rightarrow> m | None \<Rightarrow> uuid_nil),
       bm_DomainID := be_DomainID e, tdx_ThreadID := be_ThreadID e, tdx_ContactID := be_ContactID e,
       tdx_AutoLeave := be_AutoLeave e\<rparr>"

definition positionAfterPush :: "BotControlStackEntry option \<Rightarrow> int" where
  "positionAfterPush prev = (case prev of None \<Rightarrow> 0 | Some e \<Rightarrow> be_Position e + 1)"

definition resolveAutoLeave :: "bool option \<Rightarrow> bool" where
  "resolveAutoLeave override = (case override of Some b \<Rightarrow> b | None \<Rightarrow> True)"

definition collectThreadAgents :: "env \<Rightarrow> uuid \<Rightarrow> int \<Rightarrow> db \<Rightarrow> BotControlAgent list" where
  "collectThreadAgents env t domain db =
     map (\<lambda>m. \<lparr>bca_MemberID = bm_ID m, bca_Sub = sub_of env (td_ContactID m) domain\<rparr>)
       (filter (\<lambda>m. isOperator (td_IsBot m) (td_ThreadRole m)) (GetQuickView (thread_filter t) db))"

definition publishBotControlReleased :: "env \<Rightarrow> uuid \<Rightarrow> uuid \<Rightarrow> uuid \<Rightarrow> int \<Rightarrow> int \<Rightarrow> uuid option
    \<Rightarrow> BotControlReason \<Rightarrow> db \<Rightarrow> db res" where
  "publishBotControlReleased env threadID memberID contactID position domainID nextMemberID reason db =
     (if memberID = uuid_nil then Inr db
      else publish_event (EvBotControlReleased
        \<lparr>br_ThreadID = threadID, br_DomainID = to_int32 domainID, br_MemberID = memberID, br_Position = position,
         br_Reason = reason_string reason, br_NextMemberID = nextMemberID, br_Sub = sub_of env contactID domainID,
         br_OccurredAt = ev_now env\<rparr>) db)"

definition publishBotControlGranted :: "env \<Rightarrow> ThreadDialogExtended \<Rightarrow> BotControlStackEntry option \<Rightarrow> int
    \<Rightarrow> BotControlReason \<Rightarrow> bool \<Rightarrow> db \<Rightarrow> db res" where
  "publishBotControlGranted env dialog prev position reason isResume db =
     (let prevMemberID = Option.bind prev be_MemberID;
          prevPosition = map_option be_Position prev;
          prevSchemeID = (case prev of None \<Rightarrow> None | Some p \<Rightarrow> sub_of env (be_ContactID p) (bm_DomainID dialog));
          schemeID = sub_of env (tdx_ContactID dialog) (bm_DomainID dialog)
      in bindr (case (prev, prevMemberID) of
                  (Some p, Some pm) \<Rightarrow> publishBotControlReleased env (tdx_ThreadID dialog) pm (be_ContactID p)
                     (be_Position p) (bm_DomainID dialog) (Some (bm_ID dialog)) reason db
                | _ \<Rightarrow> Inr db)
           (\<lambda>db1. publish_event (EvBotControlGranted
              \<lparr>bg_ThreadID = tdx_ThreadID dialog, bg_DomainID = to_int32 (bm_DomainID dialog),
               bg_MemberID = bm_ID dialog, bg_ContactID = tdx_ContactID dialog, bg_Position = position,
               bg_AutoLeave = tdx_AutoLeave dialog, bg_Reason = reason_string reason, bg_IsResume = isResume,
               bg_PreviousPosition = prevPosition, bg_PreviousMemberID = prevMemberID, bg_Sub = schemeID,
               bg_ReleasedSub = prevSchemeID,
               bg_Agents = collectThreadAgents env (tdx_ThreadID dialog) (bm_DomainID dialog) db1,
               bg_OccurredAt = ev_now env\<rparr>) db1))"

text \<open>After a \<^verbatim>\<open>Pop\<close>: a grant to the entry it returned, if that names a member.\<close>

definition grant_new_top :: "env \<Rightarrow> BotControlStackEntry option \<Rightarrow> (BotControlStackEntry \<Rightarrow> BotControlStackEntry)
    \<Rightarrow> BotControlReason \<Rightarrow> db \<Rightarrow> db res" where
  "grant_new_top env newTop prev reason db =
     (case newTop of
        None \<Rightarrow> Inr db
      | Some e \<Rightarrow>
          if be_MemberID e = None then Inr db
          else publishBotControlGranted env (botControlStackEntryToDialog e) (Some (prev e)) (be_Position e) reason True db)"

section \<open>System messages\<close>

definition threadParticipants :: "uuid \<Rightarrow> db \<Rightarrow> uuid list" where
  "threadParticipants t db = map td_ContactID (GetQuickView (thread_filter t) db)"

text \<open>\<^verbatim>\<open>publishMemberEvent\<close>: the participants are filled in from the members at that moment.\<close>

definition publishMemberEvent :: "event \<Rightarrow> db \<Rightarrow> db res" where
  "publishMemberEvent e db =
     publish_event (case e of
        EvMemberJoined c \<Rightarrow> EvMemberJoined (c\<lparr>mch_Participants := threadParticipants (mch_ThreadID c) db\<rparr>)
      | EvMemberLeft c \<Rightarrow> EvMemberLeft (c\<lparr>mch_Participants := threadParticipants (mch_ThreadID c) db\<rparr>)
      | _ \<Rightarrow> e) db"

definition sendThreadSystemMessage :: "env \<Rightarrow> Message \<Rightarrow> db \<Rightarrow> (Message \<times> db) res" where
  "sendThreadSystemMessage env msg db =
     (if m_ThreadID msg = uuid_nil then Inl (Err Unknown ''thread id cannot be nil'')
      else if m_DomainID msg \<le> 0 then Inl (Err Unknown ''domain id must be greater than zero'')
      else bindr (SaveSystemMessage msg db) (\<lambda>(saved0, db1).
        (let saved = saved0\<lparr>m_To := m_To msg, m_From := m_From msg\<rparr>
         in bindr (OnMessage (ev_now env) saved db1) (\<lambda>db2.
              (case Message_Events (WithCreatedEvent (ev_uuid_valid env) (ev_ctx env) (ev_sendID env) saved) of
                 (events, saved') \<Rightarrow>
                   bindr (foldr_res publish_event events db2) (\<lambda>db3. Inr (saved', db3)))))))"

definition contact_peer :: "uuid \<Rightarrow> Peer" where
  "contact_peer c = \<lparr>pr_ID = c, pr_Type = PeerContact, pr_Identity = None\<rparr>"

definition acting_member :: "ThreadDialogExtended \<Rightarrow> ThreadDialog" where
  "acting_member i = zero_dialog\<lparr>bm_ID := bm_ID i, td_ContactID := tdx_ContactID i, td_ThreadID := tdx_ThreadID i,
     td_ThreadRole := tdx_ThreadRole i\<rparr>"

text \<open>The sender of an add or remove message: the acting member, else the contact of a system call.\<close>

definition with_actor :: "ThreadDialogExtended option \<Rightarrow> uuid \<Rightarrow> Message \<Rightarrow> Message" where
  "with_actor initiator initiatorContactID m =
     (case initiator of
        Some i \<Rightarrow> m\<lparr>m_SenderID := tdx_ContactID i, m_From := contact_peer (tdx_ContactID i),
                     m_Member := Some (acting_member i)\<rparr>
      | None \<Rightarrow> if initiatorContactID \<noteq> uuid_nil
                then m\<lparr>m_SenderID := initiatorContactID, m_From := contact_peer initiatorContactID\<rparr>
                else m)"

definition member_change :: "Message \<Rightarrow> uuid \<Rightarrow> int \<Rightarrow> uuid \<Rightarrow> string \<Rightarrow> metadata \<Rightarrow> MemberChange" where
  "member_change saved t domain contact ty md =
     \<lparr>mch_MessageID = m_ID saved, mch_ThreadID = t, mch_DomainID = to_int32 domain, mch_ContactID = contact,
      mch_OccurredAt = m_CreatedAt saved, mch_System = NewSystemPayload ty md, mch_Participants = []\<rparr>"

definition sendAddMemberSystemMessage :: "env \<Rightarrow> ThreadDialogExtended option \<Rightarrow> uuid \<Rightarrow> ThreadDialogExtended
    \<Rightarrow> ThreadDialog list \<Rightarrow> uuid \<Rightarrow> int \<Rightarrow> db \<Rightarrow> (Message \<times> db) res" where
  "sendAddMemberSystemMessage env initiator initiatorContactID newMember receivers t domain db =
     (if domain \<le> 0 then Inl (Err InvalidArgument ''domain id must be greater than zero'')
      else
       (let md = [''new_member_id'' \<mapsto> VUuid (bm_ID newMember), ''new_member_contact_id'' \<mapsto> VUuid (tdx_ContactID newMember),
                  ''new_member_role'' \<mapsto> VInt (tdx_ThreadRole newMember), ''thread_id'' \<mapsto> VUuid t];
            msg = with_actor initiator initiatorContactID (zero_message\<lparr>m_ThreadID := t, m_DomainID := to_int32 domain,
                    m_To := receivers, m_Type := MessageTypeSystem,
                    m_System := Some \<lparr>sy_Type = ''member_added'', sy_Metadata = md\<rparr>, m_Body := ''Member added'',
                    m_Metadata := BuildMetadata (ev_graphemes env) ''Member added'' [],
                    m_SendTo := contact_peer (tdx_ContactID newMember)\<rparr>)
        in bindr (sendThreadSystemMessage env msg db) (\<lambda>(saved, db1).
             bindr (publishMemberEvent (EvMemberJoined
                (member_change saved t domain (tdx_ContactID newMember) ''member_added'' md)) db1)
             (\<lambda>db2. Inr (saved, db2)))))"

definition sendRemoveMemberSystemMessage :: "env \<Rightarrow> ThreadDialogExtended option \<Rightarrow> uuid \<Rightarrow> ThreadDialogExtended
    \<Rightarrow> ThreadDialog list \<Rightarrow> string option \<Rightarrow> int \<Rightarrow> db \<Rightarrow> (Message \<times> db) res" where
  "sendRemoveMemberSystemMessage env initiator initiatorContactID removed receivers reason domain db =
     (if domain \<le> 0 then Inl (Err InvalidArgument ''domain id must be greater than zero'')
      else
       (let t = tdx_ThreadID removed;
            md0 = [''removed_member_id'' \<mapsto> VUuid (bm_ID removed), ''removed_member_contact_id'' \<mapsto> VUuid (tdx_ContactID removed),
                  ''thread_id'' \<mapsto> VUuid t];
            md = (case reason of None \<Rightarrow> md0 | Some r \<Rightarrow> md0(''reason'' \<mapsto> VStr r));
            msg = with_actor initiator initiatorContactID (zero_message\<lparr>m_ThreadID := t, m_DomainID := to_int32 domain,
                    m_To := receivers, m_Type := MessageTypeSystem, m_Body := ''Member removed'',
                    m_Metadata := BuildMetadata (ev_graphemes env) ''Member removed'' [],
                    m_System := Some \<lparr>sy_Type = ''member_removed'', sy_Metadata = md\<rparr>,
                    m_SendTo := contact_peer (tdx_ContactID removed)\<rparr>)
        in bindr (sendThreadSystemMessage env msg db) (\<lambda>(saved, db1).
             bindr (publishMemberEvent (EvMemberLeft
                (member_change saved t domain (tdx_ContactID removed) ''member_removed'' md)) db1)
             (\<lambda>db2. Inr (saved, db2)))))"

definition sendTransferSystemMessage :: "env \<Rightarrow> ThreadDialogExtended \<Rightarrow> ThreadDialogExtended
    \<Rightarrow> ThreadDialog list \<Rightarrow> uuid \<Rightarrow> int \<Rightarrow> db \<Rightarrow> (Message \<times> db) res" where
  "sendTransferSystemMessage env initiator newMember receivers t domain db =
     (if domain \<le> 0 then Inl (Err InvalidArgument ''domain id must be greater than zero'')
      else
       (let md = [''new_member_id'' \<mapsto> VUuid (bm_ID newMember), ''new_member_contact_id'' \<mapsto> VUuid (tdx_ContactID newMember),
                  ''new_member_role'' \<mapsto> VInt (tdx_ThreadRole newMember), ''transferred_member_id'' \<mapsto> VUuid (bm_ID initiator),
                  ''transferred_member_contact_id'' \<mapsto> VUuid (tdx_ContactID initiator), ''thread_id'' \<mapsto> VUuid t];
            msg = zero_message\<lparr>m_ThreadID := t, m_DomainID := to_int32 domain, m_To := receivers,
                    m_Type := MessageTypeSystem, m_System := Some \<lparr>sy_Type = ''transferred'', sy_Metadata = md\<rparr>,
                    m_Metadata := BuildMetadata (ev_graphemes env) [] [],
                    m_From := contact_peer (tdx_ContactID initiator),
                    m_SendTo := contact_peer (tdx_ContactID newMember), m_Member := Some (acting_member initiator)\<rparr>
        in bindr (sendThreadSystemMessage env msg db) (\<lambda>(saved, db1).
             bindr (publishMemberEvent (EvMemberLeft
                (member_change saved t domain (tdx_ContactID initiator) ''transferred'' md)) db1) (\<lambda>db2.
             bindr (publishMemberEvent (EvMemberJoined
                (member_change saved t domain (tdx_ContactID newMember) ''transferred'' md)) db2)
             (\<lambda>db3. Inr (saved, db3))))))"

section \<open>Handing control over and back\<close>

definition adoptUntrackedBot :: "uuid \<Rightarrow> uuid \<Rightarrow> db \<Rightarrow> db res" where
  "adoptUntrackedBot t newMemberID db =
     bindr (AdoptUntrackedBot t newMemberID db) (\<lambda>(adoptedID, db1).
       if adoptedID = uuid_nil then Inr db1
       else (case Push \<lparr>bt_ThreadID = t, bt_NewMemberID = adoptedID, bt_PrevMemberID = None,
                       bt_Reason = ReasonInitial, bt_TriggeredBy = None\<rparr> db1 of
               Inl _ \<Rightarrow> Inl (Err Internal ''failed to push adopted bot'')
             | Inr (_, db2) \<Rightarrow> Inr db2))"

definition releaseControlToAgent :: "env \<Rightarrow> uuid \<Rightarrow> int \<Rightarrow> db \<Rightarrow> db res" where
  "releaseControlToAgent env t domain db =
     (case ClearController t db of
        (None, db1) \<Rightarrow> Inr db1
      | (Some releasedID, db1) \<Rightarrow>
          (let contactID = (case find (\<lambda>m. bm_ID m = releasedID) (GetQuickView (thread_filter t) db1) of
                              Some m \<Rightarrow> td_ContactID m | None \<Rightarrow> uuid_nil)
           in publishBotControlReleased env t releasedID contactID 0 domain None ReasonAgentTakeover db1))"

definition with_domain :: "int \<Rightarrow> ThreadDialogExtended \<Rightarrow> ThreadDialogExtended" where
  "with_domain domain d = (if bm_DomainID d \<le> 0 then d\<lparr>bm_DomainID := domain\<rparr> else d)"

definition restoreControlAfterAgent :: "env \<Rightarrow> uuid \<Rightarrow> int \<Rightarrow> db \<Rightarrow> db res" where
  "restoreControlAfterAgent env t domain db =
     (if hasOperator (GetQuickView (thread_filter t) db) then Inr db
      else (case RestoreController t db of
              ((Some controller, True), db1) \<Rightarrow>
                publishBotControlGranted env (with_domain domain (botControlStackEntryToDialog controller)) None
                  (be_Position controller) ReasonAgentLeft True db1
            | (_, db1) \<Rightarrow> Inr db1))"

section \<open>Adding a member\<close>

record QueueInfo =
  qi_ID :: int
  qi_Name :: string

definition queueIDOf :: "QueueInfo option \<Rightarrow> int option" where
  "queueIDOf q = (case q of None \<Rightarrow> None | Some i \<Rightarrow> if qi_ID i \<le> 0 then None else Some (qi_ID i))"

record AddMemberRequest =
  am_ThreadID :: uuid
  am_NewMemberContactID :: uuid
  am_InitiatorContactID :: uuid
  am_NewMemberRole :: ThreadRole
  am_DomainID :: int
  am_IsBot :: bool
  am_AutoLeave :: "bool option"
  am_Queue :: "QueueInfo option"
  am_SystemCall :: bool

text \<open>Pushing a bot that has just become a member, and announcing it.\<close>

definition push_new_bot :: "env \<Rightarrow> uuid \<Rightarrow> ThreadDialogExtended \<Rightarrow> uuid option \<Rightarrow> db \<Rightarrow> db res" where
  "push_new_bot env t newMember triggeredBy db =
     bindr (adoptUntrackedBot t (bm_ID newMember) db) (\<lambda>db1.
       (case Push \<lparr>bt_ThreadID = t, bt_NewMemberID = bm_ID newMember, bt_PrevMemberID = None,
                  bt_Reason = ReasonTransfer, bt_TriggeredBy = triggeredBy\<rparr> db1 of
          Inl _ \<Rightarrow> Inl (Err Internal ''failed to push bot control'')
        | Inr (prev, db2) \<Rightarrow>
            publishBotControlGranted env newMember prev (positionAfterPush prev) ReasonTransfer False db2))"

definition addMember_tx :: "env \<Rightarrow> AddMemberRequest \<Rightarrow> (db \<Rightarrow> db res) option \<Rightarrow> ThreadDialogExtended option
    \<Rightarrow> string \<Rightarrow> uuid option \<Rightarrow> int \<Rightarrow> bool \<Rightarrow> ThreadPermissions \<Rightarrow> db \<Rightarrow> (uuid \<times> db) res" where
  "addMember_tx env req beforeCreate initiator title invitedBy domain isBot perms db =
     bindr (LockForUpdate (am_ThreadID req) db) (\<lambda>_.
     bindr (case beforeCreate of None \<Rightarrow> Inr db | Some f \<Rightarrow> f db) (\<lambda>db0.
     bindr (dialog_Create (zero_dialog_extended\<lparr>bm_DomainID := domain, bm_CreatedAt := ev_now env,
              bm_UpdatedAt := ev_now env, tdx_ThreadID := am_ThreadID req, tdx_ContactID := am_NewMemberContactID req,
              tdx_ThreadRole := am_NewMemberRole req, tdx_InvitedBy := invitedBy, tdx_Permissions := perms,
              tdx_IsBot := isBot, tdx_AutoLeave := (isBot \<and> resolveAutoLeave (am_AutoLeave req)),
              tdx_QueueID := queueIDOf (am_Queue req), tdx_Settings := zero_setting\<lparr>bts_Title := title\<rparr>\<rparr>) db0)
     (\<lambda>(newMember, db1).
       (case sendAddMemberSystemMessage env initiator (am_InitiatorContactID req) newMember
               (GetQuickView (thread_filter (am_ThreadID req)) db1) (am_ThreadID req) (bm_DomainID newMember) db1 of
          Inl _ \<Rightarrow> Inl (Err Internal ''failed to send system message'')
        | Inr (_, db2) \<Rightarrow>
            bindr (if isBot then push_new_bot env (am_ThreadID req) newMember invitedBy db2
                   else if isOperator False (am_NewMemberRole req)
                   then releaseControlToAgent env (am_ThreadID req) (bm_DomainID newMember) db2
                   else Inr db2)
              (\<lambda>db3. Inr (bm_ID newMember, db3))))))"

definition addMemberToChat :: "env \<Rightarrow> AddMemberRequest option \<Rightarrow> (db \<Rightarrow> db res) option \<Rightarrow> db \<Rightarrow> uuid res \<times> db" where
  "addMemberToChat env request beforeCreate db =
     (case request of None \<Rightarrow> (Inl (Err Unknown ''add member request cannot be nil''), db)
      | Some req \<Rightarrow>
         (case findAddMemberActors (am_ThreadID req) (am_InitiatorContactID req) (am_NewMemberContactID req) db of
            Inl _ \<Rightarrow> (Inl (Err Unknown ''failed to find actors''), db)
          | Inr (_, Some _) \<Rightarrow> (Inl (Err AlreadyExists ''target member is already part of the thread''), db)
          | Inr (initiator, None) \<Rightarrow>
              (let domain = (case initiator of Some i \<Rightarrow> bm_DomainID i | None \<Rightarrow> am_DomainID req);
                   verify = (\<not> am_SystemCall req \<and> am_InitiatorContactID req \<noteq> uuid_nil)
               in (case (if verify then verifyAddMember env initiator (am_NewMemberContactID req) (am_NewMemberRole req)
                         else Inr ()) of
                     Inl e \<Rightarrow> (Inl e, db)
                   | Inr _ \<Rightarrow>
                       (let title = (case initiator of Some i \<Rightarrow> if verify then bts_Title (tdx_Settings i) else ''New thread''
                                     | None \<Rightarrow> ''New thread'');
                            invitedBy = (case initiator of Some i \<Rightarrow> if verify then Some (bm_ID i) else None | None \<Rightarrow> None);
                            isBot = (am_IsBot req \<or> peerIsBot env (am_NewMemberContactID req) domain)
                        in (case getDefaultPermissionsByRole (am_NewMemberRole req) of
                              Inl e \<Rightarrow> (Inl e, db)
                            | Inr perms \<Rightarrow>
                                WithinTransaction (addMember_tx env req beforeCreate initiator title invitedBy domain isBot perms) db))))))"

definition AddMember :: "env \<Rightarrow> AddMemberRequest option \<Rightarrow> db \<Rightarrow> uuid res \<times> db" where
  "AddMember env request db = addMemberToChat env request None db"

section \<open>Transfer\<close>

record TransferThreadRequest =
  tr_ThreadID :: uuid
  tr_NewMemberContactID :: uuid
  tr_InitiatorContactID :: uuid
  tr_NewMemberRole :: ThreadRole
  tr_TargetIsBot :: bool
  tr_AutoLeave :: "bool option"
  tr_Queue :: "QueueInfo option"

text \<open>The control part of a transfer, by who leaves and who comes.\<close>

definition transfer_control :: "env \<Rightarrow> TransferThreadRequest \<Rightarrow> ThreadDialogExtended \<Rightarrow> ThreadDialogExtended
    \<Rightarrow> db \<Rightarrow> db res" where
  "transfer_control env req initiator newMember db =
     (let t = tr_ThreadID req in
      bindr
        (if tr_TargetIsBot req then
           bindr (push_new_bot env t newMember (Some (bm_ID initiator)) db) (\<lambda>db1.
             if tdx_IsBot initiator
             then (case Pop t (bm_ID initiator) ReasonTransfer db1 of Inl _ \<Rightarrow> Inr db1 | Inr (_, db2) \<Rightarrow> Inr db2)
             else Inr db1)
         else if tdx_IsBot initiator then
           (case Pop t (bm_ID initiator) ReasonHandoff db of
              Inl _ \<Rightarrow> Inl (Err Internal ''failed to pop bot control'')
            | Inr (newTop, db1) \<Rightarrow>
                grant_new_top env newTop (\<lambda>e. zero_stack_entry\<lparr>be_MemberID := Some (bm_ID initiator),
                   be_Position := be_Position e + 1, be_ContactID := tdx_ContactID initiator\<rparr>) ReasonTransfer db1)
         else Inr db)
        (\<lambda>db1. if \<not> tr_TargetIsBot req \<and> \<not> tdx_IsBot initiator \<and> isOperator False (tr_NewMemberRole req)
               then releaseControlToAgent env t (bm_DomainID newMember) db1 else Inr db1))"

definition transfer_tx :: "env \<Rightarrow> TransferThreadRequest \<Rightarrow> ThreadDialogExtended \<Rightarrow> ThreadPermissions
    \<Rightarrow> db \<Rightarrow> (uuid \<times> db) res" where
  "transfer_tx env req initiator perms db =
     (let t = tr_ThreadID req in
      bindr (LockForUpdate t db) (\<lambda>_.
      bindr (dialog_Create (zero_dialog_extended\<lparr>bm_DomainID := bm_DomainID initiator, bm_CreatedAt := ev_now env,
               bm_UpdatedAt := ev_now env, tdx_ThreadID := t, tdx_ContactID := tr_NewMemberContactID req,
               tdx_ThreadRole := tr_NewMemberRole req, tdx_InvitedBy := Some (bm_ID initiator), tdx_Permissions := perms,
               tdx_IsBot := tr_TargetIsBot req,
               tdx_AutoLeave := (tr_TargetIsBot req \<and> resolveAutoLeave (tr_AutoLeave req)),
               tdx_QueueID := queueIDOf (tr_Queue req),
               tdx_Settings := zero_setting\<lparr>bts_Title := bts_Title (tdx_Settings initiator)\<rparr>\<rparr>) db)
      (\<lambda>(newMember, db1).
      bindr (dialog_Delete (bm_ID initiator) (Some ''transferred'') db1) (\<lambda>db2.
      bindr (OnMemberLeft t (tdx_ContactID initiator) db2) (\<lambda>db3.
        (case sendTransferSystemMessage env initiator newMember (GetQuickView (thread_filter t) db3) t
                (bm_DomainID newMember) db3 of
           Inl _ \<Rightarrow> Inl (Err Internal ''failed to send system message'')
         | Inr (_, db4) \<Rightarrow>
             bindr (transfer_control env req initiator newMember db4) (\<lambda>db5. Inr (bm_ID newMember, db5))))))))"

definition Transfer :: "env \<Rightarrow> TransferThreadRequest option \<Rightarrow> db \<Rightarrow> uuid res \<times> db" where
  "Transfer env request db =
     (case request of None \<Rightarrow> (Inl (Err Unknown ''transfer request cannot be nil''), db)
      | Some req \<Rightarrow>
         if tr_InitiatorContactID req = uuid_nil
         then (Inl (Err InvalidArgument ''initiator contact id cannot be nil''), db)
         else (case findAddMemberActors (tr_ThreadID req) (tr_InitiatorContactID req) (tr_NewMemberContactID req) db of
                 Inl _ \<Rightarrow> (Inl (Err Unknown ''failed to find actors''), db)
               | Inr (None, _) \<Rightarrow>
                   (Inl (Err NotFound ''thread not found or initiator does not have permission''), db)
               | Inr (Some _, Some _) \<Rightarrow>
                   (Inl (Err AlreadyExists ''target member is already part of the thread''), db)
               | Inr (Some initiator, None) \<Rightarrow>
                   (case getDefaultPermissionsByRole (tr_NewMemberRole req) of
                      Inl e \<Rightarrow> (Inl e, db)
                    | Inr perms0 \<Rightarrow>
                        (let perms = (if tdx_ThreadRole initiator = tr_NewMemberRole req
                                      then tdx_Permissions initiator else perms0)
                         in (case verifyAddMember env (Some initiator) (tr_NewMemberContactID req) (tr_NewMemberRole req) of
                               Inl e \<Rightarrow> (Inl e, db)
                             | Inr _ \<Rightarrow> WithinTransaction (transfer_tx env req initiator perms) db)))))"

section \<open>Removing a member\<close>

record RemoveMemberRequest =
  rm_TargetMemberID :: uuid
  rm_InitiatorContactID :: uuid
  rm_Reason :: "string option"
  rm_SystemCall :: bool

text \<open>The two branches of the transaction: a bot is popped from the stack, anybody else just leaves.\<close>

definition remove_bot :: "env \<Rightarrow> RemoveMemberRequest \<Rightarrow> ThreadDialogExtended \<Rightarrow> db \<Rightarrow> db res" where
  "remove_bot env req target db =
     (case Pop (tdx_ThreadID target) (bm_ID target) ReasonRemoved db of
        Inl _ \<Rightarrow> Inl (Err Internal ''failed to pop bot control'')
      | Inr (newTop, db1) \<Rightarrow>
          bindr (grant_new_top env newTop (\<lambda>e. zero_stack_entry\<lparr>be_MemberID := Some (bm_ID target),
                   be_Position := be_Position e + 1\<rparr>) ReasonRemoved db1)
            (\<lambda>db2. if \<not> tdx_AutoLeave target then dialog_Delete (bm_ID target) (rm_Reason req) db2 else Inr db2))"

definition remove_other :: "env \<Rightarrow> RemoveMemberRequest \<Rightarrow> ThreadDialogExtended \<Rightarrow> int \<Rightarrow> db \<Rightarrow> db res" where
  "remove_other env req target domain db =
     bindr (dialog_Delete (bm_ID target) (rm_Reason req) db) (\<lambda>db1.
     bindr (OnMemberLeft (tdx_ThreadID target) (tdx_ContactID target) db1) (\<lambda>db2.
       if isOperator (tdx_IsBot target) (tdx_ThreadRole target)
       then restoreControlAfterAgent env (tdx_ThreadID target) domain db2 else Inr db2))"

definition removeMember_tx :: "env \<Rightarrow> RemoveMemberRequest \<Rightarrow> ThreadDialogExtended option \<Rightarrow> ThreadDialogExtended
    \<Rightarrow> db \<Rightarrow> (unit \<times> db) res" where
  "removeMember_tx env req initiator target db =
     bindr (LockForUpdate (tdx_ThreadID target) db) (\<lambda>_.
        (let receivers = GetQuickView (thread_filter (tdx_ThreadID target)) db;
             domain = (if bm_DomainID target \<le> 0
                       then (case initiator of Some i \<Rightarrow> bm_DomainID i | None \<Rightarrow> bm_DomainID target)
                       else bm_DomainID target)
         in bindr (if tdx_IsBot target then remove_bot env req target db else remove_other env req target domain db)
             (\<lambda>db3. bindr (sendRemoveMemberSystemMessage env initiator (rm_InitiatorContactID req) target receivers
                             (rm_Reason req) domain db3)
                     (\<lambda>(_, db4). Inr ((), db4)))))"

definition RemoveMember :: "env \<Rightarrow> RemoveMemberRequest option \<Rightarrow> db \<Rightarrow> unit res \<times> db" where
  "RemoveMember env request db =
     (case request of None \<Rightarrow> (Inl (Err Unknown ''remove member request cannot be nil''), db)
      | Some req \<Rightarrow>
         (case FindActorsPair (rm_InitiatorContactID req) (rm_TargetMemberID req) db of
            Inl e \<Rightarrow> (Inl e, db)
          | Inr (_, None) \<Rightarrow> (Inl (Err NotFound ''target not found''), db)
          | Inr (initiator, Some target) \<Rightarrow>
              (case (if \<not> rm_SystemCall req \<and> rm_InitiatorContactID req \<noteq> uuid_nil
                     then verifyRemoveMember initiator (Some target) else Inr ()) of
                 Inl e \<Rightarrow> (Inl e, db)
               | Inr _ \<Rightarrow> WithinTransaction (removeMember_tx env req initiator target) db)))"

section \<open>Bot control requests\<close>

record CompleteBotControlRequest =
  cb_ThreadID :: uuid
  cb_MemberID :: uuid
  cb_DomainID :: int

definition complete_tx :: "env \<Rightarrow> CompleteBotControlRequest \<Rightarrow> db \<Rightarrow> (unit \<times> db) res" where
  "complete_tx env req db =
     (let t = cb_ThreadID req; m = cb_MemberID req; stack = GetStack t db in
      if stack = [] then Inr ((), db)
      else (case find (\<lambda>e. be_MemberID e = Some m) stack of
              None \<Rightarrow> Inr ((), db)
            | Some completing \<Rightarrow>
                (let top = last stack; wasActiveController = (be_MemberID top = Some m)
                 in bindr (thread_Get t (cb_DomainID req) db) (\<lambda>thread.
                      if t_OwnerBotID thread = Some m then Inr ((), db)
                      else bindr (Pop t m ReasonCompleted db) (\<lambda>(newTop, db1).
                        if \<not> wasActiveController then Inr ((), db1)
                        else if t_OwnerBotID thread \<noteq> None \<and> Option.bind newTop be_MemberID = t_OwnerBotID thread
                        then Inr ((), db1)
                        else bindr (grant_new_top env newTop (\<lambda>_. zero_stack_entry\<lparr>be_MemberID := Some m,
                               be_Position := be_Position completing, be_ContactID := be_ContactID top\<rparr>) ReasonCompleted db1)
                             (\<lambda>db2. Inr ((), db2)))))))"

definition CompleteBotControl :: "env \<Rightarrow> CompleteBotControlRequest option \<Rightarrow> db \<Rightarrow> unit res \<times> db" where
  "CompleteBotControl env request db =
     (case request of None \<Rightarrow> (Inl (Err InvalidArgument ''request cannot be nil''), db)
      | Some req \<Rightarrow>
         if cb_ThreadID req = uuid_nil then (Inl (Err InvalidArgument ''thread_id is required''), db)
         else if cb_MemberID req = uuid_nil then (Inl (Err InvalidArgument ''member_id is required''), db)
         else WithinTransaction (complete_tx env req) db)"

record ReleaseBotControlRequest =
  rb_ThreadID :: uuid
  rb_InitiatorMemberID :: uuid
  rb_DomainID :: int

definition release_tx :: "env \<Rightarrow> ReleaseBotControlRequest \<Rightarrow> db \<Rightarrow> (unit \<times> db) res" where
  "release_tx env req db =
     (let t = rb_ThreadID req; stack = GetStack t db in
      case (if stack = [] then None else be_MemberID (last stack)) of
        None \<Rightarrow>
          (case ClearController t db of
             (None, db1) \<Rightarrow> Inr ((), db1)
           | (Some released, db1) \<Rightarrow>
               bindr (publishBotControlReleased env t released uuid_nil 0 (rb_DomainID req) None ReasonClientLeave db1)
                 (\<lambda>db2. Inr ((), db2)))
      | Some activeMemberID \<Rightarrow>
          (let act = last stack in
           bindr (Pop t activeMemberID ReasonClientLeave db) (\<lambda>(newTop, db1).
           bindr (publishBotControlReleased env t activeMemberID (be_ContactID act) (be_Position act)
                    (rb_DomainID req) (Option.bind newTop be_MemberID) ReasonClientLeave db1) (\<lambda>db2.
             bindr (grant_new_top env newTop (\<lambda>_. zero_stack_entry\<lparr>be_MemberID := Some activeMemberID,
                      be_Position := be_Position act\<rparr>) ReasonClientLeave db2)
               (\<lambda>db3. Inr ((), db3))))))"

definition ReleaseBotControl :: "env \<Rightarrow> ReleaseBotControlRequest option \<Rightarrow> db \<Rightarrow> unit res \<times> db" where
  "ReleaseBotControl env request db =
     (case request of None \<Rightarrow> (Inl (Err InvalidArgument ''request cannot be nil''), db)
      | Some req \<Rightarrow>
         if rb_ThreadID req = uuid_nil then (Inl (Err InvalidArgument ''thread_id is required''), db)
         else WithinTransaction (release_tx env req) db)"

record OperatorRequest =
  op_ThreadID :: uuid
  op_InitiatorContactID :: uuid
  op_DomainID :: int

definition HandBackToBot :: "env \<Rightarrow> OperatorRequest option \<Rightarrow> db \<Rightarrow> unit res \<times> db" where
  "HandBackToBot env request db =
     (case request of None \<Rightarrow> (Inl (Err InvalidArgument ''request cannot be nil''), db)
      | Some req \<Rightarrow>
         (case verifyOperator (op_ThreadID req) (op_InitiatorContactID req) db of
            Inl e \<Rightarrow> (Inl e, db)
          | Inr _ \<Rightarrow>
              WithinTransaction (\<lambda>db.
                (case RestoreController (op_ThreadID req) db of
                   ((None, _), _) \<Rightarrow> Inl (Err FailedPrecondition ''thread has no bot to hand the conversation back to'')
                 | ((Some controller, _), db1) \<Rightarrow>
                     bindr (publishBotControlGranted env
                        (with_domain (op_DomainID req) (botControlStackEntryToDialog controller)) None
                        (be_Position controller) ReasonAgentHandback True db1) (\<lambda>db2. Inr ((), db2)))) db))"

definition TakeOverFromBot :: "env \<Rightarrow> OperatorRequest option \<Rightarrow> db \<Rightarrow> unit res \<times> db" where
  "TakeOverFromBot env request db =
     (case request of None \<Rightarrow> (Inl (Err InvalidArgument ''request cannot be nil''), db)
      | Some req \<Rightarrow>
         (case verifyOperator (op_ThreadID req) (op_InitiatorContactID req) db of
            Inl e \<Rightarrow> (Inl e, db)
          | Inr _ \<Rightarrow>
              WithinTransaction (\<lambda>db. bindr (releaseControlToAgent env (op_ThreadID req) (op_DomainID req) db)
                (\<lambda>db1. Inr ((), db1))) db))"

record SetCRMContactRequest = OperatorRequest +
  op_CRMContactID :: string

definition SetCRMContact :: "env \<Rightarrow> SetCRMContactRequest option \<Rightarrow> db \<Rightarrow> unit res \<times> db" where
  "SetCRMContact env request db =
     (case request of None \<Rightarrow> (Inl (Err InvalidArgument ''request cannot be nil''), db)
      | Some req \<Rightarrow>
         (case verifyOperator (op_ThreadID req) (op_InitiatorContactID req) db of
            Inl e \<Rightarrow> (Inl e, db)
          | Inr _ \<Rightarrow>
              WithinTransaction (\<lambda>db.
                bindr (store_SetCRMContact (op_ThreadID req) (op_CRMContactID req) db) (\<lambda>db1.
                bindr (publish_event (EvThreadUpdated
                   \<lparr>tu_ThreadID = op_ThreadID req, tu_DomainID = to_int32 (op_DomainID req),
                    tu_UpdatedBy = op_InitiatorContactID req, tu_CRMContactID = op_CRMContactID req,
                    tu_OccurredAt = ev_now env, tu_Participants = threadParticipants (op_ThreadID req) db1\<rparr>) db1)
                  (\<lambda>db2. Inr ((), db2)))) db))"

section \<open>Direct threads\<close>

record EnsureDirectThreadRequest =
  ed_DomainID :: int
  ed_From :: Peer
  ed_To :: Peer
  ed_SendAs :: "uuid option"

text \<open>
  \<^verbatim>\<open>ensureBotControl\<close> also writes the controller into the caller's thread value; the model returns
  that value. The granted event names the first bot of the member list.
\<close>

definition ensureBotControl :: "env \<Rightarrow> Thread \<Rightarrow> int \<Rightarrow> db \<Rightarrow> Thread res \<times> db" where
  "ensureBotControl env thread domain db =
     (case find td_IsBot (t_Members thread) of
        None \<Rightarrow> (Inr thread, db)
      | Some botDialog \<Rightarrow>
         if hasOperator (t_Members thread) then (Inr thread, db)
         else WithinTransaction (\<lambda>db.
           (let stack = GetStack (t_ID thread) db in
            bindr (if stack \<noteq> [] then
                     (case be_MemberID (last stack) of
                        None \<Rightarrow> Inr (thread, db)
                      | Some m \<Rightarrow> bindr (SetController (t_ID thread) m db)
                                    (\<lambda>db1. Inr (thread\<lparr>t_BotControllerID := Some m\<rparr>, db1)))
                   else bindr (Push \<lparr>bt_ThreadID = t_ID thread, bt_NewMemberID = bm_ID botDialog,
                                 bt_PrevMemberID = None, bt_Reason = ReasonInitial, bt_TriggeredBy = None\<rparr> db)
                          (\<lambda>(_, db1). Inr (thread\<lparr>t_BotControllerID := Some (bm_ID botDialog)\<rparr>, db1)))
              (\<lambda>(thread', db1).
                 bindr (publishBotControlGranted env
                    (zero_dialog_extended\<lparr>bm_ID := bm_ID botDialog, bm_DomainID := domain, tdx_ThreadID := t_ID thread,
                       tdx_ContactID := td_ContactID botDialog, tdx_AutoLeave := td_AutoLeave botDialog, tdx_IsBot := True\<rparr>)
                    None 0 ReasonInitial False db1)
                   (\<lambda>db2. Inr (thread', db2))))) db)"

definition createDirectThread :: "env \<Rightarrow> int \<Rightarrow> db \<Rightarrow> (Thread \<times> db) res" where
  "createDirectThread env domain db =
     thread_Create (zero_thread\<lparr>t_DomainID := domain, t_CreatedAt := ev_now env, t_UpdatedAt := ev_now env,
       t_Kind := ThreadDirect\<rparr>) db"

definition extendedThreadDialogToSimpleMapper :: "ThreadDialogExtended \<Rightarrow> ThreadDialog" where
  "extendedThreadDialogToSimpleMapper d =
     zero_dialog\<lparr>bm_ID := bm_ID d, td_ContactID := tdx_ContactID d, td_ThreadID := tdx_ThreadID d,
       td_ThreadRole := tdx_ThreadRole d, td_Via := tdx_Via d\<rparr>"

definition gate_of :: "Peer \<Rightarrow> Peer \<Rightarrow> string option" where
  "gate_of from to =
     (case ResolveVia from of
        Some v \<Rightarrow> if v = [] then ResolveVia to else Some v
      | None \<Rightarrow> ResolveVia to)"

definition initializeDirectThreadDialogs :: "env \<Rightarrow> uuid \<Rightarrow> int \<Rightarrow> Peer \<Rightarrow> Peer \<Rightarrow> bool \<Rightarrow> db
    \<Rightarrow> (ThreadDialogExtended list \<times> db) res" where
  "initializeDirectThreadDialogs env t domain from to toIsBot db =
     (case (pr_Identity to, pr_Identity from) of
        (Some toId, Some fromId) \<Rightarrow>
          if idn_Name toId = [] \<or> idn_Name fromId = []
          then Inl (Err InvalidArgument ''from and to peers must have identity with non empty name'')
          else bindr (getDefaultPermissionsByRole RoleOwner) (\<lambda>perms.
            (let via = gate_of from to in
             bindr (dialog_Create (zero_dialog_extended\<lparr>bm_DomainID := domain, tdx_ThreadID := t,
                      tdx_ContactID := pr_ID from, tdx_ThreadRole := RoleOwner, tdx_Permissions := perms, tdx_Via := via,
                      tdx_Settings := zero_setting\<lparr>bts_Title := idn_Name toId\<rparr>\<rparr>) db) (\<lambda>(a, db1).
             bindr (dialog_Create (zero_dialog_extended\<lparr>bm_DomainID := domain, tdx_ThreadID := t,
                      tdx_ContactID := pr_ID to, tdx_Via := (if toIsBot then None else via), tdx_ThreadRole := RoleOwner,
                      tdx_Permissions := perms, tdx_IsBot := toIsBot, tdx_AutoLeave := False,
                      tdx_Settings := zero_setting\<lparr>bts_Title := idn_Name fromId\<rparr>\<rparr>) db1) (\<lambda>(b, db2).
             bindr (if toIsBot then
                      (case Push \<lparr>bt_ThreadID = t, bt_NewMemberID = bm_ID b, bt_PrevMemberID = None,
                                 bt_Reason = ReasonInitial, bt_TriggeredBy = None\<rparr> db2 of
                         Inl _ \<Rightarrow> Inl (Err Internal ''failed to init bot control'')
                       | Inr (_, db3) \<Rightarrow> publishBotControlGranted env b None 0 ReasonInitial False db3)
                    else Inr db2)
               (\<lambda>db4. Inr ([a, b], db4))))))
      | _ \<Rightarrow> Inl (Err InvalidArgument ''from and to peers must have identity''))"

definition created_member :: "ThreadDialog \<Rightarrow> ThreadMember" where
  "created_member d = \<lparr>tm_ID = (if bm_ID d \<noteq> uuid_nil then Some (bm_ID d) else None), tm_ContactID = td_ContactID d,
     tm_Role = td_ThreadRole d, tm_IsBot = False\<rparr>"

definition peer_name :: "Peer \<Rightarrow> string" where
  "peer_name p = (case pr_Identity p of Some i \<Rightarrow> idn_Name i | None \<Rightarrow> [])"

text \<open>The kind is always direct here, so \<^verbatim>\<open>Kind.String()\<close> is that constant.\<close>

definition buildDirectThreadCreatedEvents :: "Thread \<Rightarrow> Peer \<Rightarrow> Peer \<Rightarrow> event list" where
  "buildDirectThreadCreatedEvents thread from to =
     (let ev = (\<lambda>subject recipient. EvThreadCreated
            \<lparr>tcr_ID = t_ID thread, tcr_DomainID = to_int32 (t_DomainID thread), tcr_CreatedAt = t_CreatedAt thread,
             tcr_Subject = subject, tcr_RecipientID = pr_ID recipient, tcr_RecipientName = peer_name recipient,
             tcr_Kind = ''ThreadDirect'', tcr_Members = map created_member (t_Members thread)\<rparr>)
      in [ev (peer_name to) from, ev (peer_name from) to])"

definition create_tx :: "env \<Rightarrow> EnsureDirectThreadRequest \<Rightarrow> bool \<Rightarrow> db \<Rightarrow> (Thread \<times> db) res" where
  "create_tx env req toIsBot db =
     bindr (createDirectThread env (ed_DomainID req) db) (\<lambda>(saved, db1).
     bindr (initializeDirectThreadDialogs env (t_ID saved) (ed_DomainID req) (ed_From req) (ed_To req) toIsBot db1)
     (\<lambda>(members, db2).
       (let created = saved\<lparr>t_Members := map extendedThreadDialogToSimpleMapper members,
              t_BotControllerID := (if toIsBot then map_option bm_ID (find tdx_IsBot members) else t_BotControllerID saved)\<rparr>
        in bindr (foldr_res publish_event (buildDirectThreadCreatedEvents created (ed_From req) (ed_To req)) db2)
             (\<lambda>db3. Inr (created, db3)))))"

definition orchestrateDirectThreadCreation :: "env \<Rightarrow> EnsureDirectThreadRequest \<Rightarrow> db \<Rightarrow> Thread res \<times> db" where
  "orchestrateDirectThreadCreation env req db =
     (case ev_CanSend env (pr_ID (ed_From req)) (pr_ID (ed_To req)) of
        Inl e \<Rightarrow> (Inl e, db)
      | Inr _ \<Rightarrow>
          WithinTransaction (create_tx env req (peerIsBot env (pr_ID (ed_To req)) (ed_DomainID req))) db)"

definition EnsureDirectThread :: "env \<Rightarrow> EnsureDirectThreadRequest option \<Rightarrow> db \<Rightarrow> Thread res \<times> db" where
  "EnsureDirectThread env request db =
     (case request of None \<Rightarrow> (Inl (Err InvalidArgument ''request cannot be nil''), db)
      | Some req \<Rightarrow>
         (case ResolveThread \<lparr>q_From = ed_From req, q_To = ed_To req, q_SendAs = ed_SendAs req\<rparr> db of
            Inl e \<Rightarrow> (Inl e, db)
          | Inr (Some thread) \<Rightarrow>
              if t_BotControllerID thread = None \<and> isBotMember (t_Members thread) (pr_ID (ed_To req))
              then (case ensureBotControl env thread (ed_DomainID req) db of
                      (Inl _, db1) \<Rightarrow> (Inr thread, db1)
                    | (Inr thread', db1) \<Rightarrow> (Inr thread', db1))
              else (Inr thread, db)
          | Inr None \<Rightarrow> orchestrateDirectThreadCreation env req db))"

end
