(* ===== verification/Control_Invariant.thy ===== *)
theory Control_Invariant
  imports Thread_Manager
begin

text \<open>
  The invariant of bot control at the level of the service: every operation of the thread
  manager keeps the schema's constraints and leaves control where the contract of the store
  allows it, namely with the top of the stack, with the owner of an empty stack, or with nobody.
  One lemma per operation, then the step relation of the whole component and its reachable
  states.
\<close>

section \<open>The invariant and the store operations\<close>

definition control_ok :: "db \<Rightarrow> bool" where
  "control_ok db \<longleftrightarrow> db_ok db \<and> (\<forall>t c. control_of db t = Some c \<longrightarrow> control_inv c)"

lemma control_ok_controlled: "control_ok db \<longleftrightarrow> bcs.controlled db"
  by (simp add: control_ok_def bcs.controlled_def)

lemma control_ok_quiet: "control_ok db \<Longrightarrow> quiet db db' \<Longrightarrow> control_ok db'"
  by (simp add: control_ok_def quiet_def)

lemma control_ok_same: "control_ok db \<Longrightarrow> db_ok db' \<Longrightarrow> control_of db' = control_of db \<Longrightarrow> control_ok db'"
  by (simp add: control_ok_def)

lemma control_ok_dialog_Create: "control_ok db \<Longrightarrow> dialog_Create m db = Inr (x, db') \<Longrightarrow> control_ok db'"
proof -
  assume ok: "control_ok db" and c: "dialog_Create m db = Inr (x, db')"
  have "db_ok db'" using ok c dialog_Create_db_ok by (auto simp: control_ok_def)
  moreover have "db_threads db' = db_threads db" "db_stack db' = db_stack db"
    using dialog_Create_shape [OF c] by blast+
  then have "control_of db' = control_of db" by (rule control_of_cong)
  ultimately show ?thesis using control_ok_same [OF ok] by blast
qed

lemma control_of_update_dialog [simp]: "control_of (update_dialog i f db) = control_of db"
  by (rule control_of_cong) simp_all

lemma control_ok_dialog_Delete: "control_ok db \<Longrightarrow> dialog_Delete i r db = Inr db' \<Longrightarrow> control_ok db'"
  using dialog_Delete_db_ok [of db i r db']
  by (auto simp: control_ok_def dialog_Delete_def split: if_splits)

lemma control_ok_Adopt: "control_ok db \<Longrightarrow> AdoptUntrackedBot t n db = Inr (i, db') \<Longrightarrow> control_ok db'"
  using AdoptUntrackedBot_db_ok [of db t n i db']
  by (auto simp: control_ok_def AdoptUntrackedBot_def Let_def split: if_splits option.splits)

lemma control_ok_Push:
  assumes "control_ok db" "member_of_thread db (bt_ThreadID tr) (bt_NewMemberID tr)" "Push tr db = Inr (prev, db')"
  shows "control_ok db'"
proof -
  have "Push \<lparr>bt_ThreadID = bt_ThreadID tr, bt_NewMemberID = bt_NewMemberID tr, bt_PrevMemberID = None,
     bt_Reason = ReasonTransfer, bt_TriggeredBy = None\<rparr> db = Push tr db"
    by (rule Push_only_ids) simp_all
  then have "push_member (bt_ThreadID tr) (bt_NewMemberID tr) db = Inr db'"
    using assms(3) by (simp add: push_member_def)
  then show ?thesis using bcs.controlled_push [OF _ assms(2)] assms(1) control_ok_controlled by blast
qed

lemma control_ok_Pop: "control_ok db \<Longrightarrow> Pop t m r db = Inr (e, db') \<Longrightarrow> control_ok db'"
  unfolding control_ok_controlled
  by (rule bcs.controlled_pop [of db t m r]) (auto simp: pop_member_def)

lemma control_ok_Clear: "control_ok db \<Longrightarrow> ClearController t db = (r, db') \<Longrightarrow> control_ok db'"
  unfolding control_ok_controlled using bcs.controlled_clear [of db t] by simp

lemma control_ok_Restore: "control_ok db \<Longrightarrow> RestoreController t db = (r, db') \<Longrightarrow> control_ok db'"
  unfolding control_ok_controlled using bcs.controlled_restore [of db t] by simp

lemma last_GetStack:
  assumes "stack_ok db" "GetStack t db \<noteq> []"
  shows "be_MemberID (last (GetStack t db)) = Some (last (members_of db t)) \<and> members_of db t \<noteq> []"
proof -
  have ne: "sort_key sk_position (stack_of db t) \<noteq> []" using assms(2) by (simp add: GetStack_def)
  then have "last (sort_key sk_position (stack_of db t)) \<in> set (stack_of db t)" by (metis last_in_set set_sort)
  then have "sk_member_id (last (sort_key sk_position (stack_of db t))) =
      Some (the (sk_member_id (last (sort_key sk_position (stack_of db t)))))"
    using stack_of_member [OF assms(1)] by force
  then show ?thesis using ne by (simp add: GetStack_def members_of_def last_map mapBotControlStackEntry_def)
qed

lemma control_ok_SetController_top:
  assumes ok: "control_ok db" and m: "members_of db t \<noteq> []" "m = last (members_of db t)"
    and set: "SetController t m db = Inr db'"
  shows "control_ok db'"
proof -
  have "control_of db' = (control_of db)(t := map_option spec_set_top (control_of db t))"
    using SetController_control [OF set] m
    by (cases "thread_of db t") (auto simp: fun_eq_iff control_of_alt spec_set_top_def)
  moreover have "db_ok db'" using SetController_db_ok [OF _ set] ok by (simp add: control_ok_def)
  ultimately show ?thesis
    using ok by (auto simp: control_ok_def intro!: spec_set_top_inv split: if_splits)
qed

lemma control_ok_thread_Create:
  assumes ok: "control_ok db" and c: "thread_Create req db = Inr (th, db')"
  shows "control_ok db'"
proof -
  obtain row where s: "db_threads db' = db_threads db @ [row]" "th_id row = db_next_id db"
      "th_bot_controller_id row = None" "th_owner_bot_id row = None" "db_stack db' = db_stack db"
    using thread_Create_shape [OF c] by blast
  have ok': "db_ok db'" using thread_Create_db_ok [OF _ c] ok by (simp add: control_ok_def)
  have st: "stack_ok db" using ok by (simp add: control_ok_def db_ok_def)
  have "control_inv k" if k: "control_of db' t = Some k" for t k
  proof (cases "thread_of db t")
    case None
    then have "k = \<lparr>ct_stack = members_of db t, ct_controller = None, ct_owner = None\<rparr>"
      using k s members_of_cong [OF s(5)]
      by (auto simp: control_of_alt thread_of_def find_append split: if_splits)
    then show ?thesis using members_of_distinct [OF st] by (simp add: control_inv_def)
  next
    case (Some x)
    then have "control_of db' t = control_of db t"
      using s members_of_cong [OF s(5)] by (simp add: control_of_alt thread_of_def find_append)
    with k ok show ?thesis by (simp add: control_ok_def)
  qed
  with ok' show ?thesis by (simp add: control_ok_def)
qed

section \<open>Membership across the steps of a transaction\<close>

lemma member_quiet: "quiet db db' \<Longrightarrow> member_of_thread db' t m = member_of_thread db t m"
  by (simp add: quiet_def member_of_thread_def dialog_of_def)

lemma member_update_dialog:
  "(\<And>d. dl_id (f d) = dl_id d \<and> dl_thread_id (f d) = dl_thread_id d) \<Longrightarrow>
     member_of_thread (update_dialog i f db) t m = member_of_thread db t m"
  by (auto simp: member_of_thread_def dialog_of_update_dialog split: option.splits)

lemma member_Delete: "dialog_Delete i r db = Inr db' \<Longrightarrow> member_of_thread db' t m = member_of_thread db t m"
  by (auto simp: dialog_Delete_def member_update_dialog split: if_splits)

lemma member_Create:
  assumes "db_ok db" "dialog_Create m db = Inr (x, db')"
  shows "member_of_thread db' (tdx_ThreadID m) (bm_ID x)"
proof -
  obtain th :: thread_row where s: "bm_ID x = db_next_id db"
      "db_dialogs db' = db_dialogs db @ [new_dialog_row (db_next_id db) (db_now db) (th_domain_id th) m]"
    using dialog_Create_shape [OF assms(2)] by blast
  have "dialog_of db (db_next_id db) = None"
    using assms(1) by (auto simp: db_ok_def dialogs_ok_def dialog_of_None_iff)
  then show ?thesis using s by (simp add: member_of_thread_def dialog_of_append new_dialog_row_def)
qed

lemma member_Push: "Push tr db = Inr (p, db') \<Longrightarrow> member_of_thread db' t m = member_of_thread db t m"
  unfolding Push_def Let_def by (auto simp: member_of_thread_def split: if_splits)

lemma Adopt_member:
  assumes "db_ok db" "AdoptUntrackedBot t n db = Inr (i, db')"
  shows "(i \<noteq> uuid_nil \<longrightarrow> member_of_thread db' t i) \<and> member_of_thread db' t' m = member_of_thread db t' m"
proof (cases "first_min (\<lambda>d. (dl_created_at d, dl_id d)) (filter (\<lambda>d. dl_thread_id d = t \<and> dl_id d \<noteq> n \<and> active d
                \<and> \<not> dl_is_bot d \<and> db_contacts db (dl_member_id d) = Some True
                \<and> \<not> (\<exists>s \<in> set (db_stack db). sk_thread_id s = t)) (db_dialogs db))")
  case None
  with assms(2) show ?thesis unfolding AdoptUntrackedBot_def Let_def by (auto split: if_splits)
next
  case (Some c)
  then have c: "c \<in> set (db_dialogs db)" "dl_thread_id c = t" by (auto dest: first_min_Some)
  from assms(2) Some have i: "i = dl_id c"
      and db': "db' = update_dialog (dl_id c) (\<lambda>d. d\<lparr>dl_is_bot := True, dl_updated_at := db_now db\<rparr>) db"
    unfolding AdoptUntrackedBot_def Let_def by (auto split: if_splits)
  have "dialog_of db i = Some c" using assms(1) c i by (auto simp: db_ok_def dialogs_ok_def intro!: dialog_of_eqI)
  then have "member_of_thread db t i" using c by (simp add: member_of_thread_def)
  then show ?thesis unfolding db' by (simp add: member_update_dialog)
qed

section \<open>Events and system messages are quiet\<close>

lemma quiet_released: "publishBotControlReleased env t m c p d n r db = Inr db' \<Longrightarrow> quiet db db'"
  by (auto simp: publishBotControlReleased_def intro: quiet_publish_event split: if_splits)

lemma quiet_granted: "publishBotControlGranted env d prev p r b db = Inr db' \<Longrightarrow> quiet db db'"
  unfolding publishBotControlGranted_def Let_def
  by (auto simp: bindr_Inr_iff intro: quiet_publish_event quiet_trans [OF quiet_released quiet_publish_event]
      split: option.splits prod.splits)

lemma quiet_grant_new_top: "grant_new_top env e f r db = Inr db' \<Longrightarrow> quiet db db'"
  by (auto simp: grant_new_top_def intro: quiet_granted split: option.splits if_splits)

lemma quiet_tags_only: "tags_only db db' \<Longrightarrow> quiet db db'"
  by (auto simp: tags_only_def intro!: quietI)

lemma quiet_publish_all: "foldr_res publish_event es db = Inr db' \<Longrightarrow> quiet db db'"
  by (rule foldr_res_invariant [of es "quiet db" publish_event db db'])
     (auto intro: quiet_trans quiet_publish_event)

lemma quiet_sendThreadSystemMessage:
  assumes "sendThreadSystemMessage env msg db = Inr (m, db')"
  shows "quiet db db'"
proof -
  obtain saved db1 where a: "SaveSystemMessage msg db = Inr (saved, db1)"
    using assms unfolding sendThreadSystemMessage_def by (auto simp: bindr_Inr_iff split: if_splits)
  then obtain db2 where b: "OnMessage (ev_now env) (saved\<lparr>m_To := m_To msg, m_From := m_From msg\<rparr>) db1 = Inr db2"
      and c: "foldr_res publish_event (fst (Message_Events (WithCreatedEvent (ev_uuid_valid env) (ev_ctx env)
         (ev_sendID env) (saved\<lparr>m_To := m_To msg, m_From := m_From msg\<rparr>)))) db2 = Inr db'"
    using assms unfolding sendThreadSystemMessage_def
    by (auto simp: bindr_Inr_iff Let_def case_prod_unfold split: if_splits)
  have "quiet db db1" by (rule SaveSystemMessage_quiet [OF a])
  also have "quiet db1 db2" using b OnMessage_frame quiet_tags_only by blast
  also have "quiet db2 db'" by (rule quiet_publish_all [OF c])
  finally show ?thesis .
qed

lemma quiet_publishMemberEvent: "publishMemberEvent e db = Inr db' \<Longrightarrow> quiet db db'"
  by (auto simp: publishMemberEvent_def intro: quiet_publish_event)

lemma quiet_sendAdd: "sendAddMemberSystemMessage env i ic nm rs t d db = Inr (m, db') \<Longrightarrow> quiet db db'"
  unfolding sendAddMemberSystemMessage_def Let_def
  by (auto simp: bindr_Inr_iff split: if_splits
      intro: quiet_trans [OF quiet_sendThreadSystemMessage quiet_publishMemberEvent])

lemma quiet_sendRemove: "sendRemoveMemberSystemMessage env i ic nm rs re d db = Inr (m, db') \<Longrightarrow> quiet db db'"
  unfolding sendRemoveMemberSystemMessage_def Let_def
  by (auto simp: bindr_Inr_iff split: if_splits
      intro: quiet_trans [OF quiet_sendThreadSystemMessage quiet_publishMemberEvent])

lemma quiet_sendTransfer: "sendTransferSystemMessage env i nm rs t d db = Inr (m, db') \<Longrightarrow> quiet db db'"
  unfolding sendTransferSystemMessage_def Let_def
  by (auto simp: bindr_Inr_iff split: if_splits intro: quiet_trans [OF quiet_sendThreadSystemMessage
      quiet_trans [OF quiet_publishMemberEvent quiet_publishMemberEvent]])

section \<open>The pieces of a transaction\<close>

lemma control_ok_adoptUntrackedBot:
  assumes ok: "control_ok db" and a: "adoptUntrackedBot t n db = Inr db'"
  shows "control_ok db' \<and> member_of_thread db' t' m = member_of_thread db t' m"
proof -
  obtain i db1 where i: "AdoptUntrackedBot t n db = Inr (i, db1)"
    using a by (auto simp: adoptUntrackedBot_def bindr_Inr_iff)
  have ok1: "control_ok db1" by (rule control_ok_Adopt [OF ok i])
  have dok: "db_ok db" using ok by (simp add: control_ok_def)
  show ?thesis
  proof (cases "i = uuid_nil")
    case True
    then show ?thesis using a i ok1 Adopt_member [OF dok i] by (simp add: adoptUntrackedBot_def)
  next
    case False
    let ?tr = "\<lparr>bt_ThreadID = t, bt_NewMemberID = i, bt_PrevMemberID = None,
                       bt_Reason = ReasonInitial, bt_TriggeredBy = None\<rparr>"
    obtain p where p: "Push ?tr db1 = Inr (p, db')"
      using a i False by (auto simp: adoptUntrackedBot_def split: sum.splits)
    have "member_of_thread db1 t i" using Adopt_member [OF dok i] False by blast
    then have "control_ok db'" by (intro control_ok_Push [OF ok1 _ p]) simp
    then show ?thesis using member_Push [OF p] Adopt_member [OF dok i] by simp
  qed
qed

lemma control_ok_push_new_bot:
  assumes ok: "control_ok db" and mem: "member_of_thread db t (bm_ID nm)" and a: "push_new_bot env t nm w db = Inr db'"
  shows "control_ok db'"
proof -
  obtain db1 where d1: "adoptUntrackedBot t (bm_ID nm) db = Inr db1"
    using a by (auto simp: push_new_bot_def bindr_Inr_iff)
  let ?tr = "\<lparr>bt_ThreadID = t, bt_NewMemberID = bm_ID nm, bt_PrevMemberID = None,
                  bt_Reason = ReasonTransfer, bt_TriggeredBy = w\<rparr>"
  obtain p db2 where p: "Push ?tr db1 = Inr (p, db2)"
      and g: "publishBotControlGranted env nm p (positionAfterPush p) ReasonTransfer False db2 = Inr db'"
    using a d1 by (auto simp: push_new_bot_def split: sum.splits)
  have "control_ok db2"
    by (rule control_ok_Push [OF _ _ p]) (use control_ok_adoptUntrackedBot [OF ok d1] mem in simp_all)
  then show ?thesis using control_ok_quiet quiet_granted [OF g] by blast
qed

lemma control_ok_releaseControlToAgent:
  "control_ok db \<Longrightarrow> releaseControlToAgent env t d db = Inr db' \<Longrightarrow> control_ok db'"
  unfolding releaseControlToAgent_def Let_def
  by (auto split: prod.splits option.splits dest: control_ok_Clear
      intro: control_ok_quiet [OF control_ok_Clear quiet_released])

lemma control_ok_restoreControlAfterAgent:
  "control_ok db \<Longrightarrow> restoreControlAfterAgent env t d db = Inr db' \<Longrightarrow> control_ok db'"
  unfolding restoreControlAfterAgent_def
  by (auto split: prod.splits option.splits if_splits bool.splits dest: control_ok_Restore
      intro: control_ok_quiet [OF control_ok_Restore quiet_granted])

lemma control_ok_OnMemberLeft: "control_ok db \<Longrightarrow> OnMemberLeft t c db = Inr db' \<Longrightarrow> control_ok db'"
  using control_ok_quiet quiet_tags_only OnMemberLeft_frame by blast

section \<open>Every operation keeps the invariant\<close>

lemma WithinTransaction_inv:
  "P db \<Longrightarrow> (\<And>a db'. fn db = Inr (a, db') \<Longrightarrow> P db') \<Longrightarrow> P (snd (WithinTransaction fn db))"
  by (auto simp: WithinTransaction_def split: sum.splits prod.splits)

lemma control_ok_db_ok: "control_ok db \<Longrightarrow> db_ok db"
  by (simp add: control_ok_def)

lemma control_ok_addMember_tx:
  assumes ok: "control_ok db" and b: "\<And>f d d'. bc = Some f \<Longrightarrow> f d = Inr d' \<Longrightarrow> control_ok d \<Longrightarrow> control_ok d'"
    and a: "addMember_tx env req bc ini title invBy domain isBot perms db = Inr (i, db')"
  shows "control_ok db'"
proof -
  obtain db0 where d0: "(case bc of None \<Rightarrow> Inr db | Some f \<Rightarrow> f db) = Inr db0"
    using a by (auto simp: addMember_tx_def bindr_Inr_iff)
  then have ok0: "control_ok db0" using ok b by (cases bc) auto
  obtain m nm db1 where c: "dialog_Create m db0 = Inr (nm, db1)" "tdx_ThreadID m = am_ThreadID req"
      and r: "\<exists>x db2. sendAddMemberSystemMessage env ini (am_InitiatorContactID req) nm
               (GetQuickView (thread_filter (am_ThreadID req)) db1) (am_ThreadID req) (bm_DomainID nm) db1 = Inr (x, db2)
            \<and> (if isBot then push_new_bot env (am_ThreadID req) nm invBy db2
                   else if isOperator False (am_NewMemberRole req)
                   then releaseControlToAgent env (am_ThreadID req) (bm_DomainID nm) db2
                   else Inr db2) = Inr db'"
    using a d0 unfolding addMember_tx_def
    by (auto simp: bindr_Inr_iff case_res_Inr)
  then obtain db2 where s: "quiet db1 db2" and k: "(if isBot then push_new_bot env (am_ThreadID req) nm invBy db2
                   else if isOperator False (am_NewMemberRole req)
                   then releaseControlToAgent env (am_ThreadID req) (bm_DomainID nm) db2
                   else Inr db2) = Inr db'"
    using quiet_sendAdd by blast
  have ok1: "control_ok db1" by (rule control_ok_dialog_Create [OF ok0 c(1)])
  have ok2: "control_ok db2" by (rule control_ok_quiet [OF ok1 s])
  have mem: "member_of_thread db2 (am_ThreadID req) (bm_ID nm)"
    using member_Create [OF control_ok_db_ok [OF ok0] c(1)] c(2) member_quiet [OF s] by simp
  show ?thesis
    using k ok2 by (auto split: if_splits dest: control_ok_push_new_bot [OF ok2 mem] control_ok_releaseControlToAgent [OF ok2])
qed

lemma control_ok_transfer_control:
  assumes ok: "control_ok db" and m: "member_of_thread db (tr_ThreadID req) (bm_ID nm)"
    and a: "transfer_control env req ini nm db = Inr db'"
  shows "control_ok db'"
proof (cases "tr_TargetIsBot req")
  case True
  then obtain db1 where p: "push_new_bot env (tr_ThreadID req) nm (Some (bm_ID ini)) db = Inr db1"
      and r: "db' = db1 \<or> (\<exists>e. Pop (tr_ThreadID req) (bm_ID ini) ReasonTransfer db1 = Inr (e, db'))"
    using a by (auto simp: transfer_control_def Let_def bindr_Inr_iff split: if_splits sum.splits)
  have "control_ok db1" by (rule control_ok_push_new_bot [OF ok m p])
  with r show ?thesis using control_ok_Pop by blast
next
  case tb: False
  show ?thesis
  proof (cases "tdx_IsBot ini")
    case True
    then obtain e db1 where "Pop (tr_ThreadID req) (bm_ID ini) ReasonHandoff db = Inr (e, db1)" "quiet db1 db'"
      using a tb by (auto simp: transfer_control_def Let_def case_res_Inr bindr_Inr_iff dest: quiet_grant_new_top)
    then show ?thesis using control_ok_quiet control_ok_Pop [OF ok] by blast
  next
    case False
    with a tb ok show ?thesis
      by (auto simp: transfer_control_def Let_def dest: control_ok_releaseControlToAgent split: if_splits)
  qed
qed

lemma control_ok_transfer_tx:
  assumes ok: "control_ok db" and a: "transfer_tx env req ini perms db = Inr (i, db')"
  shows "control_ok db'"
proof -
  let ?t = "tr_ThreadID req"
  obtain m nm db1 db2 db3 x db4 where c: "dialog_Create m db = Inr (nm, db1)" "tdx_ThreadID m = ?t"
      and d: "dialog_Delete (bm_ID ini) (Some ''transferred'') db1 = Inr db2"
      and l: "OnMemberLeft ?t (tdx_ContactID ini) db2 = Inr db3"
      and s: "sendTransferSystemMessage env ini nm (GetQuickView (thread_filter ?t) db3) ?t (bm_DomainID nm) db3 = Inr (x, db4)"
      and t: "transfer_control env req ini nm db4 = Inr db'"
    using a unfolding transfer_tx_def Let_def
    by (auto simp: bindr_Inr_iff case_res_Inr)
  have "control_ok db1" by (rule control_ok_dialog_Create [OF ok c(1)])
  then have "control_ok db2" by (rule control_ok_dialog_Delete [OF _ d])
  then have "control_ok db3" by (rule control_ok_OnMemberLeft [OF _ l])
  then have ok4: "control_ok db4" by (rule control_ok_quiet [OF _ quiet_sendTransfer [OF s]])
  have "member_of_thread db4 ?t (bm_ID nm)"
    using member_Create [OF control_ok_db_ok [OF ok] c(1)] c(2) member_Delete [OF d]
      member_quiet [OF quiet_sendTransfer [OF s]] member_quiet [OF quiet_tags_only [OF OnMemberLeft_frame [OF l]]]
    by simp
  then show ?thesis by (rule control_ok_transfer_control [OF ok4 _ t])
qed

lemma control_ok_remove_bot:
  assumes "control_ok db" "remove_bot env req tar db = Inr db'"
  shows "control_ok db'"
proof -
  obtain e db1 where p: "Pop (tdx_ThreadID tar) (bm_ID tar) ReasonRemoved db = Inr (e, db1)"
    using assms(2) by (auto simp: remove_bot_def split: sum.splits)
  have ok1: "control_ok db1" by (rule control_ok_Pop [OF assms(1) p])
  from assms(2) p obtain db2 where q: "quiet db1 db2"
      and k: "(if \<not> tdx_AutoLeave tar then dialog_Delete (bm_ID tar) (rm_Reason req) db2 else Inr db2) = Inr db'"
    by (auto simp: remove_bot_def bindr_Inr_iff dest: quiet_grant_new_top)
  have ok2: "control_ok db2" by (rule control_ok_quiet [OF ok1 q])
  show ?thesis using k ok2 by (auto split: if_splits dest: control_ok_dialog_Delete [OF ok2])
qed

lemma control_ok_remove_other:
  assumes "control_ok db" "remove_other env req tar d db = Inr db'"
  shows "control_ok db'"
proof -
  obtain db1 db2 where a: "dialog_Delete (bm_ID tar) (rm_Reason req) db = Inr db1"
      "OnMemberLeft (tdx_ThreadID tar) (tdx_ContactID tar) db1 = Inr db2"
      and k: "(if isOperator (tdx_IsBot tar) (tdx_ThreadRole tar)
       then restoreControlAfterAgent env (tdx_ThreadID tar) d db2 else Inr db2) = Inr db'"
    using assms(2) unfolding remove_other_def by (auto simp: bindr_Inr_iff)
  have "control_ok db1" by (rule control_ok_dialog_Delete [OF assms(1) a(1)])
  then have ok2: "control_ok db2" by (rule control_ok_OnMemberLeft [OF _ a(2)])
  show ?thesis using k ok2 by (auto split: if_splits dest: control_ok_restoreControlAfterAgent [OF ok2])
qed

lemma control_ok_removeMember_tx:
  assumes ok: "control_ok db" and a: "removeMember_tx env req ini tar db = Inr (u, db')"
  shows "control_ok db'"
proof -
  obtain d db3 where r: "(if tdx_IsBot tar then remove_bot env req tar db else remove_other env req tar d db) = Inr db3"
      and s: "\<exists>rs x. sendRemoveMemberSystemMessage env ini (rm_InitiatorContactID req) tar rs (rm_Reason req) d db3 = Inr (x, db')"
    using a unfolding removeMember_tx_def Let_def bindr_Inr_iff by (auto simp: bindr_Inr_iff)
  have "control_ok db3"
    using r control_ok_remove_bot [OF ok] control_ok_remove_other [OF ok] by (auto split: if_splits)
  then show ?thesis using s control_ok_quiet quiet_sendRemove by blast
qed

lemma control_ok_complete_tx:
  assumes ok: "control_ok db" and a: "complete_tx env req db = Inr (u, db')"
  shows "control_ok db'"
proof (cases "db' = db")
  case False
  then obtain e db1 where p: "Pop (cb_ThreadID req) (cb_MemberID req) ReasonCompleted db = Inr (e, db1)"
      and q: "quiet db1 db'"
    using a unfolding complete_tx_def Let_def
    by (auto simp: bindr_Inr_iff dest: quiet_grant_new_top split: if_splits option.splits)
  show ?thesis by (rule control_ok_quiet [OF control_ok_Pop [OF ok p] q])
qed (use ok in simp)

lemma control_ok_release_tx:
  assumes ok: "control_ok db" and a: "release_tx env req db = Inr (u, db')"
  shows "control_ok db'"
proof (cases "if GetStack (rb_ThreadID req) db = [] then None else be_MemberID (last (GetStack (rb_ThreadID req) db))")
  case None
  obtain r db1 where c: "ClearController (rb_ThreadID req) db = (r, db1)" by (cases "ClearController (rb_ThreadID req) db")
  have "quiet db1 db'"
    using a None c unfolding release_tx_def Let_def
    by (cases r) (auto simp: bindr_Inr_iff dest: quiet_released)
  with control_ok_Clear [OF ok c] show ?thesis by (rule control_ok_quiet)
next
  case (Some m)
  then obtain e db1 db2 where p: "Pop (rb_ThreadID req) m ReasonClientLeave db = Inr (e, db1)"
      "quiet db1 db2" "quiet db2 db'"
    using a unfolding release_tx_def Let_def
    by (auto simp: bindr_Inr_iff dest: quiet_grant_new_top quiet_released)
  then show ?thesis using control_ok_quiet [OF control_ok_Pop [OF ok p(1)]] quiet_trans by blast
qed

lemma control_ok_tx:
  assumes "control_ok db" "\<And>a db'. fn db = Inr (a, db') \<Longrightarrow> control_ok db'"
  shows "control_ok (snd (WithinTransaction fn db))"
  using assms by (cases "fn db") (auto simp: WithinTransaction_def split: prod.splits)

lemma control_ok_addMember:
  "control_ok db \<Longrightarrow> control_ok (snd (WithinTransaction (addMember_tx env req None ini title w d b p) db))"
  using control_ok_addMember_tx [of db None] by (intro control_ok_tx) blast+

lemma control_ok_transfer: "control_ok db \<Longrightarrow> control_ok (snd (WithinTransaction (transfer_tx env req ini p) db))"
  using control_ok_transfer_tx [of db] by (intro control_ok_tx) blast+

lemma control_ok_remove: "control_ok db \<Longrightarrow> control_ok (snd (WithinTransaction (removeMember_tx env req ini tar) db))"
  using control_ok_removeMember_tx [of db] by (intro control_ok_tx) blast+

lemma control_ok_complete: "control_ok db \<Longrightarrow> control_ok (snd (WithinTransaction (complete_tx env req) db))"
  using control_ok_complete_tx [of db] by (intro control_ok_tx) blast+

lemma control_ok_release: "control_ok db \<Longrightarrow> control_ok (snd (WithinTransaction (release_tx env req) db))"
  using control_ok_release_tx [of db] by (intro control_ok_tx) blast+

lemma control_ok_AddMember: "control_ok db \<Longrightarrow> control_ok (snd (AddMember env req db))"
  unfolding AddMember_def addMemberToChat_def Let_def
  by (simp add: control_ok_addMember split: option.split sum.split prod.split)

lemma control_ok_Transfer: "control_ok db \<Longrightarrow> control_ok (snd (Transfer env req db))"
  unfolding Transfer_def Let_def
  by (simp add: control_ok_transfer split: option.split sum.split prod.split)

lemma control_ok_RemoveMember: "control_ok db \<Longrightarrow> control_ok (snd (RemoveMember env req db))"
  unfolding RemoveMember_def
  by (simp add: control_ok_remove split: option.split sum.split prod.split)

lemma control_ok_Complete: "control_ok db \<Longrightarrow> control_ok (snd (CompleteBotControl env req db))"
  unfolding CompleteBotControl_def by (simp add: control_ok_complete split: option.split)

lemma control_ok_Release: "control_ok db \<Longrightarrow> control_ok (snd (ReleaseBotControl env req db))"
  unfolding ReleaseBotControl_def by (simp add: control_ok_release split: option.split)

lemma control_ok_HandBack:
  assumes "control_ok db"
  shows "control_ok (snd (HandBackToBot env req db))"
proof -
  have "control_ok (snd (WithinTransaction (\<lambda>db. (case RestoreController t db of
       ((None, x), y) \<Rightarrow> Inl e
     | ((Some c, x), db1) \<Rightarrow> bindr (publishBotControlGranted env (g c) None (h c) r True db1) (\<lambda>db2. Inr ((), db2)))) db))"
    for t e g h r
  proof (rule control_ok_tx [OF assms])
    fix a db'
    obtain c x db1 where R: "RestoreController t db = ((c, x), db1)" by (metis surj_pair)
    assume "(case RestoreController t db of ((None, x), y) \<Rightarrow> Inl e
     | ((Some c, x), db1) \<Rightarrow> bindr (publishBotControlGranted env (g c) None (h c) r True db1) (\<lambda>db2. Inr ((), db2))) = Inr (a, db')"
    then have "quiet db1 db'" using R by (cases c) (auto simp: bindr_Inr_iff dest: quiet_granted)
    with control_ok_Restore [OF assms R] show "control_ok db'" by (rule control_ok_quiet)
  qed
  then show ?thesis using assms unfolding HandBackToBot_def by (simp split: option.split sum.split)
qed

lemma control_ok_TakeOver:
  assumes "control_ok db"
  shows "control_ok (snd (TakeOverFromBot env req db))"
proof -
  have "control_ok (snd (WithinTransaction (\<lambda>db. bindr (releaseControlToAgent env t d db) (\<lambda>db1. Inr ((), db1))) db))" for t d
    by (rule control_ok_tx [OF assms]) (auto simp: bindr_Inr_iff dest: control_ok_releaseControlToAgent [OF assms])
  then show ?thesis using assms unfolding TakeOverFromBot_def by (simp split: option.split sum.split)
qed

lemma control_ok_SetCRMContact:
  assumes "control_ok db"
  shows "control_ok (snd (SetCRMContact env req db))"
proof -
  have "control_ok (snd (WithinTransaction (\<lambda>db. bindr (store_SetCRMContact t c db) (\<lambda>db1.
      bindr (publish_event (e db1) db1) (\<lambda>db2. Inr ((), db2)))) db))" for t c e
    using control_ok_quiet [OF assms quiet_trans [OF store_SetCRMContact_quiet quiet_publish_event]]
    by (intro control_ok_tx [OF assms]) (auto simp: bindr_Inr_iff)
  then show ?thesis using assms unfolding SetCRMContact_def by (simp split: option.split sum.split)
qed

lemma control_ok_ensureBotControl:
  assumes ok: "control_ok db" and mem: "\<And>m. m \<in> set (t_Members th) \<Longrightarrow> member_of_thread db (t_ID th) (bm_ID m)"
  shows "control_ok (snd (ensureBotControl env th d db))"
proof (cases "find td_IsBot (t_Members th)")
  case None
  then show ?thesis using ok by (simp add: ensureBotControl_def)
next
  case (Some b)
  let ?s = "GetStack (t_ID th) db"
  let ?tr = "\<lparr>bt_ThreadID = t_ID th, bt_NewMemberID = bm_ID b, bt_PrevMemberID = None,
      bt_Reason = ReasonInitial, bt_TriggeredBy = None\<rparr>"
  let ?first = "if ?s \<noteq> [] then
       (case be_MemberID (last ?s) of
          None \<Rightarrow> Inr (th, db)
        | Some m \<Rightarrow> bindr (SetController (t_ID th) m db) (\<lambda>db1. Inr (th\<lparr>t_BotControllerID := Some m\<rparr>, db1)))
     else bindr (Push ?tr db) (\<lambda>(_, db1). Inr (th\<lparr>t_BotControllerID := Some (bm_ID b)\<rparr>, db1))"
  have st: "stack_ok db" using ok by (simp add: control_ok_def db_ok_def)
  have "control_ok db1" if f: "?first = Inr (th', db1)" for th' db1
  proof (cases "?s = []")
    case True
    then obtain p where "Push ?tr db = Inr (p, db1)" using f by (auto simp: bindr_Inr_iff)
    moreover have "b \<in> set (t_Members th)" using find_SomeD [OF Some] by simp
    ultimately show ?thesis using mem by (intro control_ok_Push [OF ok, of ?tr]) auto
  next
    case False
    then show ?thesis
      using f last_GetStack [OF st False] control_ok_SetController_top [OF ok] by (auto simp: bindr_Inr_iff)
  qed
  then have tx: "control_ok (snd (WithinTransaction (\<lambda>db. bindr (?first) (\<lambda>(th', db1).
      bindr (publishBotControlGranted env g None 0 ReasonInitial False db1) (\<lambda>db2. Inr (th', db2)))) db))" for g
    by (intro control_ok_tx [OF ok]) (auto simp: bindr_Inr_iff dest!: quiet_granted intro: control_ok_quiet)
  then show ?thesis
    using ok Some unfolding ensureBotControl_def Let_def by (simp add: WithinTransaction_def)
qed

lemma ResolveThread_members:
  assumes "dialogs_ok db" "ResolveThread q db = Inr (Some th)" "m \<in> set (t_Members th)"
  shows "member_of_thread db (t_ID th) (bm_ID m)"
proof -
  obtain r :: thread_row where r: "t_ID th = th_id r" "t_Members th = map json_member (active_members db (th_id r))"
    using assms(2) by (auto simp: ResolveThread_def split: option.splits if_splits)
  then obtain d where "d \<in> set (db_dialogs db)" "dl_thread_id d = t_ID th" "m = json_member d"
    using assms(3) by (auto simp: active_members_def)
  then show ?thesis
    using dialog_of_eqI [of db d] assms(1) by (simp add: member_of_thread_def json_member_def dialogs_ok_def)
qed

lemma control_ok_initialize:
  assumes ok: "control_ok db" and i: "initializeDirectThreadDialogs env t d from to b db = Inr (ms, db')"
  shows "control_ok db'"
proof -
  obtain ma mb x y db1 db2 where c: "dialog_Create ma db = Inr (x, db1)" "dialog_Create mb db1 = Inr (y, db2)"
      "tdx_ThreadID mb = t"
      and k: "(if b then
                      (case Push \<lparr>bt_ThreadID = t, bt_NewMemberID = bm_ID y, bt_PrevMemberID = None,
                                 bt_Reason = ReasonInitial, bt_TriggeredBy = None\<rparr> db2 of
                         Inl _ \<Rightarrow> Inl (Err Internal ''failed to init bot control'')
                       | Inr (_, db3) \<Rightarrow> publishBotControlGranted env y None 0 ReasonInitial False db3)
                    else Inr db2) = Inr db'"
    using i unfolding initializeDirectThreadDialogs_def Let_def
    by (auto simp: bindr_Inr_iff split: option.splits if_splits)
  have ok1: "control_ok db1" by (rule control_ok_dialog_Create [OF ok c(1)])
  have ok2: "control_ok db2" by (rule control_ok_dialog_Create [OF ok1 c(2)])
  have mem: "member_of_thread db2 t (bm_ID y)" using member_Create [OF control_ok_db_ok [OF ok1] c(2)] c(3) by simp
  show ?thesis
  proof (cases b)
    case True
    then obtain p db3 where p: "Push \<lparr>bt_ThreadID = t, bt_NewMemberID = bm_ID y, bt_PrevMemberID = None,
           bt_Reason = ReasonInitial, bt_TriggeredBy = None\<rparr> db2 = Inr (p, db3)" "quiet db3 db'"
      using k by (auto simp: case_res_Inr dest: quiet_granted)
    have "control_ok db3" by (rule control_ok_Push [OF ok2 _ p(1)]) (use mem in simp)
    then show ?thesis using p(2) by (rule control_ok_quiet)
  qed (use k ok2 in simp)
qed

lemma control_ok_EnsureDirect:
  assumes ok: "control_ok db"
  shows "control_ok (snd (EnsureDirectThread env req db))"
proof -
  have dok: "dialogs_ok db" using ok by (simp add: control_ok_def db_ok_def)
  have create: "control_ok (snd (WithinTransaction (create_tx env r b) db))" for r b
  proof (rule control_ok_tx [OF ok])
    fix a db' assume "create_tx env r b db = Inr (a, db')"
    then obtain s db1 ms db2 es where c: "createDirectThread env (ed_DomainID r) db = Inr (s, db1)"
        and i: "initializeDirectThreadDialogs env (t_ID s) (ed_DomainID r) (ed_From r) (ed_To r) b db1 = Inr (ms, db2)"
        and p: "foldr_res publish_event es db2 = Inr db'"
      unfolding create_tx_def Let_def by (auto simp: bindr_Inr_iff)
    have "control_ok db1" using c unfolding createDirectThread_def by (rule control_ok_thread_Create [OF ok])
    then have "control_ok db2" by (rule control_ok_initialize [OF _ i])
    then show "control_ok db'" by (rule control_ok_quiet [OF _ quiet_publish_all [OF p]])
  qed
  then have orch: "control_ok (snd (orchestrateDirectThreadCreation env r db))" for r
    using ok by (simp add: orchestrateDirectThreadCreation_def split: sum.split)
  have ens: "control_ok (snd (ensureBotControl env th d db))" if "ResolveThread q db = Inr (Some th)" for q th d
    by (rule control_ok_ensureBotControl [OF ok]) (rule ResolveThread_members [OF dok that])
  show ?thesis
  proof (cases req)
    case (Some r)
    let ?q = "\<lparr>q_From = ed_From r, q_To = ed_To r, q_SendAs = ed_SendAs r\<rparr>"
    show ?thesis
    proof (cases "ResolveThread ?q db")
      case (Inr o')
      show ?thesis
      proof (cases o')
        case (Some th)
        obtain x db1 where e: "ensureBotControl env th (ed_DomainID r) db = (x, db1)" by (metis surj_pair)
        then have "control_ok db1" using ens [of ?q th] Inr Some by (metis snd_conv)
        with e Inr Some \<open>req = Some r\<close> ok show ?thesis by (simp add: EnsureDirectThread_def split: sum.split)
      qed (use Inr \<open>req = Some r\<close> orch in \<open>simp add: EnsureDirectThread_def\<close>)
    qed (use \<open>req = Some r\<close> ok in \<open>simp add: EnsureDirectThread_def\<close>)
  qed (use ok in \<open>simp add: EnsureDirectThread_def\<close>)
qed

section \<open>An example conversation\<close>

text \<open>
  A request runs in a transaction of its own, with the next transaction id, at its own time, and
  after whatever the contact service has done to its table.
\<close>

definition begin_tx :: "time \<Rightarrow> int \<Rightarrow> (uuid \<rightharpoonup> bool) \<Rightarrow> db \<Rightarrow> db" where
  "begin_tx now tx contacts db = db\<lparr>db_now := now, db_tx := tx, db_contacts := contacts\<rparr>"

text \<open>Contact 52 is a bot; everything is permitted; no scheme ids are known.\<close>

definition example_env :: env where
  "example_env = \<lparr>ev_CanInvite = (\<lambda>_ _. Inr ()), ev_CanSend = (\<lambda>_ _. Inr ()),
     ev_IsBot = (\<lambda>c _. Inr (c = 52)), ev_GetSub = (\<lambda>_ _. Inr None), ev_now = 100,
     ev_graphemes = (\<lambda>s. int (length s)), ev_uuid_valid = (\<lambda>_. True), ev_sendID = [],
     ev_ctx = \<lparr>cx_jwt = None, cx_device = None\<rparr>\<rparr>"

definition example_peer :: "uuid \<Rightarrow> string \<Rightarrow> Peer" where
  "example_peer c name = \<lparr>pr_ID = c, pr_Type = PeerContact, pr_Identity =
     Some \<lparr>idn_Issuer = [], idn_Name = name, idn_ChatName = [], idn_ViaInfo = None\<rparr>\<rparr>"

definition direct_db :: db where
  "direct_db = snd (EnsureDirectThread example_env (Some \<lparr>ed_DomainID = 7, ed_From = example_peer 51 ''Ann'',
     ed_To = example_peer 52 ''Helper'', ed_SendAs = None\<rparr>)
     (begin_tx 100 1 Map.empty empty_db))"

lemma direct_db_control:
  "control_of direct_db 1 = Some \<lparr>ct_stack = [4], ct_controller = Some 4, ct_owner = Some 4\<rparr>"
  by code_simp

end
