(* ===== verification/Service_Steps.thy ===== *)
theory Service_Steps
  imports Control_Invariant
begin

text \<open>
  The service as a state machine: one step per request of the thread manager, the tag service
  and the permission service, in any order and with any answers of the outside world, each in a
  transaction of its own. Its reachable states are the ones every property below may
  assume.
\<close>

section \<open>Steps\<close>

inductive service_step :: "db \<Rightarrow> db \<Rightarrow> bool" where
  step_AddMember: "service_step db (snd (AddMember env am db))"
| step_Transfer: "service_step db (snd (Transfer env tr db))"
| step_RemoveMember: "service_step db (snd (RemoveMember env rm db))"
| step_CompleteBotControl: "service_step db (snd (CompleteBotControl env cb db))"
| step_ReleaseBotControl: "service_step db (snd (ReleaseBotControl env rb db))"
| step_HandBackToBot: "service_step db (snd (HandBackToBot env op db))"
| step_TakeOverFromBot: "service_step db (snd (TakeOverFromBot env op db))"
| step_SetCRMContact: "service_step db (snd (SetCRMContact env crm db))"
| step_EnsureDirectThread: "service_step db (snd (EnsureDirectThread env ed db))"
| step_AddTag: "service_step db (snd (AddTag now at db))"
| step_RemoveTag: "service_step db (snd (RemoveTag now rt db))"
| step_RemoveTagByName: "service_step db (snd (RemoveTagByName now at db))"
| step_ThreadPermission_Update: "service_step db (snd (ThreadPermission_Update up db))"

inductive reachable :: "db \<Rightarrow> bool" where
  reachable_start: "reachable empty_db"
| reachable_step: "reachable db \<Longrightarrow> db_now db \<le> now \<Longrightarrow> db_tx db < tx \<Longrightarrow>
    service_step (begin_tx now tx contacts db) db' \<Longrightarrow> reachable db'"

section \<open>Tags and permissions do not touch control\<close>

lemma control_ok_tags: "control_ok db \<Longrightarrow> db_threads db' = db_threads db \<Longrightarrow> db_dialogs db' = db_dialogs db \<Longrightarrow>
    db_stack db' = db_stack db \<Longrightarrow> db_next_id db \<le> db_next_id db' \<Longrightarrow> control_ok db'"
  using db_ok_cong [of db' db] control_of_cong [of db' db] by (simp add: control_ok_def)

lemma control_ok_AddTag: "control_ok db \<Longrightarrow> control_ok (snd (AddTag now req db))"
  by (erule control_ok_tags)
    (auto simp: AddTag_def WithinTransaction_def tag_Add_def publishTagsChanged_total Let_def
      split: option.split sum.split)

lemma notify_frame:
  "notifyMemberTagsChanged now t c db = Inr db' \<Longrightarrow> db_threads db' = db_threads db \<and> db_dialogs db' = db_dialogs db
     \<and> db_stack db' = db_stack db \<and> db_next_id db' = db_next_id db"
  by (auto simp: notifyMemberTagsChanged_def publishTagsChanged_total split: option.splits)

lemma control_ok_RemoveTag: "control_ok db \<Longrightarrow> control_ok (snd (RemoveTag now req db))"
  by (erule control_ok_tags)
    (auto simp: RemoveTag_def WithinTransaction_def tag_Remove_def bindr_Inr_iff dest!: notify_frame
      split: option.split sum.split)

lemma control_ok_RemoveTagByName: "control_ok db \<Longrightarrow> control_ok (snd (RemoveTagByName now req db))"
  by (erule control_ok_tags)
    (auto simp: RemoveTagByName_def WithinTransaction_def tag_RemoveByName_def bindr_Inr_iff dest!: notify_frame
      split: option.split sum.split)

lemma permission_Update_frame:
  "db_threads (snd (permission_Update r db)) = db_threads db \<and> db_dialogs (snd (permission_Update r db)) = db_dialogs db
     \<and> db_stack (snd (permission_Update r db)) = db_stack db \<and> db_next_id (snd (permission_Update r db)) = db_next_id db"
  by (auto simp: permission_Update_def Let_def split: list.split)

lemma control_ok_ThreadPermission_Update: "control_ok db \<Longrightarrow> control_ok (snd (ThreadPermission_Update req db))"
  by (erule control_ok_tags) (auto simp: ThreadPermission_Update_def permission_Update_frame split: option.split sum.split)

lemma control_ok_begin_tx: "control_ok db \<Longrightarrow> control_ok (begin_tx now tx contacts db)"
  by (erule control_ok_tags) (auto simp: begin_tx_def)

lemmas control_ok_ops =
  control_ok_AddMember control_ok_Transfer control_ok_RemoveMember control_ok_Complete control_ok_Release
  control_ok_HandBack control_ok_TakeOver control_ok_SetCRMContact control_ok_EnsureDirect
  control_ok_AddTag control_ok_RemoveTag control_ok_RemoveTagByName control_ok_ThreadPermission_Update

lemma control_ok_step: "service_step db db' \<Longrightarrow> control_ok db \<Longrightarrow> control_ok db'"
  by (induction rule: service_step.induct) (erule control_ok_ops)+

lemma control_ok_empty: "control_ok empty_db"
  using db_ok_empty by (simp add: control_ok_def control_of_def thread_of_def) (simp add: empty_db_def)

lemma control_ok_reachable: "reachable db \<Longrightarrow> control_ok db"
  by (induction rule: reachable.induct) (auto intro: control_ok_empty control_ok_step control_ok_begin_tx)

section \<open>Properties\<close>


section \<open>An example conversation\<close>

lemma direct_db_reachable: "reachable direct_db"
  unfolding direct_db_def
  by (rule reachable_step [OF reachable_start _ _ step_EnsureDirectThread]) (simp_all add: empty_db_def)


end
