(* ===== verification/Previews.thy ===== *)
theory Previews
  imports Control_Invariant
begin

text \<open>
  Time-limited previews of a thread: \<^verbatim>\<open>internal/service/thread_preview.go\<close>,
  \<^verbatim>\<open>internal/store/postgres/thread_preview_store.go\<close> and their requests. A duration is in nanoseconds,
  as \<^verbatim>\<open>time.Duration\<close> is; the store takes its whole milliseconds. \<^verbatim>\<open>FOR UPDATE\<close> has no effect within
  one transaction.
\<close>

section \<open>The store\<close>

definition unrevoked :: "preview_row \<Rightarrow> bool" where
  "unrevoked p \<longleftrightarrow> pv_revoked p = None"

definition preview_of :: "uuid \<Rightarrow> uuid \<Rightarrow> preview_row \<Rightarrow> bool" where
  "preview_of t c p \<longleftrightarrow> pv_thread_id p = t \<and> pv_contact_id p = c"

definition preview_active :: "time \<Rightarrow> uuid \<Rightarrow> uuid \<Rightarrow> int \<Rightarrow> preview_row \<Rightarrow> bool" where
  "preview_active now t c domain p \<longleftrightarrow>
     preview_of t c p \<and> (domain = 0 \<or> pv_domain_id p = domain) \<and> unrevoked p \<and> pv_expires_at p > now"

definition GetActiveForUpdate :: "uuid \<Rightarrow> uuid \<Rightarrow> int \<Rightarrow> db \<Rightarrow> preview_row option" where
  "GetActiveForUpdate t c domain db =
     first_max pv_created_at (filter (preview_active (db_now db) t c domain) (db_previews db))"

text \<open>The first statement of \<^verbatim>\<open>Upsert\<close>: a lapsed preview that nobody closed is closed.\<close>

definition expire_lapsed :: "uuid \<Rightarrow> uuid \<Rightarrow> db \<Rightarrow> db" where
  "expire_lapsed t c db = db\<lparr>db_previews :=
     update_where (\<lambda>p. preview_of t c p \<and> unrevoked p \<and> pv_expires_at p \<le> db_now db)
       (\<lambda>p. p\<lparr>pv_revoked := Some (db_now db, RevokeExpired)\<rparr>) (db_previews db)\<rparr>"

text \<open>
  The second statement. A row that holds the unique slot only gets a new end; otherwise a row is
  inserted, for which the thread must exist in the given domain and the end must be after the start.
\<close>

definition preview_Upsert :: "int \<Rightarrow> uuid \<Rightarrow> uuid \<Rightarrow> uuid \<Rightarrow> int \<Rightarrow> db \<Rightarrow> (preview_row \<times> db) res" where
  "preview_Upsert domain t c initiator ttl db =
     (let db1 = expire_lapsed t c db; ends = db_now db + (ttl div 1000000) * 1000000;
          taken = (\<lambda>p. preview_of t c p \<and> unrevoked p); db2 = db1\<lparr>db_next_id := Suc (db_next_id db1)\<rparr>
      in (case find taken (db_previews db1) of
            Some p \<Rightarrow>
             if \<not> ends > pv_created_at p then Inl (Err Internal ''error collecting preview upsert result'')
             else Inr (p\<lparr>pv_expires_at := ends\<rparr>,
                db2\<lparr>db_previews := update_where taken (\<lambda>p. p\<lparr>pv_expires_at := ends\<rparr>) (db_previews db1)\<rparr>)
          | None \<Rightarrow>
             if \<not> ends > db_now db then Inl (Err Internal ''error collecting preview upsert result'')
             else if \<not> (\<exists>r \<in> set (db_threads db). th_id r = t \<and> th_domain_id r = domain)
             then Inl (Err NotFound ''thread not found'')
             else (let p = \<lparr>pv_id = db_next_id db1, pv_domain_id = domain, pv_thread_id = t, pv_contact_id = c,
                     pv_initiator_id = initiator, pv_created_at = db_now db, pv_expires_at = ends, pv_revoked = None\<rparr>
                   in Inr (p, db2\<lparr>db_previews := db_previews db1 @ [p]\<rparr>))))"

definition Revoke :: "uuid \<Rightarrow> PreviewRevokeReason \<Rightarrow> db \<Rightarrow> db option" where
  "Revoke i reason db =
     (if \<exists>p \<in> set (db_previews db). pv_id p = i \<and> unrevoked p
      then Some (db\<lparr>db_previews := update_where (\<lambda>p. pv_id p = i \<and> unrevoked p)
             (\<lambda>p. p\<lparr>pv_revoked := Some (db_now db, reason)\<rparr>) (db_previews db)\<rparr>)
      else None)"

definition CanRead :: "uuid \<Rightarrow> uuid \<Rightarrow> int \<Rightarrow> db \<Rightarrow> bool" where
  "CanRead t c domain db \<longleftrightarrow>
     (\<exists>d \<in> set (db_dialogs db). dl_thread_id d = t \<and> dl_member_id d = c \<and> active d \<and> (domain = 0 \<or> dl_domain_id d = domain))
     \<or> (\<exists>p \<in> set (db_previews db). preview_active (db_now db) t c domain p)"

section \<open>The service\<close>

definition maxPreviewDuration :: int where
  "maxPreviewDuration = 3600 * 1000000000"

record GivePreviewRequest =
  gp_ThreadID :: uuid
  gp_ContactID :: uuid
  gp_InitiatorContactID :: uuid
  gp_DomainID :: int
  gp_Duration :: int

record RemoveFromPreviewRequest =
  rf_ThreadID :: uuid
  rf_ContactID :: uuid
  rf_DomainID :: int

record UpgradePreviewRequest =
  ug_ThreadID :: uuid
  ug_ContactID :: uuid
  ug_InitiatorContactID :: uuid
  ug_DomainID :: int
  ug_Role :: ThreadRole
  ug_Queue :: "QueueInfo option"

definition validatePreviewTarget :: "uuid \<Rightarrow> uuid \<Rightarrow> uuid \<Rightarrow> int \<Rightarrow> unit res" where
  "validatePreviewTarget t c initiator domain =
     (if t = uuid_nil \<or> c = uuid_nil then Inl (Err InvalidArgument ''thread_id and contact_id must not be empty'')
      else if domain \<le> 0 then Inl (Err InvalidArgument ''domain_id must be positive'')
      else if initiator = uuid_nil then Inl (Err InvalidArgument ''initiator_contact_id must not be empty'')
      else Inr ())"

definition give_tx :: "GivePreviewRequest \<Rightarrow> db \<Rightarrow> (preview_row \<times> db) res" where
  "give_tx req db =
     bindr (LockForUpdate (gp_ThreadID req) db) (\<lambda>_.
       if GetQuickView ((thread_filter (gp_ThreadID req))\<lparr>f_ContactIDs := Some [gp_ContactID req]\<rparr>) db \<noteq> []
       then Inl (Err AlreadyExists ''contact is already a member of the thread'')
       else preview_Upsert (gp_DomainID req) (gp_ThreadID req) (gp_ContactID req) (gp_InitiatorContactID req) (gp_Duration req) db)"

definition GivePreview :: "GivePreviewRequest \<Rightarrow> db \<Rightarrow> preview_row res \<times> db" where
  "GivePreview req db =
     (case validatePreviewTarget (gp_ThreadID req) (gp_ContactID req) (gp_InitiatorContactID req) (gp_DomainID req) of
        Inl e \<Rightarrow> (Inl e, db)
      | Inr _ \<Rightarrow>
         if gp_Duration req \<le> 0 \<or> gp_Duration req > maxPreviewDuration
         then (Inl (Err InvalidArgument ''duration must be positive and at most 1h''), db)
         else WithinTransaction (give_tx req) db)"

definition remove_tx :: "RemoveFromPreviewRequest \<Rightarrow> db \<Rightarrow> (unit \<times> db) res" where
  "remove_tx req db =
     (case GetActiveForUpdate (rf_ThreadID req) (rf_ContactID req) (rf_DomainID req) db of
        None \<Rightarrow> Inr ((), db)
      | Some p \<Rightarrow> (case Revoke (pv_id p) RevokeRemove db of None \<Rightarrow> Inr ((), db) | Some db' \<Rightarrow> Inr ((), db')))"

definition RemoveFromPreview :: "RemoveFromPreviewRequest \<Rightarrow> db \<Rightarrow> unit res \<times> db" where
  "RemoveFromPreview req db =
     (case validatePreviewTarget (rf_ThreadID req) (rf_ContactID req) uuid_nil (rf_DomainID req) of
        Inr _ \<Rightarrow> WithinTransaction (remove_tx req) db
      | Inl _ \<Rightarrow>
         if rf_ContactID req = uuid_nil \<or> rf_ThreadID req = uuid_nil \<or> rf_DomainID req \<le> 0
         then (Inl (Err InvalidArgument ''thread_id and contact_id must not be empty, domain_id must be positive''), db)
         else WithinTransaction (remove_tx req) db)"

definition errPreviewNotActive :: err where
  "errPreviewNotActive = Err FailedPrecondition ''preview has expired or was revoked''"

definition consume_preview :: "UpgradePreviewRequest \<Rightarrow> db \<Rightarrow> db res" where
  "consume_preview req db =
     (case GetActiveForUpdate (ug_ThreadID req) (ug_ContactID req) (ug_DomainID req) db of
        None \<Rightarrow> Inl errPreviewNotActive
      | Some p \<Rightarrow> (case Revoke (pv_id p) RevokeUpgrade db of None \<Rightarrow> Inl errPreviewNotActive | Some db' \<Rightarrow> Inr db'))"

definition upgrade_member :: "UpgradePreviewRequest \<Rightarrow> AddMemberRequest" where
  "upgrade_member req =
     \<lparr>am_ThreadID = ug_ThreadID req, am_NewMemberContactID = ug_ContactID req, am_InitiatorContactID = ug_InitiatorContactID req,
      am_NewMemberRole = ug_Role req, am_DomainID = ug_DomainID req, am_IsBot = False, am_AutoLeave = None,
      am_Queue = ug_Queue req, am_SystemCall = True\<rparr>"

definition UpgradePreviewToFullMember :: "env \<Rightarrow> UpgradePreviewRequest \<Rightarrow> db \<Rightarrow> uuid res \<times> db" where
  "UpgradePreviewToFullMember env req db =
     (case validatePreviewTarget (ug_ThreadID req) (ug_ContactID req) (ug_InitiatorContactID req) (ug_DomainID req) of
        Inl e \<Rightarrow> (Inl e, db)
      | Inr _ \<Rightarrow>
         if ug_Role req = UnspecifiedRole then (Inl (Err InvalidArgument ''unknown member role''), db)
         else (case getDefaultPermissionsByRole (ug_Role req) of
                 Inl _ \<Rightarrow> (Inl (Err InvalidArgument ''unknown member role''), db)
               | Inr _ \<Rightarrow> addMemberToChat env (Some (upgrade_member req)) (Some (consume_preview req)) db))"

section \<open>One open preview per contact\<close>

definition preview_pair :: "preview_row \<Rightarrow> uuid \<times> uuid" where
  "preview_pair p = (pv_thread_id p, pv_contact_id p)"

definition previews_ok :: "db \<Rightarrow> bool" where
  "previews_ok db \<longleftrightarrow> distinct (map preview_pair (filter unrevoked (db_previews db)))
     \<and> distinct (map pv_id (db_previews db)) \<and> (\<forall>p \<in> set (db_previews db). pv_id p < db_next_id db)"

text \<open>The open previews of a contact, and access as a function of the clock.\<close>

definition open_previews :: "db \<Rightarrow> uuid \<Rightarrow> uuid \<Rightarrow> preview_row list" where
  "open_previews db t c = filter (\<lambda>p. preview_of t c p \<and> unrevoked p) (db_previews db)"

definition is_member :: "db \<Rightarrow> uuid \<Rightarrow> uuid \<Rightarrow> int \<Rightarrow> bool" where
  "is_member db t c domain \<longleftrightarrow> (\<exists>d \<in> set (db_dialogs db). dl_thread_id d = t \<and> dl_member_id d = c \<and> active d
     \<and> (domain = 0 \<or> dl_domain_id d = domain))"

lemma preview_of_pair: "preview_of t c p \<longleftrightarrow> preview_pair p = (t, c)"
  by (simp add: preview_of_def preview_pair_def)

lemma CanRead_open:
  "CanRead t c domain db \<longleftrightarrow> is_member db t c domain
     \<or> (\<exists>p \<in> set (open_previews db t c). (domain = 0 \<or> pv_domain_id p = domain) \<and> pv_expires_at p > db_now db)"
  by (auto simp: CanRead_def is_member_def open_previews_def preview_active_def)

lemma open_previews_single:
  assumes "previews_ok db"
  shows "open_previews db t c = [] \<or> (\<exists>p. open_previews db t c = [p])"
proof -
  let ?xs = "filter unrevoked (db_previews db)"
  have f: "open_previews db t c = filter (\<lambda>p. preview_pair p = (t, c)) ?xs"
    by (simp add: open_previews_def preview_of_pair conj_commute)
  have "length (open_previews db t c) \<le> 1" unfolding f by (rule filter_key_length) (use assms in \<open>simp add: previews_ok_def\<close>)
  then show ?thesis by (cases "open_previews db t c") auto
qed

text \<open>What an update of the rows of one pair does to the table.\<close>

lemma previews_ok_append:
  assumes "previews_ok db" "open_previews db t c = []" "pv_id p = db_next_id db" "preview_of t c p"
    "db_previews db' = db_previews db @ [p]" "db_next_id db' = Suc (db_next_id db)"
  shows "previews_ok db'"
proof -
  have "(t, c) \<notin> preview_pair ` set (filter unrevoked (db_previews db))"
    using assms(2) by (auto simp: open_previews_def filter_empty_conv preview_of_pair)
  then have "distinct (map preview_pair (filter unrevoked (db_previews db')))"
    using assms(1,4,5) by (auto simp: previews_ok_def preview_of_pair)
  moreover have "distinct (map pv_id (db_previews db'))" "\<forall>p \<in> set (db_previews db'). pv_id p < db_next_id db'"
    using assms(1,3,5,6) by (auto simp: previews_ok_def dest: less_SucI)
  ultimately show ?thesis by (simp add: previews_ok_def)
qed

lemma previews_ok_update:
  assumes ok: "previews_ok db" and f: "\<And>p. preview_pair (f p) = preview_pair p \<and> pv_id (f p) = pv_id p \<and> (unrevoked (f p) \<longrightarrow> unrevoked p)"
    and db': "db_previews db' = update_where P f (db_previews db)" "db_next_id db \<le> db_next_id db'"
  shows "previews_ok db'"
proof -
  let ?g = "\<lambda>p. if P p then f p else p"
  have g: "preview_pair (?g p) = preview_pair p" "pv_id (?g p) = pv_id p" "unrevoked (?g p) \<Longrightarrow> unrevoked p" for p
    using f by (auto split: if_splits)
  have upd: "update_where P f xs = map ?g xs" for xs by (simp add: update_where_def)
  have "filter unrevoked (map ?g xs) = map ?g (filter (\<lambda>p. unrevoked (?g p)) (filter unrevoked xs))" for xs
  proof (induction xs)
    case (Cons p xs)
    then show ?case using g(3) [of p] by (cases "unrevoked (?g p)") simp_all
  qed simp
  then have "map preview_pair (filter unrevoked (db_previews db')) =
      map preview_pair (filter (\<lambda>p. unrevoked (?g p)) (filter unrevoked (db_previews db)))"
    unfolding db'(1) upd by (simp add: comp_def g(1))
  moreover have "distinct (map preview_pair (filter Q (filter unrevoked (db_previews db))))" for Q
    by (rule distinct_map_filter [of preview_pair "filter unrevoked (db_previews db)"]) (use ok in \<open>simp add: previews_ok_def\<close>)
  moreover have "map pv_id (db_previews db') = map pv_id (db_previews db)"
    unfolding db'(1) upd by (simp add: comp_def g(2))
  moreover have "\<forall>p \<in> set (db_previews db'). pv_id p < db_next_id db'"
  proof
    fix q assume "q \<in> set (db_previews db')"
    then obtain p where "p \<in> set (db_previews db)" "q = ?g p" by (auto simp: db'(1) upd)
    then show "pv_id q < db_next_id db'" using ok db'(2) g(2) [of p] by (auto simp: previews_ok_def)
  qed
  ultimately show ?thesis using ok by (simp add: previews_ok_def)
qed

lemma open_previews_update_other:
  assumes "\<And>p. P p \<Longrightarrow> preview_of t c p" "\<And>p. preview_pair (f p) = preview_pair p" "(t', c') \<noteq> (t, c)"
  shows "filter (\<lambda>p. preview_of t' c' p \<and> unrevoked p) (update_where P f xs) = filter (\<lambda>p. preview_of t' c' p \<and> unrevoked p) xs"
  using assms by (induction xs) (auto simp: preview_of_pair)

lemma expire_lapsed_open:
  assumes "previews_ok db"
  shows "previews_ok (expire_lapsed t c db)"
    "open_previews (expire_lapsed t c db) t c = filter (\<lambda>p. pv_expires_at p > db_now db) (open_previews db t c)"
    "(t', c') \<noteq> (t, c) \<Longrightarrow> open_previews (expire_lapsed t c db) t' c' = open_previews db t' c'"
proof -
  show "previews_ok (expire_lapsed t c db)"
    by (rule previews_ok_update [OF assms, of "\<lambda>p. p\<lparr>pv_revoked := Some (db_now db, RevokeExpired)\<rparr>"])
       (simp_all add: expire_lapsed_def preview_pair_def unrevoked_def)
  have "filter (\<lambda>p. preview_of t c p \<and> unrevoked p) (update_where (\<lambda>p. preview_of t c p \<and> unrevoked p \<and> pv_expires_at p \<le> n)
        (\<lambda>p. p\<lparr>pv_revoked := Some x\<rparr>) ps) = filter (\<lambda>p. pv_expires_at p > n) (filter (\<lambda>p. preview_of t c p \<and> unrevoked p) ps)" for n x ps
    by (induction ps) (auto simp: unrevoked_def)
  then show "open_previews (expire_lapsed t c db) t c = filter (\<lambda>p. pv_expires_at p > db_now db) (open_previews db t c)"
    by (simp add: open_previews_def expire_lapsed_def)
  show "open_previews (expire_lapsed t c db) t' c' = open_previews db t' c'" if "(t', c') \<noteq> (t, c)"
    unfolding open_previews_def expire_lapsed_def
    by (simp, rule open_previews_update_other [of _ t c]) (use that in \<open>auto simp: preview_pair_def\<close>)
qed

definition preview_end :: "int \<Rightarrow> time \<Rightarrow> time" where
  "preview_end ttl now = now + (ttl div 1000000) * 1000000"

lemma preview_Upsert_exact:
  assumes ok: "previews_ok db" and up: "preview_Upsert domain t c i ttl db = Inr (p, db')"
  shows "previews_ok db' \<and> open_previews db' t c = [p] \<and> pv_expires_at p = preview_end ttl (db_now db)
    \<and> ((t', c') \<noteq> (t, c) \<longrightarrow> open_previews db' t' c' = open_previews db t' c') \<and> db_dialogs db' = db_dialogs db \<and> db_now db' = db_now db"
proof -
  let ?taken = "\<lambda>p. preview_of t c p \<and> unrevoked p" and ?db1 = "expire_lapsed t c db"
  let ?set = "\<lambda>p. p\<lparr>pv_expires_at := preview_end ttl (db_now db)\<rparr>"
  note lapsed = expire_lapsed_open(1,2) [OF ok, of t c] expire_lapsed_open(3) [OF ok, of t' c' t c]
  have frame: "db_dialogs ?db1 = db_dialogs db" "db_now ?db1 = db_now db" "db_next_id ?db1 = db_next_id db"
    by (simp_all add: expire_lapsed_def)
  show ?thesis
  proof (cases "find ?taken (db_previews ?db1)")
    case (Some q)
    then have "q \<in> set (open_previews ?db1 t c)" by (auto dest: find_SomeD simp: open_previews_def)
    then have one: "open_previews ?db1 t c = [q]" using open_previews_single [OF lapsed(1), of t c] by auto
    from up Some have p: "p = ?set q" and db': "db' = ?db1\<lparr>db_next_id := Suc (db_next_id db),
        db_previews := update_where ?taken ?set (db_previews ?db1)\<rparr>"
      by (auto simp: preview_Upsert_def Let_def preview_end_def frame split: if_splits)
    have "previews_ok db'"
      by (rule previews_ok_update [OF lapsed(1), of ?set]) (simp_all add: db' preview_pair_def unrevoked_def frame)
    moreover have "open_previews db' t c = [p]"
      using one unfolding open_previews_def db' p
      by (simp, subst update_where_filter_same) (simp_all add: preview_of_def unrevoked_def)
    moreover have "open_previews db' t' c' = open_previews ?db1 t' c'" if "(t', c') \<noteq> (t, c)"
      unfolding open_previews_def db'
      by (simp, rule open_previews_update_other [of _ t c]) (use that in \<open>auto simp: preview_pair_def\<close>)
    ultimately show ?thesis using lapsed(3) by (simp add: p) (simp add: db' frame)
  next
    case None
    then have none: "open_previews ?db1 t c = []" by (auto simp: open_previews_def find_None_iff filter_empty_conv)
    from up None have p: "preview_of t c p" "unrevoked p" "pv_expires_at p = preview_end ttl (db_now db)" "pv_id p = db_next_id ?db1"
        and db': "db' = ?db1\<lparr>db_next_id := Suc (db_next_id ?db1), db_previews := db_previews ?db1 @ [p]\<rparr>"
      by (auto simp: preview_Upsert_def Let_def preview_end_def preview_of_def unrevoked_def split: if_splits)
    have "previews_ok db'" by (rule previews_ok_append [OF lapsed(1) none p(4,1)]) (simp_all add: db')
    moreover have "open_previews db' t c = [p]" using none p by (simp add: open_previews_def db')
    moreover have "open_previews db' t' c' = open_previews ?db1 t' c'" if "(t', c') \<noteq> (t, c)"
      using that p(1) by (auto simp: open_previews_def db' preview_of_def)
    ultimately show ?thesis using lapsed(3) p(3) by (simp add: db' frame)
  qed
qed

lemma GivePreview_Inr:
  assumes "GivePreview req db = (Inr p, db')"
  shows "preview_Upsert (gp_DomainID req) (gp_ThreadID req) (gp_ContactID req) (gp_InitiatorContactID req) (gp_Duration req) db = Inr (p, db')"
    "\<not> is_member db (gp_ThreadID req) (gp_ContactID req) 0" "0 < gp_Duration req" "gp_Duration req \<le> maxPreviewDuration"
proof -
  from assms have dur: "0 < gp_Duration req" "gp_Duration req \<le> maxPreviewDuration" and tx: "give_tx req db = Inr (p, db')"
    by (auto simp: GivePreview_def WithinTransaction_Inr split: sum.splits if_splits)
  then show "0 < gp_Duration req" "gp_Duration req \<le> maxPreviewDuration" by simp_all
  from tx show "preview_Upsert (gp_DomainID req) (gp_ThreadID req) (gp_ContactID req) (gp_InitiatorContactID req) (gp_Duration req) db = Inr (p, db')"
    by (auto simp: give_tx_def bindr_Inr_iff split: if_splits)
  from tx show "\<not> is_member db (gp_ThreadID req) (gp_ContactID req) 0"
    by (auto simp: give_tx_def bindr_Inr_iff is_member_def GetQuickView_def thread_filter_def any_of_def limited_def
        filter_empty_conv split: if_splits)
qed

lemma is_member_domain: "is_member db t c domain \<Longrightarrow> is_member db t c 0"
  by (auto simp: is_member_def)

lemma open_previews_clock [simp]: "open_previews (db\<lparr>db_now := n\<rparr>) t c = open_previews db t c"
    "is_member (db\<lparr>db_now := n\<rparr>) t c domain = is_member db t c domain"
  by (simp_all add: open_previews_def is_member_def)

lemma is_member_cong: "db_dialogs db' = db_dialogs db \<Longrightarrow> is_member db' t c domain = is_member db t c domain"
  by (simp add: is_member_def)


lemma GetActiveForUpdate_Some:
  assumes "GetActiveForUpdate t c domain db = Some p"
  shows "p \<in> set (open_previews db t c)" "domain = 0 \<or> pv_domain_id p = domain" "pv_expires_at p > db_now db" "p \<in> set (db_previews db)"
  using assms by (auto simp: GetActiveForUpdate_def open_previews_def preview_active_def dest!: first_max_Some)

lemma GetActiveForUpdate_None:
  "GetActiveForUpdate t c domain db = None \<longleftrightarrow>
     (\<forall>p \<in> set (open_previews db t c). (domain = 0 \<or> pv_domain_id p = domain) \<longrightarrow> pv_expires_at p \<le> db_now db)"
  by (auto simp: GetActiveForUpdate_def open_previews_def preview_active_def filter_empty_conv not_less)

text \<open>Revoking the active preview closes the contact's only open one.\<close>

lemma Revoke_exact:
  assumes ok: "previews_ok db" and p: "p \<in> set (open_previews db t c)"
  shows "\<exists>db'. Revoke (pv_id p) reason db = Some db' \<and> previews_ok db' \<and> open_previews db' t c = []
    \<and> (\<forall>t' c'. (t', c') \<noteq> (t, c) \<longrightarrow> open_previews db' t' c' = open_previews db t' c')
    \<and> (\<exists>rows. db' = db\<lparr>db_previews := rows\<rparr> \<and> p\<lparr>pv_revoked := Some (db_now db, reason)\<rparr> \<in> set rows)"
proof -
  have mem: "p \<in> set (db_previews db)" "unrevoked p" "preview_of t c p" using p by (auto simp: open_previews_def)
  have only: "q = p" if "q \<in> set (db_previews db)" "pv_id q = pv_id p" for q
    using ok that mem(1) by (auto simp: previews_ok_def distinct_map inj_on_def)
  let ?P = "\<lambda>q. pv_id q = pv_id p \<and> unrevoked q" and ?f = "\<lambda>q. q\<lparr>pv_revoked := Some (db_now db, reason)\<rparr>"
  let ?db' = "db\<lparr>db_previews := update_where ?P ?f (db_previews db)\<rparr>"
  have rev: "Revoke (pv_id p) reason db = Some ?db'" using mem by (auto simp: Revoke_def)
  have ok': "previews_ok ?db'"
    by (rule previews_ok_update [OF ok, of ?f]) (simp_all add: preview_pair_def unrevoked_def)
  have upd: "set (update_where ?P ?f (db_previews db)) = (\<lambda>q. if ?P q then ?f q else q) ` set (db_previews db)"
    by (simp add: update_where_def)
  have "q = p" if "q \<in> set (open_previews db t c)" for q
    using that p open_previews_single [OF ok, of t c] by auto
  then have none: "open_previews ?db' t c = []"
    unfolding open_previews_def filter_empty_conv
  proof (intro ballI)
    fix x assume all: "\<And>q. q \<in> set (filter (\<lambda>p. preview_of t c p \<and> unrevoked p) (db_previews db)) \<Longrightarrow> q = p"
      and "x \<in> set (db_previews ?db')"
    then obtain q where q: "q \<in> set (db_previews db)" "x = (if ?P q then ?f q else q)" by (auto simp: upd)
    show "\<not> (preview_of t c x \<and> unrevoked x)"
    proof (cases "?P q")
      case False
      with q mem(2) show ?thesis using all [of x] by auto
    qed (simp add: q unrevoked_def)
  qed
  have same: "update_where ?P ?f (db_previews db) = update_where (\<lambda>q. preview_of t c q \<and> ?P q) ?f (db_previews db)"
    using only mem by (auto simp: update_where_def)
  have "open_previews ?db' t' c' = open_previews db t' c'" if "(t', c') \<noteq> (t, c)" for t' c'
    unfolding open_previews_def by (simp add: same, rule open_previews_update_other [of _ t c]) (use that in \<open>auto simp: preview_pair_def\<close>)
  moreover have "?f p \<in> set (update_where ?P ?f (db_previews db))" using mem by (auto simp: upd intro!: image_eqI [of _ _ p])
  ultimately show ?thesis using rev ok' none by blast
qed

text \<open>
  Removing a preview ends it at once: afterwards the contact can read the thread only as a member, now and at
  every later moment, the access of everyone else is as before, and removing it again changes nothing.
\<close>

theorem preview_removed:
  assumes ok: "previews_ok db" and rem: "RemoveFromPreview req db = (Inr (), db')"
  defines "t \<equiv> rf_ThreadID req" and "c \<equiv> rf_ContactID req"
  shows "previews_ok db' \<and> RemoveFromPreview req db' = (Inr (), db')
    \<and> (\<forall>now \<ge> db_now db. CanRead t c (rf_DomainID req) (db'\<lparr>db_now := now\<rparr>) \<longleftrightarrow> is_member db t c (rf_DomainID req))
    \<and> (\<forall>now t' c' domain. (t', c') \<noteq> (t, c) \<longrightarrow> CanRead t' c' domain (db'\<lparr>db_now := now\<rparr>) = CanRead t' c' domain (db\<lparr>db_now := now\<rparr>))"
proof -
  have run: "RemoveFromPreview req d = WithinTransaction (remove_tx req) d" for d
    using rem by (auto simp: RemoveFromPreview_def validatePreviewTarget_def split: if_splits)
  have tx: "remove_tx req db = Inr ((), db')" using rem by (simp add: run WithinTransaction_Inr)
  show ?thesis
  proof (cases "GetActiveForUpdate t c (rf_DomainID req) db")
    case None
    then have "db' = db" using tx by (simp add: remove_tx_def t_def c_def)
    moreover have "CanRead t c (rf_DomainID req) (db\<lparr>db_now := now\<rparr>) \<longleftrightarrow> is_member db t c (rf_DomainID req)" if "db_now db \<le> now" for now
      using None that by (force simp: GetActiveForUpdate_None CanRead_open)
    ultimately show ?thesis using ok rem by auto
  next
    case (Some p)
    then obtain rows where db': "db' = db\<lparr>db_previews := rows\<rparr>" and r: "previews_ok db'" "open_previews db' t c = []"
        "\<And>t' c'. (t', c') \<noteq> (t, c) \<Longrightarrow> open_previews db' t' c' = open_previews db t' c'"
      using tx Revoke_exact [OF ok GetActiveForUpdate_Some(1) [OF Some], of RevokeRemove] by (auto simp: remove_tx_def t_def c_def)
    have mem: "is_member db' t' c' domain = is_member db t' c' domain" for t' c' domain by (simp add: db' is_member_def)
    have "GetActiveForUpdate t c (rf_DomainID req) db' = None" using r(2) by (simp add: GetActiveForUpdate_None)
    then have "RemoveFromPreview req db' = (Inr (), db')" by (simp add: run WithinTransaction_def remove_tx_def t_def c_def)
    then show ?thesis using r mem by (auto simp: CanRead_open)
  qed
qed

section \<open>Upgrading a preview\<close>

text \<open>Who may read what depends on the previews and on these columns of the members.\<close>

definition member_key :: "dialog_row \<Rightarrow> uuid \<times> uuid \<times> uuid \<times> int \<times> ThreadRole \<times> bool" where
  "member_key d = (dl_id d, dl_thread_id d, dl_member_id d, dl_domain_id d, dl_thread_role d, active d)"

definition same_access :: "db \<Rightarrow> db \<Rightarrow> bool" where
  "same_access db db' \<longleftrightarrow> db_previews db' = db_previews db \<and> db_now db' = db_now db
     \<and> map member_key (db_dialogs db') = map member_key (db_dialogs db)"

lemma same_accessI:
  "db_previews db' = db_previews db \<Longrightarrow> db_now db' = db_now db \<Longrightarrow> db_dialogs db' = db_dialogs db \<Longrightarrow> same_access db db'"
  by (simp add: same_access_def)

lemma same_access_refl [simp]: "same_access db db"
  by (simp add: same_access_def)

lemma same_access_trans [trans]: "same_access a b \<Longrightarrow> same_access b c \<Longrightarrow> same_access a c"
  by (simp add: same_access_def)

lemma same_access_update_thread [simp]: "same_access db (update_thread t f db)"
  by (simp add: update_thread_def same_access_def)

lemma same_access_publish: "publish_event e db = Inr db' \<Longrightarrow> same_access db db'"
  by (auto simp: publish_event_eq intro!: same_accessI)

lemma same_access_publish_all: "foldr_res publish_event es db = Inr db' \<Longrightarrow> same_access db db'"
  by (rule foldr_res_invariant [of es "same_access db" publish_event db db'])
     (auto intro: same_access_trans same_access_publish)

lemma same_access_released: "publishBotControlReleased env t m c p d n r db = Inr db' \<Longrightarrow> same_access db db'"
  by (auto simp: publishBotControlReleased_def intro: same_access_publish split: if_splits)

lemma same_access_granted: "publishBotControlGranted env d prev p r b db = Inr db' \<Longrightarrow> same_access db db'"
  unfolding publishBotControlGranted_def Let_def
  by (auto simp: bindr_Inr_iff intro: same_access_publish same_access_trans [OF same_access_released same_access_publish]
      split: option.splits prod.splits)

lemma same_access_insert: "insert_message t row db = Some (r, db') \<Longrightarrow> same_access db db'"
  by (auto simp: insert_message_def Let_def update_thread_def intro!: same_accessI split: option.splits)

lemma same_access_SaveSystemMessage: "SaveSystemMessage msg db = Inr (m, db') \<Longrightarrow> same_access db db'"
  by (auto simp: SaveSystemMessage_def bindr_Inr_iff Let_def split: option.splits if_splits intro: same_access_insert)

lemma publish_tags_previews [simp]: "db_previews (publish_tags now t d cs db) = db_previews db"
  by (induction cs arbitrary: db) (simp_all add: publish_tags_def)

lemma same_access_OnMessage: "OnMessage now msg db = Inr db' \<Longrightarrow> same_access db db'"
  by (auto simp: OnMessage_def publish_tags_fold RemoveForContacts_def Let_def intro!: same_accessI split: if_splits)

lemma same_access_system:
  assumes "sendThreadSystemMessage env msg db = Inr (m, db')"
  shows "same_access db db'"
proof -
  obtain saved db1 db2 es where "SaveSystemMessage msg db = Inr (saved, db1)"
      "OnMessage (ev_now env) (saved\<lparr>m_To := m_To msg, m_From := m_From msg\<rparr>) db1 = Inr db2" "foldr_res publish_event es db2 = Inr db'"
    using assms unfolding sendThreadSystemMessage_def by (auto simp: bindr_Inr_iff Let_def case_prod_unfold split: if_splits)
  then show ?thesis by (blast intro: same_access_trans same_access_SaveSystemMessage same_access_OnMessage same_access_publish_all)
qed

lemma same_access_sendAdd: "sendAddMemberSystemMessage env i ic nm rs t d db = Inr (m, db') \<Longrightarrow> same_access db db'"
  unfolding sendAddMemberSystemMessage_def Let_def
  by (auto simp: bindr_Inr_iff publishMemberEvent_def split: if_splits
      intro: same_access_trans [OF same_access_system same_access_publish])

lemma same_access_Push: "Push tr db = Inr (p, db') \<Longrightarrow> same_access db db'"
  unfolding Push_def Let_def by (auto simp: update_thread_def intro!: same_accessI split: if_splits)

lemma same_access_Adopt: "AdoptUntrackedBot t n db = Inr (i, db') \<Longrightarrow> same_access db db'"
  by (auto simp: AdoptUntrackedBot_def Let_def update_dialog_def same_access_def update_where_def member_key_def active_def
      split: if_splits option.splits)

lemma same_access_adopt: "adoptUntrackedBot t n db = Inr db' \<Longrightarrow> same_access db db'"
  by (auto simp: adoptUntrackedBot_def bindr_Inr_iff split: if_splits sum.splits
      intro: same_access_Adopt same_access_trans [OF same_access_Adopt same_access_Push])

lemma same_access_push_new_bot: "push_new_bot env t nm w db = Inr db' \<Longrightarrow> same_access db db'"
proof -
  assume run: "push_new_bot env t nm w db = Inr db'"
  then obtain db1 where a: "adoptUntrackedBot t (bm_ID nm) db = Inr db1" by (auto simp: push_new_bot_def bindr_Inr_iff)
  then obtain p db2 tr n where "Push tr db1 = Inr (p, db2)" "publishBotControlGranted env nm p n ReasonTransfer False db2 = Inr db'"
    using run by (auto simp: push_new_bot_def split: sum.splits)
  then show ?thesis by (blast intro: same_access_trans same_access_adopt [OF a] same_access_Push same_access_granted)
qed

lemma same_access_release: "releaseControlToAgent env t d db = Inr db' \<Longrightarrow> same_access db db'"
  unfolding releaseControlToAgent_def Let_def ClearController_def
  by (auto split: prod.splits option.splits intro: same_access_trans [OF same_access_update_thread same_access_released])

lemma same_access_is_member: "same_access db db' \<Longrightarrow> is_member db' t c domain = is_member db t c domain"
proof -
  assume "same_access db db'"
  then have "member_key ` set (db_dialogs db') = member_key ` set (db_dialogs db)"
    unfolding same_access_def by (metis list.set_map)
  moreover have "is_member x t c domain \<longleftrightarrow> (\<exists>k \<in> member_key ` set (db_dialogs x). case k of (_, t', c', d, _, a) \<Rightarrow>
      t' = t \<and> c' = c \<and> a \<and> (domain = 0 \<or> d = domain))" for x
    by (auto simp: is_member_def member_key_def)
  ultimately show ?thesis by (simp only:)
qed

text \<open>
  The transaction of a new member: what runs before the insertion, then the new row, then steps that keep the access.
\<close>

lemma addMember_tx_access:
  assumes "addMember_tx env req (Some f) ini title invBy domain isBot perms db = Inr (i, db')"
  obtains db0 db1 dm m where "f db = Inr db0" "same_access db1 db'" "db_previews db1 = db_previews db0" "db_now db1 = db_now db0"
    "db_dialogs db1 = db_dialogs db0 @ [new_dialog_row i (db_now db0) dm m]"
    "tdx_ThreadID m = am_ThreadID req" "tdx_ContactID m = am_NewMemberContactID req" "tdx_ThreadRole m = am_NewMemberRole req"
proof -
  obtain db0 where d0: "f db = Inr db0" using assms by (auto simp: addMember_tx_def bindr_Inr_iff)
  let ?m = "zero_dialog_extended\<lparr>bm_DomainID := domain, bm_CreatedAt := ev_now env,
              bm_UpdatedAt := ev_now env, tdx_ThreadID := am_ThreadID req, tdx_ContactID := am_NewMemberContactID req,
              tdx_ThreadRole := am_NewMemberRole req, tdx_InvitedBy := invBy, tdx_Permissions := perms,
              tdx_IsBot := isBot, tdx_AutoLeave := (isBot \<and> resolveAutoLeave (am_AutoLeave req)),
              tdx_QueueID := queueIDOf (am_Queue req), tdx_Settings := zero_setting\<lparr>bts_Title := title\<rparr>\<rparr>"
  obtain m nm db1 where m: "m = ?m" and c: "dialog_Create m db0 = Inr (nm, db1)"
    using assms d0 by (auto simp: addMember_tx_def bindr_Inr_iff)
  then obtain x db2 where s: "sendAddMemberSystemMessage env ini (am_InitiatorContactID req) nm
               (GetQuickView (thread_filter (am_ThreadID req)) db1) (am_ThreadID req) (bm_DomainID nm) db1 = Inr (x, db2)"
    and r: "(if isBot then push_new_bot env (am_ThreadID req) nm invBy db2
             else if isOperator False (am_NewMemberRole req) then releaseControlToAgent env (am_ThreadID req) (bm_DomainID nm) db2
             else Inr db2) = Inr db'" "i = bm_ID nm"
    using assms d0 by (auto simp: addMember_tx_def bindr_Inr_iff split: sum.splits)
  have "same_access db1 db'"
    using s r(1) by (auto split: if_splits intro: same_access_sendAdd same_access_trans [OF same_access_sendAdd same_access_push_new_bot]
        same_access_trans [OF same_access_sendAdd same_access_release])
  moreover have "tdx_ThreadID m = am_ThreadID req" "tdx_ContactID m = am_NewMemberContactID req" "tdx_ThreadRole m = am_NewMemberRole req"
    by (simp_all add: m)
  moreover obtain th :: thread_row where "bm_ID nm = db_next_id db0"
      "db_dialogs db1 = db_dialogs db0 @ [new_dialog_row (db_next_id db0) (db_now db0) (th_domain_id th) m]"
      "db_previews db1 = db_previews db0" "db_now db1 = db_now db0"
    using dialog_Create_shape [OF c] by blast
  ultimately show thesis using d0 that [of db0 db1 "th_domain_id th" m] by (simp add: r(2))
qed

text \<open>
  C28. Upgrading a preview succeeds only while the preview is active: it turns the contact into an active member with the
  requested role and closes the preview in the same transaction, so the access is never granted twice and never
  lost in between; a failed upgrade changes nothing, and nobody else's access changes.
\<close>

theorem upgrade_consumes_preview:
  assumes ok: "previews_ok db" and up: "UpgradePreviewToFullMember env req db = (r, db')"
  defines "t \<equiv> ug_ThreadID req" and "c \<equiv> ug_ContactID req"
  shows "case r of Inl e \<Rightarrow> db' = db
    | Inr i \<Rightarrow> (\<exists>p \<in> set (open_previews db t c). pv_domain_id p = ug_DomainID req \<and> db_now db < pv_expires_at p
          \<and> p\<lparr>pv_revoked := Some (db_now db, RevokeUpgrade)\<rparr> \<in> set (db_previews db'))
        \<and> open_previews db' t c = [] \<and> (\<exists>domain. (i, t, c, domain, ug_Role req, True) \<in> member_key ` set (db_dialogs db'))
        \<and> CanRead t c 0 db'
        \<and> (\<forall>t' c' domain. (t', c') \<noteq> (t, c) \<longrightarrow> CanRead t' c' domain db' = CanRead t' c' domain db)"
proof (cases r)
  case (Inl e)
  then show ?thesis using up
    by (auto simp: UpgradePreviewToFullMember_def addMemberToChat_def Let_def WithinTransaction_def
        split: sum.splits if_splits option.splits prod.splits)
next
  case (Inr i)
  have dom: "ug_DomainID req > 0" using up Inr by (auto simp: UpgradePreviewToFullMember_def validatePreviewTarget_def split: if_splits)
  obtain ini title w d b p where "addMember_tx env (upgrade_member req) (Some (consume_preview req)) ini title w d b p db = Inr (i, db')"
    using up Inr by (auto simp: UpgradePreviewToFullMember_def addMemberToChat_def Let_def WithinTransaction_Inr
        split: sum.splits if_splits option.splits prod.splits)
  then obtain db0 db1 dm m where con: "consume_preview req db = Inr db0" and acc: "same_access db1 db'"
      and db1: "db_previews db1 = db_previews db0" "db_now db1 = db_now db0"
        "db_dialogs db1 = db_dialogs db0 @ [new_dialog_row i (db_now db0) dm m]"
      and m: "tdx_ThreadID m = am_ThreadID (upgrade_member req)" "tdx_ContactID m = am_NewMemberContactID (upgrade_member req)"
        "tdx_ThreadRole m = am_NewMemberRole (upgrade_member req)"
    by (rule addMember_tx_access)
  have m: "tdx_ThreadID m = t" "tdx_ContactID m = c" "tdx_ThreadRole m = ug_Role req"
    using m by (simp_all add: upgrade_member_def t_def c_def)
  obtain q where act: "GetActiveForUpdate t c (ug_DomainID req) db = Some q" and rev: "Revoke (pv_id q) RevokeUpgrade db = Some db0"
    using con by (auto simp: consume_preview_def t_def c_def split: option.splits)
  note q = GetActiveForUpdate_Some [OF act]
  obtain rows where db0: "db0 = db\<lparr>db_previews := rows\<rparr>" "q\<lparr>pv_revoked := Some (db_now db, RevokeUpgrade)\<rparr> \<in> set rows"
      and none: "open_previews db0 t c = []" and others: "\<And>t' c'. (t', c') \<noteq> (t, c) \<Longrightarrow> open_previews db0 t' c' = open_previews db t' c'"
    using Revoke_exact [OF ok q(1), of RevokeUpgrade] rev by auto
  have pv: "db_previews db' = db_previews db0" "db_now db' = db_now db"
    using acc db1 by (simp_all add: same_access_def db0)
  then have open': "open_previews db' t' c' = open_previews db0 t' c'" for t' c' by (simp add: open_previews_def)
  have mem: "is_member db' t' c' domain = is_member db1 t' c' domain" for t' c' domain by (rule same_access_is_member [OF acc])
  have row: "member_key (new_dialog_row i (db_now db0) dm m) = (i, t, c, dm, ug_Role req, True)"
    by (simp add: member_key_def new_dialog_row_def active_def m)
  have "member_key ` set (db_dialogs db') = member_key ` set (db_dialogs db1)"
    using acc unfolding same_access_def by (metis list.set_map)
  then have key: "(i, t, c, dm, ug_Role req, True) \<in> member_key ` set (db_dialogs db')"
    using row by (simp add: db1)
  then have "is_member db' t c 0" by (auto simp: is_member_def member_key_def)
  moreover have "is_member db1 t' c' domain = is_member db t' c' domain" if "(t', c') \<noteq> (t, c)" for t' c' domain
    using that m by (auto simp: is_member_def db1 db0 new_dialog_row_def)
  ultimately show ?thesis unfolding Inr using q dom db0 none others key
    by (auto simp: CanRead_open pv open' mem)
qed

section \<open>Examples\<close>

definition preview_request :: "int \<Rightarrow> int \<Rightarrow> GivePreviewRequest" where
  "preview_request domain duration = \<lparr>gp_ThreadID = 1, gp_ContactID = 60, gp_InitiatorContactID = 51, gp_DomainID = domain, gp_Duration = duration\<rparr>"

definition upgrade_request :: UpgradePreviewRequest where
  "upgrade_request = \<lparr>ug_ThreadID = 1, ug_ContactID = 60, ug_InitiatorContactID = 51, ug_DomainID = 7, ug_Role = RoleMember, ug_Queue = None\<rparr>"

definition preview_db :: db where
  "preview_db = snd (GivePreview (preview_request 7 60000000000) direct_db)"

lemma direct_previews: "db_previews direct_db = []" "db_now direct_db = 100"
  by code_simp+

lemma previews_ok_direct: "previews_ok direct_db"
  by (simp add: previews_ok_def direct_previews)

lemma preview_given: "\<exists>p. GivePreview (preview_request 7 60000000000) direct_db = (Inr p, preview_db) \<and> pv_expires_at p = 60000000100"
proof -
  have "map_sum id pv_expires_at (fst (GivePreview (preview_request 7 60000000000) direct_db)) = Inr 60000000100" by code_simp
  then show ?thesis unfolding preview_db_def
    by (cases "GivePreview (preview_request 7 60000000000) direct_db"; cases "fst (GivePreview (preview_request 7 60000000000) direct_db)") auto
qed


lemma preview_db_ok: "previews_ok preview_db"
  using preview_given preview_Upsert_exact [OF previews_ok_direct GivePreview_Inr(1)] by blast

theorem preview_removed_witness:
  "\<exists>db'. RemoveFromPreview \<lparr>rf_ThreadID = 1, rf_ContactID = 60, rf_DomainID = 7\<rparr> preview_db = (Inr (), db')
     \<and> CanRead 1 60 7 preview_db \<and> \<not> CanRead 1 60 7 (db'\<lparr>db_now := 200\<rparr>)"
proof -
  let ?req = "\<lparr>rf_ThreadID = 1, rf_ContactID = 60, rf_DomainID = 7\<rparr>"
  have "fst (RemoveFromPreview ?req preview_db) = Inr ()" by code_simp
  then obtain db' where r: "RemoveFromPreview ?req preview_db = (Inr (), db')" by (metis prod.collapse)
  have now: "db_now preview_db = 100" by code_simp
  have mem: "\<not> is_member preview_db 1 60 7" by code_simp
  have "CanRead 1 60 7 preview_db" by code_simp
  moreover have "\<not> CanRead 1 60 7 (db'\<lparr>db_now := 200\<rparr>)"
    using preview_removed [OF preview_db_ok r] mem now by simp
  ultimately show ?thesis using r by blast
qed

theorem upgrade_consumes_preview_witness:
  "\<exists>i db'. UpgradePreviewToFullMember example_env upgrade_request preview_db = (Inr i, db') \<and> CanRead 1 60 0 db'
     \<and> open_previews db' 1 60 = []"
proof -
  have "isl (fst (UpgradePreviewToFullMember example_env upgrade_request preview_db)) = False" by code_simp
  then obtain i db' where u: "UpgradePreviewToFullMember example_env upgrade_request preview_db = (Inr i, db')"
    by (metis isl_def prod.collapse sum.collapse(2))
  from upgrade_consumes_preview [OF preview_db_ok u] have "CanRead 1 60 0 db'" "open_previews db' 1 60 = []"
    by (simp_all add: upgrade_request_def)
  with u show ?thesis by blast
qed

text \<open>
  The domain of a request is not checked against an open preview: a request from another domain, which could not
  open one, moves the end of a preview that is already open, here from one hour to one second after it was given.
\<close>

theorem preview_moved_across_domains:
  "\<exists>p p' db1 db2 e. GivePreview (preview_request 7 3600000000000) direct_db = (Inr p, db1) \<and> pv_expires_at p = 3600000000100
     \<and> GivePreview (preview_request 8 1000000000) db1 = (Inr p', db2) \<and> pv_domain_id p' = 7 \<and> pv_expires_at p' = 1000000100
     \<and> GivePreview (preview_request 8 1000000000) direct_db = (Inl e, direct_db)"
proof -
  let ?db1 = "snd (GivePreview (preview_request 7 3600000000000) direct_db)"
  have a: "map_sum id pv_expires_at (fst (GivePreview (preview_request 7 3600000000000) direct_db)) = Inr 3600000000100" by code_simp
  have b: "map_sum id (\<lambda>p. (pv_domain_id p, pv_expires_at p)) (fst (GivePreview (preview_request 8 1000000000) ?db1)) = Inr (7, 1000000100)"
    by code_simp
  have c: "isl (fst (GivePreview (preview_request 8 1000000000) direct_db))" by code_simp
  have eq: "x = (fst x, snd x)" for x :: "preview_row res \<times> db" by simp
  obtain p where "fst (GivePreview (preview_request 7 3600000000000) direct_db) = Inr p" "pv_expires_at p = 3600000000100"
    using a by (cases "fst (GivePreview (preview_request 7 3600000000000) direct_db)") auto
  moreover obtain p' where "fst (GivePreview (preview_request 8 1000000000) ?db1) = Inr p'" "pv_domain_id p' = 7" "pv_expires_at p' = 1000000100"
    using b by (cases "fst (GivePreview (preview_request 8 1000000000) ?db1)") auto
  moreover obtain e where "GivePreview (preview_request 8 1000000000) direct_db = (Inl e, direct_db)"
    using c by (auto simp: isl_def GivePreview_def WithinTransaction_def split: sum.splits if_splits)
  ultimately show ?thesis by (metis eq)
qed

end
