(* ===== verification/Variables.thy ===== *)
theory Variables
  imports Previews
begin

text \<open>
  Variables of a thread: \<^verbatim>\<open>internal/store/postgres/thread_variables.go\<close>, \<^verbatim>\<open>internal/service/thread_variables.go\<close> and
  \<^verbatim>\<open>internal/domain/model/thread_variables.go\<close>. The variables of a request are a Go map: a list of entries with
  distinct keys. The broker is outside the program, so the publisher is a parameter that accepts or refuses a
  message; a statement of the store is committed before the message is handed over. \<^verbatim>\<open>Search\<close> pages through
  the rows with a query built elsewhere and only reads; it is not modelled.
\<close>

section \<open>The value\<close>

record ThreadVariables =
  tv_ThreadID :: uuid
  tv_Variables :: "string \<rightharpoonup> VariableEntry"
  tv_ThreadMembers :: "uuid list"

record SetThreadVariablesCommand =
  sv_Member :: uuid
  sv_ThreadID :: uuid
  sv_Entries :: "(string \<times> VariableEntry) list"

record FlushVariablesCommand =
  fv_ThreadID :: uuid
  fv_Member :: uuid
  fv_Keys :: "string list option"

record LocateThreadVariablesQuery =
  lv_ThreadID :: uuid
  lv_CallerID :: uuid
  lv_DomainID :: int

definition SetVariable :: "time \<Rightarrow> string \<Rightarrow> uuid \<Rightarrow> anyv \<Rightarrow> ThreadVariables \<Rightarrow> ThreadVariables res" where
  "SetVariable now key user val tv =
     (let put = Inr (tv\<lparr>tv_Variables := (tv_Variables tv)(key \<mapsto> \<lparr>ve_Value = val, ve_SetBy = user, ve_SetAt = now\<rparr>)\<rparr>)
      in case tv_Variables tv key of
           Some e \<Rightarrow> if ve_SetBy e \<noteq> user then Inl (Err Forbidden ''variable already set by another user'') else put
         | None \<Rightarrow> put)"

definition GetVariable :: "string \<Rightarrow> ThreadVariables \<Rightarrow> VariableEntry option" where
  "GetVariable key tv = tv_Variables tv key"

definition DeleteVariable :: "string \<Rightarrow> uuid \<Rightarrow> ThreadVariables \<Rightarrow> ThreadVariables res" where
  "DeleteVariable key user tv =
     (case tv_Variables tv key of
        None \<Rightarrow> Inl (Err NotFound ''variable not found'')
      | Some e \<Rightarrow> if ve_SetBy e \<noteq> user then Inl (Err Forbidden ''variable not set by user'')
                  else Inr (tv\<lparr>tv_Variables := (tv_Variables tv)(key := None)\<rparr>))"

section \<open>The store\<close>

text \<open>\<^verbatim>\<open>array_agg(distinct member_id)\<close> over the active members.\<close>

definition members_list :: "uuid \<Rightarrow> db \<Rightarrow> uuid list" where
  "members_list t db = sort (remdups (map dl_member_id (filter (\<lambda>d. dl_thread_id d = t \<and> active d) (db_dialogs db))))"

definition variables_of :: "uuid \<Rightarrow> db \<Rightarrow> (string \<rightharpoonup> VariableEntry) option" where
  "variables_of t db = map_option vr_variables (find (\<lambda>r. vr_thread_id r = t) (db_variables db))"

definition stamp_entry :: "time \<Rightarrow> VariableEntry \<Rightarrow> VariableEntry" where
  "stamp_entry now e = e\<lparr>ve_SetAt := now\<rparr>"

definition foreign_entry :: "(string \<rightharpoonup> VariableEntry) \<Rightarrow> string \<times> VariableEntry \<Rightarrow> bool" where
  "foreign_entry vars x = (case vars (fst x) of None \<Rightarrow> False | Some old \<Rightarrow> ve_SetBy old \<noteq> ve_SetBy (snd x))"

text \<open>
  The upsert: no row for a caller that is not a member, an error of the database for an empty set of
  variables (the aggregate of no rows is NULL), no row when one of the variables belongs to another member.
\<close>

definition variables_Set :: "SetThreadVariablesCommand \<Rightarrow> db \<Rightarrow> (ThreadVariables \<times> db) res" where
  "variables_Set cmd db =
     (let t = sv_ThreadID cmd; members = members_list t db; new = map_of (map (\<lambda>(k, e). (k, stamp_entry (db_now db) e)) (sv_Entries cmd));
          done = (\<lambda>vars rows. Inr (\<lparr>tv_ThreadID = t, tv_Variables = vars, tv_ThreadMembers = members\<rparr>, db\<lparr>db_variables := rows\<rparr>))
      in if sv_Member cmd \<notin> set members then Inl (Err Forbidden ''access variable setted by other user'')
         else if sv_Entries cmd = [] then Inl (Err Internal ''collect thread variables'')
         else (case variables_of t db of
                 None \<Rightarrow>
                   if thread_of db t = None then Inl (Err Internal ''collect thread variables'')
                   else done new (db_variables db @ [\<lparr>vr_thread_id = t, vr_variables = new\<rparr>])
               | Some old \<Rightarrow>
                   if list_ex (foreign_entry old) (sv_Entries cmd) then Inl (Err Forbidden ''access variable setted by other user'')
                   else done (old ++ new) (update_where (\<lambda>r. vr_thread_id r = t) (\<lambda>r. r\<lparr>vr_variables := old ++ new\<rparr>) (db_variables db))))"

definition variables_Locate :: "uuid \<Rightarrow> int \<Rightarrow> db \<Rightarrow> ThreadVariables option" where
  "variables_Locate t domain db =
     (if domain > 0 \<and> \<not> (\<exists>r \<in> set (db_threads db). th_id r = t \<and> th_domain_id r = domain) then None
      else map_option (\<lambda>vars. \<lparr>tv_ThreadID = t, tv_Variables = vars, tv_ThreadMembers = []\<rparr>) (variables_of t db))"

definition keep_variable :: "FlushVariablesCommand \<Rightarrow> string \<Rightarrow> VariableEntry \<Rightarrow> bool" where
  "keep_variable cmd k e \<longleftrightarrow>
     \<not> ((case fv_Keys cmd of None \<Rightarrow> True | Some ks \<Rightarrow> k \<in> set ks) \<and> ve_SetBy e = fv_Member cmd)"

definition flush_map :: "FlushVariablesCommand \<Rightarrow> (string \<rightharpoonup> VariableEntry) \<Rightarrow> (string \<rightharpoonup> VariableEntry)" where
  "flush_map cmd vars = (\<lambda>k. case vars k of None \<Rightarrow> None | Some e \<Rightarrow> if keep_variable cmd k e then Some e else None)"

definition variables_Flush :: "FlushVariablesCommand \<Rightarrow> db \<Rightarrow> (ThreadVariables \<times> db) res" where
  "variables_Flush cmd db =
     (let t = fv_ThreadID cmd; members = members_list t db
      in (case variables_of t db of
            None \<Rightarrow> Inl (Err Forbidden ''flushing without being thread member'')
          | Some old \<Rightarrow>
             if fv_Member cmd \<notin> set members then Inl (Err Forbidden ''flushing without being thread member'')
             else Inr (\<lparr>tv_ThreadID = t, tv_Variables = flush_map cmd old, tv_ThreadMembers = members\<rparr>,
                       db\<lparr>db_variables := update_where (\<lambda>r. vr_thread_id r = t) (\<lambda>r. r\<lparr>vr_variables := flush_map cmd old\<rparr>) (db_variables db)\<rparr>)))"

section \<open>The service\<close>

text \<open>The routing keys of the two messages, by the thread and the member that caused the change.\<close>

datatype variables_topic = PrepareSetTopic uuid uuid | PrepareFlushTopic uuid uuid

type_synonym publisher = "variables_topic \<Rightarrow> ThreadVariables \<Rightarrow> bool"

definition Set_variables :: "publisher \<Rightarrow> SetThreadVariablesCommand \<Rightarrow> db \<Rightarrow> ThreadVariables res \<times> db" where
  "Set_variables publish cmd db =
     (case variables_Set cmd db of Inl e \<Rightarrow> (Inl e, db)
      | Inr (tv, db') \<Rightarrow>
          if publish (PrepareSetTopic (tv_ThreadID tv) (sv_Member cmd)) tv then (Inr tv, db')
          else (Inl (Err Internal ''publish set variables''), db'))"

definition Flush_variables :: "publisher \<Rightarrow> FlushVariablesCommand \<Rightarrow> db \<Rightarrow> ThreadVariables res \<times> db" where
  "Flush_variables publish cmd db =
     (case variables_Flush cmd db of Inl e \<Rightarrow> (Inl e, db)
      | Inr (tv, db') \<Rightarrow>
          if publish (PrepareFlushTopic (tv_ThreadID tv) (fv_Member cmd)) tv then (Inr tv, db')
          else (Inl (Err Internal ''publish flush variable event''), db'))"

definition errThreadNotReadable :: err where
  "errThreadNotReadable = Err Forbidden ''thread does not exist or you are not a member''"

definition Locate_variables :: "LocateThreadVariablesQuery \<Rightarrow> db \<Rightarrow> ThreadVariables option res" where
  "Locate_variables q db =
     (if lv_CallerID q \<noteq> uuid_nil \<and> \<not> CanRead (lv_ThreadID q) (lv_CallerID q) (lv_DomainID q) db
      then Inl errThreadNotReadable
      else Inr (variables_Locate (lv_ThreadID q) (lv_DomainID q) db))"

section \<open>Who may change a variable\<close>

definition variable :: "db \<Rightarrow> uuid \<Rightarrow> string \<Rightarrow> VariableEntry option" where
  "variable db t k = Option.bind (variables_of t db) (\<lambda>vars. vars k)"

definition variables_ok :: "db \<Rightarrow> bool" where
  "variables_ok db \<longleftrightarrow> distinct (map vr_thread_id (db_variables db))"

lemma variables_of_update:
  "variables_of t' (db\<lparr>db_variables := update_where (\<lambda>r. vr_thread_id r = t) (\<lambda>r. r\<lparr>vr_variables := v\<rparr>) rows\<rparr>) =
     (if t' = t then map_option (\<lambda>_. v) (variables_of t' (db\<lparr>db_variables := rows\<rparr>)) else variables_of t' (db\<lparr>db_variables := rows\<rparr>))"
  by (induction rows) (auto simp: variables_of_def)

lemma variables_of_append:
  "variables_of t db = None \<Longrightarrow> variables_of t' (db\<lparr>db_variables := db_variables db @ [\<lparr>vr_thread_id = t, vr_variables = v\<rparr>]\<rparr>) =
     (if t' = t then Some v else variables_of t' db)"
  by (auto simp: variables_of_def find_append split: option.splits)

lemma variables_ok_update: "variables_ok db \<Longrightarrow> variables_ok (db\<lparr>db_variables := update_where P (\<lambda>r. r\<lparr>vr_variables := v\<rparr>) (db_variables db)\<rparr>)"
  by (simp add: variables_ok_def update_where_keys)

lemma variables_ok_append: "variables_ok db \<Longrightarrow> variables_of t db = None \<Longrightarrow>
    variables_ok (db\<lparr>db_variables := db_variables db @ [\<lparr>vr_thread_id = t, vr_variables = v\<rparr>]\<rparr>)"
  by (auto simp: variables_ok_def variables_of_def find_None_iff)

definition stamped :: "time \<Rightarrow> (string \<times> VariableEntry) list \<Rightarrow> (string \<rightharpoonup> VariableEntry)" where
  "stamped now es = map_of (map (\<lambda>(k, e). (k, stamp_entry now e)) es)"

lemma stamped_eq: "stamped now es k = map_option (stamp_entry now) (map_of es k)"
  by (induction es) (auto simp: stamped_def)

text \<open>A successful upsert in one equation, for a first and for a later one.\<close>

lemma variables_Set_Inr:
  assumes "variables_Set cmd db = Inr (tv, db')"
  shows "variables_of (sv_ThreadID cmd) db' = Some (tv_Variables tv)"
    "tv_Variables tv = (case variables_of (sv_ThreadID cmd) db of None \<Rightarrow> Map.empty | Some old \<Rightarrow> old) ++ stamped (db_now db) (sv_Entries cmd)"
    "t' \<noteq> sv_ThreadID cmd \<Longrightarrow> variables_of t' db' = variables_of t' db"
    "variables_ok db \<Longrightarrow> variables_ok db'" "sv_Member cmd \<in> set (members_list (sv_ThreadID cmd) db)" "tv_ThreadID tv = sv_ThreadID cmd"
    "\<And>old. variables_of (sv_ThreadID cmd) db = Some old \<Longrightarrow> \<not> list_ex (foreign_entry old) (sv_Entries cmd)"
  using assms
  by (auto simp: variables_Set_def Let_def stamped_def [symmetric] variables_of_update variables_of_append variables_ok_update
      variables_ok_append split: if_splits option.splits)

lemma variable_after_Set:
  assumes "variables_Set cmd db = Inr (tv, db')"
  shows "variable db' t k = (if t = sv_ThreadID cmd \<and> map_of (sv_Entries cmd) k \<noteq> None
      then map_option (stamp_entry (db_now db)) (map_of (sv_Entries cmd) k) else variable db t k)"
  using variables_Set_Inr(1-3) [OF assms]
  by (cases "t = sv_ThreadID cmd") (auto simp: variable_def map_add_def stamped_eq split: option.splits)

lemma no_foreign:
  assumes "variables_Set cmd db = Inr (tv, db')" "(k, e) \<in> set (sv_Entries cmd)" "variable db (sv_ThreadID cmd) k = Some old"
  shows "ve_SetBy old = ve_SetBy e"
proof -
  obtain vars where "variables_of (sv_ThreadID cmd) db = Some vars" "vars k = Some old"
    using assms(3) by (auto simp: variable_def bind_eq_Some_conv)
  then show ?thesis using variables_Set_Inr(7) [OF assms(1)] assms(2)
    by (force simp: list_ex_iff foreign_entry_def)
qed

text \<open>
  Setting variables is all or nothing and respects ownership: it succeeds only for an active member of the thread and only
  when none of the variables belongs to someone else; then exactly the given variables have the given values, stamped
  with the time of the change, the returned set is the stored one, and every other variable of this and of every
  other thread is untouched. When the store refuses, nothing changes; when only the broker refuses, the error hides a stored change.
\<close>

theorem variables_set_exact:
  assumes keys: "distinct (map fst (sv_Entries cmd))" and set: "Set_variables publish cmd db = (r, db')"
  shows "(db' = db \<and> isl r)
    \<or> (sv_Member cmd \<in> set (members_list (sv_ThreadID cmd) db)
       \<and> (\<forall>(k, e) \<in> set (sv_Entries cmd). variable db' (sv_ThreadID cmd) k = Some (stamp_entry (db_now db) e)
            \<and> (\<forall>old. variable db (sv_ThreadID cmd) k = Some old \<longrightarrow> ve_SetBy old = ve_SetBy e))
       \<and> (\<forall>t k. t \<noteq> sv_ThreadID cmd \<or> k \<notin> fst ` set (sv_Entries cmd) \<longrightarrow> variable db' t k = variable db t k)
       \<and> (case r of Inr tv \<Rightarrow> tv_Variables tv = (\<lambda>k. variable db' (sv_ThreadID cmd) k) | Inl e \<Rightarrow> e = Err Internal ''publish set variables''))"
proof (cases "variables_Set cmd db")
  case (Inl e)
  with set show ?thesis by (auto simp: Set_variables_def)
next
  case (Inr x)
  then obtain tv d where st: "variables_Set cmd db = Inr (tv, d)" by (cases x) auto
  with set have db': "db' = d" and r: "r = (if publish (PrepareSetTopic (tv_ThreadID tv) (sv_Member cmd)) tv then Inr tv
      else Inl (Err Internal ''publish set variables''))" by (auto simp: Set_variables_def split: if_splits)
  have "map_of (sv_Entries cmd) k = Some e" if "(k, e) \<in> set (sv_Entries cmd)" for k e using keys that by simp
  then have "\<forall>(k, e) \<in> set (sv_Entries cmd). variable db' (sv_ThreadID cmd) k = Some (stamp_entry (db_now db) e)
            \<and> (\<forall>old. variable db (sv_ThreadID cmd) k = Some old \<longrightarrow> ve_SetBy old = ve_SetBy e)"
    using variable_after_Set [OF st] no_foreign [OF st] by (auto simp: db')
  moreover have "\<forall>t k. t \<noteq> sv_ThreadID cmd \<or> k \<notin> fst ` set (sv_Entries cmd) \<longrightarrow> variable db' t k = variable db t k"
    using variable_after_Set [OF st] by (auto simp: db' map_of_eq_None_iff)
  moreover have "tv_Variables tv = (\<lambda>k. variable db' (sv_ThreadID cmd) k)"
    using variables_Set_Inr(1) [OF st] by (simp add: variable_def db')
  ultimately show ?thesis using variables_Set_Inr(5) [OF st] by (auto simp: r split: if_splits)
qed

lemma variables_Flush_Inr:
  assumes "variables_Flush cmd db = Inr (tv, db')"
  shows "variable db' t k = (case variable db t k of None \<Rightarrow> None
      | Some e \<Rightarrow> if t = fv_ThreadID cmd \<and> \<not> keep_variable cmd k e then None else Some e)"
    "fv_Member cmd \<in> set (members_list (fv_ThreadID cmd) db)" "tv_Variables tv = (\<lambda>k. variable db' (fv_ThreadID cmd) k)"
  using assms
  by (auto simp: variables_Flush_def Let_def variable_def variables_of_update flush_map_def fun_eq_iff split: if_splits option.splits)

section \<open>Sequences of operations\<close>

datatype variables_op = OpSet SetThreadVariablesCommand | OpFlush FlushVariablesCommand

definition run_op :: "publisher \<Rightarrow> variables_op \<Rightarrow> db \<Rightarrow> db" where
  "run_op publish op db = (case op of OpSet c \<Rightarrow> snd (Set_variables publish c db) | OpFlush c \<Rightarrow> snd (Flush_variables publish c db))"

text \<open>An operation that does not act for a member: it sets nothing in the member's name and flushes for somebody else.\<close>

definition acts_not_for :: "uuid \<Rightarrow> variables_op \<Rightarrow> bool" where
  "acts_not_for m op = (case op of OpSet c \<Rightarrow> list_all (\<lambda>(k, e). ve_SetBy e \<noteq> m) (sv_Entries c) | OpFlush c \<Rightarrow> fv_Member c \<noteq> m)"

lemma run_op_keeps:
  assumes "variable db t k = Some e" "acts_not_for (ve_SetBy e) op"
  shows "variable (run_op publish op db) t k = Some e"
proof (cases op)
  case (OpSet c)
  show ?thesis
  proof (cases "variables_Set c db")
    case (Inr x)
    then obtain tv d where st: "variables_Set c db = Inr (tv, d)" by (cases x) auto
    have "map_of (sv_Entries c) k = None" if "t = sv_ThreadID c"
    proof (rule ccontr)
      assume "map_of (sv_Entries c) k \<noteq> None"
      then obtain e' where "(k, e') \<in> set (sv_Entries c)" by (auto dest: map_of_SomeD)
      with no_foreign [OF st this] assms that OpSet show False by (auto simp: acts_not_for_def list_all_iff)
    qed
    then show ?thesis using variable_after_Set [OF st, of t k] assms(1) OpSet st by (simp add: run_op_def Set_variables_def)
  qed (use assms OpSet in \<open>simp add: run_op_def Set_variables_def\<close>)
next
  case (OpFlush c)
  show ?thesis
  proof (cases "variables_Flush c db")
    case (Inr x)
    then obtain tv d where st: "variables_Flush c db = Inr (tv, d)" by (cases x) auto
    show ?thesis using variables_Flush_Inr(1) [OF st, of t k] assms OpFlush st
      by (simp add: run_op_def Flush_variables_def acts_not_for_def keep_variable_def)
  qed (use assms OpFlush in \<open>simp add: run_op_def Flush_variables_def\<close>)
qed

text \<open>
  C29. A variable belongs to the member in whose name it was set: no sequence of set and flush operations that
  act for other members, whatever the broker answers, changes or removes it.
\<close>

theorem variable_owner_only:
  assumes "variable db t k = Some e" "list_all (acts_not_for (ve_SetBy e)) ops"
  shows "variable (fold (run_op publish) ops db) t k = Some e"
  using assms run_op_keeps by (induction ops arbitrary: db) auto

text \<open>
  Flushing removes exactly the caller's own variables among the given keys, all of them when no keys are given, and
  leaves every variable of everyone else and of every other thread.
\<close>

theorem flush_exact:
  assumes "Flush_variables publish cmd db = (Inr tv, db')"
  shows "fv_Member cmd \<in> set (members_list (fv_ThreadID cmd) db) \<and> tv_Variables tv = (\<lambda>k. variable db' (fv_ThreadID cmd) k)
    \<and> (\<forall>t k. variable db' t k = (case variable db t k of None \<Rightarrow> None
         | Some e \<Rightarrow> if t = fv_ThreadID cmd \<and> ve_SetBy e = fv_Member cmd \<and> (\<forall>ks. fv_Keys cmd = Some ks \<longrightarrow> k \<in> set ks) then None else Some e))"
proof -
  have st: "variables_Flush cmd db = Inr (tv, db')"
    using assms by (auto simp: Flush_variables_def split: sum.splits if_splits)
  show ?thesis using variables_Flush_Inr [OF st]
    by (auto simp: keep_variable_def split: option.splits)
qed

section \<open>Examples\<close>

definition var_entry :: "uuid \<Rightarrow> int \<Rightarrow> VariableEntry" where
  "var_entry m n = \<lparr>ve_Value = VInt n, ve_SetBy = m, ve_SetAt = 0\<rparr>"

definition set_command :: "uuid \<Rightarrow> (string \<times> VariableEntry) list \<Rightarrow> SetThreadVariablesCommand" where
  "set_command m es = \<lparr>sv_Member = m, sv_ThreadID = 1, sv_Entries = es\<rparr>"

definition variables_db :: db where
  "variables_db = snd (Set_variables (\<lambda>_ _. True) (set_command 51 [(''x'', var_entry 51 1), (''y'', var_entry 51 2)]) direct_db)"

definition flush_all :: "uuid \<Rightarrow> FlushVariablesCommand" where
  "flush_all m = \<lparr>fv_ThreadID = 1, fv_Member = m, fv_Keys = None\<rparr>"

lemma variables_db_x: "variable variables_db 1 ''x'' = Some (stamp_entry 100 (var_entry 51 1))"
  by code_simp

theorem variables_set_exact_witness:
  "\<exists>tv db'. Set_variables (\<lambda>_ _. True) (set_command 51 [(''x'', var_entry 51 1), (''y'', var_entry 51 2)]) direct_db = (Inr tv, db')
     \<and> variable db' 1 ''y'' = Some (stamp_entry (db_now direct_db) (var_entry 51 2))"
proof -
  let ?cmd = "set_command 51 [(''x'', var_entry 51 1), (''y'', var_entry 51 2)]"
  have "\<not> isl (fst (Set_variables (\<lambda>_ _. True) ?cmd direct_db))" by code_simp
  then obtain tv db' where s: "Set_variables (\<lambda>_ _. True) ?cmd direct_db = (Inr tv, db')"
    by (metis isl_def prod.collapse sum.collapse(2))
  have "distinct (map fst (sv_Entries ?cmd))" by (simp add: set_command_def)
  from variables_set_exact [OF this s] s show ?thesis by (auto simp: set_command_def)
qed

theorem variable_owner_only_witness:
  "variable (fold (run_op (\<lambda>_ _. True)) [OpSet (set_command 52 [(''x'', var_entry 52 9)]), OpFlush (flush_all 52)] variables_db) 1 ''x''
     = Some (stamp_entry 100 (var_entry 51 1))"
  by (rule variable_owner_only [OF variables_db_x])
     (simp add: acts_not_for_def stamp_entry_def var_entry_def set_command_def flush_all_def)

theorem flush_exact_witness:
  "\<exists>tv db'. Flush_variables (\<lambda>_ _. True) (flush_all 51) variables_db = (Inr tv, db') \<and> variable db' 1 ''x'' = None"
proof -
  have "\<not> isl (fst (Flush_variables (\<lambda>_ _. True) (flush_all 51) variables_db))" by code_simp
  then obtain tv db' where s: "Flush_variables (\<lambda>_ _. True) (flush_all 51) variables_db = (Inr tv, db')"
    by (metis isl_def prod.collapse sum.collapse(2))
  from flush_exact [OF s] have "variable db' 1 ''x'' = (case variable variables_db 1 ''x'' of None \<Rightarrow> None
      | Some e \<Rightarrow> if 1 = fv_ThreadID (flush_all 51) \<and> ve_SetBy e = fv_Member (flush_all 51)
          \<and> (\<forall>ks. fv_Keys (flush_all 51) = Some ks \<longrightarrow> ''x'' \<in> set ks) then None else Some e)" by blast
  then have "variable db' 1 ''x'' = None"
    unfolding variables_db_x option.case by (simp only:) (simp add: flush_all_def stamp_entry_def var_entry_def)
  with s show ?thesis by blast
qed

end
