(* ===== verification/Status_Store.thy ===== *)
theory Status_Store
  imports Dialog_Store Message_Store
begin

text \<open>
  Delivery state: \<^verbatim>\<open>internal/store/postgres/message_status_store.go\<close> with the values of
  \<^verbatim>\<open>internal/domain/model/message_status.go\<close>. A member's delivered and read horizons and the
  unread counter are columns of its dialog; only failures have a table of their own. Receipts are
  pointers in the code; a nil one is None. \<^verbatim>\<open>UPDATE ... FROM\<close> uses one of the source rows that
  match a target row, PostgreSQL does not say which: the parameter \<open>pick\<close> chooses it.
\<close>

section \<open>Values\<close>

type_synonym MessageDeliveryStatus = int

abbreviation (input) StatusDelivered :: MessageDeliveryStatus where "StatusDelivered \<equiv> 2"
abbreviation (input) StatusRead :: MessageDeliveryStatus where "StatusRead \<equiv> 3"
abbreviation (input) StatusFailed :: MessageDeliveryStatus where "StatusFailed \<equiv> 4"

definition DeliveryStatus_String :: "MessageDeliveryStatus \<Rightarrow> string" where
  "DeliveryStatus_String s =
     (if s = 1 then ''sent'' else if s = 2 then ''delivered'' else if s = 3 then ''read''
      else if s = 4 then ''failed'' else ''unspecified'')"

definition DeliveryStatus_Valid :: "MessageDeliveryStatus \<Rightarrow> bool" where
  "DeliveryStatus_Valid s = (s = 2 \<or> s = 3 \<or> s = 4)"

record StatusReceipt =
  sr_DomainID :: int
  sr_ThreadID :: uuid
  sr_MessageID :: uuid
  sr_UpToMessageID :: uuid
  sr_UpToSeq :: int
  sr_MemberID :: uuid
  sr_At :: time
  sr_Via :: string
  sr_Error :: metadata

record ReadReceipt =
  rr_DomainID :: int
  rr_ThreadID :: uuid
  rr_MemberID :: uuid
  rr_UpToMessageID :: uuid
  rr_UpToSeq :: int
  rr_At :: time
  rr_Via :: string

record StatusChange =
  ch_DomainID :: int
  ch_ThreadID :: uuid
  ch_MessageID :: uuid
  ch_UpToMessageID :: uuid
  ch_UpToSeq :: int
  ch_MemberID :: uuid
  ch_Status :: MessageDeliveryStatus
  ch_Via :: "string option"
  ch_Error :: metadata
  ch_UpdatedAt :: time
  ch_UnreadCount :: "int option"

record UnreadSummary =
  us_Chats :: int
  us_Messages :: int

section \<open>Deduplication\<close>

text \<open>\<^verbatim>\<open>greaterUUID\<close> compares the bytes from the first, which is the order of the numbers.\<close>

definition greaterUUID :: "uuid \<Rightarrow> uuid \<Rightarrow> bool" where
  "greaterUUID a b = (b < a)"

definition put_status :: "StatusReceipt \<Rightarrow> StatusReceipt list \<Rightarrow> StatusReceipt list" where
  "put_status r out =
     (if sr_UpToMessageID r \<noteq> uuid_nil then
        (let same = (\<lambda>x. sr_UpToMessageID x \<noteq> uuid_nil \<and> sr_ThreadID x = sr_ThreadID r \<and> sr_MemberID x = sr_MemberID r)
         in if \<exists>x \<in> set out. same x
            then update_where same (\<lambda>x. if greaterUUID (sr_UpToMessageID r) (sr_UpToMessageID x) then r else x) out
            else out @ [r])
      else if \<exists>x \<in> set out. sr_UpToMessageID x = uuid_nil \<and> sr_MessageID x = sr_MessageID r \<and> sr_MemberID x = sr_MemberID r
      then out else out @ [r])"

definition dedupStatusReceipts :: "StatusReceipt option list \<Rightarrow> StatusReceipt list" where
  "dedupStatusReceipts receipts = fold put_status (List.map_filter id receipts) []"

definition put_read :: "ReadReceipt \<Rightarrow> ReadReceipt list \<Rightarrow> ReadReceipt list" where
  "put_read r out =
     (let same = (\<lambda>x. rr_ThreadID x = rr_ThreadID r \<and> rr_MemberID x = rr_MemberID r)
      in if \<exists>x \<in> set out. same x
         then update_where same (\<lambda>x. if greaterUUID (rr_UpToMessageID r) (rr_UpToMessageID x) then r else x) out
         else out @ [r])"

definition dedupReadReceipts :: "ReadReceipt option list \<Rightarrow> ReadReceipt list" where
  "dedupReadReceipts receipts = fold put_read (List.map_filter id receipts) []"

section \<open>Resolving receipts\<close>

definition message_of :: "db \<Rightarrow> uuid \<Rightarrow> message_row option" where
  "message_of db i = find (\<lambda>r. ms_id r = i) (db_messages db)"

definition resolveReadSeqFromMessageID :: "db \<Rightarrow> ReadReceipt \<Rightarrow> ReadReceipt" where
  "resolveReadSeqFromMessageID db r =
     (if rr_UpToSeq r = 0 \<and> rr_UpToMessageID r \<noteq> uuid_nil
      then (case message_of db (rr_UpToMessageID r) of None \<Rightarrow> r | Some m \<Rightarrow> r\<lparr>rr_UpToSeq := ms_seq m\<rparr>)
      else r)"

definition resolveSeqFromMessageID :: "db \<Rightarrow> StatusReceipt \<Rightarrow> StatusReceipt" where
  "resolveSeqFromMessageID db r =
     (if sr_UpToSeq r = 0 \<and> sr_UpToMessageID r \<noteq> uuid_nil
      then (case message_of db (sr_UpToMessageID r) of None \<Rightarrow> r | Some m \<Rightarrow> r\<lparr>sr_UpToSeq := ms_seq m\<rparr>)
      else r)"

definition resolveThreadIDsForDelivery :: "db \<Rightarrow> StatusReceipt \<Rightarrow> StatusReceipt" where
  "resolveThreadIDsForDelivery db r =
     (if sr_ThreadID r = uuid_nil \<and> sr_MessageID r \<noteq> uuid_nil
      then (case message_of db (sr_MessageID r) of None \<Rightarrow> r
            | Some m \<Rightarrow> r\<lparr>sr_ThreadID := ms_thread_id m, sr_DomainID := ms_domain_id m, sr_UpToSeq := ms_seq m\<rparr>)
      else r)"

definition to_watermark :: "StatusReceipt \<Rightarrow> StatusReceipt" where
  "to_watermark r =
     (if sr_MessageID r \<noteq> uuid_nil \<and> sr_UpToMessageID r = uuid_nil then r\<lparr>sr_UpToMessageID := sr_MessageID r\<rparr> else r)"

text \<open>
  The thread counters are read for the receipts with a positive number only; a receipt without
  one is never above its counter, so each receipt can be clamped on its own.
\<close>

definition clampReadSeqToThread :: "db \<Rightarrow> ReadReceipt \<Rightarrow> ReadReceipt" where
  "clampReadSeqToThread db r =
     (if rr_UpToSeq r > 0
      then (case thread_of db (rr_ThreadID r) of None \<Rightarrow> r
            | Some th \<Rightarrow> if rr_UpToSeq r > th_last_seq th then r\<lparr>rr_UpToSeq := th_last_seq th\<rparr> else r)
      else r)"

section \<open>Horizons\<close>

text \<open>The reference count: content messages of others after a number, not deleted.\<close>

definition unread_after :: "db \<Rightarrow> uuid \<Rightarrow> uuid \<Rightarrow> int \<Rightarrow> int" where
  "unread_after db t c from =
     int (length (filter (\<lambda>m. ms_thread_id m = t \<and> ms_sender_id m \<noteq> c \<and> ms_type m \<noteq> MessageTypeSystem
                              \<and> ms_deleted_at m = None \<and> ms_seq m > from) (db_messages db)))"

definition seq_or0 :: "int option \<Rightarrow> int" where
  "seq_or0 s = (case s of None \<Rightarrow> 0 | Some x \<Rightarrow> x)"

text \<open>A number of 0 is sent as NULL, which no row matches.\<close>

definition read_matches :: "dialog_row \<Rightarrow> ReadReceipt \<Rightarrow> bool" where
  "read_matches d r \<longleftrightarrow> dl_thread_id d = rr_ThreadID r \<and> dl_member_id d = rr_MemberID r \<and> active d
     \<and> rr_UpToSeq r \<noteq> 0 \<and> rr_UpToSeq r > seq_or0 (dl_last_read_seq d)"

definition advance_read :: "db \<Rightarrow> ReadReceipt \<Rightarrow> dialog_row \<Rightarrow> dialog_row" where
  "advance_read db r d =
     (let s = (case dl_last_read_seq d of None \<Rightarrow> rr_UpToSeq r
               | Some x \<Rightarrow> if rr_UpToSeq r > x then rr_UpToSeq r else x)
      in d\<lparr>dl_last_read_seq := Some s,
           dl_last_delivered_seq := Some (max (seq_or0 (dl_last_delivered_seq d)) (rr_UpToSeq r)),
           dl_unread_count := unread_after db (dl_thread_id d) (dl_member_id d) s\<rparr>)"

text \<open>The errors of messages a receipt covers are dropped, whether or not its horizon moved.\<close>

definition clearRecoveredErrors :: "(uuid \<times> uuid \<times> int) list \<Rightarrow> db \<Rightarrow> db" where
  "clearRecoveredErrors rs db =
     db\<lparr>db_errors := filter (\<lambda>e. \<not> (\<exists>(t, c, s) \<in> set rs. me_thread_id e = t \<and> me_member_id e = c \<and> s \<noteq> 0
           \<and> (case message_of db (me_message_id e) of None \<Rightarrow> False | Some m \<Rightarrow> ms_seq m \<le> s))) (db_errors db)\<rparr>"

text \<open>
  After \<^verbatim>\<open>dedupReadReceipts\<close> at most one receipt matches a dialog, so the first one is the one.
  The moved horizons are those of the dialogs with a match, with the new counter.
\<close>

definition advanceReadHorizon :: "ReadReceipt list \<Rightarrow> db \<Rightarrow> (uuid \<times> uuid \<rightharpoonup> int) \<times> db" where
  "advanceReadHorizon rs db =
     (let f = (\<lambda>d. case find (read_matches d) rs of None \<Rightarrow> d | Some r \<Rightarrow> advance_read db r d);
          moved = map_of (map (\<lambda>d. ((dl_thread_id d, dl_member_id d), dl_unread_count (f d)))
                    (filter (\<lambda>d. \<exists>r \<in> set rs. read_matches d r) (db_dialogs db)));
          db1 = db\<lparr>db_dialogs := map f (db_dialogs db)\<rparr>
      in (moved, clearRecoveredErrors (map (\<lambda>r. (rr_ThreadID r, rr_MemberID r, rr_UpToSeq r)) rs) db1))"

definition delivered_matches :: "dialog_row \<Rightarrow> StatusReceipt \<Rightarrow> bool" where
  "delivered_matches d r \<longleftrightarrow> dl_thread_id d = sr_ThreadID r \<and> dl_member_id d = sr_MemberID r \<and> active d
     \<and> sr_UpToSeq r \<noteq> 0 \<and> sr_UpToSeq r > seq_or0 (dl_last_delivered_seq d)"

definition advance_delivered :: "StatusReceipt \<Rightarrow> dialog_row \<Rightarrow> dialog_row" where
  "advance_delivered r d =
     d\<lparr>dl_last_delivered_seq := (case dl_last_delivered_seq d of None \<Rightarrow> Some (sr_UpToSeq r)
          | Some x \<Rightarrow> if sr_UpToSeq r > x then Some (sr_UpToSeq r) else Some x)\<rparr>"

type_synonym picker = "StatusReceipt list \<Rightarrow> StatusReceipt"

definition advanceDeliveredHorizon :: "picker \<Rightarrow> StatusReceipt list \<Rightarrow> db \<Rightarrow> (uuid \<times> uuid \<rightharpoonup> int) \<times> db" where
  "advanceDeliveredHorizon pick rs db =
     (let f = (\<lambda>d. case filter (delivered_matches d) rs of [] \<Rightarrow> d | x # xs \<Rightarrow> advance_delivered (pick (x # xs)) d);
          moved = map_of (map (\<lambda>d. ((dl_thread_id d, dl_member_id d), dl_unread_count d))
                    (filter (\<lambda>d. \<exists>r \<in> set rs. delivered_matches d r) (db_dialogs db)));
          db1 = db\<lparr>db_dialogs := map f (db_dialogs db)\<rparr>
      in (moved, clearRecoveredErrors (map (\<lambda>r. (sr_ThreadID r, sr_MemberID r, sr_UpToSeq r)) rs) db1))"

section \<open>The store's operations\<close>

definition InsertSent :: "Message option \<Rightarrow> uuid list \<Rightarrow> db \<Rightarrow> db" where
  "InsertSent msg recipients db =
     (case msg of None \<Rightarrow> db
      | Some m \<Rightarrow>
         if recipients = [] \<or> m_Type m = MessageTypeSystem then db
         else db\<lparr>db_dialogs := update_where (\<lambda>d. dl_thread_id d = m_ThreadID m \<and> dl_member_id d \<in> set recipients \<and> active d)
                (\<lambda>d. d\<lparr>dl_unread_count := dl_unread_count d + 1\<rparr>) (db_dialogs db)\<rparr>)"

definition store_MarkDelivered :: "picker \<Rightarrow> time \<Rightarrow> StatusReceipt option list \<Rightarrow> db \<Rightarrow> StatusChange list \<times> db" where
  "store_MarkDelivered pick now receipts db =
     (let rs = dedupStatusReceipts receipts in
      if rs = [] then ([], db)
      else
        (let rs1 = map (\<lambda>r. resolveSeqFromMessageID db (to_watermark (resolveThreadIDsForDelivery db r))) rs
         in case advanceDeliveredHorizon pick rs1 db of
              (moved, db1) \<Rightarrow>
                (map (\<lambda>r. \<lparr>ch_DomainID = sr_DomainID r, ch_ThreadID = sr_ThreadID r, ch_MessageID = uuid_nil,
                          ch_UpToMessageID = sr_UpToMessageID r, ch_UpToSeq = sr_UpToSeq r, ch_MemberID = sr_MemberID r,
                          ch_Status = StatusDelivered, ch_Via = Some (sr_Via r), ch_Error = Map.empty,
                          ch_UpdatedAt = now, ch_UnreadCount = None\<rparr>)
                   (filter (\<lambda>r. moved (sr_ThreadID r, sr_MemberID r) \<noteq> None) rs1), db1)))"

definition read_change :: "time \<Rightarrow> ReadReceipt \<Rightarrow> int option \<Rightarrow> StatusChange" where
  "read_change now r unread =
     \<lparr>ch_DomainID = rr_DomainID r, ch_ThreadID = rr_ThreadID r, ch_MessageID = uuid_nil,
      ch_UpToMessageID = rr_UpToMessageID r, ch_UpToSeq = rr_UpToSeq r, ch_MemberID = rr_MemberID r,
      ch_Status = StatusRead, ch_Via = Some (rr_Via r), ch_Error = Map.empty,
      ch_UpdatedAt = now, ch_UnreadCount = unread\<rparr>"

definition store_MarkRead :: "time \<Rightarrow> ReadReceipt option list \<Rightarrow> db \<Rightarrow> StatusChange list \<times> db" where
  "store_MarkRead now receipts db =
     (let rs = dedupReadReceipts receipts in
      if rs = [] then ([], db)
      else
        (let rs1 = map (\<lambda>r. clampReadSeqToThread db (resolveReadSeqFromMessageID db r)) rs
         in case advanceReadHorizon rs1 db of
              (moved, db1) \<Rightarrow>
                (map (\<lambda>r. read_change now r (moved (rr_ThreadID r, rr_MemberID r)))
                   (filter (\<lambda>r. moved (rr_ThreadID r, rr_MemberID r) \<noteq> None) rs1), db1)))"

definition confirmedAtOrNow :: "time \<Rightarrow> time \<Rightarrow> time" where
  "confirmedAtOrNow now at = (if at = time_zero then now else at)"

definition failed_row :: "time \<Rightarrow> db \<Rightarrow> StatusReceipt \<Rightarrow> error_row option" where
  "failed_row now db r =
     (case message_of db (sr_MessageID r) of None \<Rightarrow> None
      | Some m \<Rightarrow>
         if ms_sender_id m = sr_MemberID r
            \<or> \<not> (\<exists>d \<in> set (db_dialogs db). dl_thread_id d = ms_thread_id m \<and> dl_member_id d = sr_MemberID r)
         then None
         else Some \<lparr>me_domain_id = ms_domain_id m, me_thread_id = ms_thread_id m, me_message_id = ms_id m,
                   me_member_id = sr_MemberID r, me_failed_at = confirmedAtOrNow now (sr_At r), me_error = sr_Error r,
                   me_via = (if sr_Via r = [] then None else Some (sr_Via r)), me_updated_at = db_now db\<rparr>)"

definition put_error :: "error_row \<Rightarrow> error_row list \<Rightarrow> error_row list" where
  "put_error e errors =
     (let same = (\<lambda>x. me_message_id x = me_message_id e \<and> me_member_id x = me_member_id e)
      in if \<exists>x \<in> set errors. same x
         then update_where same (\<lambda>x. x\<lparr>me_failed_at := me_failed_at e, me_error := me_error e,
                me_via := (case me_via e of None \<Rightarrow> me_via x | Some v \<Rightarrow> Some v), me_updated_at := me_updated_at e\<rparr>) errors
         else errors @ [e])"

text \<open>An upsert that would touch a row twice is an error of the database.\<close>

definition store_MarkFailed :: "time \<Rightarrow> StatusReceipt option list \<Rightarrow> db \<Rightarrow> (StatusChange list \<times> db) res" where
  "store_MarkFailed now receipts db =
     (let rs = dedupStatusReceipts receipts in
      if rs = [] then Inr ([], db)
      else
        (let rows = List.map_filter (failed_row now db) rs
         in if \<not> distinct (map (\<lambda>e. (me_message_id e, me_member_id e)) rows)
            then Inl (Err Internal ''collecting status changes'')
            else (let errors = fold put_error rows (db_errors db)
                  in Inr (List.map_filter (\<lambda>e. map_option (\<lambda>x. \<lparr>ch_DomainID = me_domain_id x, ch_ThreadID = me_thread_id x,
                             ch_MessageID = me_message_id x, ch_UpToMessageID = uuid_nil, ch_UpToSeq = 0,
                             ch_MemberID = me_member_id x, ch_Status = StatusFailed, ch_Via = me_via x,
                             ch_Error = me_error x, ch_UpdatedAt = me_updated_at x, ch_UnreadCount = None\<rparr>)
                            (find (\<lambda>x. me_message_id x = me_message_id e \<and> me_member_id x = me_member_id e) errors)) rows,
                          db\<lparr>db_errors := errors\<rparr>))))"

definition domain_matches :: "int \<Rightarrow> dialog_row \<Rightarrow> bool" where
  "domain_matches domain d = (domain \<le> 0 \<or> dl_domain_id d = domain)"

definition ReadUnread :: "int \<Rightarrow> uuid \<Rightarrow> uuid list \<Rightarrow> db \<Rightarrow> (uuid \<rightharpoonup> int)" where
  "ReadUnread domain c threads db =
     (if c = uuid_nil \<or> threads = [] then Map.empty
      else map_of (rev (map (\<lambda>d. (dl_thread_id d, dl_unread_count d))
             (filter (\<lambda>d. dl_member_id d = c \<and> domain_matches domain d \<and> dl_thread_id d \<in> set threads \<and> active d)
               (db_dialogs db)))))"

definition UnreadSummary_read :: "int \<Rightarrow> uuid \<Rightarrow> db \<Rightarrow> UnreadSummary" where
  "UnreadSummary_read domain c db =
     (if c = uuid_nil then \<lparr>us_Chats = 0, us_Messages = 0\<rparr>
      else (let ds = filter (\<lambda>d. dl_member_id d = c \<and> domain_matches domain d \<and> active d) (db_dialogs db)
            in \<lparr>us_Chats = int (length (filter (\<lambda>d. dl_unread_count d > 0) ds)),
                us_Messages = sum_list (map dl_unread_count ds)\<rparr>))"

definition RecountUnread :: "uuid list \<Rightarrow> db \<Rightarrow> db" where
  "RecountUnread threads db =
     (if threads = [] then db
      else db\<lparr>db_dialogs := update_where (\<lambda>d. dl_thread_id d \<in> set threads \<and> active d)
             (\<lambda>d. d\<lparr>dl_unread_count := unread_after db (dl_thread_id d) (dl_member_id d) (seq_or0 (dl_last_read_seq d))\<rparr>)
             (db_dialogs db)\<rparr>)"

definition unread_after_id :: "db \<Rightarrow> uuid \<Rightarrow> uuid \<Rightarrow> uuid option \<Rightarrow> int" where
  "unread_after_id db t c from =
     int (length (filter (\<lambda>m. ms_thread_id m = t \<and> ms_sender_id m \<noteq> c \<and> ms_type m \<noteq> MessageTypeSystem
                   \<and> ms_deleted_at m = None \<and> (case from of None \<Rightarrow> True | Some i \<Rightarrow> ms_id m > i)) (db_messages db)))"

definition ReconcileUnread :: "int \<Rightarrow> db \<Rightarrow> nat \<times> db" where
  "ReconcileUnread domain db =
     (length (filter (\<lambda>d. domain_matches domain d \<and> active d) (db_dialogs db)),
      db\<lparr>db_dialogs := update_where (\<lambda>d. domain_matches domain d \<and> active d)
         (\<lambda>d. d\<lparr>dl_unread_count := unread_after_id db (dl_thread_id d) (dl_member_id d) (dl_last_read_message_id d)\<rparr>)
         (db_dialogs db)\<rparr>)"


section \<open>Deduplication gives one receipt per membership\<close>

definition receipt_key :: "ReadReceipt \<Rightarrow> uuid \<times> uuid" where
  "receipt_key r = (rr_ThreadID r, rr_MemberID r)"

lemma put_read_keys:
  "distinct (map receipt_key out) \<Longrightarrow> distinct (map receipt_key (put_read r out))"
proof -
  assume d: "distinct (map receipt_key out)"
  have "map receipt_key (put_read r out) = (if \<exists>x \<in> set out. receipt_key x = receipt_key r
      then map receipt_key out else map receipt_key out @ [receipt_key r])"
    by (auto simp: put_read_def receipt_key_def Let_def)
  with d show ?thesis by auto
qed

lemma put_read_from: "set (put_read r out) \<subseteq> insert r (set out)"
  by (auto simp: put_read_def Let_def set_update_where)

lemma put_read_covers: "receipt_key ` set (put_read r out) = insert (receipt_key r) (receipt_key ` set out)"
proof -
  have "map receipt_key (put_read r out) = (if \<exists>x \<in> set out. receipt_key x = receipt_key r
      then map receipt_key out else map receipt_key out @ [receipt_key r])"
    by (auto simp: put_read_def receipt_key_def Let_def)
  from arg_cong [OF this, of set] show ?thesis by (auto split: if_splits intro: rev_image_eqI)
qed

lemma fold_put_read:
  assumes "distinct (map receipt_key out)"
  shows "distinct (map receipt_key (fold put_read rs out)) \<and> set (fold put_read rs out) \<subseteq> set rs \<union> set out
    \<and> receipt_key ` set (fold put_read rs out) = receipt_key ` (set rs \<union> set out)"
  using assms
proof (induction rs arbitrary: out)
  case (Cons r rs)
  from Cons.IH [OF put_read_keys [OF Cons.prems, of r]] put_read_from [of r out] put_read_covers [of r out]
  show ?case by auto
qed simp

lemma set_dedup_input: "set (List.map_filter id xs) = {r. Some r \<in> set xs}"
  by (induction xs) (auto simp: map_filter_simps split: option.splits)

lemma dedup_read:
  "distinct (map receipt_key (dedupReadReceipts receipts))"
  "r \<in> set (dedupReadReceipts receipts) \<Longrightarrow> Some r \<in> set receipts"
  "receipt_key ` set (dedupReadReceipts receipts) = receipt_key ` {r. Some r \<in> set receipts}"
  using fold_put_read [of "[]" "List.map_filter id receipts"]
  by (auto simp: dedupReadReceipts_def set_dedup_input)

section \<open>Reading\<close>

text \<open>The receipts as the statements see them: deduplicated, resolved and clamped.\<close>

definition read_receipts :: "ReadReceipt option list \<Rightarrow> db \<Rightarrow> ReadReceipt list" where
  "read_receipts receipts db =
     map (\<lambda>r. clampReadSeqToThread db (resolveReadSeqFromMessageID db r)) (dedupReadReceipts receipts)"

lemma receipt_key_resolved [simp]:
  "receipt_key (clampReadSeqToThread db r) = receipt_key r"
  "receipt_key (resolveReadSeqFromMessageID db r) = receipt_key r"
  by (auto simp: receipt_key_def clampReadSeqToThread_def resolveReadSeqFromMessageID_def split: option.splits)

lemma read_receipts_distinct: "distinct (map receipt_key (read_receipts receipts db))"
  using dedup_read(1) [of receipts] by (simp add: read_receipts_def comp_def)

lemma read_receipt_unique:
  "r \<in> set (read_receipts receipts db) \<Longrightarrow> r' \<in> set (read_receipts receipts db) \<Longrightarrow>
   receipt_key r = receipt_key r' \<Longrightarrow> r = r'"
  using read_receipts_distinct [of receipts db] by (auto simp: distinct_map inj_on_def)

definition read_dialog :: "ReadReceipt list \<Rightarrow> db \<Rightarrow> dialog_row \<Rightarrow> dialog_row" where
  "read_dialog rs db d = (case find (read_matches d) rs of None \<Rightarrow> d | Some r \<Rightarrow> advance_read db r d)"

lemma store_MarkRead_db:
  "store_MarkRead now receipts db = (changes, db') \<Longrightarrow>
   db_dialogs db' = map (read_dialog (read_receipts receipts db) db) (db_dialogs db)
   \<and> db_messages db' = db_messages db \<and> db_threads db' = db_threads db"
  by (auto simp: store_MarkRead_def advanceReadHorizon_def read_receipts_def read_dialog_def Let_def
      clearRecoveredErrors_def cong: map_cong split: if_splits prod.splits)

text \<open>
  What reading may do to a membership: nothing, or, for an active member that sent a receipt, move
  the read horizon forward to a number that the thread has given out, with the delivered horizon
  not behind it and the unread counter equal to the number of messages of others after it.
\<close>

definition read_update :: "db \<Rightarrow> ReadReceipt option list \<Rightarrow> dialog_row \<Rightarrow> dialog_row \<Rightarrow> bool" where
  "read_update db receipts d d' \<longleftrightarrow>
     d' = d \<or>
     (active d \<and> (\<exists>r s. Some r \<in> set receipts \<and> rr_ThreadID r = dl_thread_id d \<and> rr_MemberID r = dl_member_id d
        \<and> seq_or0 (dl_last_read_seq d) < s
        \<and> (\<forall>th. 0 < s \<longrightarrow> thread_of db (dl_thread_id d) = Some th \<longrightarrow> s \<le> th_last_seq th)
        \<and> d' = d\<lparr>dl_last_read_seq := Some s,
                  dl_last_delivered_seq := Some (max (seq_or0 (dl_last_delivered_seq d)) s),
                  dl_unread_count := unread_after db (dl_thread_id d) (dl_member_id d) s\<rparr>))"

lemma clamped: "0 < rr_UpToSeq (clampReadSeqToThread db r) \<Longrightarrow> thread_of db (rr_ThreadID r) = Some th \<Longrightarrow>
    rr_UpToSeq (clampReadSeqToThread db r) \<le> th_last_seq th"
  by (auto simp: clampReadSeqToThread_def split: if_splits)

lemma read_receipts_from:
  assumes "r \<in> set (read_receipts receipts db)"
  shows "(\<exists>x. Some x \<in> set receipts \<and> receipt_key x = receipt_key r)
    \<and> (\<forall>th. 0 < rr_UpToSeq r \<longrightarrow> thread_of db (rr_ThreadID r) = Some th \<longrightarrow> rr_UpToSeq r \<le> th_last_seq th)"
proof -
  from assms obtain x where x: "x \<in> set (dedupReadReceipts receipts)"
      "r = clampReadSeqToThread db (resolveReadSeqFromMessageID db x)" by (auto simp: read_receipts_def)
  moreover have "rr_ThreadID r = rr_ThreadID (resolveReadSeqFromMessageID db x)"
    using receipt_key_resolved(1) [of db "resolveReadSeqFromMessageID db x"] x(2) by (simp add: receipt_key_def)
  ultimately show ?thesis using dedup_read(2) [of x receipts] clamped by auto
qed

lemma advance_read_eq:
  "read_matches d r \<Longrightarrow> advance_read db r d =
     d\<lparr>dl_last_read_seq := Some (rr_UpToSeq r),
       dl_last_delivered_seq := Some (max (seq_or0 (dl_last_delivered_seq d)) (rr_UpToSeq r)),
       dl_unread_count := unread_after db (dl_thread_id d) (dl_member_id d) (rr_UpToSeq r)\<rparr>"
  by (auto simp: advance_read_def read_matches_def seq_or0_def Let_def split: option.splits)

lemma read_dialog_cases:
  obtains (same) "read_dialog rs db d = d" "\<forall>r \<in> set rs. \<not> read_matches d r"
  | (moved) r where "r \<in> set rs" "read_matches d r" "read_dialog rs db d = advance_read db r d"
  by (cases "find (read_matches d) rs") (auto simp: read_dialog_def find_None_iff dest: find_SomeD)

lemma read_dialog_update: "read_update db receipts d (read_dialog (read_receipts receipts db) db d)"
proof (cases rule: read_dialog_cases [of "read_receipts receipts db" db d])
  case (moved r)
  from read_receipts_from [OF moved(1)] obtain x
    where "Some x \<in> set receipts" "receipt_key x = receipt_key r" by blast
  with moved read_receipts_from [OF moved(1)] show ?thesis
    unfolding read_update_def moved(3) advance_read_eq [OF moved(2)]
    by (intro disjI2 conjI exI [of _ x] exI [of _ "rr_UpToSeq r"])
      (auto simp: read_matches_def receipt_key_def)
qed (simp add: read_update_def)

text \<open>After the step no receipt is ahead of a horizon.\<close>

lemma read_dialog_done:
  assumes "r \<in> set (read_receipts receipts db)"
  shows "\<not> read_matches (read_dialog (read_receipts receipts db) db d) r"
proof (cases rule: read_dialog_cases [of "read_receipts receipts db" db d])
  case same
  then show ?thesis using assms by simp
next
  case (moved r')
  show ?thesis
  proof
    assume m: "read_matches (read_dialog (read_receipts receipts db) db d) r"
    with moved have "receipt_key r = receipt_key r'" by (auto simp: advance_read_eq read_matches_def receipt_key_def)
    with assms moved(1) have "r = r'" by (rule read_receipt_unique)
    with m [unfolded moved(3) advance_read_eq [OF moved(2)]] show False by (simp add: read_matches_def seq_or0_def)
  qed
qed

lemma message_of_cong: "db_messages db' = db_messages db \<Longrightarrow> message_of db' i = message_of db i"
  by (simp add: message_of_def)

lemma read_receipts_cong:
  assumes "db_messages db' = db_messages db" "db_threads db' = db_threads db"
  shows "read_receipts receipts db' = read_receipts receipts db"
  unfolding read_receipts_def clampReadSeqToThread_def resolveReadSeqFromMessageID_def message_of_def
    thread_of_def assms ..

lemma clearRecoveredErrors_frame [simp]:
  "db_dialogs (clearRecoveredErrors ks db) = db_dialogs db"
  "db_messages (clearRecoveredErrors ks db) = db_messages db"
  "db_threads (clearRecoveredErrors ks db) = db_threads db"
  by (simp_all add: clearRecoveredErrors_def)

lemma clearRecoveredErrors_idem:
  "clearRecoveredErrors ks (clearRecoveredErrors ks db) = clearRecoveredErrors ks db"
  by (simp add: clearRecoveredErrors_def message_of_def)

lemma store_MarkRead_unfold:
  "store_MarkRead now receipts db =
    (let rs = read_receipts receipts db in
     if rs = [] then ([], db)
     else (let (moved, db') = advanceReadHorizon rs db
           in (map (\<lambda>r. read_change now r (moved (rr_ThreadID r, rr_MemberID r)))
                   (filter (\<lambda>r. moved (rr_ThreadID r, rr_MemberID r) \<noteq> None) rs), db')))"
  by (simp add: store_MarkRead_def read_receipts_def Let_def)

text \<open>Receipts that match no dialog only drop recovered errors.\<close>

lemma advanceReadHorizon_none:
  assumes "\<forall>d \<in> set (db_dialogs db). \<forall>r \<in> set rs. \<not> read_matches d r"
  shows "advanceReadHorizon rs db =
    (Map.empty, clearRecoveredErrors (map (\<lambda>r. (rr_ThreadID r, rr_MemberID r, rr_UpToSeq r)) rs) db)"
proof -
  have f: "find (read_matches d) rs = None" if "d \<in> set (db_dialogs db)" for d
    using assms that by (auto simp: find_None_iff)
  have "filter (\<lambda>d. \<exists>r \<in> set rs. read_matches d r) (db_dialogs db) = []"
    using assms by (auto simp: filter_empty_conv)
  moreover have "map (\<lambda>d. case find (read_matches d) rs of None \<Rightarrow> d | Some r \<Rightarrow> advance_read db r d) (db_dialogs db)
      = db_dialogs db"
    using f by (intro map_idI) simp
  ultimately show ?thesis by (simp add: advanceReadHorizon_def Let_def)
qed

lemma mark_read_again:
  assumes "store_MarkRead now receipts db = (changes, db')"
  shows "store_MarkRead now' receipts db' = ([], db')"
proof (cases "read_receipts receipts db = []")
  case True
  with assms show ?thesis by (simp add: store_MarkRead_unfold Let_def)
next
  case False
  let ?rs = "read_receipts receipts db"
  let ?ks = "map (\<lambda>r. (rr_ThreadID r, rr_MemberID r, rr_UpToSeq r)) ?rs"
  from assms False obtain db1 where db': "db' = clearRecoveredErrors ?ks db1"
    by (auto simp: store_MarkRead_unfold advanceReadHorizon_def Let_def)
  from store_MarkRead_db [OF assms] have d: "db_dialogs db' = map (read_dialog ?rs db) (db_dialogs db)"
    and rs: "read_receipts receipts db' = ?rs" by (auto intro: read_receipts_cong)
  have "\<forall>d \<in> set (db_dialogs db'). \<forall>r \<in> set ?rs. \<not> read_matches d r"
    unfolding d using read_dialog_done by auto
  from advanceReadHorizon_none [OF this] have "advanceReadHorizon ?rs db' = (Map.empty, db')"
    by (simp add: db' clearRecoveredErrors_idem)
  with False rs show ?thesis by (simp add: store_MarkRead_unfold)
qed

text \<open>
  C20. Reading: a batch of read receipts touches only active memberships that sent one. For those
  the read horizon only moves forward and never past the last number of the thread, the delivered
  horizon never stays behind it, and the unread counter is exactly the number of undeleted content
  messages of others after the horizon. Sending the same batch again reports nothing and changes
  nothing.
\<close>

theorem mark_read_exact:
  assumes "store_MarkRead now receipts db = (changes, db')"
  shows "list_all2 (read_update db receipts) (db_dialogs db) (db_dialogs db')
    \<and> db_messages db' = db_messages db \<and> db_threads db' = db_threads db
    \<and> store_MarkRead now' receipts db' = ([], db')"
proof -
  have "list_all2 (read_update db receipts) (db_dialogs db)
     (map (read_dialog (read_receipts receipts db) db) (db_dialogs db))"
    using read_dialog_update by (simp add: list_all2_map2 list.rel_refl)
  with store_MarkRead_db [OF assms] mark_read_again [OF assms] show ?thesis by simp
qed

lemma moved_horizons:
  assumes ok: "dialogs_ok db" and act: "\<And>d. p d \<Longrightarrow> active d"
  shows "map_of (map (\<lambda>d. ((dl_thread_id d, dl_member_id d), g d)) (filter p (db_dialogs db))) (t, c) = Some n
    \<longleftrightarrow> (\<exists>d \<in> set (db_dialogs db). p d \<and> dl_thread_id d = t \<and> dl_member_id d = c \<and> n = g d)"
proof -
  have "inj_on (\<lambda>d. (dl_thread_id d, dl_member_id d)) (set (filter p (db_dialogs db)))"
    using active_unique [OF ok] act by (auto simp: inj_on_def)
  moreover have "distinct (filter p (db_dialogs db))" using ok by (auto simp: dialogs_ok_def distinct_map)
  ultimately have "distinct (map fst (map (\<lambda>d. ((dl_thread_id d, dl_member_id d), g d)) (filter p (db_dialogs db))))"
    by (simp add: distinct_map comp_def)
  from map_of_eq_Some_iff [OF this] show ?thesis by auto
qed

lemma in_changes:
  "c \<in> set (map (\<lambda>r. f r (m (k r))) (filter (\<lambda>r. m (k r) \<noteq> None) rs)) \<longleftrightarrow>
     (\<exists>r \<in> set rs. \<exists>n. m (k r) = Some n \<and> c = f r (Some n))"
  by force

lemma store_MarkRead_changes:
  assumes ok: "dialogs_ok db" and mark: "store_MarkRead now receipts db = (changes, db')"
  shows "c \<in> set changes \<longleftrightarrow> (\<exists>d \<in> set (db_dialogs db). \<exists>r \<in> set (read_receipts receipts db). read_matches d r
      \<and> c = read_change now r (Some (dl_unread_count (read_dialog (read_receipts receipts db) db d))))"
    (is "_ \<longleftrightarrow> ?rhs")
proof -
  let ?rs = "read_receipts receipts db"
  let ?p = "\<lambda>d. \<exists>r \<in> set ?rs. read_matches d r"
  let ?m = "map_of (map (\<lambda>d. ((dl_thread_id d, dl_member_id d), dl_unread_count (read_dialog ?rs db d)))
      (filter ?p (db_dialogs db)))"
  have moved: "?m (t, k) = Some n \<longleftrightarrow> (\<exists>d \<in> set (db_dialogs db). ?p d \<and> dl_thread_id d = t \<and> dl_member_id d = k
      \<and> n = dl_unread_count (read_dialog ?rs db d))" for t k n
    by (rule moved_horizons [OF ok]) (auto simp: read_matches_def)
  have uniq: "read_matches d r" if "r \<in> set ?rs" "?p d" "dl_thread_id d = rr_ThreadID r" "dl_member_id d = rr_MemberID r" for d r
    using that read_receipt_unique [of r receipts db] by (auto simp: read_matches_def receipt_key_def)
  have match_key: "dl_thread_id d = rr_ThreadID r" "dl_member_id d = rr_MemberID r" if "read_matches d r" for d r
    using that by (auto simp: read_matches_def)
  have "c \<in> set changes \<longleftrightarrow> (\<exists>r \<in> set ?rs. \<exists>n. ?m (rr_ThreadID r, rr_MemberID r) = Some n
      \<and> c = read_change now r (Some n))"
  proof (cases "?rs = []")
    case False
    with mark have "changes = map (\<lambda>r. read_change now r (?m (rr_ThreadID r, rr_MemberID r)))
        (filter (\<lambda>r. ?m (rr_ThreadID r, rr_MemberID r) \<noteq> None) ?rs)"
      by (simp add: store_MarkRead_unfold advanceReadHorizon_def Let_def read_dialog_def split: prod.splits)
    with in_changes [of c "read_change now" ?m "\<lambda>r. (rr_ThreadID r, rr_MemberID r)" ?rs] show ?thesis by simp
  qed (use mark in \<open>simp add: store_MarkRead_unfold\<close>)
  also have "\<dots> \<longleftrightarrow> ?rhs"
    unfolding moved using uniq match_key by blast
  finally show ?thesis .
qed

text \<open>
  Reading is announced exactly: for an active member a change is reported if and only if its
  row moved, and the change carries the new horizon and the new unread counter of that row.
\<close>

theorem mark_read_announced:
  assumes "dialogs_ok db" "store_MarkRead now receipts db = (changes, db')"
    and "i < length (db_dialogs db)" "active (db_dialogs db ! i)"
  shows "db_dialogs db' ! i \<noteq> db_dialogs db ! i \<longleftrightarrow>
    (\<exists>c \<in> set changes. ch_ThreadID c = dl_thread_id (db_dialogs db ! i) \<and> ch_MemberID c = dl_member_id (db_dialogs db ! i)
       \<and> ch_Status c = StatusRead \<and> Some (ch_UpToSeq c) = dl_last_read_seq (db_dialogs db' ! i)
       \<and> ch_UnreadCount c = Some (dl_unread_count (db_dialogs db' ! i)))"
proof -
  let ?rs = "read_receipts receipts db"
  define d where "d = db_dialogs db ! i"
  have d: "d \<in> set (db_dialogs db)" "active d" using assms(3,4) by (simp_all add: d_def)
  have d': "db_dialogs db' ! i = read_dialog ?rs db d"
    using store_MarkRead_db [OF assms(2)] assms(3) by (simp add: d_def)
  note ch = store_MarkRead_changes [OF assms(1,2)]
  show ?thesis unfolding d' d_def [symmetric]
  proof (cases rule: read_dialog_cases [of ?rs db d])
    case same
    have "\<not> (ch_ThreadID c = dl_thread_id d \<and> ch_MemberID c = dl_member_id d)" if c: "c \<in> set changes" for c
    proof
      assume k: "ch_ThreadID c = dl_thread_id d \<and> ch_MemberID c = dl_member_id d"
      from c obtain e r where e: "e \<in> set (db_dialogs db)" "r \<in> set ?rs" "read_matches e r"
          "ch_ThreadID c = rr_ThreadID r" "ch_MemberID c = rr_MemberID r" by (auto simp: ch read_change_def)
      with k d have "e = d" by (intro active_unique [OF assms(1)]) (auto simp: read_matches_def)
      with same e show False by blast
    qed
    with same show "(read_dialog ?rs db d \<noteq> d) = (\<exists>c \<in> set changes. ch_ThreadID c = dl_thread_id d \<and> ch_MemberID c = dl_member_id d
       \<and> ch_Status c = StatusRead \<and> Some (ch_UpToSeq c) = dl_last_read_seq (read_dialog ?rs db d)
       \<and> ch_UnreadCount c = Some (dl_unread_count (read_dialog ?rs db d)))" by auto
  next
    case (moved r)
    from moved(2) have k: "dl_thread_id d = rr_ThreadID r" "dl_member_id d = rr_MemberID r"
        "seq_or0 (dl_last_read_seq d) < rr_UpToSeq r" by (auto simp: read_matches_def)
    have h: "dl_last_read_seq (read_dialog ?rs db d) = Some (rr_UpToSeq r)"
      unfolding moved(3) advance_read_eq [OF moved(2)] by simp
    with k(3) have "read_dialog ?rs db d \<noteq> d" by (auto simp: seq_or0_def split: option.splits)
    moreover have "\<exists>c \<in> set changes. ch_ThreadID c = dl_thread_id d \<and> ch_MemberID c = dl_member_id d
       \<and> ch_Status c = StatusRead \<and> Some (ch_UpToSeq c) = dl_last_read_seq (read_dialog ?rs db d)
       \<and> ch_UnreadCount c = Some (dl_unread_count (read_dialog ?rs db d))"
      using d(1) moved(1,2) k h by (intro bexI [OF _ iffD2 [OF ch]]) (auto simp: read_change_def)
    ultimately show "(read_dialog ?rs db d \<noteq> d) = (\<exists>c \<in> set changes. ch_ThreadID c = dl_thread_id d \<and> ch_MemberID c = dl_member_id d
       \<and> ch_Status c = StatusRead \<and> Some (ch_UpToSeq c) = dl_last_read_seq (read_dialog ?rs db d)
       \<and> ch_UnreadCount c = Some (dl_unread_count (read_dialog ?rs db d)))" by blast
  qed
qed

section \<open>An example thread\<close>

text \<open>Three messages of contact 52 that contact 54 has not read.\<close>

definition status_message :: "uuid \<Rightarrow> int \<Rightarrow> message_row" where
  "status_message i s = zero_message_row\<lparr>ms_id := i, ms_thread_id := 6, ms_domain_id := 7, ms_sender_id := 52,
     ms_member_id := 2, ms_type := MessageTypeText, ms_seq := s\<rparr>"

definition status_db :: db where
  "status_db = example_db\<lparr>db_threads := [example_thread\<lparr>th_last_seq := 3\<rparr>],
     db_dialogs := [example_dialog 2 52 False RoleOwner, (example_dialog 4 54 False RoleMember)\<lparr>dl_unread_count := 3\<rparr>],
     db_messages := [status_message 11 1, status_message 12 2, status_message 13 3], db_next_id := 20\<rparr>"

definition read_receipt :: "int \<Rightarrow> ReadReceipt" where
  "read_receipt s = \<lparr>rr_DomainID = 7, rr_ThreadID = 6, rr_MemberID = 54, rr_UpToMessageID = uuid_nil,
     rr_UpToSeq = s, rr_At = 5, rr_Via = ''ws''\<rparr>"

definition delivery_receipt :: "uuid \<Rightarrow> uuid \<Rightarrow> int \<Rightarrow> StatusReceipt" where
  "delivery_receipt t m s = \<lparr>sr_DomainID = 7, sr_ThreadID = t, sr_MessageID = m, sr_UpToMessageID = uuid_nil,
     sr_UpToSeq = s, sr_MemberID = 54, sr_At = 5, sr_Via = ''push'', sr_Error = Map.empty\<rparr>"

lemmas status_example_defs = status_db_def status_message_def read_receipt_def delivery_receipt_def example_dialog_def
  zero_message_row_def example_defs

lemma status_db_ok: "dialogs_ok status_db"
  by (simp add: dialogs_ok_def status_example_defs active_def)

lemma read_beyond_end:
  "store_MarkRead 9 [Some (read_receipt 99)] status_db =
     ([(read_change 9 (read_receipt 3) (Some 0))],
      status_db\<lparr>db_dialogs := [example_dialog 2 52 False RoleOwner, (example_dialog 4 54 False RoleMember)
          \<lparr>dl_unread_count := 0, dl_last_read_seq := Some 3, dl_last_delivered_seq := Some 3\<rparr>]\<rparr>)"
  by (simp add: store_MarkRead_def dedupReadReceipts_def put_read_def map_filter_simps clampReadSeqToThread_def
      resolveReadSeqFromMessageID_def advanceReadHorizon_def read_matches_def advance_read_def clearRecoveredErrors_def
      unread_after_def seq_or0_def active_def thread_of_def message_of_def status_example_defs)

theorem mark_read_exact_witness:
  "\<exists>changes db'. store_MarkRead 9 [Some (read_receipt 99)] status_db = (changes, db')
     \<and> list_all2 (read_update status_db [Some (read_receipt 99)]) (db_dialogs status_db) (db_dialogs db')
     \<and> store_MarkRead 10 [Some (read_receipt 99)] db' = ([], db')"
  using mark_read_exact [OF read_beyond_end, of 10] read_beyond_end by (intro exI conjI) auto

theorem mark_read_announced_witness:
  "\<exists>changes db'. store_MarkRead 9 [Some (read_receipt 99)] status_db = (changes, db')
     \<and> (\<exists>c \<in> set changes. ch_ThreadID c = 6 \<and> ch_MemberID c = 54 \<and> Some (ch_UpToSeq c) = dl_last_read_seq (db_dialogs db' ! 1))"
proof -
  have "1 < length (db_dialogs status_db)" "active (db_dialogs status_db ! 1)"
    by (simp_all add: status_example_defs active_def)
  from mark_read_announced [OF status_db_ok read_beyond_end this]
  show ?thesis unfolding read_beyond_end by (simp add: status_example_defs)
qed

section \<open>Delivery\<close>

text \<open>What a delivery receipt may do to a membership.\<close>

definition delivered_update :: "StatusReceipt list \<Rightarrow> dialog_row \<Rightarrow> dialog_row \<Rightarrow> bool" where
  "delivered_update rs d d' \<longleftrightarrow>
     (if \<exists>r \<in> set rs. delivered_matches d r
      then (\<exists>r \<in> set rs. delivered_matches d r \<and> d' = d\<lparr>dl_last_delivered_seq := Some (sr_UpToSeq r)\<rparr>)
      else d' = d)"

definition delivery_receipts :: "StatusReceipt option list \<Rightarrow> db \<Rightarrow> StatusReceipt list" where
  "delivery_receipts receipts db =
     map (\<lambda>r. resolveSeqFromMessageID db (to_watermark (resolveThreadIDsForDelivery db r))) (dedupStatusReceipts receipts)"

lemma advance_delivered_eq:
  "delivered_matches d r \<Longrightarrow> advance_delivered r d = d\<lparr>dl_last_delivered_seq := Some (sr_UpToSeq r)\<rparr>"
  by (auto simp: advance_delivered_def delivered_matches_def seq_or0_def split: option.splits)

lemma delivered_rows:
  assumes "\<And>xs. xs \<noteq> [] \<Longrightarrow> pick xs \<in> set xs"
    and "store_MarkDelivered pick now receipts db = (changes, db')"
  shows "list_all2 (delivered_update (delivery_receipts receipts db)) (db_dialogs db) (db_dialogs db')
    \<and> list_all2 (\<lambda>d d'. seq_or0 (dl_last_delivered_seq d) \<le> seq_or0 (dl_last_delivered_seq d') \<and> (d' \<noteq> d \<longrightarrow> active d))
        (db_dialogs db) (db_dialogs db')
    \<and> db_messages db' = db_messages db \<and> db_threads db' = db_threads db"
proof -
  let ?rs = "delivery_receipts receipts db"
  let ?f = "\<lambda>d. case filter (delivered_matches d) ?rs of [] \<Rightarrow> d | x # xs \<Rightarrow> advance_delivered (pick (x # xs)) d"
  have db': "db_dialogs db' = map ?f (db_dialogs db) \<and> db_messages db' = db_messages db \<and> db_threads db' = db_threads db"
    using assms(2) by (auto simp: store_MarkDelivered_def delivery_receipts_def advanceDeliveredHorizon_def Let_def
        split: if_splits)
  have step: "delivered_update ?rs d (?f d)" for d
  proof (cases "filter (delivered_matches d) ?rs")
    case Nil
    then show ?thesis by (auto simp: delivered_update_def filter_empty_conv)
  next
    case (Cons x xs)
    have "pick (x # xs) \<in> set (filter (delivered_matches d) ?rs)" unfolding Cons by (rule assms(1)) simp
    then have "pick (x # xs) \<in> set ?rs \<and> delivered_matches d (pick (x # xs))" by simp
    with Cons show ?thesis by (auto simp: delivered_update_def advance_delivered_eq)
  qed
  have mono: "seq_or0 (dl_last_delivered_seq d) \<le> seq_or0 (dl_last_delivered_seq d') \<and> (d' \<noteq> d \<longrightarrow> active d)"
    if "delivered_update ?rs d d'" for d d'
    using that by (auto simp: delivered_update_def delivered_matches_def seq_or0_def split: if_splits option.splits)
  have all: "list_all2 (delivered_update ?rs) (db_dialogs db) (db_dialogs db')"
    using db' step by (simp add: list_all2_map2 list.rel_refl)
  with list_all2_mono [OF all mono] db' show ?thesis by simp
qed


text \<open>The rules of choice a database may follow.\<close>

lemma pick_hd: "xs \<noteq> [] \<Longrightarrow> hd xs \<in> set xs"
  by simp


section \<open>Where receipts are lost\<close>

text \<open>
  Receipts that name a sequence number only: of two delivery receipts of one member in one
  batch the second is dropped, even when it is for another thread, and of two read receipts of
  one membership the second is dropped even when its number is higher. The comment above
  \<^verbatim>\<open>dedupStatusReceipts\<close> warns of exactly this merging of threads; it predates the receipts by number.
\<close>

theorem seq_receipts_dropped:
  assumes "sr_MessageID d1 = uuid_nil" "sr_MessageID d2 = uuid_nil" "sr_UpToMessageID d1 = uuid_nil"
    "sr_UpToMessageID d2 = uuid_nil" "sr_MemberID d1 = sr_MemberID d2"
    and "receipt_key r1 = receipt_key r2" "rr_UpToMessageID r1 = uuid_nil" "rr_UpToMessageID r2 = uuid_nil"
  shows "dedupStatusReceipts [Some d1, Some d2] = [d1] \<and> dedupReadReceipts [Some r1, Some r2] = [r1]"
  using assms
  by (simp add: dedupStatusReceipts_def put_status_def dedupReadReceipts_def put_read_def map_filter_simps
      receipt_key_def greaterUUID_def)

theorem seq_receipts_dropped_witness:
  "dedupStatusReceipts [Some (delivery_receipt 6 uuid_nil 2), Some (delivery_receipt 16 uuid_nil 8)]
     = [delivery_receipt 6 uuid_nil 2]
   \<and> dedupReadReceipts [Some (read_receipt 1), Some (read_receipt 3)] = [read_receipt 1]"
  by (rule seq_receipts_dropped) (simp_all add: status_example_defs receipt_key_def)

text \<open>
  Several delivery receipts by message for one membership: the batch announces message 3 as
  delivered while the stored horizon is that of the message the database happened to use.
\<close>

theorem delivered_announced_not_stored:
  "\<exists>changes db'. store_MarkDelivered hd 9 [Some (delivery_receipt 6 11 0), Some (delivery_receipt 6 13 0)] status_db
       = (changes, db')
     \<and> map ch_UpToSeq changes = [1, 3] \<and> map dl_last_delivered_seq (db_dialogs db') = [None, Some 1]"
  by (simp add: store_MarkDelivered_def dedupStatusReceipts_def put_status_def map_filter_simps
      resolveThreadIDsForDelivery_def to_watermark_def resolveSeqFromMessageID_def advanceDeliveredHorizon_def
      delivered_matches_def advance_delivered_def clearRecoveredErrors_def seq_or0_def active_def message_of_def
      status_example_defs)

section \<open>Recounting\<close>

text \<open>
  Recounting charges the history to a late member: a member that joins a thread with three
  messages has nothing unread, and after a recount (which every deletion in the thread triggers)
  has three, because a missing read horizon counts as 0.
\<close>

theorem recount_charges_late_member:
  "\<exists>x db'. dialog_Create example_member status_db = Inr (x, db') \<and> ReadUnread 7 50 [6] db' 6 = Some 0
     \<and> ReadUnread 7 50 [6] (RecountUnread [6] db') 6 = Some 3"
  by (simp add: dialog_Create_def new_dialog_row_def ReadUnread_def RecountUnread_def unread_after_def domain_matches_def
      seq_or0_def active_def thread_of_def Let_def status_example_defs)

text \<open>
  Reconciling undoes reading: after a member has read everything its counter is 0 and the
  exact recount keeps it, but the reconciliation, which still compares message ids with a column that
  reading no longer writes, sets it back to all three messages.
\<close>

theorem reconcile_undoes_reading:
  "let db' = snd (store_MarkRead 9 [Some (read_receipt 99)] status_db) in
     ReadUnread 7 54 [6] db' 6 = Some 0 \<and> ReadUnread 7 54 [6] (RecountUnread [6] db') 6 = Some 0
     \<and> ReadUnread 7 54 [6] (snd (ReconcileUnread 7 db')) 6 = Some 3"
  unfolding read_beyond_end
  by (simp add: ReadUnread_def RecountUnread_def ReconcileUnread_def unread_after_def unread_after_id_def
      domain_matches_def seq_or0_def active_def status_example_defs)

end
