(* ===== verification/Status_Service.thy ===== *)
theory Status_Service
  imports Status_Store Tags "HOL-Library.Multiset"
begin

text \<open>
  \<^verbatim>\<open>internal/service/message_status.go\<close>: the receipts of the delivery and provider services and the
  status events they cause; with \<^verbatim>\<open>Read\<close> and \<^verbatim>\<open>insertSentStatuses\<close> of \<^verbatim>\<open>internal/service/message.go\<close>
  and \<^verbatim>\<open>internal/service/guards/read_message.go\<close>. \<^verbatim>\<open>uuid.Parse\<close> is a package function and the
  parameter \<open>parse\<close>; the clock of the service is the argument \<open>now\<close>.
\<close>

section \<open>Status events\<close>

definition change_event :: "StatusChange \<Rightarrow> MessageStatusChanged" where
  "change_event c =
     \<lparr>sc_ThreadID = ch_ThreadID c, sc_DomainID = ch_DomainID c, sc_MemberID = ch_MemberID c, sc_Member = None,
      sc_MessageIDs = [ch_MessageID c], sc_UpToSeq = ch_UpToSeq c, sc_UnreadCount = ch_UnreadCount c,
      sc_Status = DeliveryStatus_String (ch_Status c), sc_Via = (case ch_Via c of None \<Rightarrow> [] | Some v \<Rightarrow> v),
      sc_Error = ch_Error c, sc_OccurredAt = ch_UpdatedAt c, sc_Participants = []\<rparr>"

definition merge_change :: "StatusChange \<Rightarrow> MessageStatusChanged \<Rightarrow> MessageStatusChanged" where
  "merge_change c e =
     (let e1 = e\<lparr>sc_MessageIDs := sc_MessageIDs e @ [ch_MessageID c]\<rparr>;
          e2 = (if ch_UpToSeq c > sc_UpToSeq e1
                then e1\<lparr>sc_UpToSeq := ch_UpToSeq c, sc_UnreadCount := ch_UnreadCount c\<rparr> else e1)
      in if ch_UpdatedAt c > sc_OccurredAt e2 then e2\<lparr>sc_OccurredAt := ch_UpdatedAt c\<rparr> else e2)"

text \<open>
  The map \<^verbatim>\<open>grouped\<close> holds pointers to the elements of \<^verbatim>\<open>events\<close>; here every element carries its
  key, and a failure, which is never put into the map, carries none.
\<close>

type_synonym group_key = "uuid \<times> uuid \<times> MessageDeliveryStatus \<times> string"

definition change_key :: "StatusChange \<Rightarrow> group_key" where
  "change_key c = (ch_ThreadID c, ch_MemberID c, ch_Status c, (case ch_Via c of None \<Rightarrow> [] | Some v \<Rightarrow> v))"

definition group_change :: "StatusChange \<Rightarrow> (group_key option \<times> MessageStatusChanged) list
    \<Rightarrow> (group_key option \<times> MessageStatusChanged) list" where
  "group_change c evs =
     (if ch_Status c = StatusFailed then evs @ [(None, change_event c)]
      else if \<exists>x \<in> set evs. fst x = Some (change_key c)
      then update_where (\<lambda>x. fst x = Some (change_key c)) (\<lambda>(k, e). (k, merge_change c e)) evs
      else evs @ [(Some (change_key c), change_event c)])"

definition groupStatusChanges :: "StatusChange list \<Rightarrow> MessageStatusChanged list" where
  "groupStatusChanges changes = map snd (fold group_change changes [])"

definition status_filter :: "MessageStatusChanged list \<Rightarrow> ThreadDialogStoreFilter" where
  "status_filter evs = (thread_filter uuid_nil)\<lparr>f_ThreadIDs := Some (remdups (map sc_ThreadID evs))\<rparr>"

definition status_member :: "ThreadDialog \<Rightarrow> ThreadMember" where
  "status_member d = \<lparr>tm_ID = Some (bm_ID d), tm_ContactID = td_ContactID d, tm_Role = td_ThreadRole d, tm_IsBot = td_IsBot d\<rparr>"

text \<open>The participants of every thread the events name, and the membership of every contact in them.\<close>

definition threadParticipants_of :: "MessageStatusChanged list \<Rightarrow> db
    \<Rightarrow> (uuid \<Rightarrow> uuid list) \<times> (uuid \<times> uuid \<rightharpoonup> ThreadMember)" where
  "threadParticipants_of evs db =
     (let ds = GetQuickView (status_filter evs) db
      in (\<lambda>t. map td_ContactID (filter (\<lambda>d. td_ThreadID d = t) ds),
          map_of (rev (map (\<lambda>d. ((td_ThreadID d, td_ContactID d), status_member d)) ds))))"

definition stamp_status :: "db \<Rightarrow> MessageStatusChanged list \<Rightarrow> MessageStatusChanged \<Rightarrow> MessageStatusChanged" where
  "stamp_status db evs e =
     (case threadParticipants_of evs db of (participants, members) \<Rightarrow>
        e\<lparr>sc_Participants := participants (sc_ThreadID e), sc_Member := members (sc_ThreadID e, sc_MemberID e)\<rparr>)"

definition dispatchStatusChangeEvents :: "StatusChange list \<Rightarrow> db \<Rightarrow> db res" where
  "dispatchStatusChangeEvents changes db =
     (let evs = groupStatusChanges changes in
      if evs = [] then Inr db
      else foldr_res (\<lambda>e. publish_event (EvMessageStatusChanged e)) (map (stamp_status db evs) evs) db)"

section \<open>The status service\<close>

definition MarkDelivered :: "picker \<Rightarrow> time \<Rightarrow> StatusReceipt option list \<Rightarrow> db \<Rightarrow> int res \<times> db" where
  "MarkDelivered pick now receipts =
     WithinTransaction (\<lambda>db. case store_MarkDelivered pick now receipts db of (changes, db1) \<Rightarrow>
       bindr (dispatchStatusChangeEvents changes db1) (\<lambda>db2. Inr (int (length changes), db2)))"

definition MarkRead :: "time \<Rightarrow> ReadReceipt option list \<Rightarrow> db \<Rightarrow> int res \<times> db" where
  "MarkRead now receipts =
     WithinTransaction (\<lambda>db. case store_MarkRead now receipts db of (changes, db1) \<Rightarrow>
       bindr (dispatchStatusChangeEvents changes db1) (\<lambda>db2. Inr (int (length changes), db2)))"

definition MarkFailed :: "time \<Rightarrow> StatusReceipt option list \<Rightarrow> db \<Rightarrow> int res \<times> db" where
  "MarkFailed now receipts =
     WithinTransaction (\<lambda>db. bindr (store_MarkFailed now receipts db) (\<lambda>(changes, db1).
       bindr (dispatchStatusChangeEvents changes db1) (\<lambda>db2. Inr (int (length changes), db2))))"

section \<open>Reading by a user\<close>

record ReadMessageRequest =
  rq_MessageID :: string
  rq_ThreadID :: string
  rq_UserID :: string
  rq_DomainID :: int
  rq_UpToSeq :: int

definition ValidateReadMessage :: "(string \<Rightarrow> uuid option) \<Rightarrow> ReadMessageRequest option \<Rightarrow> unit res" where
  "ValidateReadMessage parse request =
     (case request of None \<Rightarrow> Inl (Err Unknown ''request is nil'')
      | Some r \<Rightarrow>
         bindr (fail_if (rq_UpToSeq r < 0) (Err Unknown ''up_to_seq must be positive'')) (\<lambda>_.
         bindr (fail_if (rq_UpToSeq r = 0 \<and> rq_MessageID r = []) (Err Unknown ''message id or up_to_seq is required'')) (\<lambda>_.
         bindr (fail_if (rq_UpToSeq r = 0 \<and> parse (rq_MessageID r) = None) (Err Unknown ''invalid message id format'')) (\<lambda>_.
         bindr (fail_if (rq_ThreadID r = []) (Err Unknown ''thread id is required'')) (\<lambda>_.
         bindr (fail_if (parse (rq_ThreadID r) = None) (Err Unknown ''invalid thread id format'')) (\<lambda>_.
         fail_if (rq_UserID r = []) (Err Unknown ''user id is required'')))))))"

text \<open>The id a failed \<^verbatim>\<open>uuid.Parse\<close> leaves is \<^verbatim>\<open>uuid.Nil\<close>.\<close>

definition parsed :: "(string \<Rightarrow> uuid option) \<Rightarrow> string \<Rightarrow> uuid" where
  "parsed parse s = (case parse s of None \<Rightarrow> uuid_nil | Some u \<Rightarrow> u)"

definition request_receipt :: "(string \<Rightarrow> uuid option) \<Rightarrow> ReadMessageRequest \<Rightarrow> ReadReceipt" where
  "request_receipt parse r =
     \<lparr>rr_DomainID = rq_DomainID r, rr_ThreadID = parsed parse (rq_ThreadID r), rr_MemberID = parsed parse (rq_UserID r),
      rr_UpToMessageID = (if rq_UpToSeq r = 0 then parsed parse (rq_MessageID r) else uuid_nil),
      rr_UpToSeq = rq_UpToSeq r, rr_At = time_zero, rr_Via = []\<rparr>"

definition Read :: "(string \<Rightarrow> uuid option) \<Rightarrow> time \<Rightarrow> ReadMessageRequest option \<Rightarrow> db \<Rightarrow> unit res \<times> db" where
  "Read parse now request db =
     (case ValidateReadMessage parse request of Inl e \<Rightarrow> (Inl e, db)
      | Inr _ \<Rightarrow>
         WithinTransaction (\<lambda>db.
           case store_MarkRead now [Some (request_receipt parse (the request))] db of (changes, db1) \<Rightarrow>
             if changes = [] then Inl (Err FailedPrecondition ''already read up to this message'')
             else bindr (dispatchStatusChangeEvents changes db1) (\<lambda>db2. Inr ((), db2))) db)"

section \<open>The sent state\<close>

definition bot_receipts :: "Message \<Rightarrow> StatusReceipt option list" where
  "bot_receipts msg =
     map (\<lambda>d. Some \<lparr>sr_DomainID = m_DomainID msg, sr_ThreadID = m_ThreadID msg, sr_MessageID = m_ID msg,
                    sr_UpToMessageID = uuid_nil, sr_UpToSeq = 0, sr_MemberID = td_ContactID d, sr_At = time_zero,
                    sr_Via = ''bot'', sr_Error = Map.empty\<rparr>)
       (filter td_IsBot (Recipients msg))"

definition insertSentStatuses :: "picker \<Rightarrow> time \<Rightarrow> Message \<Rightarrow> db \<Rightarrow> db res" where
  "insertSentStatuses pick now msg db =
     bindr (OnMessage now msg (InsertSent (Some msg) (RecipientIDs msg) db)) (\<lambda>db2.
       if bot_receipts msg = [] then Inr db2
       else (case store_MarkDelivered pick now (bot_receipts msg) db2 of (changes, db3) \<Rightarrow>
               dispatchStatusChangeEvents changes db3))"

section \<open>Grouping loses nothing\<close>

text \<open>The keys in use are distinct, so a key names one element.\<close>

definition keys_distinct :: "(group_key option \<times> MessageStatusChanged) list \<Rightarrow> bool" where
  "keys_distinct evs = distinct (List.map_filter fst evs)"

lemma map_filter_append: "List.map_filter f (xs @ ys) = List.map_filter f xs @ List.map_filter f ys"
  by (induction xs) (simp_all add: map_filter_simps split: option.splits)

lemma in_map_filter: "y \<in> set (List.map_filter f xs) \<longleftrightarrow> (\<exists>x \<in> set xs. f x = Some y)"
  by (induction xs) (auto simp: map_filter_simps split: option.splits)

text \<open>Merging replaces exactly one element.\<close>

lemma group_merge_split:
  assumes "keys_distinct evs" "\<exists>x \<in> set evs. fst x = Some k"
  obtains ys e zs where "evs = ys @ (Some k, e) # zs"
    "update_where (\<lambda>x. fst x = Some k) (\<lambda>(k, e). (k, merge_change c e)) evs = ys @ (Some k, merge_change c e) # zs"
proof -
  from assms(2) obtain e where "(Some k, e) \<in> set evs" by force
  then obtain ys zs where evs: "evs = ys @ (Some k, e) # zs" by (auto dest: split_list)
  have "k \<notin> set (List.map_filter fst ys)" "k \<notin> set (List.map_filter fst zs)"
    using assms(1) unfolding evs keys_distinct_def by (auto simp: map_filter_append map_filter_simps)
  then have "\<And>x. x \<in> set ys \<union> set zs \<Longrightarrow> fst x \<noteq> Some k" by (auto simp: in_map_filter)
  then have "update_where (\<lambda>x. fst x = Some k) (\<lambda>(k, e). (k, merge_change c e)) ys = ys"
      "update_where (\<lambda>x. fst x = Some k) (\<lambda>(k, e). (k, merge_change c e)) zs = zs"
    by (auto intro!: update_where_none)
  then show thesis using evs by (intro that [of ys e zs]) simp_all
qed

text \<open>What an element says of the changes it stands for.\<close>

definition stands_for :: "MessageStatusChanged \<Rightarrow> StatusChange \<Rightarrow> bool" where
  "stands_for e c \<longleftrightarrow> sc_ThreadID e = ch_ThreadID c \<and> sc_MemberID e = ch_MemberID c
     \<and> sc_Status e = DeliveryStatus_String (ch_Status c) \<and> sc_Via e = (case ch_Via c of None \<Rightarrow> [] | Some v \<Rightarrow> v)
     \<and> ch_MessageID c \<in> set (sc_MessageIDs e)"

definition grouped_ok :: "StatusChange list \<Rightarrow> (group_key option \<times> MessageStatusChanged) list \<Rightarrow> bool" where
  "grouped_ok cs evs \<longleftrightarrow> keys_distinct evs
     \<and> (\<forall>(k, e) \<in> set evs. \<forall>t m s v. k = Some (t, m, s, v) \<longrightarrow>
          sc_ThreadID e = t \<and> sc_MemberID e = m \<and> sc_Status e = DeliveryStatus_String s \<and> sc_Via e = v)
     \<and> mset (concat (map (sc_MessageIDs \<circ> snd) evs)) = mset (map ch_MessageID cs)
     \<and> (\<forall>c \<in> set cs. \<exists>x \<in> set evs. stands_for (snd x) c \<and> ch_UpToSeq c \<le> sc_UpToSeq (snd x)
          \<and> ch_UpdatedAt c \<le> sc_OccurredAt (snd x))
     \<and> (\<forall>x \<in> set evs. \<exists>c \<in> set cs. stands_for (snd x) c \<and> sc_UpToSeq (snd x) = ch_UpToSeq c
          \<and> sc_UnreadCount (snd x) = ch_UnreadCount c)"

lemma stands_for_change_event [simp]: "stands_for (change_event c) c"
  by (simp add: stands_for_def change_event_def)

lemma merge_change_keeps:
  "sc_ThreadID (merge_change c e) = sc_ThreadID e" "sc_MemberID (merge_change c e) = sc_MemberID e"
  "sc_Status (merge_change c e) = sc_Status e" "sc_Via (merge_change c e) = sc_Via e"
  "sc_MessageIDs (merge_change c e) = sc_MessageIDs e @ [ch_MessageID c]"
  "sc_UpToSeq (merge_change c e) = max (sc_UpToSeq e) (ch_UpToSeq c)"
  "sc_UnreadCount (merge_change c e) = (if sc_UpToSeq e < ch_UpToSeq c then ch_UnreadCount c else sc_UnreadCount e)"
  "sc_OccurredAt (merge_change c e) = max (sc_OccurredAt e) (ch_UpdatedAt c)"
  by (simp_all add: merge_change_def Let_def max_def)

lemma grouped_ok_append:
  assumes ok: "grouped_ok cs evs" and k: "k \<noteq> None \<longrightarrow> k = Some (change_key c) \<and> k \<notin> fst ` set evs"
  shows "grouped_ok (cs @ [c]) (evs @ [(k, change_event c)])"
proof -
  have "keys_distinct (evs @ [(k, change_event c)])"
    using ok k by (cases k) (auto simp: grouped_ok_def keys_distinct_def map_filter_append map_filter_simps in_map_filter
        image_iff)
  moreover have "\<forall>(k, e) \<in> set (evs @ [(k, change_event c)]). \<forall>t m s v. k = Some (t, m, s, v) \<longrightarrow>
          sc_ThreadID e = t \<and> sc_MemberID e = m \<and> sc_Status e = DeliveryStatus_String s \<and> sc_Via e = v"
    using ok k by (auto simp: grouped_ok_def change_event_def change_key_def)
  moreover have "mset (concat (map (sc_MessageIDs \<circ> snd) (evs @ [(k, change_event c)]))) = mset (map ch_MessageID (cs @ [c]))"
    using ok by (simp add: grouped_ok_def change_event_def)
  moreover have "\<exists>x \<in> set (evs @ [(k, change_event c)]). stands_for (snd x) c' \<and> ch_UpToSeq c' \<le> sc_UpToSeq (snd x)
          \<and> ch_UpdatedAt c' \<le> sc_OccurredAt (snd x)" if "c' \<in> set (cs @ [c])" for c'
  proof (cases "c' = c")
    case True
    then show ?thesis by (intro bexI [of _ "(k, change_event c)"]) (simp_all add: change_event_def stands_for_def)
  next
    case False
    with that ok show ?thesis by (auto simp: grouped_ok_def)
  qed
  moreover have "\<exists>c' \<in> set (cs @ [c]). stands_for (snd x) c' \<and> sc_UpToSeq (snd x) = ch_UpToSeq c'
          \<and> sc_UnreadCount (snd x) = ch_UnreadCount c'" if "x \<in> set (evs @ [(k, change_event c)])" for x
  proof (cases "x = (k, change_event c)")
    case True
    then show ?thesis by (intro bexI [of _ c]) (simp_all add: change_event_def stands_for_def)
  next
    case False
    with that ok show ?thesis by (auto simp: grouped_ok_def)
  qed
  ultimately show ?thesis by (simp only: grouped_ok_def) blast
qed

lemma stands_for_merge:
  "stands_for e c' \<Longrightarrow> stands_for (merge_change c e) c'"
  by (auto simp: stands_for_def merge_change_keeps)

lemma grouped_ok_merge:
  assumes ok: "grouped_ok cs evs" and k: "\<exists>x \<in> set evs. fst x = Some (change_key c)"
  shows "grouped_ok (cs @ [c]) (update_where (\<lambda>x. fst x = Some (change_key c)) (\<lambda>(k, e). (k, merge_change c e)) evs)"
proof -
  have "keys_distinct evs" using ok by (simp add: grouped_ok_def)
  then obtain ys e zs where evs: "evs = ys @ (Some (change_key c), e) # zs"
    and upd: "update_where (\<lambda>x. fst x = Some (change_key c)) (\<lambda>(k, e). (k, merge_change c e)) evs
      = ys @ (Some (change_key c), merge_change c e) # zs" by (rule group_merge_split [OF _ k])
  let ?x = "(Some (change_key c), merge_change c e)"
  have e: "sc_ThreadID e = ch_ThreadID c" "sc_MemberID e = ch_MemberID c" "sc_Status e = DeliveryStatus_String (ch_Status c)"
      "sc_Via e = (case ch_Via c of None \<Rightarrow> [] | Some v \<Rightarrow> v)"
    using ok unfolding grouped_ok_def evs by (auto simp: change_key_def)
  then have new: "stands_for (merge_change c e) c" by (simp add: stands_for_def merge_change_keeps)
  have "keys_distinct (ys @ ?x # zs)"
    using ok by (simp add: grouped_ok_def evs keys_distinct_def map_filter_append map_filter_simps)
  moreover have "\<forall>(k, e) \<in> set (ys @ ?x # zs). \<forall>t m s v. k = Some (t, m, s, v) \<longrightarrow>
          sc_ThreadID e = t \<and> sc_MemberID e = m \<and> sc_Status e = DeliveryStatus_String s \<and> sc_Via e = v"
    using ok unfolding grouped_ok_def evs by (auto simp: merge_change_keeps)
  moreover have "mset (concat (map (sc_MessageIDs \<circ> snd) (ys @ ?x # zs))) = mset (map ch_MessageID (cs @ [c]))"
    using ok by (simp add: grouped_ok_def evs merge_change_keeps)
  moreover have "\<exists>x \<in> set (ys @ ?x # zs). stands_for (snd x) c' \<and> ch_UpToSeq c' \<le> sc_UpToSeq (snd x)
          \<and> ch_UpdatedAt c' \<le> sc_OccurredAt (snd x)" if "c' \<in> set (cs @ [c])" for c'
  proof (cases "c' = c")
    case True
    then show ?thesis using new by (intro bexI [of _ ?x]) (simp_all add: merge_change_keeps)
  next
    case False
    with that ok obtain x where x: "x \<in> set evs" "stands_for (snd x) c'" "ch_UpToSeq c' \<le> sc_UpToSeq (snd x)"
        "ch_UpdatedAt c' \<le> sc_OccurredAt (snd x)" by (auto simp: grouped_ok_def)
    show ?thesis
    proof (cases "x = (Some (change_key c), e)")
      case True
      with x show ?thesis
        by (intro bexI [of _ ?x]) (auto simp: merge_change_keeps le_max_iff_disj intro: stands_for_merge)
    next
      case False
      with x show ?thesis unfolding evs by (intro bexI [of _ x]) auto
    qed
  qed
  moreover have "\<exists>c' \<in> set (cs @ [c]). stands_for (snd x) c' \<and> sc_UpToSeq (snd x) = ch_UpToSeq c'
          \<and> sc_UnreadCount (snd x) = ch_UnreadCount c'" if x: "x \<in> set (ys @ ?x # zs)" for x
  proof (cases "x = ?x")
    case True
    show ?thesis
    proof (cases "sc_UpToSeq e < ch_UpToSeq c")
      case True
      with \<open>x = ?x\<close> new show ?thesis by (intro bexI [of _ c]) (simp_all add: merge_change_keeps)
    next
      case False
      from ok obtain c' where "c' \<in> set cs" "stands_for e c'" "sc_UpToSeq e = ch_UpToSeq c'" "sc_UnreadCount e = ch_UnreadCount c'"
        unfolding grouped_ok_def evs by auto
      with False \<open>x = ?x\<close> show ?thesis
        by (intro bexI [of _ c']) (simp_all add: merge_change_keeps stands_for_merge max_def)
    qed
  next
    case False
    with x ok show ?thesis unfolding grouped_ok_def evs by auto
  qed
  ultimately show ?thesis unfolding upd by (simp only: grouped_ok_def) blast
qed

lemma grouped_ok_fold: "grouped_ok cs (fold group_change cs [])"
proof (induction cs rule: rev_induct)
  case Nil
  then show ?case by (simp add: grouped_ok_def keys_distinct_def map_filter_simps)
next
  case (snoc c cs)
  have "grouped_ok (cs @ [c]) (group_change c evs)" if ok: "grouped_ok cs evs" for evs
  proof -
    consider "ch_Status c = StatusFailed" | "ch_Status c \<noteq> StatusFailed" "\<exists>x \<in> set evs. fst x = Some (change_key c)"
      | "ch_Status c \<noteq> StatusFailed" "Some (change_key c) \<notin> fst ` set evs" by force
    then show ?thesis
    proof cases
      case 1
      then show ?thesis using grouped_ok_append [OF ok, of None c] by (simp add: group_change_def)
    next
      case 2
      then show ?thesis using grouped_ok_merge [OF ok] by (simp add: group_change_def)
    next
      case 3
      then show ?thesis using grouped_ok_append [OF ok, of "Some (change_key c)" c] by (force simp: group_change_def)
    qed
  qed
  with snoc show ?case by simp
qed

text \<open>
  C22. Batching of status changes: the events of a batch carry every changed message id exactly as
  often as it changed; every change is covered by an event of the same thread, member, status and
  source whose horizon and time are not behind it, and the horizon and unread counter of every event are
  those of one of the changes it covers.
\<close>

theorem status_events_cover_changes:
  "mset (concat (map sc_MessageIDs (groupStatusChanges cs))) = mset (map ch_MessageID cs)
   \<and> (\<forall>c \<in> set cs. \<exists>e \<in> set (groupStatusChanges cs). stands_for e c \<and> ch_UpToSeq c \<le> sc_UpToSeq e \<and> ch_UpdatedAt c \<le> sc_OccurredAt e)
   \<and> (\<forall>e \<in> set (groupStatusChanges cs). \<exists>c \<in> set cs. stands_for e c \<and> sc_UpToSeq e = ch_UpToSeq c \<and> sc_UnreadCount e = ch_UnreadCount c)"
  using grouped_ok_fold [of cs] unfolding grouped_ok_def groupStatusChanges_def by simp

theorem status_events_cover_changes_witness:
  "\<exists>e \<in> set (groupStatusChanges [read_change 9 (read_receipt 2) (Some 1), read_change 9 (read_receipt 3) (Some 0)]).
     stands_for e (read_change 9 (read_receipt 3) (Some 0)) \<and> 3 \<le> sc_UpToSeq e"
proof -
  let ?cs = "[read_change 9 (read_receipt 2) (Some 1), read_change 9 (read_receipt 3) (Some 0)]"
  have "\<forall>c \<in> set ?cs. \<exists>e \<in> set (groupStatusChanges ?cs). stands_for e c \<and> ch_UpToSeq c \<le> sc_UpToSeq e \<and> ch_UpdatedAt c \<le> sc_OccurredAt e"
    using status_events_cover_changes [of ?cs] by blast
  then show ?thesis by (auto simp: read_change_def read_receipt_def)
qed

section \<open>Dispatching\<close>

lemma foldr_publish:
  "foldr_res (\<lambda>e. publish_event (EvMessageStatusChanged e)) evs db = Inr (fold (\<lambda>e. published (EvMessageStatusChanged e)) evs db)"
  by (induction evs arbitrary: db) (simp_all add: publish_event_eq)

lemma dispatch_eq:
  "dispatchStatusChangeEvents changes db =
     Inr (fold (\<lambda>e. published (EvMessageStatusChanged e))
           (map (stamp_status db (groupStatusChanges changes)) (groupStatusChanges changes)) db)"
  by (auto simp: dispatchStatusChangeEvents_def Let_def foldr_publish)

lemma fold_published_frame:
  "db_dialogs (fold (\<lambda>e. published (EvMessageStatusChanged e)) evs db) = db_dialogs db"
  "db_messages (fold (\<lambda>e. published (EvMessageStatusChanged e)) evs db) = db_messages db"
  "db_threads (fold (\<lambda>e. published (EvMessageStatusChanged e)) evs db) = db_threads db"
  "db_errors (fold (\<lambda>e. published (EvMessageStatusChanged e)) evs db) = db_errors db"
  "db_stack (fold (\<lambda>e. published (EvMessageStatusChanged e)) evs db) = db_stack db"
  "db_next_id (fold (\<lambda>e. published (EvMessageStatusChanged e)) evs db) = db_next_id db"
  "db_now (fold (\<lambda>e. published (EvMessageStatusChanged e)) evs db) = db_now db"
  by (induction evs arbitrary: db) simp_all

lemma group_single:
  "groupStatusChanges [c] = [change_event c]"
  by (simp add: groupStatusChanges_def group_change_def)

lemma participants_single:
  "sc_Participants (stamp_status db [e] e) = map dl_member_id (filter (\<lambda>d. dl_thread_id d = sc_ThreadID e \<and> active d) (db_dialogs db))"
  by (auto simp: stamp_status_def threadParticipants_of_def status_filter_def GetQuickView_def thread_filter_def any_of_def
      limited_def quick_row_def zero_dialog_def Let_def filter_map comp_def intro!: arg_cong [where f = "map dl_member_id"] filter_cong)

text \<open>Which of the members a receipt is for does not change while horizons move.\<close>

lemma read_dialog_keeps [simp]:
  "dl_thread_id (read_dialog rs db d) = dl_thread_id d" "dl_member_id (read_dialog rs db d) = dl_member_id d"
  "active (read_dialog rs db d) = active d" "dl_id (read_dialog rs db d) = dl_id d"
  by (auto simp: read_dialog_def advance_read_def active_def Let_def split: option.splits)

lemma single_receipt: "\<exists>r1. read_receipts [Some r] db = [r1] \<and> receipt_key r1 = receipt_key r"
  by (simp add: read_receipts_def dedupReadReceipts_def put_read_def map_filter_simps)

lemma single_read_change:
  assumes ok: "dialogs_ok db" and m: "store_MarkRead now [Some q] db = (changes, db1)" and ne: "changes \<noteq> []"
  obtains r1 d where "read_receipts [Some q] db = [r1]" "receipt_key r1 = receipt_key q"
    "d \<in> set (db_dialogs db)" "read_matches d r1"
    "changes = [read_change now r1 (Some (dl_unread_count (read_dialog [r1] db d)))]"
proof -
  obtain r1 where r1: "read_receipts [Some q] db = [r1]" "receipt_key r1 = receipt_key q" using single_receipt by blast
  from ne obtain c where c: "c \<in> set changes" by (cases changes) auto
  with store_MarkRead_changes [OF ok m] r1 obtain d where d: "d \<in> set (db_dialogs db)" "read_matches d r1"
      "c = read_change now r1 (Some (dl_unread_count (read_dialog [r1] db d)))" by auto
  have "length changes \<le> 1" using m r1(1) by (auto simp: store_MarkRead_unfold split: prod.splits if_splits)
  with c have "changes = [c]" by (cases changes) auto
  with r1 d that show thesis by blast
qed

lemma Read_Inr:
  assumes "Read parse now (Some r) db = (Inr u, db')"
  obtains changes db1 where "store_MarkRead now [Some (request_receipt parse r)] db = (changes, db1)" "changes \<noteq> []"
    "dispatchStatusChangeEvents changes db1 = Inr db'" "parse (rq_ThreadID r) = Some (rr_ThreadID (request_receipt parse r))"
proof -
  obtain changes db1 where m: "store_MarkRead now [Some (request_receipt parse r)] db = (changes, db1)" by fastforce
  from assms m have "ValidateReadMessage parse (Some r) = Inr ()" "changes \<noteq> []" "dispatchStatusChangeEvents changes db1 = Inr db'"
    by (auto simp: Read_def WithinTransaction_def bindr_Inr_iff split: sum.splits if_splits prod.splits)
  moreover from this have "parse (rq_ThreadID r) = Some (rr_ThreadID (request_receipt parse r))"
    by (auto simp: ValidateReadMessage_def bindr_Inr_iff request_receipt_def parsed_def split: option.splits)
  ultimately show thesis using m that by blast
qed

lemma store_MarkRead_outbox: "store_MarkRead now receipts db = (changes, db') \<Longrightarrow> db_outbox db' = db_outbox db"
  by (auto simp: store_MarkRead_unfold advanceReadHorizon_def clearRecoveredErrors_def Let_def split: if_splits)

lemma single_read_stored:
  assumes "read_receipts [Some q] db = [r1]" "d \<in> set (db_dialogs db)" "read_matches d r1"
    and m: "store_MarkRead now [Some q] db = (changes, db1)"
  shows "read_dialog [r1] db d \<in> set (db_dialogs db1) \<and> active d
    \<and> dl_last_read_seq (read_dialog [r1] db d) = Some (rr_UpToSeq r1)
    \<and> dl_unread_count (read_dialog [r1] db d) = unread_after db1 (rr_ThreadID r1) (rr_MemberID r1) (rr_UpToSeq r1)"
proof -
  have h: "read_dialog [r1] db d = advance_read db r1 d" using assms(3) by (simp add: read_dialog_def)
  show ?thesis using assms(2,3) store_MarkRead_db [OF m, unfolded assms(1)]
    by (auto simp: h advance_read_eq [OF assms(3)] unread_after_def read_matches_def image_iff
        intro!: bexI [of _ d])
qed

text \<open>
  A read request: it succeeds exactly when the reader's horizon moves, and then one read event
  goes to all current members of the thread, carrying the horizon and the unread counter that are stored,
  which is the exact number of unread messages. Every error leaves the whole state as it was.
\<close>

theorem read_request_outcome:
  assumes ok: "dialogs_ok db" and read: "Read parse now (Some r) db = (res, db')"
  shows "case res of Inl e \<Rightarrow> db' = db
    | Inr _ \<Rightarrow> \<exists>e k. db_outbox db' = db_outbox db @ [(event_topic (EvMessageStatusChanged e), EvMessageStatusChanged e, k)]
        \<and> sc_Status e = ''read'' \<and> parse (rq_ThreadID r) = Some (sc_ThreadID e) \<and> sc_MemberID e = parsed parse (rq_UserID r)
        \<and> sc_Participants e = map dl_member_id (filter (\<lambda>d. dl_thread_id d = sc_ThreadID e \<and> active d) (db_dialogs db))
        \<and> (\<exists>d \<in> set (db_dialogs db'). dl_thread_id d = sc_ThreadID e \<and> dl_member_id d = sc_MemberID e \<and> active d
             \<and> dl_last_read_seq d = Some (sc_UpToSeq e) \<and> sc_UnreadCount e = Some (dl_unread_count d)
             \<and> dl_unread_count d = unread_after db' (sc_ThreadID e) (sc_MemberID e) (sc_UpToSeq e))"
proof (cases res)
  case (Inl e)
  with read show ?thesis by (auto simp: Read_def WithinTransaction_def split: sum.splits prod.splits)
next
  case (Inr u)
  let ?q = "request_receipt parse r"
  obtain changes db1 where m: "store_MarkRead now [Some ?q] db = (changes, db1)" and ne: "changes \<noteq> []"
    and db': "dispatchStatusChangeEvents changes db1 = Inr db'" and t: "parse (rq_ThreadID r) = Some (rr_ThreadID ?q)"
    using Read_Inr read Inr by metis
  obtain r1 d where r1: "read_receipts [Some ?q] db = [r1]" "receipt_key r1 = receipt_key ?q"
    and d: "d \<in> set (db_dialogs db)" "read_matches d r1"
    and c: "changes = [read_change now r1 (Some (dl_unread_count (read_dialog [r1] db d)))]"
    by (rule single_read_change [OF ok m ne])
  let ?e0 = "change_event (read_change now r1 (Some (dl_unread_count (read_dialog [r1] db d))))"
  define e where "e = stamp_status db1 [?e0] ?e0"
  have out: "db' = published (EvMessageStatusChanged e) db1"
    using db' by (simp add: dispatch_eq c group_single e_def)
  have e: "sc_Status e = ''read''" "sc_ThreadID e = rr_ThreadID r1" "sc_MemberID e = rr_MemberID r1"
      "sc_UpToSeq e = rr_UpToSeq r1" "sc_UnreadCount e = Some (dl_unread_count (read_dialog [r1] db d))"
    by (simp_all add: e_def stamp_status_def change_event_def read_change_def DeliveryStatus_String_def split: prod.split)
  from r1(2) have k: "rr_ThreadID r1 = rr_ThreadID ?q" "rr_MemberID r1 = rr_MemberID ?q" by (simp_all add: receipt_key_def)
  have p: "sc_Participants e = map dl_member_id (filter (\<lambda>d. dl_thread_id d = sc_ThreadID e \<and> active d) (db_dialogs db))"
    unfolding e_def participants_single using store_MarkRead_db [OF m]
    by (simp add: filter_map comp_def stamp_status_def split: prod.split)
  have "dl_thread_id d = rr_ThreadID r1" "dl_member_id d = rr_MemberID r1" using d(2) by (simp_all add: read_matches_def)
  then have "\<exists>d \<in> set (db_dialogs db'). dl_thread_id d = sc_ThreadID e \<and> dl_member_id d = sc_MemberID e \<and> active d
             \<and> dl_last_read_seq d = Some (sc_UpToSeq e) \<and> sc_UnreadCount e = Some (dl_unread_count d)
             \<and> dl_unread_count d = unread_after db' (sc_ThreadID e) (sc_MemberID e) (sc_UpToSeq e)"
    using single_read_stored [OF r1(1) d m] e
    by (intro bexI [of _ "read_dialog [r1] db d"]) (simp_all add: out unread_after_def)
  with Inr store_MarkRead_outbox [OF m] p e t k show ?thesis
    by (auto simp: out request_receipt_def intro!: exI [of _ e])
qed

definition example_parse :: "string \<Rightarrow> uuid option" where
  "example_parse s = (if s = ''thread-6'' then Some 6 else if s = ''user-54'' then Some 54 else None)"

theorem read_request_outcome_witness:
  "let r = \<lparr>rq_MessageID = [], rq_ThreadID = ''thread-6'', rq_UserID = ''user-54'', rq_DomainID = 7, rq_UpToSeq = 2\<rparr>
   in \<exists>db' e k. Read example_parse 9 (Some r) status_db = (Inr (), db')
        \<and> db_outbox db' = db_outbox status_db @ [(event_topic (EvMessageStatusChanged e), EvMessageStatusChanged e, k)]
        \<and> sc_Participants e = [52, 54]"
proof -
  let ?r = "\<lparr>rq_MessageID = [], rq_ThreadID = ''thread-6'', rq_UserID = ''user-54'', rq_DomainID = 7, rq_UpToSeq = 2\<rparr>"
  have "fst (Read example_parse 9 (Some ?r) status_db) = Inr ()"
    by (simp add: Read_def ValidateReadMessage_def example_parse_def WithinTransaction_def request_receipt_def parsed_def
        store_MarkRead_def dedupReadReceipts_def put_read_def map_filter_simps clampReadSeqToThread_def
        resolveReadSeqFromMessageID_def advanceReadHorizon_def read_matches_def dispatch_eq
        seq_or0_def active_def thread_of_def status_example_defs)
  then obtain db' where r: "Read example_parse 9 (Some ?r) status_db = (Inr (), db')"
    by (metis prod.collapse)
  from read_request_outcome [OF status_db_ok r] obtain e k where
    "db_outbox db' = db_outbox status_db @ [(event_topic (EvMessageStatusChanged e), EvMessageStatusChanged e, k)]"
    "sc_ThreadID e = 6"
    "sc_Participants e = map dl_member_id (filter (\<lambda>d. dl_thread_id d = sc_ThreadID e \<and> active d) (db_dialogs status_db))"
    by (auto simp: example_parse_def)
  with r show ?thesis by (auto simp: status_example_defs active_def)
qed

section \<open>Sending keeps the counters exact\<close>

definition unread_exact :: "db \<Rightarrow> dialog_row \<Rightarrow> bool" where
  "unread_exact db d \<longleftrightarrow> dl_unread_count d = unread_after db (dl_thread_id d) (dl_member_id d) (seq_or0 (dl_last_read_seq d))"

definition counted :: "Message \<Rightarrow> dialog_row \<Rightarrow> bool" where
  "counted msg d \<longleftrightarrow> m_Type msg \<noteq> MessageTypeSystem \<and> dl_thread_id d = m_ThreadID msg
     \<and> dl_member_id d \<in> set (RecipientIDs msg) \<and> active d"

definition sent_row :: "Message \<Rightarrow> dialog_row \<Rightarrow> dialog_row \<Rightarrow> bool" where
  "sent_row msg d d' \<longleftrightarrow> dl_thread_id d' = dl_thread_id d \<and> dl_member_id d' = dl_member_id d
     \<and> dl_last_read_seq d' = dl_last_read_seq d
     \<and> dl_unread_count d' = dl_unread_count d + (if counted msg d then 1 else 0)"

lemma InsertSent_rows:
  "list_all2 (sent_row msg) (db_dialogs db) (db_dialogs (InsertSent (Some msg) (RecipientIDs msg) db))
   \<and> db_messages (InsertSent (Some msg) (RecipientIDs msg) db) = db_messages db"
  by (auto simp: InsertSent_def sent_row_def counted_def update_where_def list_all2_map2 intro!: list.rel_refl)

lemma delivered_update_row:
  "delivered_update rs d d' \<Longrightarrow> dl_thread_id d' = dl_thread_id d \<and> dl_member_id d' = dl_member_id d
     \<and> dl_last_read_seq d' = dl_last_read_seq d \<and> dl_unread_count d' = dl_unread_count d \<and> dl_id d' = dl_id d
     \<and> active d' = active d"
  by (auto simp: delivered_update_def active_def split: if_splits)

lemma insertSentStatuses_rows:
  assumes pick: "\<And>xs. xs \<noteq> [] \<Longrightarrow> pick xs \<in> set xs" and ins: "insertSentStatuses pick now msg db = Inr db'"
  shows "list_all2 (sent_row msg) (db_dialogs db) (db_dialogs db') \<and> db_messages db' = db_messages db"
proof -
  let ?db1 = "InsertSent (Some msg) (RecipientIDs msg) db"
  from ins obtain db2 where o: "OnMessage now msg ?db1 = Inr db2"
    and rest: "(if bot_receipts msg = [] then Inr db2
       else (case store_MarkDelivered pick now (bot_receipts msg) db2 of (changes, db3) \<Rightarrow>
               dispatchStatusChangeEvents changes db3)) = Inr db'"
    by (auto simp: insertSentStatuses_def bindr_Inr_iff)
  have same: "db_dialogs db2 = db_dialogs ?db1" "db_messages db2 = db_messages ?db1"
    using OnMessage_frame [OF o] by (simp_all add: tags_only_def)
  show ?thesis
  proof (cases "bot_receipts msg = []")
    case True
    with rest same InsertSent_rows show ?thesis by simp
  next
    case False
    obtain changes db3 where d: "store_MarkDelivered pick now (bot_receipts msg) db2 = (changes, db3)" by fastforce
    have db': "db_dialogs db' = db_dialogs db3" "db_messages db' = db_messages db3"
      using rest False d by (auto simp: dispatch_eq fold_published_frame)
    note rows = delivered_rows [OF pick d]
    have step: "sent_row msg d d''" if "sent_row msg d d'" "delivered_update (delivery_receipts (bot_receipts msg) db2) d' d''"
      for d d' d''
      using that(1) delivered_update_row [OF that(2)] by (simp add: sent_row_def)
    have sr: "list_all2 (sent_row msg) (db_dialogs db) (db_dialogs db2)" using InsertSent_rows same by simp
    have "list_all2 (sent_row msg) (db_dialogs db) (db_dialogs db3)"
      by (rule list_all2_trans [where ?P2.0 = "delivered_update (delivery_receipts (bot_receipts msg) db2)",
            OF _ sr conjunct1 [OF rows]]) (rule step)
    with db' rows same InsertSent_rows show ?thesis by simp
  qed
qed

lemma SaveMessage_shape:
  assumes "SaveMessage msg db = Inr (saved, db')"
  shows "\<exists>r th. db_messages db' = db_messages db @ [r] \<and> ms_thread_id r = m_ThreadID msg \<and> ms_sender_id r = GetSender msg
    \<and> ms_type r = m_Type msg \<and> ms_deleted_at r = None \<and> thread_of db (m_ThreadID msg) = Some th \<and> ms_seq r = th_last_seq th + 1
    \<and> db_dialogs db' = db_dialogs db \<and> m_ThreadID saved = m_ThreadID msg \<and> m_Type saved = m_Type msg
    \<and> pr_ID (m_From saved) = GetSender msg \<and> m_SendAs saved = None"
  using assms by (auto simp: SaveMessage_def insert_message_def bindr_Inr_iff Let_def scan_message_def zero_message_def
      zero_message_row_def split: option.splits if_splits)

lemma unread_after_append:
  "db_messages db' = db_messages db @ [r] \<Longrightarrow> unread_after db' t c s = unread_after db t c s
     + (if ms_thread_id r = t \<and> ms_sender_id r \<noteq> c \<and> ms_type r \<noteq> MessageTypeSystem \<and> ms_deleted_at r = None \<and> ms_seq r > s then 1 else 0)"
  by (simp add: unread_after_def)

text \<open>
  C23. Sending and unread counters: when a content message is saved and its recipients are
  bumped, the counter of every active member that was the exact number of unread messages
  stays exact, for the sender, for the recipients and for the members of other threads, whatever bots
  are promoted to delivered on the way.
\<close>

theorem send_keeps_unread_exact:
  assumes pick: "\<And>xs. xs \<noteq> [] \<Longrightarrow> pick xs \<in> set xs"
    and save: "SaveMessage msg db = Inr (saved, db1)" and content: "m_Type msg \<noteq> MessageTypeSystem"
    and sent: "insertSentStatuses pick now (saved\<lparr>m_To := m_To msg\<rparr>) db1 = Inr db2"
    and i: "i < length (db_dialogs db)" and act: "active (db_dialogs db ! i)"
    and told: "dl_thread_id (db_dialogs db ! i) = m_ThreadID msg \<Longrightarrow> dl_member_id (db_dialogs db ! i) \<in> td_ContactID ` set (m_To msg)"
    and horizon: "\<And>th. thread_of db (m_ThreadID msg) = Some th \<Longrightarrow> dl_thread_id (db_dialogs db ! i) = m_ThreadID msg \<Longrightarrow>
        seq_or0 (dl_last_read_seq (db_dialogs db ! i)) \<le> th_last_seq th"
    and exact: "unread_exact db (db_dialogs db ! i)"
  shows "unread_exact db2 (db_dialogs db2 ! i)"
proof -
  let ?m = "saved\<lparr>m_To := m_To msg\<rparr>" and ?d = "db_dialogs db ! i"
  obtain r th where r: "db_messages db1 = db_messages db @ [r]" "ms_thread_id r = m_ThreadID msg" "ms_sender_id r = GetSender msg"
      "ms_type r = m_Type msg" "ms_deleted_at r = None" "thread_of db (m_ThreadID msg) = Some th" "ms_seq r = th_last_seq th + 1"
      "db_dialogs db1 = db_dialogs db" "m_ThreadID saved = m_ThreadID msg" "m_Type saved = m_Type msg"
      "pr_ID (m_From saved) = GetSender msg" "m_SendAs saved = None"
    using SaveMessage_shape [OF save] by blast
  note rows = insertSentStatuses_rows [OF pick sent, unfolded r(8)]
  from rows i have row: "sent_row ?m ?d (db_dialogs db2 ! i)" by (auto simp: list_all2_conv_all_nth)
  have sender: "GetSender ?m = GetSender msg" using r(11,12) by (simp add: GetSender_def)
  have "counted ?m ?d \<longleftrightarrow> dl_thread_id ?d = m_ThreadID msg \<and> GetSender msg \<noteq> dl_member_id ?d"
    using content act told r(9,10) sender by (auto simp: counted_def RecipientIDs_def Recipients_def)
  moreover have "dl_thread_id ?d = m_ThreadID msg \<Longrightarrow> ms_seq r > seq_or0 (dl_last_read_seq ?d)"
    using horizon [OF r(6)] r(7) by simp
  moreover have "db_messages db2 = db_messages db @ [r]" using rows r(1) by simp
  ultimately show ?thesis
    using row exact content r(2-5) unfolding unread_exact_def sent_row_def
    by (auto simp: unread_after_append)
qed

definition sent_message :: Message where
  "sent_message = zero_message\<lparr>m_ThreadID := 6, m_DomainID := 7, m_From := empty_peer\<lparr>pr_ID := 52\<rparr>, m_Type := MessageTypeText,
     m_Body := ''hi'', m_Member := Some (zero_dialog\<lparr>bm_ID := 2\<rparr>),
     m_To := [zero_dialog\<lparr>bm_ID := 2, td_ContactID := 52\<rparr>, zero_dialog\<lparr>bm_ID := 4, td_ContactID := 54\<rparr>]\<rparr>"

theorem send_keeps_unread_exact_witness:
  "\<exists>saved db1 db2. SaveMessage sent_message status_db = Inr (saved, db1)
     \<and> insertSentStatuses hd 9 (saved\<lparr>m_To := m_To sent_message\<rparr>) db1 = Inr db2 \<and> unread_exact db2 (db_dialogs db2 ! 1)"
proof -
  have "\<exists>p. SaveMessage sent_message status_db = Inr p"
    by (simp add: SaveMessage_def validateMessageForSave_def sent_message_def replyToArg_def addForwardOriginArgs_def
        message_exists_def insert_message_def thread_of_def Let_def status_example_defs empty_peer_def zero_message_def)
  then obtain saved db1 where s: "SaveMessage sent_message status_db = Inr (saved, db1)" by auto
  have "\<exists>db2. insertSentStatuses hd 9 m db = Inr db2" for m db
    by (simp add: insertSentStatuses_def OnMessage_def publish_tags_fold dispatch_eq split: prod.split)
  then obtain db2 where i: "insertSentStatuses hd 9 (saved\<lparr>m_To := m_To sent_message\<rparr>) db1 = Inr db2" by blast
  have "unread_exact db2 (db_dialogs db2 ! 1)"
    by (rule send_keeps_unread_exact [OF _ s _ i])
      (auto simp: sent_message_def status_example_defs active_def thread_of_def unread_exact_def unread_after_def seq_or0_def)
  with s i show ?thesis by blast
qed

end
