(* ===== verification/Journal.thy ===== *)
theory Journal
  imports Outbox "HOL-Library.Product_Lexorder"
begin

text \<open>
  Catching up: \<^verbatim>\<open>internal/adapter/journal\<close> (\<^verbatim>\<open>contact.go\<close>, \<^verbatim>\<open>journal.go\<close>) and the control flow of
  \<^verbatim>\<open>GetUpdates\<close> in \<^verbatim>\<open>internal/handler/grpc/updates.go\<close>. A client gives the cursor it has and gets
  the threads that changed for it since, each with its journal entries, and a new cursor.
  \<^verbatim>\<open>pg_snapshot_xmin(pg_current_snapshot()) - 1\<close>, the newest transaction older than every one in
  flight, is the parameter \<open>horizon\<close> of the readers; the machine at the end supplies it. How the
  handler renders an entry (messages from the history, members, read states) is not modelled.
\<close>

section \<open>Cursors\<close>

definition digit :: "nat \<Rightarrow> char" where
  "digit k = char_of (48 + k)"

fun dec :: "nat \<Rightarrow> string" where
  "dec n = (if n < 10 then [digit n] else dec (n div 10) @ [digit (n mod 10)])"

declare dec.simps [simp del]

text \<open>\<^verbatim>\<open>strconv.FormatInt(n, 10)\<close> and \<^verbatim>\<open>strconv.ParseInt(s, 10, 64)\<close>.\<close>

definition FormatInt :: "int \<Rightarrow> string" where
  "FormatInt n = (if n < 0 then CHR ''-'' # dec (nat (- n)) else dec (nat n))"

definition is_digit :: "char \<Rightarrow> bool" where
  "is_digit c = (48 \<le> (of_char c :: nat) \<and> (of_char c :: nat) \<le> 57)"

definition undec :: "string \<Rightarrow> int" where
  "undec s = foldl (\<lambda>n c. n * 10 + (int (of_char c) - 48)) 0 s"

definition ParseInt :: "string \<Rightarrow> int option" where
  "ParseInt s =
     (let (neg, ds) = (case s of [] \<Rightarrow> (False, [])
                       | c # r \<Rightarrow> if c = CHR ''-'' then (True, r) else if c = CHR ''+'' then (False, r) else (False, s));
          v = undec ds
      in if ds = [] \<or> \<not> list_all is_digit ds then None
         else if neg then (if v \<le> 2 ^ 63 then Some (- v) else None)
         else (if v < 2 ^ 63 then Some v else None))"

definition parseCursor :: "string \<Rightarrow> int res" where
  "parseCursor s = (case ParseInt s of None \<Rightarrow> Inl (Err InvalidArgument ''invalid cursor'') | Some n \<Rightarrow> Inr n)"

lemma digit_props:
  assumes "k < 10"
  shows "is_digit (digit k)" "int (of_char (digit k)) - 48 = int k" "digit k \<noteq> CHR ''-''" "digit k \<noteq> CHR ''+''"
proof -
  have o: "of_char (digit k) = 48 + k" using assms by (simp add: digit_def)
  then show "is_digit (digit k)" "int (of_char (digit k)) - 48 = int k" using assms by (simp_all add: is_digit_def)
  show "digit k \<noteq> CHR ''-''"
  proof
    assume "digit k = CHR ''-''"
    then have "of_char (digit k) = (45 :: nat)" by simp
    with o show False by simp
  qed
  show "digit k \<noteq> CHR ''+''"
  proof
    assume "digit k = CHR ''+''"
    then have "of_char (digit k) = (43 :: nat)" by simp
    with o show False by simp
  qed
qed

lemma undec_snoc: "undec (s @ [c]) = undec s * 10 + (int (of_char c) - 48)"
  by (simp add: undec_def)

lemma dec_digits: "list_all is_digit (dec n) \<and> dec n \<noteq> [] \<and> undec (dec n) = int n \<and> hd (dec n) \<noteq> CHR ''-'' \<and> hd (dec n) \<noteq> CHR ''+''"
proof (induction n rule: dec.induct)
  case (1 n)
  show ?case
  proof (cases "n < 10")
    case True
    then show ?thesis using digit_props [OF True] by (simp add: dec.simps [of n] undec_def)
  next
    case False
    have m: "n mod 10 < 10" by simp
    have "int (n div 10) * 10 + int (n mod 10) = int n"
      by (metis div_mult_mod_eq of_nat_add of_nat_mult of_nat_numeral)
    with False 1 [OF False] digit_props [OF m] show ?thesis
      by (simp add: dec.simps [of n] undec_snoc)
  qed
qed

lemma ParseInt_FormatInt:
  assumes "- (2 ^ 63) \<le> n" "n < 2 ^ 63"
  shows "ParseInt (FormatInt n) = Some n"
proof (cases "n < 0")
  case True
  then show ?thesis using dec_digits [of "nat (- n)"] assms by (simp add: FormatInt_def ParseInt_def)
next
  case False
  obtain c r where d: "dec (nat n) = c # r" using dec_digits [of "nat n"] by (cases "dec (nat n)") auto
  have "c \<noteq> CHR ''-''" "c \<noteq> CHR ''+''" "list_all is_digit (c # r)" "undec (c # r) = n"
    using dec_digits [of "nat n"] False d by auto
  then show ?thesis using False assms d by (simp add: FormatInt_def ParseInt_def)
qed

section \<open>Readers\<close>

definition MaxContactChanges :: nat where
  "MaxContactChanges = 1000"

definition Overlap :: int where
  "Overlap = 60 * 1000000000"

record ContactChanges =
  cc_ContactID :: "uuid option"
  cc_Threads :: "uuid list"
  cc_Cursor :: string
  cc_After :: int
  cc_Since :: time
  cc_Horizon :: int
  cc_TooMany :: bool

definition max0 :: "int list \<Rightarrow> int" where
  "max0 xs = (if xs = [] then 0 else Max (set xs))"

definition latestMark :: "uuid \<Rightarrow> int \<Rightarrow> db \<Rightarrow> int" where
  "latestMark c horizon db =
     max0 (map mk_tx_id (filter (\<lambda>r. mk_contact_id r = c \<and> mk_tx_id r \<le> horizon) (db_marks db)))"

definition overlapSince :: "int \<Rightarrow> db \<Rightarrow> time" where
  "overlapSince after db =
     (let ts = map jr_created_at (filter (\<lambda>r. jr_tx_id r = after) (db_journal db))
      in if ts = [] then time_zero else Min (set ts) - Overlap)"

text \<open>\<^verbatim>\<open>sinceArg\<close>: a zero time becomes NULL, and a comparison with NULL selects nothing.\<close>

definition since_matches :: "time \<Rightarrow> time \<Rightarrow> bool" where
  "since_matches since at = (since \<noteq> time_zero \<and> since \<le> at)"

definition ContactChanges_read :: "uuid \<Rightarrow> string \<Rightarrow> int \<Rightarrow> db \<Rightarrow> ContactChanges res" where
  "ContactChanges_read c cursor horizon db =
     bindr (parseCursor cursor) (\<lambda>after.
       (let since = overlapSince after db;
            rows = take (MaxContactChanges + 1) (sort_key (\<lambda>r. (mk_tx_id r, mk_thread_id r))
              (filter (\<lambda>r. mk_contact_id r = c \<and> mk_tx_id r \<le> horizon
                   \<and> (mk_tx_id r > after \<or> since_matches since (mk_updated_at r))) (db_marks db)));
            threads = map mk_thread_id rows;
            tooMany = (length threads > MaxContactChanges)
        in Inr \<lparr>cc_ContactID = Some c, cc_Threads = (if tooMany then [] else threads),
                cc_Cursor = FormatInt (max after (latestMark c horizon db)), cc_After = after, cc_Since = since,
                cc_Horizon = horizon, cc_TooMany = tooMany\<rparr>))"

definition visible_entry :: "uuid option \<Rightarrow> journal_row \<Rightarrow> bool" where
  "visible_entry c r =
     (case c of None \<Rightarrow> True
      | Some x \<Rightarrow> jr_kind r \<noteq> ''tags.changed'' \<or> jr_fields r ''actor'' = Some (VUuid x))"

definition ChangesSince :: "uuid \<Rightarrow> ContactChanges \<Rightarrow> nat \<Rightarrow> db \<Rightarrow> (string \<times> metadata) list" where
  "ChangesSince t w limit db =
     map (\<lambda>r. (jr_kind r, jr_fields r)) (take (limit + 1) (sort_key jr_tx_id
       (filter (\<lambda>r. jr_thread_id r = t \<and> jr_tx_id r \<le> cc_Horizon w
           \<and> (jr_tx_id r > cc_After w \<or> since_matches (cc_Since w) (jr_created_at r))
           \<and> visible_entry (cc_ContactID w) r) (db_journal db))))"

definition TrimHorizon :: "db \<Rightarrow> int" where
  "TrimHorizon db = (case db_trim db of None \<Rightarrow> 0 | Some x \<Rightarrow> x)"

definition ContactCursor :: "uuid \<Rightarrow> int \<Rightarrow> db \<Rightarrow> string" where
  "ContactCursor c horizon db = FormatInt (latestMark c horizon db)"

definition IsMember :: "uuid \<Rightarrow> uuid \<Rightarrow> int \<Rightarrow> db \<Rightarrow> bool" where
  "IsMember t c domain db \<longleftrightarrow>
     (\<exists>d \<in> set (db_dialogs db). dl_thread_id d = t \<and> dl_member_id d = c \<and> active d \<and> dl_domain_id d = domain)"

definition Unread :: "uuid \<Rightarrow> uuid \<Rightarrow> db \<Rightarrow> int" where
  "Unread t c db =
     max0 (map dl_unread_count (filter (\<lambda>d. dl_thread_id d = t \<and> dl_member_id d = c \<and> active d) (db_dialogs db)))"

record ReadState =
  rs_MemberID :: uuid
  rs_DeliveredUpToSeq :: int
  rs_ReadUpToSeq :: int

definition seq0 :: "int option \<Rightarrow> int" where
  "seq0 s = (case s of None \<Rightarrow> 0 | Some x \<Rightarrow> x)"

definition ReadStates :: "uuid \<Rightarrow> db \<Rightarrow> ReadState list" where
  "ReadStates t db =
     map (\<lambda>d. \<lparr>rs_MemberID = dl_member_id d,
               rs_DeliveredUpToSeq = max (seq0 (dl_last_delivered_seq d)) (seq0 (dl_last_read_seq d)),
               rs_ReadUpToSeq = seq0 (dl_last_read_seq d)\<rparr>)
       (sort_key dl_member_id (filter (\<lambda>d. dl_thread_id d = t \<and> active d
           \<and> (dl_last_delivered_seq d \<noteq> None \<or> dl_last_read_seq d \<noteq> None)) (db_dialogs db)))"

section \<open>GetUpdates\<close>

datatype thread_entry = Left_thread uuid | Changed_thread uuid "(string \<times> metadata) list"

datatype updates = Resync string | Updates string "thread_entry list"

definition threadUpdates :: "uuid \<Rightarrow> int \<Rightarrow> uuid \<Rightarrow> ContactChanges \<Rightarrow> nat \<Rightarrow> db \<Rightarrow> thread_entry option \<times> nat" where
  "threadUpdates c domain t w budget db =
     (if \<not> IsMember t c domain db then (Some (Left_thread t), 1)
      else (let events = ChangesSince t w budget db
            in if events = [] then (None, 0)
               else if length events > budget then (None, length events)
               else (Some (Changed_thread t events), length events)))"

text \<open>The loop over the changed threads; None when the budget is exceeded.\<close>

fun serve_threads :: "uuid \<Rightarrow> int \<Rightarrow> ContactChanges \<Rightarrow> db \<Rightarrow> uuid list \<Rightarrow> nat \<Rightarrow> thread_entry list option" where
  "serve_threads c domain w db [] budget = Some []"
| "serve_threads c domain w db (t # ts) budget =
     (case threadUpdates c domain t w budget db of
        (entry, used) \<Rightarrow>
          if used > budget then None
          else (case serve_threads c domain w db ts (budget - used) of
                  None \<Rightarrow> None
                | Some es \<Rightarrow> Some ((case entry of None \<Rightarrow> [] | Some e \<Rightarrow> [e]) @ es)))"

text \<open>The caller id is a text in the request; None is one that does not parse.\<close>

definition GetUpdates :: "uuid option \<Rightarrow> int \<Rightarrow> string \<Rightarrow> int \<Rightarrow> db \<Rightarrow> updates res" where
  "GetUpdates caller domain cursor horizon db =
     (case caller of None \<Rightarrow> Inl (Err InvalidArgument ''invalid caller_id'')
      | Some c \<Rightarrow>
         if domain \<le> 0 then Inl (Err InvalidArgument ''domain_id is required'')
         else if cursor = [] then Inr (Resync (ContactCursor c horizon db))
         else bindr (ContactChanges_read c cursor horizon db) (\<lambda>w.
           if cc_TooMany w then Inr (Resync (ContactCursor c horizon db))
           else if cc_After w < TrimHorizon db \<and> cc_Threads w \<noteq> [] then Inr (Resync (ContactCursor c horizon db))
           else (case serve_threads c domain w db (cc_Threads w) MaxContactChanges of
                   None \<Rightarrow> Inr (Resync (ContactCursor c horizon db))
                 | Some es \<Rightarrow> Inr (Updates (cc_Cursor w) es))))"

section \<open>Retention\<close>

definition cleanupBatchSize :: nat where
  "cleanupBatchSize = 5000"

text \<open>\<^verbatim>\<open>delete ... where id in (select id ... order by id limit n)\<close>: the rows deleted and the rows kept.\<close>

fun delete_first :: "nat \<Rightarrow> ('r \<Rightarrow> bool) \<Rightarrow> 'r list \<Rightarrow> 'r list \<times> 'r list" where
  "delete_first n p [] = ([], [])"
| "delete_first n p (x # xs) =
     (if p x \<and> 0 < n then (case delete_first (n - 1) p xs of (d, k) \<Rightarrow> (x # d, k))
      else (case delete_first n p xs of (d, k) \<Rightarrow> (d, x # k)))"

definition record_trim :: "int list \<Rightarrow> int option \<Rightarrow> int option" where
  "record_trim txs trim =
     (if txs = [] then trim
      else Some (case trim of None \<Rightarrow> Max (set txs) | Some x \<Rightarrow> max x (Max (set txs))))"

definition cleanup_batch :: "time \<Rightarrow> db \<Rightarrow> nat \<times> db" where
  "cleanup_batch cutoff db =
     (case delete_first cleanupBatchSize (\<lambda>r. jr_created_at r < cutoff) (db_journal db) of
        (del, keep) \<Rightarrow> (length del, db\<lparr>db_journal := keep, db_trim := record_trim (map jr_tx_id del) (db_trim db)\<rparr>))"

lemma delete_first_length: "length (fst (delete_first n p xs)) + length (snd (delete_first n p xs)) = length xs"
  by (induction n p xs rule: delete_first.induct) (auto split: prod.splits)

function Cleanup :: "time \<Rightarrow> db \<Rightarrow> nat \<times> db" where
  "Cleanup cutoff db =
     (case cleanup_batch cutoff db of
        (n, db1) \<Rightarrow> if n < cleanupBatchSize then (n, db1)
                   else (case Cleanup cutoff db1 of (m, db2) \<Rightarrow> (n + m, db2)))"
  by pat_completeness auto
termination
proof (relation "measure (\<lambda>(_, db). length (db_journal db))", goal_cases)
  case (2 cutoff db n db1)
  have "length (db_journal db1) + n = length (db_journal db)"
    using 2(1) delete_first_length [of cleanupBatchSize "\<lambda>r. jr_created_at r < cutoff" "db_journal db"]
    by (auto simp: cleanup_batch_def split: prod.splits)
  moreover have "0 < n" using 2(2) by (simp add: cleanupBatchSize_def)
  ultimately show ?case by simp
qed simp

declare Cleanup.simps [simp del]

lemma delete_first_eq:
  "fst (delete_first n p xs) = take n (filter p xs)
   \<and> filter p (snd (delete_first n p xs)) = drop n (filter p xs)
   \<and> filter (\<lambda>x. \<not> p x) (snd (delete_first n p xs)) = filter (\<lambda>x. \<not> p x) xs"
proof (induction n p xs rule: delete_first.induct)
  case (2 n p x xs)
  then show ?case by (cases n) (auto split: prod.splits)
qed simp

lemma record_trim_append: "record_trim (xs @ ys) trim = record_trim ys (record_trim xs trim)"
  by (auto simp: record_trim_def Max_Un ac_simps split: option.splits)


section \<open>Nothing in the window is missed\<close>

definition window_rows :: "uuid \<Rightarrow> ContactChanges \<Rightarrow> db \<Rightarrow> journal_row list" where
  "window_rows t w db =
     sort_key jr_tx_id (filter (\<lambda>r. jr_thread_id r = t \<and> jr_tx_id r \<le> cc_Horizon w
           \<and> (jr_tx_id r > cc_After w \<or> since_matches (cc_Since w) (jr_created_at r))
           \<and> visible_entry (cc_ContactID w) r) (db_journal db))"

lemma ChangesSince_rows:
  "ChangesSince t w limit db = map (\<lambda>r. (jr_kind r, jr_fields r)) (take (limit + 1) (window_rows t w db))"
  by (simp add: ChangesSince_def window_rows_def)

lemma threadUpdates_within:
  assumes "threadUpdates c domain t w b db = (entry, used)" "used \<le> b" "IsMember t c domain db" "r \<in> set (window_rows t w db)"
  shows "\<exists>evs. entry = Some (Changed_thread t evs) \<and> (jr_kind r, jr_fields r) \<in> set evs"
proof -
  have ne: "window_rows t w db \<noteq> []" using assms(4) by auto
  then have "ChangesSince t w b db \<noteq> []" by (simp add: ChangesSince_rows)
  then have e: "length (ChangesSince t w b db) \<le> b" "entry = Some (Changed_thread t (ChangesSince t w b db))"
    using assms(1-3) by (auto simp: threadUpdates_def Let_def split: if_splits)
  then have "take (b + 1) (window_rows t w db) = window_rows t w db" by (simp add: ChangesSince_rows)
  with e assms(4) show ?thesis by (auto simp: ChangesSince_rows)
qed

lemma serve_threads_complete:
  assumes "serve_threads c domain w db ts b = Some es" "t \<in> set ts" "IsMember t c domain db" "r \<in> set (window_rows t w db)"
  shows "\<exists>evs. Changed_thread t evs \<in> set es \<and> (jr_kind r, jr_fields r) \<in> set evs"
  using assms
proof (induction ts arbitrary: b es)
  case (Cons x ts)
  obtain entry used where u: "threadUpdates c domain x w b db = (entry, used)" by fastforce
  with Cons.prems(1) obtain es' where es': "used \<le> b" "serve_threads c domain w db ts (b - used) = Some es'"
      "es = (case entry of None \<Rightarrow> [] | Some e \<Rightarrow> [e]) @ es'"
    by (auto split: if_splits option.splits)
  show ?case
  proof (cases "t = x")
    case True
    then show ?thesis using threadUpdates_within [OF u es'(1)] Cons.prems(3,4) es'(3) by auto
  next
    case False
    then show ?thesis using Cons.IH [OF es'(2)] Cons.prems(2-4) es'(3) by auto
  qed
qed simp

lemma take_short: "length (take n xs) < n \<Longrightarrow> take n xs = xs"
  by simp

lemma max0_ge: "x \<in> set xs \<Longrightarrow> x \<le> max0 xs"
  by (auto simp: max0_def)

lemma max0_le: "x \<in> set xs \<Longrightarrow> \<forall>y \<in> set xs. y \<le> h \<Longrightarrow> max0 xs \<le> h"
  by (auto simp: max0_def)


definition entry_size :: "thread_entry \<Rightarrow> nat" where
  "entry_size e = (case e of Left_thread _ \<Rightarrow> 1 | Changed_thread _ evs \<Rightarrow> length evs)"

definition entry_ok :: "uuid \<Rightarrow> int \<Rightarrow> db \<Rightarrow> thread_entry \<Rightarrow> bool" where
  "entry_ok c domain db e =
     (case e of
        Left_thread t \<Rightarrow> \<not> IsMember t c domain db
      | Changed_thread t evs \<Rightarrow> IsMember t c domain db \<and>
          (\<forall>(k, f) \<in> set evs. k = ''tags.changed'' \<longrightarrow> f ''actor'' = Some (VUuid c)))"

lemma threadUpdates_ok:
  assumes "threadUpdates c domain t w b db = (Some e, used)" "cc_ContactID w = Some c" "used \<le> b"
  shows "entry_ok c domain db e \<and> entry_size e = used"
proof -
  have "(k, f) \<in> set (ChangesSince t w b db) \<Longrightarrow> k = ''tags.changed'' \<longrightarrow> f ''actor'' = Some (VUuid c)" for k f
    using assms(2) by (auto simp: ChangesSince_rows window_rows_def visible_entry_def dest!: in_set_takeD)
  with assms show ?thesis
    by (auto simp: threadUpdates_def entry_ok_def entry_size_def Let_def split: if_splits)
qed

lemma serve_threads_ok:
  assumes "serve_threads c domain w db ts b = Some es" "cc_ContactID w = Some c"
  shows "(\<forall>e \<in> set es. entry_ok c domain db e) \<and> sum_list (map entry_size es) \<le> b"
  using assms(1)
proof (induction ts arbitrary: b es)
  case (Cons x ts)
  obtain entry used where u: "threadUpdates c domain x w b db = (entry, used)" by fastforce
  with Cons.prems obtain es' where es': "used \<le> b" "serve_threads c domain w db ts (b - used) = Some es'"
      "es = (case entry of None \<Rightarrow> [] | Some e \<Rightarrow> [e]) @ es'"
    by (auto split: if_splits option.splits)
  show ?case
  proof (cases entry)
    case None
    then show ?thesis using es' Cons.IH [OF es'(2)] by auto
  next
    case (Some e)
    then show ?thesis using es' Cons.IH [OF es'(2)] threadUpdates_ok [OF u [unfolded Some] assms(2) es'(1)] by auto
  qed
qed simp

text \<open>
  C2. Private entries stay private and outsiders see no history: in every answer the tag changes
  are the caller's own, a thread the caller is not an active member of in the given tenant is
  only reported as left, never with entries, and an answer never carries more than
  \<^verbatim>\<open>MaxContactChanges\<close> entries in all.
\<close>

theorem GetUpdates_private:
  assumes "GetUpdates (Some c) domain cursor horizon db = Inr (Updates cur es)"
  shows "(\<forall>t evs. Changed_thread t evs \<in> set es \<longrightarrow> IsMember t c domain db
            \<and> (\<forall>(k, f) \<in> set evs. k = ''tags.changed'' \<longrightarrow> f ''actor'' = Some (VUuid c)))
    \<and> (\<forall>t. Left_thread t \<in> set es \<longrightarrow> \<not> IsMember t c domain db)
    \<and> sum_list (map entry_size es) \<le> 1000"
proof -
  obtain w where w: "ContactChanges_read c cursor horizon db = Inr w"
      "serve_threads c domain w db (cc_Threads w) MaxContactChanges = Some es"
    using assms by (auto simp: GetUpdates_def bindr_Inr_iff split: if_splits option.splits)
  then have "cc_ContactID w = Some c" by (auto simp: ContactChanges_read_def bindr_Inr_iff Let_def)
  from serve_threads_ok [OF w(2) this] show ?thesis
    by (fastforce simp: entry_ok_def MaxContactChanges_def)
qed

section \<open>Concurrent transactions\<close>

text \<open>
  The journal under concurrent writers. A transaction gets its id when it begins; what it
  publishes becomes visible when it commits, which may be in another order, because the row locks
  of the marks make conflicting writers apply theirs in commit order. The reader's horizon is one
  below the oldest transaction in flight.
\<close>

record tx_state =
  ts_db :: db
  ts_next :: int
  ts_open :: "int list"

definition SettledHorizon :: "tx_state \<Rightarrow> int" where
  "SettledHorizon s = Min (set (ts_next s # ts_open s)) - 1"

definition tx_begin :: "tx_state \<Rightarrow> tx_state" where
  "tx_begin s = s\<lparr>ts_next := ts_next s + 1, ts_open := ts_open s @ [ts_next s]\<rparr>"

definition tx_commit :: "int \<Rightarrow> time \<Rightarrow> event list \<Rightarrow> tx_state \<Rightarrow> tx_state" where
  "tx_commit i now es s =
     s\<lparr>ts_db := fold published es ((ts_db s)\<lparr>db_tx := i, db_now := now\<rparr>), ts_open := removeAll i (ts_open s)\<rparr>"

definition tx_abort :: "int \<Rightarrow> tx_state \<Rightarrow> tx_state" where
  "tx_abort i s = s\<lparr>ts_open := removeAll i (ts_open s)\<rparr>"

inductive tx_step :: "tx_state \<Rightarrow> tx_state \<Rightarrow> bool" where
  tx_begins: "tx_step s (tx_begin s)"
| tx_commits: "i \<in> set (ts_open s) \<Longrightarrow> db_now (ts_db s) \<le> now \<Longrightarrow> tx_step s (tx_commit i now es s)"
| tx_aborts: "i \<in> set (ts_open s) \<Longrightarrow> tx_step s (tx_abort i s)"

inductive tx_steps :: "tx_state \<Rightarrow> tx_state \<Rightarrow> bool" where
  tx_refl: "tx_steps s s"
| tx_next: "tx_steps s s' \<Longrightarrow> tx_step s' s'' \<Longrightarrow> tx_steps s s''"

lemma fold_published_journal:
  "\<exists>rows. db_journal (fold published es db) = db_journal db @ rows \<and> (\<forall>r \<in> set rows. jr_tx_id r = db_tx db)"
proof (induction es arbitrary: db)
  case (Cons e es)
  obtain rows where "db_journal (fold published es (published e db)) = db_journal (published e db) @ rows"
      "\<forall>r \<in> set rows. jr_tx_id r = db_tx db"
    using Cons [of "published e db"] by auto
  moreover have "\<forall>r \<in> set (journal_of e db). jr_tx_id r = db_tx db" by (auto simp: journal_of_def split: option.splits)
  ultimately show ?case by auto
qed simp

lemma SettledHorizon_less: "h \<le> SettledHorizon s \<longleftrightarrow> h < ts_next s \<and> (\<forall>i \<in> set (ts_open s). h < i)"
proof -
  have "h \<le> SettledHorizon s \<longleftrightarrow> h < Min (set (ts_next s # ts_open s))" by (auto simp: SettledHorizon_def)
  also have "\<dots> \<longleftrightarrow> h < ts_next s \<and> (\<forall>i \<in> set (ts_open s). h < i)" by (subst Min_gr_iff) auto
  finally show ?thesis .
qed

lemma tx_step_settled:
  assumes "tx_step s s'" "h \<le> SettledHorizon s"
  shows "h \<le> SettledHorizon s'
    \<and> filter (\<lambda>r. jr_tx_id r \<le> h) (db_journal (ts_db s')) = filter (\<lambda>r. jr_tx_id r \<le> h) (db_journal (ts_db s))"
  using assms
proof (induction rule: tx_step.induct)
  case (tx_commits i s now es)
  let ?d = "(ts_db s)\<lparr>db_tx := i, db_now := now\<rparr>"
  obtain rows where r: "db_journal (fold published es ?d) = db_journal (ts_db s) @ rows" "\<forall>r \<in> set rows. jr_tx_id r = i"
    using fold_published_journal [of es ?d] by auto
  have "h < i" using tx_commits by (auto simp: SettledHorizon_less)
  then have "filter (\<lambda>r. jr_tx_id r \<le> h) rows = []" using r(2) by (auto simp: filter_empty_conv)
  then show ?case using tx_commits r(1) by (auto simp: SettledHorizon_less tx_commit_def)
qed (auto simp: SettledHorizon_less tx_begin_def tx_abort_def)


section \<open>A change that is lost\<close>

definition example_created :: "uuid \<Rightarrow> uuid \<Rightarrow> event" where
  "example_created t i = EvMessageCreated \<lparr>mc_MessageID = i, mc_ThreadID = t, mc_DomainID = 7, mc_From = None, mc_To = [],
     mc_SendID = [], mc_Body = ''hello'', mc_Type = ''text'', mc_OccurredAt = 0, mc_Metadata = Map.empty, mc_Images = [],
     mc_Documents = [], mc_Location = None, mc_Contact = None, mc_Interactive = None, mc_System = None,
     mc_BotControllerMemberID = None, mc_ReplyTo = None, mc_ForwardOrigin = None, mc_Seq = 1,
     mc_ExternalMetadata = Map.empty\<rparr>"

definition journal_member :: "uuid \<Rightarrow> uuid \<Rightarrow> dialog_row" where
  "journal_member i t =
     \<lparr>dl_id = i, dl_domain_id = 7, dl_created_at = 0, dl_updated_at = 0, dl_deleted_at = None,
      dl_invited_by = None, dl_leave_reason = None, dl_member_id = 50, dl_thread_id = t,
      dl_thread_role = RoleMember, dl_via = None, dl_queue_id = None, dl_is_bot = False, dl_auto_leave = False,
      dl_unread_count = 0, dl_last_read_seq = None, dl_last_delivered_seq = None,
      dl_last_read_message_id = None\<rparr>"

text \<open>Contact 50 is a member of threads 6 and 8; nothing has been journaled yet.\<close>

definition idle :: tx_state where
  "idle = \<lparr>ts_db = empty_db\<lparr>db_dialogs := [journal_member 2 6, journal_member 3 8]\<rparr>, ts_next = 1, ts_open = []\<rparr>"

text \<open>
  Transaction 1 writes message 20 to thread 6 at time zero, transaction 2 message 21 to thread 8
  two minutes later. Transaction 3 begins and stays open. Transaction 4 writes message 22 to
  thread 6.
\<close>

definition busy :: tx_state where
  "busy = tx_commit 4 121000000000 [example_created 6 22] (tx_begin (tx_begin
     (tx_commit 2 120000000000 [example_created 8 21] (tx_begin
       (tx_commit 1 0 [example_created 6 20] (tx_begin idle))))))"

definition done_busy :: tx_state where
  "done_busy = tx_abort 3 busy"

text \<open>What an answer tells: its cursor, and per thread the kind and message of each entry.\<close>

definition answer :: "updates res \<Rightarrow> (string \<times> (uuid \<times> (string \<times> anyv option) list) list) option" where
  "answer u =
     (case u of
        Inr (Updates cur es) \<Rightarrow> Some (cur, map (\<lambda>e. case e of Left_thread t \<Rightarrow> (t, [])
            | Changed_thread t evs \<Rightarrow> (t, map (\<lambda>(k, f). (k, f ''msg_id'')) evs)) es)
      | _ \<Rightarrow> None)"

lemma busy_steps: "tx_steps idle busy"
proof -
  let ?s1 = "tx_begin idle" let ?s2 = "tx_commit 1 0 [example_created 6 20] ?s1"
  let ?s3 = "tx_begin ?s2" let ?s4 = "tx_commit 2 120000000000 [example_created 8 21] ?s3"
  let ?s5 = "tx_begin (tx_begin ?s4)"
  have o: "1 \<in> set (ts_open ?s1)" "db_now (ts_db ?s1) \<le> 0" by code_simp+
  have o': "2 \<in> set (ts_open ?s3)" "db_now (ts_db ?s3) \<le> 120000000000" by code_simp+
  have o'': "4 \<in> set (ts_open ?s5)" "db_now (ts_db ?s5) \<le> 121000000000" by code_simp+
  have "tx_steps idle ?s1" by (rule tx_next [OF tx_refl tx_begins])
  then have "tx_steps idle ?s2" by (rule tx_next [OF _ tx_commits [OF o]])
  then have "tx_steps idle ?s3" by (rule tx_next [OF _ tx_begins])
  then have "tx_steps idle ?s4" by (rule tx_next [OF _ tx_commits [OF o']])
  then have "tx_steps idle ?s5" by (intro tx_next [OF tx_next [OF _ tx_begins] tx_begins])
  then show ?thesis unfolding busy_def by (rule tx_next [OF _ tx_commits [OF o'']])
qed


section \<open>Witnesses\<close>

lemma answer_Some: "answer u = Some (cur, xs) \<Longrightarrow> \<exists>es. u = Inr (Updates cur es)"
  by (auto simp: answer_def split: sum.splits updates.splits)


theorem GetUpdates_private_witness:
  "\<exists>cur es. GetUpdates (Some 50) 7 ''0'' (SettledHorizon done_busy) (ts_db done_busy) = Inr (Updates cur es)
     \<and> sum_list (map entry_size es) \<le> 1000"
proof -
  have "answer (GetUpdates (Some 50) 7 ''0'' (SettledHorizon done_busy) (ts_db done_busy)) =
      Some (''4'', [(8, [(''message.new'', Some (VUuid 21))]),
                    (6, [(''message.new'', Some (VUuid 20)), (''message.new'', Some (VUuid 22))])])" by code_simp
  then obtain es where "GetUpdates (Some 50) 7 ''0'' (SettledHorizon done_busy) (ts_db done_busy) = Inr (Updates ''4'' es)"
    by (blast dest: answer_Some)
  with GetUpdates_private [OF this] show ?thesis by blast
qed




end
