(* ===== verification/Message_Changes.thy ===== *)
theory Message_Changes
  imports Status_Service Journal
begin

text \<open>
  Editing and deleting messages: the events of \<^verbatim>\<open>internal/domain/model/message.go\<close>
  (\<^verbatim>\<open>WithEditedEvent\<close>, \<^verbatim>\<open>WithDeletedEvent\<close>), the statements \<^verbatim>\<open>EditMessage\<close> and \<^verbatim>\<open>DeleteMessages\<close> of
  \<^verbatim>\<open>internal/store/postgres/message.go\<close> and the operations of \<^verbatim>\<open>internal/service/message.go\<close>.
  The contact service's \<^verbatim>\<open>GetIdentity\<close> is a parameter. A statement that returns several rows returns
  them in table order here; the database promises no order, and no result below depends on it.
\<close>

section \<open>Events of a change\<close>

record ContactIdentity =
  ci_Sub :: string
  ci_Issuer :: string
  ci_Type :: string
  ci_Name :: string
  ci_Username :: string
  ci_IsBot :: bool

definition propagated_metadata :: "(string \<Rightarrow> bool) \<Rightarrow> ctx \<Rightarrow> string \<Rightarrow> (string \<rightharpoonup> string)" where
  "propagated_metadata uuid_valid cx via =
     (let m0 = Map.empty;
          m1 = (case cx_jwt cx of Some p \<Rightarrow> m0(''x-jwt-payload'' \<mapsto> p) | None \<Rightarrow> m0);
          m2 = (case cx_device cx of Some d \<Rightarrow> m1(''x-webitel-device'' \<mapsto> d) | None \<Rightarrow> m1)
      in if via \<noteq> [] \<and> uuid_valid via then m2(''x-webitel-via'' \<mapsto> via) else m2)"

definition actorAsEventMember :: "Message \<Rightarrow> ThreadMember option" where
  "actorAsEventMember m =
     (if pr_ID (m_From m) = uuid_nil then None
      else (let i = (if m_MemberID m \<noteq> uuid_nil then Some (m_MemberID m) else None)
            in Some (case find (\<lambda>d. td_ContactID d = pr_ID (m_From m)) (m_To m) of
                 None \<Rightarrow> \<lparr>tm_ID = i, tm_ContactID = pr_ID (m_From m), tm_Role = 0, tm_IsBot = False\<rparr>
               | Some d \<Rightarrow> \<lparr>tm_ID = (if bm_ID d \<noteq> uuid_nil then Some (bm_ID d) else i), tm_ContactID = pr_ID (m_From m),
                            tm_Role = td_ThreadRole d, tm_IsBot = td_IsBot d\<rparr>)))"

definition actor_contact :: "Message \<Rightarrow> bool \<Rightarrow> ContactIdentity option \<Rightarrow> MemberContact" where
  "actor_contact m isBot contact =
     (let c0 = (case contact of
                  None \<Rightarrow> \<lparr>mct_ID = pr_ID (m_From m), mct_Sub = [], mct_Iss = [], mct_Name = [], mct_Username = [],
                           mct_Type = [], mct_IsBot = isBot\<rparr>
                | Some c \<Rightarrow> \<lparr>mct_ID = pr_ID (m_From m), mct_Sub = ci_Sub c, mct_Iss = ci_Issuer c, mct_Name = ci_Name c,
                             mct_Username = ci_Username c, mct_Type = ci_Type c, mct_IsBot = ci_IsBot c\<rparr>)
      in (case pr_Identity (m_From m) of None \<Rightarrow> c0
          | Some i \<Rightarrow> c0\<lparr>mct_Name := (if mct_Name c0 = [] then idn_Name i else mct_Name c0),
                         mct_Iss := (if mct_Iss c0 = [] then idn_Issuer i else mct_Iss c0)\<rparr>))"

definition actorAsMember :: "ContactIdentity option \<Rightarrow> Message \<Rightarrow> EventMember option" where
  "actorAsMember contact m =
     (if pr_ID (m_From m) = uuid_nil then None
      else (let i = (if m_MemberID m \<noteq> uuid_nil then Some (m_MemberID m) else None)
            in Some (case find (\<lambda>d. td_ContactID d = pr_ID (m_From m)) (m_To m) of
                 None \<Rightarrow> \<lparr>emb_ID = i, emb_Contact = Some (actor_contact m False contact), emb_Role = ThreadRole_String UnspecifiedRole\<rparr>
               | Some d \<Rightarrow> \<lparr>emb_ID = (if bm_ID d \<noteq> uuid_nil then Some (bm_ID d) else i),
                            emb_Contact = Some (actor_contact m (td_IsBot d) contact), emb_Role = ThreadRole_String (td_ThreadRole d)\<rparr>)))"

definition DeletedAtOrNow :: "time \<Rightarrow> Message \<Rightarrow> time" where
  "DeletedAtOrNow now m = (case m_DeletedAt m of Some t \<Rightarrow> t | None \<Rightarrow> now)"

definition edited_event :: "(string \<Rightarrow> bool) \<Rightarrow> ctx \<Rightarrow> Message \<Rightarrow> MessageEdited" where
  "edited_event uuid_valid cx m =
     \<lparr>med_MessageID = m_ID m, med_ThreadID = m_ThreadID m, med_DomainID = m_DomainID m, med_EditedBy = actorAsEventMember m,
      med_To = threadDialogsAsEventMembers (m_To m), med_Body = m_Body m, med_Type = MessageType_String (m_Type m),
      med_Revision = m_Version m, med_CreatedAt = m_CreatedAt m, med_OccurredAt = m_UpdatedAt m, med_Metadata = m_Metadata m,
      med_ExternalMetadata = propagated_metadata uuid_valid cx (FirstViaOrDefault m)\<rparr>"

definition WithEditedEvent :: "(string \<Rightarrow> bool) \<Rightarrow> ctx \<Rightarrow> Message \<Rightarrow> Message" where
  "WithEditedEvent uuid_valid cx m = AddEvent (EvMessageEdited (edited_event uuid_valid cx m)) m"

definition WithDeletedEvent :: "(string \<Rightarrow> bool) \<Rightarrow> ctx \<Rightarrow> time \<Rightarrow> ContactIdentity option \<Rightarrow> Message \<Rightarrow> Message" where
  "WithDeletedEvent uuid_valid cx now deleter m =
     AddEvent (EvMessageDeleted
       \<lparr>mdl_MessageID = m_ID m, mdl_ThreadID = m_ThreadID m, mdl_DomainID = m_DomainID m, mdl_DeletedBy = actorAsMember deleter m,
        mdl_To = threadDialogsAsEventMembers (m_To m), mdl_Type = MessageType_String (m_Type m), mdl_CreatedAt = m_CreatedAt m,
        mdl_OccurredAt = DeletedAtOrNow now m,
        mdl_ExternalMetadata = propagated_metadata uuid_valid cx (FirstViaOrDefault m)\<rparr>) m"

definition dispatchMessageEvents :: "Message \<Rightarrow> db \<Rightarrow> db res" where
  "dispatchMessageEvents m db =
     (if m_domainEvents m = [] then Inl (Err Unknown ''domain events queue is empty: transaction aborted'')
      else foldr_res publish_event (m_domainEvents m) db)"

section \<open>Editing\<close>

definition revisions_of :: "db \<Rightarrow> uuid \<Rightarrow> revision_row list" where
  "revisions_of db i = filter (\<lambda>r. rv_message_id r = i) (db_revisions db)"

definition active_member_of :: "db \<Rightarrow> uuid \<Rightarrow> uuid \<Rightarrow> bool" where
  "active_member_of db t c = (\<exists>d \<in> set (db_dialogs db). dl_thread_id d = t \<and> dl_member_id d = c \<and> active d)"

definition is_author :: "uuid \<Rightarrow> message_row \<Rightarrow> bool" where
  "is_author c m = (ms_sender_id m = c \<or> ms_origin_sender m = Some c)"

definition editable :: "db \<Rightarrow> uuid \<Rightarrow> uuid \<Rightarrow> message_row \<Rightarrow> bool" where
  "editable db i c m \<longleftrightarrow> ms_id m = i \<and> ms_deleted_at m = None \<and> is_author c m \<and> active_member_of db (ms_thread_id m) c"

definition store_EditMessage :: "Message option \<Rightarrow> db \<Rightarrow> (Message \<times> db) res" where
  "store_EditMessage msg db =
     (case msg of None \<Rightarrow> Inl (Err InvalidArgument ''message cannot be nil'')
      | Some x \<Rightarrow>
         if m_ID x = uuid_nil then Inl (Err InvalidArgument ''message id cannot be nil'')
         else if pr_ID (m_From x) = uuid_nil then Inl (Err InvalidArgument ''editor id cannot be nil'')
         else (case find (editable db (m_ID x) (pr_ID (m_From x))) (db_messages db) of
                 None \<Rightarrow> Inl (Err Forbidden ''message cannot be edited: not found, not authored by the editor, or the chat is closed'')
               | Some m \<Rightarrow>
                  (let revs = revisions_of db (ms_id m);
                       rev = \<lparr>rv_message_id = ms_id m, rv_domain_id = ms_domain_id m,
                              rv_version = (if revs = [] then 0 else Max (rv_version ` set revs)) + 1, rv_body = ms_body m,
                              rv_changed_by = pr_ID (m_From x), rv_changed_at = db_now db\<rparr>
                   in Inr (zero_message\<lparr>m_ID := ms_id m, m_DomainID := ms_domain_id m, m_ThreadID := ms_thread_id m,
                             m_MemberID := ms_member_id m, m_Type := ms_type m, m_Body := m_Body x, m_Metadata := ms_metadata m,
                             m_CreatedAt := ms_created_at m, m_UpdatedAt := db_now db, m_Edited := True,
                             m_Version := int (length revs) + 2\<rparr>,
                           db\<lparr>db_messages := update_where (\<lambda>r. ms_id r = ms_id m)
                                (\<lambda>r. r\<lparr>ms_body := m_Body x, ms_edited := True, ms_updated_at := db_now db\<rparr>) (db_messages db),
                              db_revisions := db_revisions db @ [rev]\<rparr>))))"

definition EditMessage :: "(string \<Rightarrow> bool) \<Rightarrow> ctx \<Rightarrow> Message option \<Rightarrow> db \<Rightarrow> Message res \<times> db" where
  "EditMessage uuid_valid cx msg db =
     (case msg of None \<Rightarrow> (Inl (Err InvalidArgument ''message id is required''), db)
      | Some x \<Rightarrow>
         if m_ID x = uuid_nil then (Inl (Err InvalidArgument ''message id is required''), db)
         else if pr_ID (m_From x) = uuid_nil then (Inl (Err InvalidArgument ''editor identity is required''), db)
         else WithinTransaction (\<lambda>db.
                bindr (store_EditMessage (Some x) db) (\<lambda>(edited, db1).
                  (let m = WithEditedEvent uuid_valid cx
                             (edited\<lparr>m_To := GetQuickView (thread_filter (m_ThreadID edited)) db1, m_From := m_From x\<rparr>)
                   in bindr (dispatchMessageEvents m db1) (\<lambda>db2. Inr (m\<lparr>m_domainEvents := []\<rparr>, db2))))) db)"

section \<open>Deleting\<close>

text \<open>The deleter's membership: \<^verbatim>\<open>order by td.deleted_at nulls first limit 1\<close>.\<close>

definition deleter_dialog :: "db \<Rightarrow> uuid \<Rightarrow> uuid \<Rightarrow> dialog_row option" where
  "deleter_dialog db t c =
     (let ds = filter (\<lambda>d. dl_thread_id d = t \<and> dl_member_id d = c) (db_dialogs db)
      in (case find active ds of Some d \<Rightarrow> Some d | None \<Rightarrow> first_min (\<lambda>d. the (dl_deleted_at d)) ds))"

definition can_delete :: "db \<Rightarrow> uuid \<Rightarrow> uuid \<Rightarrow> bool" where
  "can_delete db t c =
     (case deleter_dialog db t c of None \<Rightarrow> True
      | Some d \<Rightarrow> (case find (\<lambda>p. pm_thread_dialog_id p = dl_id d) (db_perms db) of None \<Rightarrow> True
                   | Some p \<Rightarrow> CanDeleteMessages (pm_perms p)))"

definition chat_closed :: "db \<Rightarrow> uuid \<Rightarrow> uuid \<Rightarrow> bool" where
  "chat_closed db t c = (case deleter_dialog db t c of None \<Rightarrow> False | Some d \<Rightarrow> \<not> active d)"

definition deletable :: "db \<Rightarrow> uuid \<Rightarrow> message_row \<Rightarrow> bool" where
  "deletable db c m \<longleftrightarrow> ms_deleted_at m = None \<and> is_author c m \<and> deleter_dialog db (ms_thread_id m) c \<noteq> None
     \<and> \<not> chat_closed db (ms_thread_id m) c \<and> can_delete db (ms_thread_id m) c"

definition skip_reason :: "db \<Rightarrow> uuid \<Rightarrow> message_row \<Rightarrow> MessageSkipReason" where
  "skip_reason db c m =
     (if deletable db c m then 0
      else if deleter_dialog db (ms_thread_id m) c = None then 1
      else if \<not> is_author c m then 2
      else if ms_deleted_at m \<noteq> None then 3
      else if chat_closed db (ms_thread_id m) c then 4
      else 5)"

definition classified_message :: "db \<Rightarrow> uuid \<Rightarrow> message_row \<Rightarrow> Message" where
  "classified_message db c m =
     zero_message\<lparr>m_ID := ms_id m, m_DomainID := ms_domain_id m, m_ThreadID := ms_thread_id m, m_MemberID := ms_member_id m,
       m_SenderID := ms_sender_id m, m_Type := ms_type m, m_CreatedAt := ms_created_at m,
       m_UpdatedAt := (if deletable db c m then db_now db else ms_updated_at m),
       m_DeletedAt := (if deletable db c m then Some (db_now db) else ms_deleted_at m), m_SkipReason := skip_reason db c m\<rparr>"

fun split_rows :: "Message list \<Rightarrow> uuid set \<Rightarrow> Message list \<times> (uuid \<times> MessageSkipReason) list \<times> uuid set" where
  "split_rows [] seen = ([], [], seen)"
| "split_rows (m # ms) seen =
     (if m_ID m \<in> seen then split_rows ms seen
      else (case split_rows ms (insert (m_ID m) seen) of (kept, skipped, seen') \<Rightarrow>
              if m_SkipReason m = 0 then (m # kept, skipped, seen')
              else (kept, (m_ID m, m_SkipReason m) # skipped, seen')))"

fun missing_ids :: "uuid list \<Rightarrow> uuid set \<Rightarrow> (uuid \<times> MessageSkipReason) list" where
  "missing_ids [] seen = []"
| "missing_ids (i # ids) seen =
     (if i \<in> seen then missing_ids ids seen else (i, 1) # missing_ids ids (insert i seen))"

definition splitSkipOutcome :: "uuid list \<Rightarrow> Message list \<Rightarrow> Message list \<times> (uuid \<times> MessageSkipReason) list" where
  "splitSkipOutcome ids classified =
     (case split_rows classified {} of (kept, skipped, seen) \<Rightarrow> (kept, skipped @ missing_ids ids seen))"

definition store_DeleteMessages :: "uuid list \<Rightarrow> uuid \<Rightarrow> db
    \<Rightarrow> ((Message list \<times> (uuid \<times> MessageSkipReason) list) \<times> db) res" where
  "store_DeleteMessages ids c db =
     (if ids = [] then Inl (Err InvalidArgument ''message ids cannot be empty'')
      else if c = uuid_nil then Inl (Err InvalidArgument ''deleter id cannot be nil'')
      else (let target = filter (\<lambda>m. ms_id m \<in> set ids) (db_messages db);
                classified = map (classified_message db c) (filter (deletable db c) target)
                           @ map (classified_message db c) (filter (\<lambda>m. \<not> deletable db c m) target)
            in Inr (splitSkipOutcome ids classified,
                    db\<lparr>db_messages := update_where (\<lambda>m. ms_id m \<in> set ids \<and> deletable db c m)
                         (\<lambda>m. m\<lparr>ms_deleted_at := Some (db_now db), ms_deleted_by := Some c, ms_updated_at := db_now db\<rparr>)
                         (db_messages db)\<rparr>)))"

record DeleteMessagesRequest =
  dq_DeletedBy :: Peer
  dq_IDs :: "uuid list"
  dq_DomainID :: int

record DeleteMessagesResponse =
  dr_DeletedIDs :: "uuid list"
  dr_Skipped :: "(uuid \<times> MessageSkipReason) list"
  dr_DeletedAt :: time

definition alreadyDeletedSkip :: "(uuid \<times> MessageSkipReason) list \<Rightarrow> bool" where
  "alreadyDeletedSkip skipped = (\<exists>s \<in> set skipped. snd s = 3)"

fun join_strings :: "string \<Rightarrow> string list \<Rightarrow> string" where
  "join_strings sep [] = []"
| "join_strings sep [x] = x"
| "join_strings sep (x # xs) = x @ sep @ join_strings sep xs"

text \<open>\<^verbatim>\<open>%s (%d)\<close> for every reason, in the order of their first use.\<close>

definition skipReasonSummary :: "(uuid \<times> MessageSkipReason) list \<Rightarrow> string" where
  "skipReasonSummary skipped =
     (case skipped of [] \<Rightarrow> MessageSkipReason_String 1
      | [s] \<Rightarrow> MessageSkipReason_String (snd s)
      | _ \<Rightarrow> join_strings '', ''
               (map (\<lambda>r. MessageSkipReason_String r @ '' ('' @ FormatInt (int (length (filter (\<lambda>s. snd s = r) skipped))) @ '')'')
                 (rev (remdups (rev (map snd skipped))))))"

type_synonym identity_lookup = "uuid \<Rightarrow> int \<Rightarrow> ContactIdentity option res"

definition resolveContactIdentity :: "identity_lookup \<Rightarrow> uuid \<Rightarrow> int \<Rightarrow> ContactIdentity option" where
  "resolveContactIdentity GetIdentity c domain =
     (if c = uuid_nil then None else (case GetIdentity c domain of Inl _ \<Rightarrow> None | Inr i \<Rightarrow> i))"

text \<open>
  The announcement of one deleted message. The members are read once per thread in the code;
  publishing does not change them, so reading them each time gives the same list.
\<close>

definition announce_deleted :: "(string \<Rightarrow> bool) \<Rightarrow> ctx \<Rightarrow> time \<Rightarrow> ContactIdentity option \<Rightarrow> Peer \<Rightarrow> Message \<Rightarrow> db \<Rightarrow> db res" where
  "announce_deleted uuid_valid cx now contact deleter m db =
     dispatchMessageEvents (WithDeletedEvent uuid_valid cx now contact
       (m\<lparr>m_To := GetQuickView (thread_filter (m_ThreadID m)) db, m_From := deleter\<rparr>)) db"

definition DeleteMessages :: "(string \<Rightarrow> bool) \<Rightarrow> ctx \<Rightarrow> time \<Rightarrow> identity_lookup \<Rightarrow> DeleteMessagesRequest option \<Rightarrow> db
    \<Rightarrow> DeleteMessagesResponse res \<times> db" where
  "DeleteMessages uuid_valid cx now GetIdentity req db =
     (case req of None \<Rightarrow> (Inl (Err InvalidArgument ''message ids are required''), db)
      | Some q \<Rightarrow>
         if dq_IDs q = [] then (Inl (Err InvalidArgument ''message ids are required''), db)
         else if pr_ID (dq_DeletedBy q) = uuid_nil then (Inl (Err InvalidArgument ''deleter identity is required''), db)
         else (let contact = resolveContactIdentity GetIdentity (pr_ID (dq_DeletedBy q)) (dq_DomainID q)
               in WithinTransaction (\<lambda>db.
                    bindr (store_DeleteMessages (dq_IDs q) (pr_ID (dq_DeletedBy q)) db) (\<lambda>((deleted, skipped), db1).
                      if deleted = [] \<and> \<not> alreadyDeletedSkip skipped
                      then Inl (Err Forbidden (''no messages could be deleted: '' @ skipReasonSummary skipped))
                      else (let ordered = sort_key m_ThreadID deleted
                            in bindr (foldr_res (announce_deleted uuid_valid cx now contact (dq_DeletedBy q)) ordered db1) (\<lambda>db2.
                                 Inr (\<lparr>dr_DeletedIDs = map m_ID ordered, dr_Skipped = skipped,
                                       dr_DeletedAt = (case ordered of [] \<Rightarrow> time_zero | m # _ \<Rightarrow> DeletedAtOrNow now m)\<rparr>,
                                      RecountUnread (remdups (map m_ThreadID ordered)) db2))))) db))"

section \<open>The outcome of a deletion\<close>

lemma split_rows_distinct:
  assumes "distinct (map m_ID ms)" "m_ID ` set ms \<inter> seen = {}"
  shows "split_rows ms seen = (filter (\<lambda>m. m_SkipReason m = 0) ms,
     map (\<lambda>m. (m_ID m, m_SkipReason m)) (filter (\<lambda>m. m_SkipReason m \<noteq> 0) ms), seen \<union> m_ID ` set ms)"
  using assms
proof (induction ms arbitrary: seen)
  case (Cons m ms)
  then have "split_rows ms (insert (m_ID m) seen) = (filter (\<lambda>m. m_SkipReason m = 0) ms,
     map (\<lambda>m. (m_ID m, m_SkipReason m)) (filter (\<lambda>m. m_SkipReason m \<noteq> 0) ms), insert (m_ID m) seen \<union> m_ID ` set ms)"
    by (intro Cons.IH) auto
  with Cons.prems show ?case by auto
qed simp

lemma missing_ids_props:
  "distinct (map fst (missing_ids ids seen)) \<and> fst ` set (missing_ids ids seen) = set ids - seen
   \<and> (\<forall>s \<in> set (missing_ids ids seen). snd s = 1)"
  by (induction ids seen rule: missing_ids.induct) auto

lemma classified_simps [simp]:
  "m_ID (classified_message db c m) = ms_id m" "m_SkipReason (classified_message db c m) = skip_reason db c m"
  "m_ThreadID (classified_message db c m) = ms_thread_id m" "m_domainEvents (classified_message db c m) = []"
  by (simp_all add: classified_message_def zero_message_def)

lemma skip_reason_0 [simp]: "skip_reason db c m = 0 \<longleftrightarrow> deletable db c m"
  by (simp add: skip_reason_def)

lemma skip_reason_range: "\<not> deletable db c m \<Longrightarrow> skip_reason db c m \<in> {1, 2, 3, 4, 5}"
  by (simp add: skip_reason_def)

lemma ids_sub: "distinct (map ms_id xs) \<Longrightarrow> distinct (map ms_id (filter p xs @ filter (\<lambda>x. \<not> p x) xs))"
  by (auto simp: distinct_map inj_on_def)

lemma store_DeleteMessages_eq:
  assumes "distinct (map ms_id (db_messages db))" "ids \<noteq> []" "c \<noteq> uuid_nil"
  defines "target \<equiv> filter (\<lambda>m. ms_id m \<in> set ids) (db_messages db)"
  shows "store_DeleteMessages ids c db = Inr
     ((map (classified_message db c) (filter (deletable db c) target),
       map (\<lambda>m. (ms_id m, skip_reason db c m)) (filter (\<lambda>m. \<not> deletable db c m) target) @ missing_ids ids (ms_id ` set target)),
      db\<lparr>db_messages := update_where (\<lambda>m. ms_id m \<in> set ids \<and> deletable db c m)
         (\<lambda>m. m\<lparr>ms_deleted_at := Some (db_now db), ms_deleted_by := Some c, ms_updated_at := db_now db\<rparr>) (db_messages db)\<rparr>)"
proof -
  let ?ms = "map (classified_message db c) (filter (deletable db c) target)
      @ map (classified_message db c) (filter (\<lambda>m. \<not> deletable db c m) target)"
  have "distinct (map ms_id target)" unfolding target_def by (rule distinct_map_filter [OF assms(1)])
  then have "distinct (map ms_id (filter (deletable db c) target @ filter (\<lambda>m. \<not> deletable db c m) target))" by (rule ids_sub)
  then have "distinct (map m_ID ?ms)" by (simp add: comp_def image_image)
  have seen: "m_ID ` set ?ms = ms_id ` set target" by (auto simp: image_Un image_image)
  from split_rows_distinct [OF \<open>distinct (map m_ID ?ms)\<close>, of "{}"]
  have "split_rows ?ms {} = (map (classified_message db c) (filter (deletable db c) target),
      map (\<lambda>m. (ms_id m, skip_reason db c m)) (filter (\<lambda>m. \<not> deletable db c m) target), ms_id ` set target)"
    using seen by (simp add: filter_map comp_def)
  then show ?thesis using assms(2,3) by (simp add: store_DeleteMessages_def splitSkipOutcome_def target_def Let_def)
qed

text \<open>Announcing never fails and touches no table but the outbox, the journal and the marks.\<close>

lemma announce_deleted_eq:
  assumes "m_domainEvents m = []"
  shows "\<exists>e. announce_deleted v cx now contact deleter m db = Inr (published (EvMessageDeleted e) db)
     \<and> mdl_MessageID e = m_ID m \<and> mdl_ThreadID e = m_ThreadID m"
  using assms by (simp add: announce_deleted_def dispatchMessageEvents_def WithDeletedEvent_def AddEvent_def publish_event_eq)
    (rule exI, rule conjI, rule refl, simp)

lemma announce_all:
  assumes "\<forall>m \<in> set ms. m_domainEvents m = []"
  shows "\<exists>es. foldr_res (announce_deleted v cx now contact deleter) ms db = Inr (fold (\<lambda>e. published (EvMessageDeleted e)) es db)
     \<and> map mdl_MessageID es = map m_ID ms \<and> map mdl_ThreadID es = map m_ThreadID ms"
  using assms
proof (induction ms arbitrary: db)
  case (Cons m ms)
  then obtain e where e: "announce_deleted v cx now contact deleter m db = Inr (published (EvMessageDeleted e) db)"
      "mdl_MessageID e = m_ID m" "mdl_ThreadID e = m_ThreadID m"
    using announce_deleted_eq by (metis list.set_intros(1))
  from Cons.IH [of "published (EvMessageDeleted e) db"] Cons.prems obtain es where
    "foldr_res (announce_deleted v cx now contact deleter) ms (published (EvMessageDeleted e) db)
       = Inr (fold (\<lambda>e. published (EvMessageDeleted e)) es (published (EvMessageDeleted e) db))"
    "map mdl_MessageID es = map m_ID ms" "map mdl_ThreadID es = map m_ThreadID ms" by auto
  with e show ?case by (intro exI [of _ "e # es"]) simp
qed simp

lemma fold_deleted_frame [simp]:
  "db_dialogs (fold (\<lambda>e. published (EvMessageDeleted e)) es db) = db_dialogs db"
  "db_messages (fold (\<lambda>e. published (EvMessageDeleted e)) es db) = db_messages db"
  "db_threads (fold (\<lambda>e. published (EvMessageDeleted e)) es db) = db_threads db"
  "db_perms (fold (\<lambda>e. published (EvMessageDeleted e)) es db) = db_perms db"
  "db_now (fold (\<lambda>e. published (EvMessageDeleted e)) es db) = db_now db"
  by (induction es arbitrary: db) simp_all

lemma fold_deleted_outbox:
  "map (fst \<circ> snd) (db_outbox (fold (\<lambda>e. published (EvMessageDeleted e)) es db))
     = map (fst \<circ> snd) (db_outbox db) @ map EvMessageDeleted es"
  by (induction es arbitrary: db) simp_all

lemma insort_key_map: "insort_key k (f x) (map f ys) = map f (insort_key (\<lambda>y. k (f y)) x ys)"
  by (induction ys) simp_all

lemma sort_key_map: "sort_key k (map f xs) = map f (sort_key (\<lambda>x. k (f x)) xs)"
  by (induction xs) (simp_all add: insort_key_map)

lemma DeleteMessages_Inr:
  assumes ids: "distinct (map ms_id (db_messages db))"
    and del: "DeleteMessages v cx now GetIdentity (Some q) db = (Inr resp, db')"
  defines "c \<equiv> pr_ID (dq_DeletedBy q)" and "target \<equiv> filter (\<lambda>m. ms_id m \<in> set (dq_IDs q)) (db_messages db)"
  obtains es where "dr_DeletedIDs resp = map m_ID (sort_key m_ThreadID (map (classified_message db c) (filter (deletable db c) target)))"
    "dr_Skipped resp = map (\<lambda>m. (ms_id m, skip_reason db c m)) (filter (\<lambda>m. \<not> deletable db c m) target)
        @ missing_ids (dq_IDs q) (ms_id ` set target)"
    "filter (deletable db c) target \<noteq> [] \<or> alreadyDeletedSkip (dr_Skipped resp)"
    "map mdl_MessageID es = dr_DeletedIDs resp"
    "db' = RecountUnread (remdups (map ms_thread_id (sort_key ms_thread_id (filter (deletable db c) target))))
       (fold (\<lambda>e. published (EvMessageDeleted e)) es
         (db\<lparr>db_messages := update_where (\<lambda>m. ms_id m \<in> set (dq_IDs q) \<and> deletable db c m)
           (\<lambda>m. m\<lparr>ms_deleted_at := Some (db_now db), ms_deleted_by := Some c, ms_updated_at := db_now db\<rparr>) (db_messages db)\<rparr>))"
proof -
  let ?d = "map (classified_message db c) (filter (deletable db c) target)"
  let ?o = "sort_key m_ThreadID ?d"
  let ?s = "map (\<lambda>m. (ms_id m, skip_reason db c m)) (filter (\<lambda>m. \<not> deletable db c m) target)
        @ missing_ids (dq_IDs q) (ms_id ` set target)"
  let ?db1 = "db\<lparr>db_messages := update_where (\<lambda>m. ms_id m \<in> set (dq_IDs q) \<and> deletable db c m)
           (\<lambda>m. m\<lparr>ms_deleted_at := Some (db_now db), ms_deleted_by := Some c, ms_updated_at := db_now db\<rparr>) (db_messages db)\<rparr>"
  let ?contact = "resolveContactIdentity GetIdentity c (dq_DomainID q)"
  have ne: "dq_IDs q \<noteq> []" "c \<noteq> uuid_nil" using del by (auto simp: DeleteMessages_def c_def split: if_splits)
  note st = store_DeleteMessages_eq [OF ids ne, folded target_def]
  have "\<forall>m \<in> set ?o. m_domainEvents m = []" by auto
  from announce_all [OF this] obtain es where
    es: "foldr_res (announce_deleted v cx now ?contact (dq_DeletedBy q)) ?o ?db1 = Inr (fold (\<lambda>e. published (EvMessageDeleted e)) es ?db1)"
      "map mdl_MessageID es = map m_ID ?o" by blast
  have order: "map m_ThreadID ?o = map ms_thread_id (sort_key ms_thread_id (filter (deletable db c) target))"
    by (simp add: sort_key_map comp_def)
  from del ne st es have "\<not> (?d = [] \<and> \<not> alreadyDeletedSkip ?s)"
      "resp = \<lparr>dr_DeletedIDs = map m_ID ?o, dr_Skipped = ?s, dr_DeletedAt = (case ?o of [] \<Rightarrow> time_zero | m # _ \<Rightarrow> DeletedAtOrNow now m)\<rparr>"
      "db' = RecountUnread (remdups (map m_ThreadID ?o)) (fold (\<lambda>e. published (EvMessageDeleted e)) es ?db1)"
    by (auto simp: DeleteMessages_def WithinTransaction_def c_def Let_def split: if_splits)
  with es order show thesis by (intro that [of es]) auto
qed

text \<open>
  C24. A deletion accounts for every requested message: each requested id is in the answer exactly
  once, either as deleted or as skipped with a reason, and nothing else is; the events announce exactly the
  deleted ones.
\<close>

theorem delete_accounts_for_all:
  assumes ids: "distinct (map ms_id (db_messages db))"
    and del: "DeleteMessages v cx now GetIdentity (Some q) db = (Inr resp, db')"
  shows "distinct (dr_DeletedIDs resp @ map fst (dr_Skipped resp))
    \<and> set (dr_DeletedIDs resp) \<union> fst ` set (dr_Skipped resp) = set (dq_IDs q)
    \<and> (\<forall>s \<in> set (dr_Skipped resp). snd s \<in> {1, 2, 3, 4, 5})
    \<and> (\<exists>es. map (fst \<circ> snd) (db_outbox db') = map (fst \<circ> snd) (db_outbox db) @ map EvMessageDeleted es
         \<and> map mdl_MessageID es = dr_DeletedIDs resp)"
proof -
  let ?c = "pr_ID (dq_DeletedBy q)"
  let ?t = "filter (\<lambda>m. ms_id m \<in> set (dq_IDs q)) (db_messages db)"
  obtain es where d: "dr_DeletedIDs resp = map m_ID (sort_key m_ThreadID (map (classified_message db ?c) (filter (deletable db ?c) ?t)))"
    and s: "dr_Skipped resp = map (\<lambda>m. (ms_id m, skip_reason db ?c m)) (filter (\<lambda>m. \<not> deletable db ?c m) ?t)
        @ missing_ids (dq_IDs q) (ms_id ` set ?t)"
    and es: "map mdl_MessageID es = dr_DeletedIDs resp"
    and db': "db' = RecountUnread (remdups (map ms_thread_id (sort_key ms_thread_id (filter (deletable db ?c) ?t))))
       (fold (\<lambda>e. published (EvMessageDeleted e)) es
         (db\<lparr>db_messages := update_where (\<lambda>m. ms_id m \<in> set (dq_IDs q) \<and> deletable db ?c m)
           (\<lambda>m. m\<lparr>ms_deleted_at := Some (db_now db), ms_deleted_by := Some ?c, ms_updated_at := db_now db\<rparr>) (db_messages db)\<rparr>))"
    by (rule DeleteMessages_Inr [OF ids del])
  have inj: "inj_on ms_id (set (db_messages db))" and dist: "distinct (db_messages db)"
    using ids by (simp_all add: distinct_map)
  have del_ids: "dr_DeletedIDs resp = map ms_id (sort_key ms_thread_id (filter (deletable db ?c) ?t))"
    by (simp add: d sort_key_map comp_def)
  have "distinct (dr_DeletedIDs resp)" unfolding del_ids using inj dist by (auto simp: distinct_map inj_on_def)
  moreover have "distinct (map fst (dr_Skipped resp))"
    using inj dist missing_ids_props [of "dq_IDs q" "ms_id ` set ?t"]
    by (auto simp: s comp_def distinct_map inj_on_def)
  moreover have "set (dr_DeletedIDs resp) = ms_id ` {m \<in> set ?t. deletable db ?c m}" by (simp add: del_ids)
  moreover have "fst ` set (dr_Skipped resp) = ms_id ` {m \<in> set ?t. \<not> deletable db ?c m} \<union> (set (dq_IDs q) - ms_id ` set ?t)"
    using missing_ids_props [of "dq_IDs q" "ms_id ` set ?t"] by (simp add: s image_Un image_image)
  moreover have "ms_id ` {m \<in> set ?t. deletable db ?c m} \<inter> ms_id ` {m \<in> set ?t. \<not> deletable db ?c m} = {}"
    using inj by (auto simp: inj_on_def)
  moreover have "ms_id ` set ?t \<subseteq> set (dq_IDs q)" by auto
  moreover have "snd x \<in> {1, 2, 3, 4, 5}" if "x \<in> set (dr_Skipped resp)" for x
  proof -
    from that consider m where "\<not> deletable db ?c m" "x = (ms_id m, skip_reason db ?c m)"
      | "x \<in> set (missing_ids (dq_IDs q) (ms_id ` set ?t))" unfolding s by auto
    then show ?thesis using skip_reason_range missing_ids_props [of "dq_IDs q" "ms_id ` set ?t"] by cases auto
  qed
  moreover have "map (fst \<circ> snd) (db_outbox db') = map (fst \<circ> snd) (db_outbox db) @ map EvMessageDeleted es"
    by (simp add: db' RecountUnread_def fold_deleted_outbox)
  ultimately show ?thesis using es by auto
qed


text \<open>Horizons and counters do not matter to the statement that classifies.\<close>

lemma find_map: "(\<And>x. p (g x) = p x) \<Longrightarrow> find p (map g xs) = map_option g (find p xs)"
  by (induction xs) auto

lemma first_min_map: "(\<And>x. k (g x) = k x) \<Longrightarrow> first_min k (map g xs) = map_option g (first_min k xs)"
  by (induction xs) (auto split: option.splits)

lemma deleter_dialog_map:
  assumes "db_dialogs db' = map g (db_dialogs db)"
    and g: "\<And>d. dl_thread_id (g d) = dl_thread_id d \<and> dl_member_id (g d) = dl_member_id d \<and> dl_deleted_at (g d) = dl_deleted_at d"
  shows "deleter_dialog db' t c = map_option g (deleter_dialog db t c)"
proof -
  have f: "filter (\<lambda>d. dl_thread_id d = t \<and> dl_member_id d = c) (db_dialogs db')
      = map g (filter (\<lambda>d. dl_thread_id d = t \<and> dl_member_id d = c) (db_dialogs db))"
    using g by (simp add: assms(1) filter_map comp_def)
  show ?thesis using g unfolding deleter_dialog_def f Let_def
    by (simp add: find_map first_min_map active_def split: option.split)
qed

lemma deletable_map:
  assumes "db_dialogs db' = map g (db_dialogs db)" "db_perms db' = db_perms db"
    and g: "\<And>d. dl_thread_id (g d) = dl_thread_id d \<and> dl_member_id (g d) = dl_member_id d \<and> dl_deleted_at (g d) = dl_deleted_at d
       \<and> dl_id (g d) = dl_id d"
  shows "deletable db' c m = deletable db c m" "skip_reason db' c m = skip_reason db c m"
  using deleter_dialog_map [OF assms(1), of "ms_thread_id m" c] g assms(2)
  by (auto simp: deletable_def skip_reason_def chat_closed_def can_delete_def active_def split: option.splits)

lemma RecountUnread_map:
  "\<exists>g. db_dialogs (RecountUnread ts db) = map g (db_dialogs db) \<and> (\<forall>d. dl_thread_id (g d) = dl_thread_id d
     \<and> dl_member_id (g d) = dl_member_id d \<and> dl_deleted_at (g d) = dl_deleted_at d \<and> dl_id (g d) = dl_id d)"
  by (rule exI [of _ "\<lambda>d. if dl_thread_id d \<in> set ts \<and> active d
        then d\<lparr>dl_unread_count := unread_after db (dl_thread_id d) (dl_member_id d) (seq_or0 (dl_last_read_seq d))\<rparr> else d"])
    (simp add: RecountUnread_def update_where_def)

lemma RecountUnread_frame [simp]:
  "db_messages (RecountUnread ts db) = db_messages db" "db_perms (RecountUnread ts db) = db_perms db"
  "RecountUnread [] db = db"
  by (simp_all add: RecountUnread_def)

text \<open>A batch in which nothing can be deleted and something is already deleted changes nothing.\<close>

lemma DeleteMessages_nothing:
  assumes ids: "distinct (map ms_id (db_messages db))" and ne: "dq_IDs q \<noteq> []" "pr_ID (dq_DeletedBy q) \<noteq> uuid_nil"
    and none: "\<And>m. m \<in> set (db_messages db) \<Longrightarrow> ms_id m \<in> set (dq_IDs q) \<Longrightarrow> \<not> deletable db (pr_ID (dq_DeletedBy q)) m"
    and some: "m \<in> set (db_messages db)" "ms_id m \<in> set (dq_IDs q)" "skip_reason db (pr_ID (dq_DeletedBy q)) m = 3"
  shows "\<exists>resp. DeleteMessages v cx now GetIdentity (Some q) db = (Inr resp, db) \<and> dr_DeletedIDs resp = []
     \<and> (\<forall>m \<in> set (db_messages db). ms_id m \<in> set (dq_IDs q) \<longrightarrow> (ms_id m, skip_reason db (pr_ID (dq_DeletedBy q)) m) \<in> set (dr_Skipped resp))"
proof -
  let ?c = "pr_ID (dq_DeletedBy q)"
  let ?t = "filter (\<lambda>m. ms_id m \<in> set (dq_IDs q)) (db_messages db)"
  have f: "filter (deletable db ?c) ?t = []" "filter (\<lambda>m. \<not> deletable db ?c m) ?t = ?t"
    using none by (auto simp: filter_empty_conv intro!: filter_cong)
  have u: "update_where (\<lambda>m. ms_id m \<in> set (dq_IDs q) \<and> deletable db ?c m)
         (\<lambda>m. m\<lparr>ms_deleted_at := Some (db_now db), ms_deleted_by := Some ?c, ms_updated_at := db_now db\<rparr>) (db_messages db) = db_messages db"
    using none by (intro update_where_none) auto
  have a: "alreadyDeletedSkip (map (\<lambda>m. (ms_id m, skip_reason db ?c m)) ?t @ missing_ids (dq_IDs q) (ms_id ` set ?t))"
    using some by (force simp: alreadyDeletedSkip_def)
  show ?thesis
    using store_DeleteMessages_eq [OF ids ne, unfolded f u] a ne by (simp add: DeleteMessages_def WithinTransaction_def)
qed

text \<open>
  Repeating a deletion is safe: when a batch has succeeded, the same batch sent again succeeds,
  deletes nothing, announces nothing, leaves the state exactly as it is, and reports what the first
  call deleted as already deleted.
\<close>

theorem delete_repeat_safe:
  assumes ids: "distinct (map ms_id (db_messages db))"
    and del: "DeleteMessages v cx now GetIdentity (Some q) db = (Inr resp, db')"
  shows "\<exists>resp2. DeleteMessages v cx now2 GetIdentity (Some q) db' = (Inr resp2, db') \<and> dr_DeletedIDs resp2 = []
     \<and> (\<forall>i \<in> set (dr_DeletedIDs resp). (i, 3) \<in> set (dr_Skipped resp2))"
proof -
  let ?c = "pr_ID (dq_DeletedBy q)"
  let ?t = "filter (\<lambda>m. ms_id m \<in> set (dq_IDs q)) (db_messages db)"
  let ?f = "\<lambda>m. m\<lparr>ms_deleted_at := Some (db_now db), ms_deleted_by := Some ?c, ms_updated_at := db_now db\<rparr>"
  let ?p = "\<lambda>m. ms_id m \<in> set (dq_IDs q) \<and> deletable db ?c m"
  obtain es where d: "dr_DeletedIDs resp = map m_ID (sort_key m_ThreadID (map (classified_message db ?c) (filter (deletable db ?c) ?t)))"
    and s: "dr_Skipped resp = map (\<lambda>m. (ms_id m, skip_reason db ?c m)) (filter (\<lambda>m. \<not> deletable db ?c m) ?t)
        @ missing_ids (dq_IDs q) (ms_id ` set ?t)"
    and some: "filter (deletable db ?c) ?t \<noteq> [] \<or> alreadyDeletedSkip (dr_Skipped resp)"
    and db': "db' = RecountUnread (remdups (map ms_thread_id (sort_key ms_thread_id (filter (deletable db ?c) ?t))))
       (fold (\<lambda>e. published (EvMessageDeleted e)) es (db\<lparr>db_messages := update_where ?p ?f (db_messages db)\<rparr>))"
    by (rule DeleteMessages_Inr [OF ids del])
  have ne: "dq_IDs q \<noteq> []" "?c \<noteq> uuid_nil" using del by (auto simp: DeleteMessages_def split: if_splits)
  let ?db1 = "fold (\<lambda>e. published (EvMessageDeleted e)) es (db\<lparr>db_messages := update_where ?p ?f (db_messages db)\<rparr>)"
  obtain g where g0: "db_dialogs db' = map g (db_dialogs ?db1)" and
      gk: "\<And>d. dl_thread_id (g d) = dl_thread_id d \<and> dl_member_id (g d) = dl_member_id d \<and> dl_deleted_at (g d) = dl_deleted_at d \<and> dl_id (g d) = dl_id d"
    unfolding db' using RecountUnread_map [of _ ?db1] by blast
  have g: "db_dialogs db' = map g (db_dialogs db)" "db_perms db' = db_perms db" by (simp_all add: g0, simp add: db')
  note same = deletable_map [OF g gk]
  have msgs: "db_messages db' = map (\<lambda>m. if ?p m then ?f m else m) (db_messages db)" by (simp add: db' update_where_def)
  have gone: "skip_reason db ?c (?f m) = 3" "\<not> deletable db ?c (?f m)" if "deletable db ?c m" for m
    using that by (auto simp: deletable_def skip_reason_def is_author_def)
  have 1: "distinct (map ms_id (db_messages db'))" using ids by (simp add: msgs comp_def if_distrib cong: if_cong)
  have 2: "\<not> deletable db' ?c m" if "m \<in> set (db_messages db')" "ms_id m \<in> set (dq_IDs q)" for m
    using that gone by (auto simp: msgs same split: if_splits)
  have 3: "\<exists>m \<in> set (db_messages db'). ms_id m \<in> set (dq_IDs q) \<and> skip_reason db' ?c m = 3"
    using some
  proof
    assume "filter (deletable db ?c) ?t \<noteq> []"
    then obtain m where "m \<in> set (db_messages db)" "?p m" by (auto simp: filter_empty_conv)
    then show ?thesis using gone by (intro bexI [of _ "?f m"]) (auto simp: msgs same)
  next
    assume "alreadyDeletedSkip (dr_Skipped resp)"
    then obtain m where "m \<in> set ?t" "\<not> deletable db ?c m" "skip_reason db ?c m = 3"
      using missing_ids_props [of "dq_IDs q" "ms_id ` set ?t"] by (auto simp: alreadyDeletedSkip_def s)
    then show ?thesis by (intro bexI [of _ m]) (auto simp: msgs same)
  qed
  from 3 obtain m3 where "m3 \<in> set (db_messages db')" "ms_id m3 \<in> set (dq_IDs q)" "skip_reason db' ?c m3 = 3" by blast
  from DeleteMessages_nothing [OF 1 ne 2 this] obtain resp2 where
    resp2: "DeleteMessages v cx now2 GetIdentity (Some q) db' = (Inr resp2, db')" "dr_DeletedIDs resp2 = []"
      "\<forall>m \<in> set (db_messages db'). ms_id m \<in> set (dq_IDs q) \<longrightarrow> (ms_id m, skip_reason db' ?c m) \<in> set (dr_Skipped resp2)"
    by blast
  have "(i, 3) \<in> set (dr_Skipped resp2)" if "i \<in> set (dr_DeletedIDs resp)" for i
  proof -
    from that obtain m where m: "m \<in> set (db_messages db)" "?p m" "i = ms_id m" by (auto simp: d)
    then have "?f m \<in> set (db_messages db')" by (auto simp: msgs image_iff)
    with m resp2(3) have "(i, skip_reason db' ?c (?f m)) \<in> set (dr_Skipped resp2)" by fastforce
    with gone(1) m(2) show ?thesis by (simp add: same)
  qed
  with resp2 show ?thesis by blast
qed

section \<open>The history of a message\<close>

definition body_of :: "db \<Rightarrow> uuid \<Rightarrow> string list" where
  "body_of db i = (case message_of db i of None \<Rightarrow> [] | Some m \<Rightarrow> [ms_body m])"

definition body_history :: "db \<Rightarrow> uuid \<Rightarrow> string list" where
  "body_history db i = map rv_body (revisions_of db i) @ body_of db i"

definition revisions_ok :: "db \<Rightarrow> bool" where
  "revisions_ok db \<longleftrightarrow> (\<forall>i. map rv_version (revisions_of db i) = map int [1..<Suc (length (revisions_of db i))])"

lemma next_version:
  assumes "map rv_version revs = map int [1..<Suc (length revs)]"
  shows "(if revs = [] then 0 else Max (rv_version ` set revs)) + 1 = int (Suc (length revs))"
proof (cases "revs = []")
  case False
  have "rv_version ` set revs = int ` {1..<Suc (length revs)}"
    using arg_cong [OF assms, of set] by (simp only: set_map set_upt)
  moreover have "Max (int ` {1..<Suc (length revs)}) = int (length revs)"
    using False by (intro Max_eqI) (auto simp: Suc_le_eq intro!: imageI)
  ultimately show ?thesis using False by simp
qed simp

lemma message_of_unique:
  "distinct (map ms_id (db_messages db)) \<Longrightarrow> m \<in> set (db_messages db) \<Longrightarrow> message_of db (ms_id m) = Some m"
  unfolding message_of_def by (rule find_unique_key)

lemma message_of_update:
  assumes "\<And>r. ms_id (f r) = ms_id r"
  shows "find (\<lambda>r. ms_id r = j) (update_where (\<lambda>r. ms_id r = i) f rows)
     = (if j = i then map_option f (find (\<lambda>r. ms_id r = j) rows) else find (\<lambda>r. ms_id r = j) rows)"
  using assms by (induction rows) auto

lemma store_EditMessage_history:
  assumes ids: "distinct (map ms_id (db_messages db))" and ok: "revisions_ok db"
    and edit: "store_EditMessage (Some x) db = Inr (m, db')"
  shows "revisions_ok db' \<and> body_history db' (m_ID x) = body_history db (m_ID x) @ [m_Body x]
    \<and> m_Version m = int (length (body_history db' (m_ID x))) \<and> (\<forall>i. i \<noteq> m_ID x \<longrightarrow> body_history db' i = body_history db i)
    \<and> db_dialogs db' = db_dialogs db"
proof -
  from edit obtain r where r: "find (editable db (m_ID x) (pr_ID (m_From x))) (db_messages db) = Some r"
    by (auto simp: store_EditMessage_def split: option.splits if_splits)
  then have mem: "r \<in> set (db_messages db)" and i: "ms_id r = m_ID x" by (auto dest: find_SomeD simp: editable_def)
  let ?revs = "revisions_of db (m_ID x)"
  have v: "map rv_version ?revs = map int [1..<Suc (length ?revs)]" using ok by (simp add: revisions_ok_def)
  let ?rev = "\<lparr>rv_message_id = m_ID x, rv_domain_id = ms_domain_id r, rv_version = int (Suc (length ?revs)), rv_body = ms_body r,
      rv_changed_by = pr_ID (m_From x), rv_changed_at = db_now db\<rparr>"
  from edit r i next_version [OF v] have db': "db_revisions db' = db_revisions db @ [?rev]" "db_dialogs db' = db_dialogs db"
      "db_messages db' = update_where (\<lambda>r. ms_id r = m_ID x)
        (\<lambda>r. r\<lparr>ms_body := m_Body x, ms_edited := True, ms_updated_at := db_now db\<rparr>) (db_messages db)"
      "m_Version m = int (length ?revs) + 2"
    by (auto simp: store_EditMessage_def Let_def split: if_splits)
  have revs: "revisions_of db' j = (if j = m_ID x then ?revs @ [?rev] else revisions_of db j)" for j
    by (simp add: revisions_of_def db'(1))
  have "message_of db (m_ID x) = Some r" using message_of_unique [OF ids mem] i by simp
  then have body: "body_of db (m_ID x) = [ms_body r]" "body_of db' (m_ID x) = [m_Body x]" "j \<noteq> m_ID x \<Longrightarrow> body_of db' j = body_of db j" for j
    by (simp_all add: body_of_def message_of_def db'(3) message_of_update)
  have "map rv_version (?revs @ [?rev]) = map int [1..<Suc (length (?revs @ [?rev]))]" using v by simp
  then have "revisions_ok db'" using ok unfolding revisions_ok_def revs by presburger
  then show ?thesis using body revs db' by (simp add: body_history_def)
qed

lemma edited_dispatch:
  "m_domainEvents m = [] \<Longrightarrow> dispatchMessageEvents (WithEditedEvent v cx m) db = Inr (published (EvMessageEdited (edited_event v cx m)) db)"
  "(WithEditedEvent v cx m)\<lparr>m_domainEvents := []\<rparr> = m\<lparr>m_domainEvents := []\<rparr>"
  by (simp_all add: dispatchMessageEvents_def WithEditedEvent_def AddEvent_def publish_event_eq)

lemma EditMessage_Inr:
  assumes "EditMessage v cx (Some x) db = (Inr m, db')"
  obtains m1 db1 m2 where "store_EditMessage (Some x) db = Inr (m1, db1)" "db' = published (EvMessageEdited (edited_event v cx m2)) db1"
    "m2 = m1\<lparr>m_To := GetQuickView (thread_filter (m_ThreadID m1)) db1, m_From := m_From x\<rparr>" "m = m2\<lparr>m_domainEvents := []\<rparr>"
proof -
  have ne: "m_ID x \<noteq> uuid_nil" "pr_ID (m_From x) \<noteq> uuid_nil" using assms by (auto simp: EditMessage_def split: if_splits)
  with assms obtain m1 db1 where st: "store_EditMessage (Some x) db = Inr (m1, db1)"
    by (cases "store_EditMessage (Some x) db") (auto simp: EditMessage_def WithinTransaction_def)
  define m2 where "m2 = m1\<lparr>m_To := GetQuickView (thread_filter (m_ThreadID m1)) db1, m_From := m_From x\<rparr>"
  have "m_domainEvents m2 = []" using st
    by (auto simp: m2_def store_EditMessage_def zero_message_def Let_def split: if_splits option.splits)
  with assms ne st have "db' = published (EvMessageEdited (edited_event v cx m2)) db1" "m = m2\<lparr>m_domainEvents := []\<rparr>"
    by (simp_all add: EditMessage_def WithinTransaction_def edited_dispatch m2_def [symmetric])
  with st m2_def that show thesis by blast
qed

text \<open>
  Editing: an edit succeeds only for a live message of the editor in a thread of which the
  editor is an active member; it appends the new body to the message's history and changes no other message,
  the version it reports is the position of the new body in that history, and one edited event carries
  that body and version.
\<close>

theorem edit_appends_history:
  assumes ids: "distinct (map ms_id (db_messages db))" and ok: "revisions_ok db"
    and edit: "EditMessage v cx (Some x) db = (Inr m, db')"
  shows "revisions_ok db' \<and> body_history db' (m_ID x) = body_history db (m_ID x) @ [m_Body x]
    \<and> m_Version m = int (length (body_history db' (m_ID x))) \<and> (\<forall>i. i \<noteq> m_ID x \<longrightarrow> body_history db' i = body_history db i)
    \<and> (\<exists>r \<in> set (db_messages db). ms_id r = m_ID x \<and> ms_deleted_at r = None \<and> is_author (pr_ID (m_From x)) r
         \<and> active_member_of db (ms_thread_id r) (pr_ID (m_From x)))
    \<and> (\<exists>e k. db_outbox db' = db_outbox db @ [(event_topic (EvMessageEdited e), EvMessageEdited e, k)]
         \<and> med_MessageID e = m_ID x \<and> med_Body e = m_Body x \<and> med_Revision e = m_Version m)"
proof -
  obtain m1 db1 m2 where st: "store_EditMessage (Some x) db = Inr (m1, db1)"
    and db': "db' = published (EvMessageEdited (edited_event v cx m2)) db1"
    and m: "m2 = m1\<lparr>m_To := GetQuickView (thread_filter (m_ThreadID m1)) db1, m_From := m_From x\<rparr>" "m = m2\<lparr>m_domainEvents := []\<rparr>"
    by (rule EditMessage_Inr [OF edit])
  obtain r where r: "find (editable db (m_ID x) (pr_ID (m_From x))) (db_messages db) = Some r"
    using st by (auto simp: store_EditMessage_def split: option.splits if_splits)
  then have "r \<in> set (db_messages db)" "editable db (m_ID x) (pr_ID (m_From x)) r" by (auto dest: find_SomeD)
  moreover have "m_ID m1 = m_ID x" "m_Body m1 = m_Body x" "db_outbox db1 = db_outbox db"
    using st r \<open>editable db (m_ID x) (pr_ID (m_From x)) r\<close>
    by (auto simp: store_EditMessage_def editable_def Let_def split: if_splits)
  moreover have "revisions_ok db' = revisions_ok db1" "body_history db' i = body_history db1 i" for i
    by (simp_all add: db' revisions_ok_def revisions_of_def body_history_def body_of_def message_of_def)
  ultimately show ?thesis
    using store_EditMessage_history [OF ids ok st] by (auto simp: db' m edited_event_def editable_def)
qed

section \<open>Examples\<close>

definition plain_ctx :: ctx where
  "plain_ctx = \<lparr>cx_jwt = None, cx_device = None\<rparr>"

definition mention_db :: db where
  "mention_db = status_db\<lparr>db_messages := [(status_message 11 1)\<lparr>ms_body := ''@bob hi'',
     ms_metadata := [''entities'' \<mapsto> VEntities (metadata_entities ''@bob hi'' [])]\<rparr>, status_message 12 2, status_message 13 3]\<rparr>"

definition edit_request :: Message where
  "edit_request = zero_message\<lparr>m_ID := 11, m_From := empty_peer\<lparr>pr_ID := 52\<rparr>, m_Body := ''ok''\<rparr>"

lemmas change_example_defs = mention_db_def edit_request_def plain_ctx_def zero_message_def empty_peer_def status_example_defs

lemma mention_entities: "metadata_entities ''@bob hi'' [] = [\<lparr>en_Type = ''mention'', en_Offset = 0, en_Length = 4, en_Value = ''@bob''\<rparr>]"
  by code_simp

lemma edit_example: "\<exists>m db'. EditMessage (\<lambda>_. False) plain_ctx (Some edit_request) mention_db = (Inr m, db')
    \<and> m_Metadata m = [''entities'' \<mapsto> VEntities (metadata_entities ''@bob hi'' [])]"
  by (simp add: EditMessage_def store_EditMessage_def editable_def is_author_def active_member_of_def WithinTransaction_def
      edited_dispatch active_def Let_def change_example_defs)

theorem edit_appends_history_witness:
  "\<exists>m db'. EditMessage (\<lambda>_. False) plain_ctx (Some edit_request) mention_db = (Inr m, db')
     \<and> body_history db' 11 = [''@bob hi'', ''ok''] \<and> m_Version m = 2"
proof -
  obtain m db' where e: "EditMessage (\<lambda>_. False) plain_ctx (Some edit_request) mention_db = (Inr m, db')"
    using edit_example by blast
  have "distinct (map ms_id (db_messages mention_db))" "revisions_ok mention_db"
    by (simp_all add: change_example_defs revisions_ok_def revisions_of_def)
  from edit_appends_history [OF this e]
  have "body_history db' (m_ID edit_request) = body_history mention_db (m_ID edit_request) @ [m_Body edit_request]"
    "m_Version m = int (length (body_history db' (m_ID edit_request)))" by blast+
  moreover have "body_history mention_db 11 = [''@bob hi'']" "m_ID edit_request = 11" "m_Body edit_request = ''ok''"
    by (simp_all add: body_history_def body_of_def revisions_of_def message_of_def change_example_defs)
  ultimately show ?thesis using e by auto
qed

text \<open>
  An edit keeps the formatting of the text it replaces: the stored entities are not computed for
  the new body, so after an edit of a message that began with a mention the row and the event carry an
  entity that reaches beyond the end of the new body and would not pass the check made when sending.
\<close>

theorem edit_keeps_stale_entities:
  "\<exists>m db' e. EditMessage (\<lambda>_. False) plain_ctx (Some edit_request) mention_db = (Inr m, db')
     \<and> m_Metadata m ''entities'' = Some (VEntities [e]) \<and> \<not> valid_entity (m_Body edit_request) e"
proof -
  obtain m db' where "EditMessage (\<lambda>_. False) plain_ctx (Some edit_request) mention_db = (Inr m, db')"
      "m_Metadata m = [''entities'' \<mapsto> VEntities (metadata_entities ''@bob hi'' [])]"
    using edit_example by blast
  then show ?thesis by (intro exI conjI) (auto simp: mention_entities valid_entity_def edit_request_def)
qed

definition delete_request :: DeleteMessagesRequest where
  "delete_request = \<lparr>dq_DeletedBy = empty_peer\<lparr>pr_ID := 52\<rparr>, dq_IDs = [12, 99, 12, 11], dq_DomainID = 7\<rparr>"

lemma delete_example:
  "\<exists>resp db'. DeleteMessages (\<lambda>_. False) plain_ctx 9 (\<lambda>_ _. Inr None) (Some delete_request) mention_db = (Inr resp, db')
     \<and> dr_DeletedIDs resp = [11, 12]"
  by (simp add: DeleteMessages_def delete_request_def store_DeleteMessages_def splitSkipOutcome_def classified_message_def
      deletable_def skip_reason_def is_author_def deleter_dialog_def chat_closed_def can_delete_def WithinTransaction_def
      announce_deleted_def dispatchMessageEvents_def WithDeletedEvent_def AddEvent_def publish_event_eq active_def
      Let_def change_example_defs)

lemma mention_ids: "distinct (map ms_id (db_messages mention_db))"
  by (simp add: change_example_defs)

theorem delete_accounts_for_all_witness:
  "\<exists>resp db'. DeleteMessages (\<lambda>_. False) plain_ctx 9 (\<lambda>_ _. Inr None) (Some delete_request) mention_db = (Inr resp, db')
     \<and> {11, 12} \<union> fst ` set (dr_Skipped resp) = {11, 12, 99}"
proof -
  obtain resp db' where d: "DeleteMessages (\<lambda>_. False) plain_ctx 9 (\<lambda>_ _. Inr None) (Some delete_request) mention_db = (Inr resp, db')"
      "dr_DeletedIDs resp = [11, 12]" using delete_example by blast
  from delete_accounts_for_all [OF mention_ids d(1)] d(2) have "{11, 12} \<union> fst ` set (dr_Skipped resp) = {12, 99, 11}"
    by (auto simp: delete_request_def)
  with d show ?thesis by auto
qed


theorem delete_repeat_safe_witness:
  "\<exists>resp db' resp2. DeleteMessages (\<lambda>_. False) plain_ctx 9 (\<lambda>_ _. Inr None) (Some delete_request) mention_db = (Inr resp, db')
     \<and> DeleteMessages (\<lambda>_. False) plain_ctx 10 (\<lambda>_ _. Inr None) (Some delete_request) db' = (Inr resp2, db')
     \<and> (11, 3) \<in> set (dr_Skipped resp2)"
proof -
  obtain resp db' where d: "DeleteMessages (\<lambda>_. False) plain_ctx 9 (\<lambda>_ _. Inr None) (Some delete_request) mention_db = (Inr resp, db')"
      "dr_DeletedIDs resp = [11, 12]" using delete_example by blast
  with delete_repeat_safe [OF mention_ids d(1), of 10] show ?thesis by auto
qed

end
