(* ===== verification/Reactions.thy ===== *)
theory Reactions
  imports Message_Changes
begin

text \<open>
  Emoji reactions: \<^verbatim>\<open>internal/service/guards/set_reaction.go\<close>,
  \<^verbatim>\<open>internal/store/postgres/message_reaction_store.go\<close>, \<^verbatim>\<open>internal/domain/model/message_reaction.go\<close> and
  \<^verbatim>\<open>SetReaction\<close> of \<^verbatim>\<open>internal/service/message.go\<close>. Unicode normalisation, grapheme counting and the
  emoji table are packages and parameters. The best-effort hand-over to the external messenger after the
  transaction has no effect on the state.
\<close>

section \<open>Requests\<close>

record SetReactionRequest =
  rs_MessageID :: uuid
  rs_ThreadID :: "uuid option"
  rs_DomainID :: int
  rs_Reactor :: Peer
  rs_Emoji :: string
  rs_CustomEmojiID :: string
  rs_IdempotencyKey :: string
  rs_ExternalID :: string

record emoji_env =
  nfc :: "string \<Rightarrow> string"
  grapheme_count :: "string \<Rightarrow> int"
  contains_emoji :: "string \<Rightarrow> bool"

definition maxReactionBytes :: nat where
  "maxReactionBytes = 64"

text \<open>The guard returns the request with the normalised emoji, which the code writes in place.\<close>

definition ValidateSetReaction :: "emoji_env \<Rightarrow> SetReactionRequest option \<Rightarrow> SetReactionRequest res" where
  "ValidateSetReaction env req =
     (case req of None \<Rightarrow> Inl (Err InvalidArgument ''message id is required'')
      | Some r \<Rightarrow>
         if rs_MessageID r = uuid_nil then Inl (Err InvalidArgument ''message id is required'')
         else if pr_ID (rs_Reactor r) = uuid_nil then Inl (Err InvalidArgument ''reactor identity is required'')
         else if rs_CustomEmojiID r \<noteq> [] then Inl (Err InvalidArgument ''custom emoji reactions are not supported yet'')
         else if rs_Emoji r = [] then Inr r
         else (let normalized = nfc env (rs_Emoji r)
               in if length normalized > maxReactionBytes then Inl (Err InvalidArgument ''reaction emoji is too long'')
                  else if grapheme_count env normalized \<noteq> 1 then Inl (Err InvalidArgument ''reaction must be exactly one emoji'')
                  else if \<not> contains_emoji env normalized then Inl (Err InvalidArgument ''reaction is not a valid emoji'')
                  else Inr (r\<lparr>rs_Emoji := normalized\<rparr>)))"

section \<open>The store\<close>

datatype ReactionAction = ActionSet | ActionRemoved | ActionUnchanged

record ReactionResult =
  rt_Action :: ReactionAction
  rt_Emoji :: string
  rt_Thread :: uuid
  rt_ReactedAt :: time
  rt_Changed :: bool

text \<open>\<^verbatim>\<open>(extract(epoch from t) * 1000)::bigint\<close> rounds to the nearest millisecond; 0 is kept as the zero time.\<close>

definition epoch_millis :: "time \<Rightarrow> int" where
  "epoch_millis t = (t + 500000) div 1000000"

definition millis_time :: "int \<Rightarrow> time" where
  "millis_time m = (if m > 0 then m * 1000000 else time_zero)"

definition may_react :: "db \<Rightarrow> dialog_row \<Rightarrow> bool" where
  "may_react db d = (case find (\<lambda>p. pm_thread_dialog_id p = dl_id d) (db_perms db) of None \<Rightarrow> True
                     | Some p \<Rightarrow> CanReactMessages (pm_perms p))"

definition reaction_guard :: "db \<Rightarrow> uuid \<Rightarrow> int \<Rightarrow> uuid \<Rightarrow> (uuid \<times> uuid) option" where
  "reaction_guard db i domain c =
     (case find (\<lambda>m. ms_id m = i \<and> ms_domain_id m = domain \<and> ms_deleted_at m = None) (db_messages db) of None \<Rightarrow> None
      | Some m \<Rightarrow>
         map_option (\<lambda>d. (ms_thread_id m, dl_id d))
           (first_max dl_id (filter (\<lambda>d. dl_thread_id d = ms_thread_id m \<and> dl_member_id d = c \<and> active d \<and> may_react db d)
              (db_dialogs db))))"

definition same_reaction :: "uuid \<Rightarrow> uuid \<Rightarrow> reaction_row \<Rightarrow> bool" where
  "same_reaction i c r \<longleftrightarrow> rx_message_id r = i \<and> rx_reactor_id r = c"

definition store_SetReaction :: "uuid \<Rightarrow> int \<Rightarrow> uuid \<Rightarrow> string \<Rightarrow> db \<Rightarrow> (ReactionResult \<times> db) res" where
  "store_SetReaction i domain c emoji db =
     (if i = uuid_nil then Inl (Err InvalidArgument ''message id cannot be nil'')
      else if c = uuid_nil then Inl (Err InvalidArgument ''reactor id cannot be nil'')
      else (let prev = find (same_reaction i c) (db_reactions db); db0 = db\<lparr>db_next_id := Suc (db_next_id db)\<rparr>
        in (case reaction_guard db i domain c of None \<Rightarrow> Inl (Err Unknown ''reaction not allowed'')
            | Some (t, d) \<Rightarrow>
               if emoji = [] then
                 (case prev of
                    None \<Rightarrow> Inr (\<lparr>rt_Action = ActionUnchanged, rt_Emoji = [], rt_Thread = t, rt_ReactedAt = time_zero, rt_Changed = False\<rparr>, db0)
                  | Some p \<Rightarrow> Inr (\<lparr>rt_Action = ActionRemoved, rt_Emoji = [], rt_Thread = t,
                                    rt_ReactedAt = millis_time (epoch_millis (db_now db)), rt_Changed = True\<rparr>,
                                   db0\<lparr>db_reactions := filter (\<lambda>r. \<not> same_reaction i c r) (db_reactions db)\<rparr>))
               else
                 (case prev of
                    None \<Rightarrow> Inr (\<lparr>rt_Action = ActionSet, rt_Emoji = emoji, rt_Thread = t,
                                 rt_ReactedAt = millis_time (epoch_millis (db_now db)), rt_Changed = True\<rparr>,
                               db0\<lparr>db_reactions := db_reactions db @
                                 [\<lparr>rx_id = db_next_id db, rx_message_id = i, rx_thread_id = t, rx_domain_id = domain, rx_reactor_id = c,
                                   rx_member_id = d, rx_emoji = emoji, rx_created_at = db_now db, rx_updated_at = db_now db\<rparr>]\<rparr>)
                  | Some p \<Rightarrow>
                     if rx_emoji p = emoji
                     then Inr (\<lparr>rt_Action = ActionUnchanged, rt_Emoji = emoji, rt_Thread = t,
                               rt_ReactedAt = millis_time (epoch_millis (rx_updated_at p)), rt_Changed = False\<rparr>, db0)
                     else Inr (\<lparr>rt_Action = ActionSet, rt_Emoji = emoji, rt_Thread = t,
                                rt_ReactedAt = millis_time (epoch_millis (db_now db)), rt_Changed = True\<rparr>,
                               db0\<lparr>db_reactions := update_where (same_reaction i c)
                                  (\<lambda>r. r\<lparr>rx_emoji := emoji, rx_updated_at := db_now db\<rparr>) (db_reactions db)\<rparr>)))))"

text \<open>Per emoji: how many hold it, the first twelve of them, and the last change; by the first reaction.\<close>

definition AggregateForMessage :: "uuid \<Rightarrow> db \<Rightarrow> ReactionAggregate list" where
  "AggregateForMessage i db =
     (let rows = filter (\<lambda>r. rx_message_id r = i) (db_reactions db);
          of_emoji = (\<lambda>e. filter (\<lambda>r. rx_emoji r = e) rows);
          emojis = sort_key (\<lambda>e. Min (rx_created_at ` set (of_emoji e))) (remdups (map rx_emoji rows))
      in map (\<lambda>e. \<lparr>ra_Emoji = e, ra_Count = int (length (of_emoji e)),
                   ra_ReactorIDs = take 12 (map rx_reactor_id (sort_key rx_created_at (of_emoji e))),
                   ra_LastReactedAt = epoch_millis (Max (rx_updated_at ` set (of_emoji e)))\<rparr>) emojis)"

section \<open>The event and the service\<close>

definition reaction_via :: "ThreadDialog list \<Rightarrow> string" where
  "reaction_via to = (case find (\<lambda>d. has_via (td_Via d)) to of Some d \<Rightarrow> the (td_Via d) | None \<Rightarrow> [])"

definition WithReactionEvent :: "(string \<Rightarrow> bool) \<Rightarrow> ctx \<Rightarrow> SetReactionRequest \<Rightarrow> ThreadDialog list \<Rightarrow> ReactionResult
    \<Rightarrow> ReactionAggregate list \<Rightarrow> MessageReaction" where
  "WithReactionEvent uuid_valid cx r to res aggregate =
     \<lparr>mre_MessageID = rs_MessageID r, mre_ThreadID = rt_Thread res, mre_DomainID = rs_DomainID r,
      mre_Reactor = (if pr_ID (rs_Reactor r) \<noteq> uuid_nil
         then Some \<lparr>tm_ID = None, tm_ContactID = pr_ID (rs_Reactor r), tm_Role = 0, tm_IsBot = False\<rparr> else None),
      mre_To = threadDialogsAsEventMembers to, mre_Emoji = rt_Emoji res,
      mre_Action = (if rt_Action res = ActionRemoved then ''removed'' else ''set''), mre_OccurredAt = rt_ReactedAt res,
      mre_SendID = rs_IdempotencyKey r, mre_Reactions = aggregate,
      mre_ExternalMetadata = propagated_metadata uuid_valid cx (reaction_via to)\<rparr>"

definition setReaction_tx :: "(string \<Rightarrow> bool) \<Rightarrow> ctx \<Rightarrow> SetReactionRequest \<Rightarrow> db \<Rightarrow> (ReactionResult \<times> db) res" where
  "setReaction_tx uuid_valid cx r db =
     (case store_SetReaction (rs_MessageID r) (rs_DomainID r) (pr_ID (rs_Reactor r)) (rs_Emoji r) db of
        Inl e \<Rightarrow> Inl (if e = Err Unknown ''reaction not allowed''
                    then Err Forbidden ''reaction not allowed: message not found, deleted, or the reactor may not react in this thread''
                    else e)
      | Inr (res, db1) \<Rightarrow>
          if \<not> rt_Changed res then Inr (res, db1)
          else bindr (LockForUpdate (rt_Thread res) db1) (\<lambda>_.
                 bindr (publish_event (EvMessageReaction (WithReactionEvent uuid_valid cx r
                          (GetQuickView (thread_filter (rt_Thread res)) db1) res (AggregateForMessage (rs_MessageID r) db1))) db1)
                   (\<lambda>db2. Inr (res, db2))))"

definition SetReaction :: "emoji_env \<Rightarrow> (string \<Rightarrow> bool) \<Rightarrow> ctx \<Rightarrow> SetReactionRequest option \<Rightarrow> db \<Rightarrow> ReactionResult res \<times> db" where
  "SetReaction env uuid_valid cx req db =
     (case ValidateSetReaction env req of Inl e \<Rightarrow> (Inl e, db)
      | Inr r \<Rightarrow> WithinTransaction (setReaction_tx uuid_valid cx r) db)"

section \<open>One reaction per reactor\<close>

definition reaction_key :: "reaction_row \<Rightarrow> uuid \<times> uuid" where
  "reaction_key r = (rx_message_id r, rx_reactor_id r)"

definition reactions_ok :: "db \<Rightarrow> bool" where
  "reactions_ok db \<longleftrightarrow> distinct (map reaction_key (db_reactions db)) \<and> (\<forall>r \<in> set (db_reactions db). rx_emoji r \<noteq> [])"

text \<open>What a reactor has on a message: the emojis of its rows.\<close>

definition held_reaction :: "db \<Rightarrow> uuid \<Rightarrow> uuid \<Rightarrow> string list" where
  "held_reaction db i c = map rx_emoji (filter (same_reaction i c) (db_reactions db))"

lemma same_reaction_key: "same_reaction i c r \<longleftrightarrow> reaction_key r = (i, c)"
  by (simp add: same_reaction_def reaction_key_def)

lemma held_reaction_cases:
  assumes "reactions_ok db"
  shows "case find (same_reaction i c) (db_reactions db) of None \<Rightarrow> held_reaction db i c = []
         | Some p \<Rightarrow> filter (same_reaction i c) (db_reactions db) = [p] \<and> rx_emoji p \<noteq> []"
proof (cases "find (same_reaction i c) (db_reactions db)")
  case None
  then have "filter (same_reaction i c) (db_reactions db) = []" by (auto simp: find_None_iff filter_empty_conv)
  with None show ?thesis by (simp add: held_reaction_def)
next
  case (Some p)
  then have "p \<in> set (db_reactions db)" "reaction_key p = (i, c)" by (auto dest: find_SomeD simp: same_reaction_key)
  then show ?thesis using Some assms filter_key_unique [of reaction_key]
    by (simp add: reactions_ok_def same_reaction_key [abs_def])
qed

text \<open>The statement the store executes, as one equation over the previous row.\<close>

lemma store_SetReaction_Inr:
  assumes "store_SetReaction i domain c emoji db = Inr (res, db')"
  shows "(\<exists>d. reaction_guard db i domain c = Some (rt_Thread res, d)) \<and> rt_Emoji res = emoji
    \<and> (rt_Changed res \<longleftrightarrow> rt_Action res \<noteq> ActionUnchanged) \<and> (rt_Action res = ActionRemoved \<longrightarrow> emoji = [])
    \<and> (rt_Action res = ActionSet \<longrightarrow> emoji \<noteq> [])
    \<and> (\<exists>n rows. db' = db\<lparr>db_next_id := n, db_reactions := rows\<rparr>)"
  using assms by (auto simp: store_SetReaction_def Let_def split: if_splits option.splits) (rule exI, rule exI, rule db.equality; simp)+

lemma store_SetReaction_exact:
  assumes ok: "reactions_ok db" and set: "store_SetReaction i domain c emoji db = Inr (res, db')"
  shows "reactions_ok db' \<and> held_reaction db' i c = (if emoji = [] then [] else [emoji])
    \<and> filter (\<lambda>r. \<not> same_reaction i c r) (db_reactions db') = filter (\<lambda>r. \<not> same_reaction i c r) (db_reactions db)
    \<and> (rt_Changed res \<longleftrightarrow> held_reaction db' i c \<noteq> held_reaction db i c)
    \<and> (\<not> rt_Changed res \<longrightarrow> db_reactions db' = db_reactions db)"
proof (cases "find (same_reaction i c) (db_reactions db)")
  case None
  then have none: "held_reaction db i c = []" using held_reaction_cases [OF ok, of i c] by simp
  have fresh: "(i, c) \<notin> reaction_key ` set (db_reactions db)"
    using None by (auto simp: find_None_iff same_reaction_key)
  show ?thesis using set None none fresh ok
    by (auto simp: store_SetReaction_def Let_def held_reaction_def same_reaction_def reactions_ok_def reaction_key_def
        split: if_splits option.splits)
next
  case (Some p)
  then have one: "filter (same_reaction i c) (db_reactions db) = [p]" "rx_emoji p \<noteq> []"
    using held_reaction_cases [OF ok, of i c] by simp_all
  let ?g = "\<lambda>r. r\<lparr>rx_emoji := emoji, rx_updated_at := db_now db\<rparr>"
  have g: "same_reaction i c (?g r) = same_reaction i c r" "reaction_key (?g r) = reaction_key r" for r
    by (simp_all add: same_reaction_def reaction_key_def)
  note upd = update_where_filter_other [of "same_reaction i c" ?g, OF g(1)] update_where_filter_same [of "same_reaction i c" ?g, OF g(1)]
    update_where_keys [of reaction_key ?g, OF g(2)]
  have ne: "emoji \<noteq> [] \<Longrightarrow> \<forall>r \<in> set (update_where P ?g (db_reactions db)). rx_emoji r \<noteq> []" for P
    using ok by (auto simp: reactions_ok_def update_where_def split: if_splits)
  have ds: "distinct (map reaction_key (filter P (db_reactions db)))" for P
    using ok by (simp add: reactions_ok_def distinct_map_filter)
  show ?thesis using set Some one ok ds
    by (auto simp: store_SetReaction_def Let_def held_reaction_def reactions_ok_def upd ne filter_empty_conv
        split: if_splits option.splits)
qed

definition applied_emoji :: "emoji_env \<Rightarrow> SetReactionRequest \<Rightarrow> string" where
  "applied_emoji env r = (if rs_Emoji r = [] then [] else nfc env (rs_Emoji r))"

lemma ValidateSetReaction_Inr:
  "ValidateSetReaction env (Some r) = Inr r' \<Longrightarrow> r' = r\<lparr>rs_Emoji := applied_emoji env r\<rparr>"
  by (cases r) (auto simp: ValidateSetReaction_def applied_emoji_def Let_def split: if_splits)

lemma SetReaction_Inr:
  assumes "SetReaction env v cx (Some r) db = (Inr res, db')"
  obtains db1 where "store_SetReaction (rs_MessageID r) (rs_DomainID r) (pr_ID (rs_Reactor r)) (applied_emoji env r) db = Inr (res, db1)"
    "\<not> rt_Changed res \<Longrightarrow> db' = db1"
    "rt_Changed res \<Longrightarrow> db' = published (EvMessageReaction (WithReactionEvent v cx (r\<lparr>rs_Emoji := applied_emoji env r\<rparr>)
        (GetQuickView (thread_filter (rt_Thread res)) db1) res (AggregateForMessage (rs_MessageID r) db1))) db1"
proof -
  from assms obtain r' where val: "ValidateSetReaction env (Some r) = Inr r'"
    by (cases "ValidateSetReaction env (Some r)") (auto simp: SetReaction_def)
  with ValidateSetReaction_Inr have r': "r' = r\<lparr>rs_Emoji := applied_emoji env r\<rparr>" by blast
  from assms val have tx: "setReaction_tx v cx r' db = Inr (res, db')" by (simp add: SetReaction_def WithinTransaction_Inr)
  then obtain res1 db1 where st: "store_SetReaction (rs_MessageID r) (rs_DomainID r) (pr_ID (rs_Reactor r)) (applied_emoji env r) db = Inr (res1, db1)"
    by (auto simp: setReaction_tx_def r' split: sum.splits)
  have "res1 = res \<and> (if rt_Changed res then db' = published (EvMessageReaction (WithReactionEvent v cx r'
        (GetQuickView (thread_filter (rt_Thread res)) db1) res (AggregateForMessage (rs_MessageID r) db1))) db1 else db' = db1)"
    using tx st by (auto simp: setReaction_tx_def r' bindr_Inr_iff publish_event_eq split: if_splits)
  with that st r' show thesis by (simp split: if_splits)
qed


section \<open>The aggregate\<close>

lemma sum_list_sort_key: "sum_list (map f (sort_key g xs)) = sum_list (map f xs)" for f :: "_ \<Rightarrow> int"
  by (metis mset_map mset_sort sum_mset_sum_list)

lemma sum_group_lengths:
  "sum_list (map (\<lambda>e. int (length (filter (\<lambda>r. h r = e) rows))) (remdups (map h rows))) = int (length rows)"
proof -
  have "length (filter (\<lambda>r. h r = e) rows) = count_list (map h rows) e" for e by (induction rows) auto
  moreover have "sum (count_list (map h rows)) (h ` set rows) = length rows" using sum_count_set [of "map h rows"] by simp
  ultimately show ?thesis by (simp add: sum_list_distinct_conv_sum_set flip: of_nat_sum)
qed

text \<open>
  The reaction counts shown for a message are exact: each emoji in use appears once, its count is the
  number of reactors that hold it, at most twelve of whom are listed, and the counts add up to the number
  of reactors on the message.
\<close>

theorem aggregate_exact:
  fixes i :: uuid and db :: db
  assumes ok: "reactions_ok db"
  defines "agg \<equiv> AggregateForMessage i db"
  shows "distinct (map ra_Emoji agg) \<and> set (map ra_Emoji agg) = {e. \<exists>c. held_reaction db i c = [e]}
    \<and> (\<forall>a \<in> set agg. ra_Count a = int (card {c. held_reaction db i c = [ra_Emoji a]})
         \<and> int (length (ra_ReactorIDs a)) = min 12 (ra_Count a) \<and> set (ra_ReactorIDs a) \<subseteq> {c. held_reaction db i c = [ra_Emoji a]})
    \<and> sum_list (map ra_Count agg) = int (card {c. held_reaction db i c \<noteq> []})"
proof -
  let ?rows = "filter (\<lambda>r. rx_message_id r = i) (db_reactions db)"
  have dk: "distinct (map reaction_key (db_reactions db))" using ok by (simp add: reactions_ok_def)
  have inj: "inj_on rx_reactor_id (set ?rows)" using dk
    by (auto simp: distinct_map inj_on_def reaction_key_def)
  have dist: "distinct ?rows" using dk by (simp add: distinct_map)
  have one: "filter (same_reaction i (rx_reactor_id r)) (db_reactions db) = [r]" if "r \<in> set ?rows" for r
    using that filter_key_unique [OF dk, of r "(i, rx_reactor_id r)"] by (simp add: same_reaction_key [abs_def] reaction_key_def)
  have held: "held_reaction db i c = [e] \<longleftrightarrow> c \<in> rx_reactor_id ` set (filter (\<lambda>r. rx_emoji r = e) ?rows)" for c e
  proof
    assume "held_reaction db i c = [e]"
    then obtain r where "filter (same_reaction i c) (db_reactions db) = [r]" "rx_emoji r = e"
      by (auto simp: held_reaction_def map_eq_Cons_conv)
    then have "r \<in> set (filter (same_reaction i c) (db_reactions db))" by simp
    with \<open>rx_emoji r = e\<close> show "c \<in> rx_reactor_id ` set (filter (\<lambda>r. rx_emoji r = e) ?rows)" by (auto simp: same_reaction_def)
  qed (use one in \<open>auto simp: held_reaction_def\<close>)
  have some: "held_reaction db i c \<noteq> [] \<longleftrightarrow> c \<in> rx_reactor_id ` set ?rows" for c
    by (auto simp: held_reaction_def filter_empty_conv same_reaction_def)
  have card: "card {c. held_reaction db i c = [e]} = length (filter (\<lambda>r. rx_emoji r = e) ?rows)" for e
  proof -
    have "inj_on rx_reactor_id (set (filter (\<lambda>r. rx_emoji r = e) ?rows))" by (rule inj_on_subset [OF inj]) auto
    moreover have "distinct (filter (\<lambda>r. rx_emoji r = e) ?rows)" using dist by (rule distinct_filter)
    ultimately show ?thesis unfolding held by (simp only: Collect_mem_eq card_image distinct_card)
  qed
  have total: "card {c. held_reaction db i c \<noteq> []} = length ?rows"
    unfolding some using dist by (simp only: Collect_mem_eq card_image [OF inj] distinct_card)
  show ?thesis
  proof (intro conjI ballI)
    show "distinct (map ra_Emoji agg)" by (simp add: agg_def AggregateForMessage_def Let_def comp_def)
    show "set (map ra_Emoji agg) = {e. \<exists>c. held_reaction db i c = [e]}"
      unfolding held by (auto simp: agg_def AggregateForMessage_def Let_def comp_def)
    show "sum_list (map ra_Count agg) = int (card {c. held_reaction db i c \<noteq> []})"
      unfolding total using sum_group_lengths [of rx_emoji ?rows]
      by (simp add: agg_def AggregateForMessage_def Let_def comp_def sum_list_sort_key)
  next
    fix a assume "a \<in> set agg"
    then obtain e where a: "ra_Emoji a = e" "ra_Count a = int (length (filter (\<lambda>r. rx_emoji r = e) ?rows))"
        "ra_ReactorIDs a = take 12 (map rx_reactor_id (sort_key rx_created_at (filter (\<lambda>r. rx_emoji r = e) ?rows)))"
      by (auto simp: agg_def AggregateForMessage_def Let_def)
    show "ra_Count a = int (card {c. held_reaction db i c = [ra_Emoji a]})" unfolding card a by simp
    show "int (length (ra_ReactorIDs a)) = min 12 (ra_Count a)" by (simp only: a) (simp add: min_def)
    show "set (ra_ReactorIDs a) \<subseteq> {c. held_reaction db i c = [ra_Emoji a]}"
      unfolding held a by (rule order_trans [OF set_take_subset]) simp
  qed
qed

section \<open>Repeated requests\<close>

lemma reaction_guard_frame:
  "reaction_guard (published e (db\<lparr>db_next_id := n, db_reactions := rows\<rparr>)) i domain c = reaction_guard db i domain c"
  "reaction_guard (db\<lparr>db_next_id := n, db_reactions := rows\<rparr>) i domain c = reaction_guard db i domain c"
  by (simp_all add: reaction_guard_def may_react_def cong: option.case_cong)

text \<open>
  Repeating a reaction request right after it succeeded succeeds again, changes no reaction and
  announces nothing.
\<close>

theorem reaction_repeat_silent:
  assumes ok: "reactions_ok db" and set: "SetReaction env v cx (Some r) db = (Inr res, db')"
  shows "\<exists>res2 db2. SetReaction env v cx (Some r) db' = (Inr res2, db2) \<and> \<not> rt_Changed res2
    \<and> db_reactions db2 = db_reactions db' \<and> db_outbox db2 = db_outbox db' \<and> db_journal db2 = db_journal db'"
proof -
  let ?i = "rs_MessageID r" and ?c = "pr_ID (rs_Reactor r)"
  obtain db1 where st: "store_SetReaction ?i (rs_DomainID r) ?c (applied_emoji env r) db = Inr (res, db1)"
    and pub: "db' = db1 \<or> (\<exists>e. db' = published e db1)"
    by (rule SetReaction_Inr [OF set]) blast
  note exact = store_SetReaction_exact [OF ok st] and frame = store_SetReaction_Inr [OF st]
  from frame obtain n rows where db1: "db1 = db\<lparr>db_next_id := n, db_reactions := rows\<rparr>" by auto
  have guard: "reaction_guard db' ?i (rs_DomainID r) ?c = reaction_guard db ?i (rs_DomainID r) ?c"
    using pub db1 reaction_guard_frame by auto
  have rx: "db_reactions db' = db_reactions db1" using pub by auto
  then have eqs: "reactions_ok db' = reactions_ok db1" "held_reaction db' ?i ?c = held_reaction db1 ?i ?c"
    by (simp_all add: reactions_ok_def held_reaction_def)
  have ok': "reactions_ok db'" and held: "held_reaction db' ?i ?c = (if applied_emoji env r = [] then [] else [applied_emoji env r])"
    unfolding eqs using exact by blast+
  have nil: "?i \<noteq> uuid_nil" "?c \<noteq> uuid_nil" using st by (auto simp: store_SetReaction_def split: if_splits)
  have "\<exists>x. store_SetReaction ?i (rs_DomainID r) ?c (applied_emoji env r) db' = Inr x"
    using frame guard nil by (auto simp: store_SetReaction_def Let_def split: option.split)
  then obtain res2 db2 where st2: "store_SetReaction ?i (rs_DomainID r) ?c (applied_emoji env r) db' = Inr (res2, db2)" by auto
  have unch: "\<not> rt_Changed res2" using store_SetReaction_exact [OF ok' st2] held by simp
  from store_SetReaction_Inr [OF st2] obtain n2 rows2 where "db2 = db'\<lparr>db_next_id := n2, db_reactions := rows2\<rparr>" by auto
  moreover have "db_reactions db2 = db_reactions db'" using store_SetReaction_exact [OF ok' st2] unch by simp
  moreover obtain r' where "ValidateSetReaction env (Some r) = Inr r'"
    using set by (cases "ValidateSetReaction env (Some r)") (auto simp: SetReaction_def)
  ultimately show ?thesis using st2 unch ValidateSetReaction_Inr [of env r r']
    by (auto simp: SetReaction_def WithinTransaction_def setReaction_tx_def)
qed

section \<open>Examples\<close>

definition ascii_emoji :: emoji_env where
  "ascii_emoji = \<lparr>nfc = id, grapheme_count = int \<circ> length, contains_emoji = (\<lambda>_. True)\<rparr>"

definition react :: "string \<Rightarrow> string \<Rightarrow> SetReactionRequest" where
  "react send_id emoji = \<lparr>rs_MessageID = 11, rs_ThreadID = None, rs_DomainID = 7, rs_Reactor = empty_peer\<lparr>pr_ID := 52\<rparr>, rs_Emoji = emoji,
     rs_CustomEmojiID = [], rs_IdempotencyKey = send_id, rs_ExternalID = []\<rparr>"

definition reaction_db :: "db \<Rightarrow> bool" where
  "reaction_db db \<longleftrightarrow> db_messages db = db_messages status_db \<and> db_dialogs db = db_dialogs status_db
     \<and> db_perms db = db_perms status_db \<and> db_threads db = db_threads status_db \<and> reactions_ok db"

lemma reaction_db_start: "reaction_db status_db"
  by (simp add: reaction_db_def reactions_ok_def status_example_defs)

lemma react_succeeds:
  assumes "reaction_db db"
  shows "\<exists>res db'. SetReaction ascii_emoji (\<lambda>_. False) plain_ctx (Some (react k [x])) db = (Inr res, db')
    \<and> reaction_db db' \<and> held_reaction db' 11 52 = [[x]]"
proof -
  have val: "ValidateSetReaction ascii_emoji (Some (react k [x])) = Inr (react k [x])"
    by (simp add: ValidateSetReaction_def react_def ascii_emoji_def maxReactionBytes_def empty_peer_def)
  have "reaction_guard db 11 7 52 = Some (6, 2)"
    using assms by (simp add: reaction_db_def reaction_guard_def may_react_def status_example_defs active_def)
  then have "\<exists>y. store_SetReaction 11 7 52 [x] db = Inr y"
    by (auto simp: store_SetReaction_def Let_def split: option.split)
  then obtain res db1 where st: "store_SetReaction 11 7 52 [x] db = Inr (res, db1)" by auto
  from store_SetReaction_Inr [OF st] obtain n rows where db1: "db1 = db\<lparr>db_next_id := n, db_reactions := rows\<rparr>"
    and g: "\<exists>d. reaction_guard db 11 7 52 = Some (rt_Thread res, d)" by auto
  have ok: "reactions_ok db" using assms by (simp add: reaction_db_def)
  have rdb: "reaction_db db1" using assms store_SetReaction_exact [OF ok st] by (simp add: reaction_db_def db1)
  then have pubd: "reaction_db (published e db1)" for e by (simp add: reaction_db_def reactions_ok_def)
  have held: "held_reaction db1 11 52 = [[x]]" using store_SetReaction_exact [OF ok st] by simp
  have "held_reaction (published e db1) 11 52 = held_reaction db1 11 52" for e by (simp add: held_reaction_def)
  note held = held this
  have lock: "LockForUpdate (rt_Thread res) db1 = Inr ()"
    using g \<open>reaction_guard db 11 7 52 = Some (6, 2)\<close> rdb
    by (simp add: reaction_db_def LockForUpdate_def thread_of_def status_example_defs)
  have "\<exists>db'. setReaction_tx (\<lambda>_. False) plain_ctx (react k [x]) db = Inr (res, db') \<and> (db' = db1 \<or> (\<exists>e. db' = published e db1))"
    using st lock by (cases "rt_Changed res") (simp_all add: setReaction_tx_def publish_event_eq react_def empty_peer_def, blast)
  then obtain db' where "setReaction_tx (\<lambda>_. False) plain_ctx (react k [x]) db = Inr (res, db')" "db' = db1 \<or> (\<exists>e. db' = published e db1)"
    by blast
  then show ?thesis using rdb pubd held by (auto simp: SetReaction_def val WithinTransaction_def)
qed

text \<open>
  No request is recognised as one that was served before: a reaction request that is delivered again, under the same
  send id, after the reactor has changed its reaction overwrites the newer reaction with the old one.
\<close>

theorem reaction_retry_reverts:
  "\<exists>db1 db2 db3 r1 r2 r3. SetReaction ascii_emoji (\<lambda>_. False) plain_ctx (Some (react ''k1'' ''A'')) status_db = (Inr r1, db1)
     \<and> SetReaction ascii_emoji (\<lambda>_. False) plain_ctx (Some (react ''k2'' ''B'')) db1 = (Inr r2, db2) \<and> held_reaction db2 11 52 = [''B'']
     \<and> SetReaction ascii_emoji (\<lambda>_. False) plain_ctx (Some (react ''k1'' ''A'')) db2 = (Inr r3, db3) \<and> held_reaction db3 11 52 = [''A'']"
  using react_succeeds reaction_db_start by meson


theorem reaction_repeat_silent_witness:
  "\<exists>res db' res2 db2. SetReaction ascii_emoji (\<lambda>_. False) plain_ctx (Some (react ''k1'' ''A'')) status_db = (Inr res, db')
     \<and> SetReaction ascii_emoji (\<lambda>_. False) plain_ctx (Some (react ''k1'' ''A'')) db' = (Inr res2, db2) \<and> \<not> rt_Changed res2"
proof -
  have ok: "reactions_ok status_db" using reaction_db_start by (simp add: reaction_db_def)
  obtain res db' where s: "SetReaction ascii_emoji (\<lambda>_. False) plain_ctx (Some (react ''k1'' ''A'')) status_db = (Inr res, db')"
    using react_succeeds [OF reaction_db_start] by meson
  show ?thesis using s reaction_repeat_silent [OF ok s] by blast
qed

definition party :: db where
  "party = status_db\<lparr>db_reactions := map (\<lambda>(n, c, e). \<lparr>rx_id = n, rx_message_id = 11, rx_thread_id = 6, rx_domain_id = 7, rx_reactor_id = c,
     rx_member_id = c, rx_emoji = e, rx_created_at = int n, rx_updated_at = int n\<rparr>) [(1, 52, ''A''), (2, 53, ''B''), (3, 54, ''A'')]\<rparr>"

theorem aggregate_exact_witness:
  "reactions_ok party \<and> sum_list (map ra_Count (AggregateForMessage 11 party)) = int (card {c. held_reaction party 11 c \<noteq> []})
     \<and> map ra_Count (AggregateForMessage 11 party) = [2, 1]"
proof -
  have ok: "reactions_ok party" by (simp add: reactions_ok_def party_def reaction_key_def)
  have "map ra_Count (AggregateForMessage 11 party) = [2, 1]"
    by (simp add: AggregateForMessage_def party_def Let_def del: set_filter)
  with ok aggregate_exact [OF ok, of 11] show ?thesis by blast
qed

end
