(* ===== verification/External_Ids.thy ===== *)
theory External_Ids
  imports Reactions Control_Invariant
begin

text \<open>
  The ids of messages at external gates and the replies resolved with them:
  \<^verbatim>\<open>internal/store/postgres/message_external_store.go\<close>, \<^verbatim>\<open>internal/domain/model/message_external.go\<close>,
  \<^verbatim>\<open>GetReplyPreview\<close> of \<^verbatim>\<open>internal/store/postgres/message.go\<close>, and \<^verbatim>\<open>UpdateMessageDelivery\<close>, \<^verbatim>\<open>resolveReply\<close> and
  their helpers in \<^verbatim>\<open>internal/service/message.go\<close>. The table has two unique keys, \<^verbatim>\<open>(gate_id, external_id)\<close>
  and \<^verbatim>\<open>(message_id, gate_id)\<close>.
\<close>

section \<open>The store\<close>

text \<open>\<^verbatim>\<open>coalesce\<close> of two values that may be NULL.\<close>

definition first_of :: "'a option \<Rightarrow> 'a option \<Rightarrow> 'a option" where
  "first_of a b = (case a of None \<Rightarrow> b | Some _ \<Rightarrow> a)"

record MessageExternalID =
  xi_MessageID :: uuid
  xi_ThreadID :: uuid
  xi_GateID :: string
  xi_ExternalID :: string
  xi_Direction :: int

abbreviation (input) ExternalDirectionInbound :: int where "ExternalDirectionInbound \<equiv> 1"
abbreviation (input) ExternalDirectionOutbound :: int where "ExternalDirectionOutbound \<equiv> 2"

record MessageDelivery =
  md_GateID :: string
  md_ExternalID :: string
  md_Status :: MessageDeliveryStatus
  md_Reason :: string
  md_At :: time

definition external_conflict :: "MessageExternalID \<Rightarrow> external_row \<Rightarrow> bool" where
  "external_conflict rec r \<longleftrightarrow> (xr_gate_id r = xi_GateID rec \<and> xr_external_id r = xi_ExternalID rec)
     \<or> (xr_message_id r = xi_MessageID rec \<and> xr_gate_id r = xi_GateID rec)"

definition external_row_of :: "MessageExternalID \<Rightarrow> external_row" where
  "external_row_of rec = \<lparr>xr_message_id = xi_MessageID rec, xr_thread_id = xi_ThreadID rec, xr_gate_id = xi_GateID rec,
     xr_external_id = xi_ExternalID rec, xr_direction = xi_Direction rec, xr_delivered_at = None, xr_read_at = None,
     xr_failed_at = None, xr_failed_reason = None\<rparr>"

definition external_Save :: "MessageExternalID option \<Rightarrow> db \<Rightarrow> db res" where
  "external_Save rec db =
     (case rec of None \<Rightarrow> Inl (Err InvalidArgument ''external id record cannot be nil'')
      | Some x \<Rightarrow>
         if xi_MessageID x = uuid_nil \<or> xi_GateID x = [] \<or> xi_ExternalID x = []
         then Inl (Err InvalidArgument ''message id, gate id and external id are required'')
         else if list_ex (external_conflict x) (db_externals db) then Inr db
         else if message_of db (xi_MessageID x) = None then Inl (Err Internal ''saving message external id'')
         else Inr (db\<lparr>db_externals := db_externals db @ [external_row_of x]\<rparr>))"

definition at_gate :: "string \<Rightarrow> string \<Rightarrow> external_row \<Rightarrow> bool" where
  "at_gate g x r \<longleftrightarrow> xr_gate_id r = g \<and> xr_external_id r = x"

definition report_delivery :: "MessageDelivery \<Rightarrow> external_row \<Rightarrow> external_row" where
  "report_delivery d r =
     r\<lparr>xr_delivered_at := (if md_Status d = 2 \<or> md_Status d = 3 then first_of (xr_delivered_at r) (Some (md_At d)) else xr_delivered_at r),
       xr_read_at := (if md_Status d = 3 then first_of (xr_read_at r) (Some (md_At d)) else xr_read_at r),
       xr_failed_at := (if md_Status d = 4 then Some (md_At d) else xr_failed_at r),
       xr_failed_reason := (if md_Status d = 4 then nullIfEmpty (md_Reason d) else xr_failed_reason r)\<rparr>"

definition UpdateDelivery :: "MessageDelivery option \<Rightarrow> db \<Rightarrow> (MessageExternalID \<times> db) res" where
  "UpdateDelivery report db =
     (case report of None \<Rightarrow> Inl (Err InvalidArgument ''gate id and external id are required'')
      | Some d \<Rightarrow>
         if md_GateID d = [] \<or> md_ExternalID d = [] then Inl (Err InvalidArgument ''gate id and external id are required'')
         else if \<not> DeliveryStatus_Valid (md_Status d) then Inl (Err InvalidArgument ''unknown delivery status'')
         else (case find (at_gate (md_GateID d) (md_ExternalID d)) (db_externals db) of
                 None \<Rightarrow> Inl (Err NotFound ''no message for this gate and external id'')
               | Some r \<Rightarrow> Inr (\<lparr>xi_MessageID = xr_message_id r, xi_ThreadID = xr_thread_id r, xi_GateID = xr_gate_id r,
                                 xi_ExternalID = xr_external_id r, xi_Direction = xr_direction r\<rparr>,
                   db\<lparr>db_externals := update_where (at_gate (md_GateID d) (md_ExternalID d)) (report_delivery d) (db_externals db)\<rparr>)))"

definition LookupMessageID :: "string \<Rightarrow> string \<Rightarrow> db \<Rightarrow> uuid" where
  "LookupMessageID g x db = (case find (at_gate g x) (db_externals db) of None \<Rightarrow> uuid_nil | Some r \<Rightarrow> xr_message_id r)"

definition LookupExternalID :: "uuid \<Rightarrow> string \<Rightarrow> db \<Rightarrow> string" where
  "LookupExternalID i g db =
     (case find (\<lambda>r. xr_message_id r = i \<and> xr_gate_id r = g) (db_externals db) of None \<Rightarrow> [] | Some r \<Rightarrow> xr_external_id r)"

section \<open>Reports from the gates\<close>

definition UpdateMessageDelivery :: "time \<Rightarrow> MessageDelivery option \<Rightarrow> db \<Rightarrow> unit res \<times> db" where
  "UpdateMessageDelivery now report db =
     (case report of None \<Rightarrow> (Inl (Err InvalidArgument ''delivery report required''), db)
      | Some d0 \<Rightarrow>
         if md_GateID d0 = [] \<or> md_ExternalID d0 = []
         then (Inl (Err InvalidArgument ''gate id and external message id are required''), db)
         else if \<not> DeliveryStatus_Valid (md_Status d0) then (Inl (Err InvalidArgument ''unknown delivery status''), db)
         else (let d = (if md_At d0 = time_zero then d0\<lparr>md_At := now\<rparr> else d0)
               in (case UpdateDelivery (Some d) db of
                     Inl e \<Rightarrow> (if err_code e = NotFound then Inr () else Inl e, db)
                   | Inr (_, db') \<Rightarrow> (Inr (), db'))))"

section \<open>Reply previews\<close>

text \<open>\<^verbatim>\<open>left(body, n)\<close> counts characters.\<close>

fun left_chars :: "nat \<Rightarrow> string \<Rightarrow> string" where
  "left_chars 0 s = []"
| "left_chars (Suc n) s = (if s = [] then [] else take (rune_width s) s @ left_chars n (drop (rune_width s) s))"

definition nullif_empty :: "string option \<Rightarrow> string option" where
  "nullif_empty s = (if s = Some [] then None else s)"

text \<open>
  The attachment shown in a preview. The attachments of a message are inserted by one statement, so they share
  \<^verbatim>\<open>created_at\<close> and the order between them is the table's.
\<close>

definition reply_attachment :: "db \<Rightarrow> uuid \<Rightarrow> ReplyAttachment option" where
  "reply_attachment db i =
     (let doc = map_option (\<lambda>d. \<lparr>ra_Kind = ''document'', ra_Name = Some (ar_name d), ra_Mime = Some (ar_mime d), ra_Address = None\<rparr>)
            (find (\<lambda>d. ar_message_id d = i) (db_documents db));
          img = map_option (\<lambda>d. \<lparr>ra_Kind = ''image'', ra_Name = None, ra_Mime = Some (ar_mime d), ra_Address = None\<rparr>)
            (find (\<lambda>d. ar_message_id d = i) (db_images db));
          card = map_option (\<lambda>c. \<lparr>ra_Kind = ''contact'', ra_Name = first_of (nullif_empty (cr_name c))
              (first_of (nullif_empty (cr_phone_number c)) (nullif_empty (cr_email c))), ra_Mime = None, ra_Address = None\<rparr>)
            (find (\<lambda>c. cr_message_id c = i) (db_cards db));
          loc = map_option (\<lambda>l. \<lparr>ra_Kind = ''location'', ra_Name = nullif_empty (lr_name l), ra_Mime = None,
              ra_Address = nullif_empty (lr_address l)\<rparr>)
            (find (\<lambda>l. lr_message_id l = i) (db_locations db))
      in first_of doc (first_of img (first_of card loc)))"

definition GetReplyPreview :: "uuid \<Rightarrow> int \<Rightarrow> db \<Rightarrow> ReplyToPreview option" where
  "GetReplyPreview i domain db =
     map_option (\<lambda>m. \<lparr>rt_MessageID = ms_id m, rt_ThreadID = ms_thread_id m, rt_SenderID = ms_sender_id m, rt_Type = ms_type m,
        rt_Body = left_chars 256 (ms_body m), rt_CreatedAt = epoch_millis (ms_created_at m),
        rt_Attachment = reply_attachment db i, rt_IsDeleted = False\<rparr>)
       (find (\<lambda>m. ms_id m = i \<and> ms_domain_id m = domain \<and> ms_deleted_at m = None) (db_messages db))"

definition reply_missing :: err where
  "reply_missing = Err InvalidArgument ''reply target message not found in this thread''"

definition resolveReplyPreview :: "uuid \<Rightarrow> uuid \<Rightarrow> int \<Rightarrow> db \<Rightarrow> ReplyToPreview res" where
  "resolveReplyPreview i t domain db =
     (if i = uuid_nil then Inl (Err InvalidArgument ''reply_to_message_id is not a valid uuid'')
      else (case GetReplyPreview i domain db of None \<Rightarrow> Inl reply_missing
            | Some p \<Rightarrow> if rt_ThreadID p \<noteq> t then Inl reply_missing else Inr p))"

definition gateIDForPeer :: "Peer option \<Rightarrow> ThreadDialog list \<Rightarrow> string" where
  "gateIDForPeer peer members =
     (case peer of None \<Rightarrow> []
      | Some p \<Rightarrow> (case ResolveVia p of Some v \<Rightarrow> v
          | None \<Rightarrow> (case find (\<lambda>m. td_ContactID m = pr_ID p \<and> has_via (td_Via m)) members of
                      None \<Rightarrow> [] | Some m \<Rightarrow> the (td_Via m))))"

definition resolveExternalReply :: "string \<Rightarrow> Peer \<Rightarrow> Thread \<Rightarrow> int \<Rightarrow> db \<Rightarrow> ReplyToPreview option" where
  "resolveExternalReply x from t domain db =
     (if x = [] then None
      else (let g = gateIDForPeer (Some from) (t_Members t)
        in if g = [] then None
           else (let i = LookupMessageID g x db
             in if i = uuid_nil then None
                else (case GetReplyPreview i domain db of None \<Rightarrow> None
                      | Some p \<Rightarrow> if rt_ThreadID p \<noteq> t_ID t then None else Some p))))"

definition resolveReply :: "uuid option \<Rightarrow> string \<Rightarrow> Peer \<Rightarrow> Thread \<Rightarrow> int \<Rightarrow> db \<Rightarrow> ReplyToPreview option res" where
  "resolveReply i x from t domain db =
     (case i of Some m \<Rightarrow> map_sum id Some (resolveReplyPreview m (t_ID t) domain db)
      | None \<Rightarrow> Inr (resolveExternalReply x from t domain db))"

definition recordInboundExternalID :: "Message \<Rightarrow> Peer \<Rightarrow> string \<Rightarrow> db \<Rightarrow> db res" where
  "recordInboundExternalID msg from x db =
     (if x = [] then Inr db
      else (let g = gateIDForPeer (Some from) (m_To msg)
        in if g = [] then Inr db
           else external_Save (Some \<lparr>xi_MessageID = m_ID msg, xi_ThreadID = m_ThreadID msg, xi_GateID = g, xi_ExternalID = x,
                  xi_Direction = ExternalDirectionInbound\<rparr>) db))"

section \<open>The two lookups are inverse\<close>

definition externals_ok :: "db \<Rightarrow> bool" where
  "externals_ok db \<longleftrightarrow> distinct (map (\<lambda>r. (xr_gate_id r, xr_external_id r)) (db_externals db))
     \<and> distinct (map (\<lambda>r. (xr_message_id r, xr_gate_id r)) (db_externals db))
     \<and> (\<forall>r \<in> set (db_externals db). xr_message_id r \<noteq> uuid_nil \<and> xr_gate_id r \<noteq> [] \<and> xr_external_id r \<noteq> [])"

definition linked :: "db \<Rightarrow> string \<Rightarrow> string \<Rightarrow> uuid \<Rightarrow> bool" where
  "linked db g x i \<longleftrightarrow> (\<exists>r \<in> set (db_externals db). xr_gate_id r = g \<and> xr_external_id r = x \<and> xr_message_id r = i)"

lemma external_Save_Inr:
  assumes "external_Save (Some x) db = Inr db'"
  shows "xi_MessageID x \<noteq> uuid_nil" "xi_GateID x \<noteq> []" "xi_ExternalID x \<noteq> []"
    "(list_ex (external_conflict x) (db_externals db) \<and> db' = db)
      \<or> (\<not> list_ex (external_conflict x) (db_externals db) \<and> db' = db\<lparr>db_externals := db_externals db @ [external_row_of x]\<rparr>)"
  using assms by (auto simp: external_Save_def split: if_splits)

lemma externals_ok_Save:
  assumes "externals_ok db" "external_Save (Some x) db = Inr db'"
  shows "externals_ok db'"
proof (cases "list_ex (external_conflict x) (db_externals db)")
  case False
  then have fresh: "\<forall>r \<in> set (db_externals db). \<not> external_conflict x r" by (simp add: list_ex_iff)
  have "(xi_GateID x, xi_ExternalID x) \<notin> (\<lambda>r. (xr_gate_id r, xr_external_id r)) ` set (db_externals db)"
    "(xi_MessageID x, xi_GateID x) \<notin> (\<lambda>r. (xr_message_id r, xr_gate_id r)) ` set (db_externals db)"
    using fresh by (auto simp: external_conflict_def image_iff)
  with False assms(1) external_Save_Inr [OF assms(2)] show ?thesis by (simp add: externals_ok_def external_row_of_def)
qed (use assms(1) external_Save_Inr [OF assms(2)] in simp)

lemma externals_unique:
  assumes "externals_ok db" "r \<in> set (db_externals db)" "r' \<in> set (db_externals db)"
  shows "xr_gate_id r' = xr_gate_id r \<Longrightarrow> xr_external_id r' = xr_external_id r \<Longrightarrow> r' = r"
    "xr_message_id r' = xr_message_id r \<Longrightarrow> xr_gate_id r' = xr_gate_id r \<Longrightarrow> r' = r"
  using assms by (simp_all add: externals_ok_def distinct_map inj_on_def)

lemma LookupMessageID_linked:
  assumes "externals_ok db" "i \<noteq> uuid_nil"
  shows "LookupMessageID g x db = i \<longleftrightarrow> linked db g x i"
proof (cases "find (at_gate g x) (db_externals db)")
  case None
  then have "\<not> linked db g x i" by (auto simp: linked_def find_None_iff at_gate_def)
  with None show ?thesis using assms(2) by (simp add: LookupMessageID_def)
next
  case (Some r)
  then have r: "r \<in> set (db_externals db)" "xr_gate_id r = g" "xr_external_id r = x" by (auto dest!: find_SomeD simp: at_gate_def)
  have "r' = r" if "r' \<in> set (db_externals db)" "xr_gate_id r' = g" "xr_external_id r' = x" for r'
    using externals_unique(1) [OF assms(1) r(1) that(1)] r that by simp
  with r have "linked db g x i \<longleftrightarrow> xr_message_id r = i" unfolding linked_def by blast
  with Some show ?thesis by (simp add: LookupMessageID_def)
qed

lemma LookupExternalID_linked:
  assumes "externals_ok db" "x \<noteq> []"
  shows "LookupExternalID i g db = x \<longleftrightarrow> linked db g x i"
proof (cases "find (\<lambda>r. xr_message_id r = i \<and> xr_gate_id r = g) (db_externals db)")
  case None
  then have "\<not> linked db g x i" by (auto simp: linked_def find_None_iff)
  with None show ?thesis using assms(2) by (simp add: LookupExternalID_def)
next
  case (Some r)
  then have r: "r \<in> set (db_externals db)" "xr_message_id r = i" "xr_gate_id r = g" by (auto dest!: find_SomeD)
  have "r' = r" if "r' \<in> set (db_externals db)" "xr_message_id r' = i" "xr_gate_id r' = g" for r'
    using externals_unique(2) [OF assms(1) r(1) that(1)] r that by simp
  with r have "linked db g x i \<longleftrightarrow> xr_external_id r = x" unfolding linked_def by blast
  with Some show ?thesis by (simp add: LookupExternalID_def)
qed

text \<open>
  C30. The ids at the gates: after an id has been saved, the message is found by its gate and external id exactly when that external id
  is found by the message and the gate; a first id is never overwritten by a later one, and a pair that conflicts with
  none is found both ways.
\<close>

theorem external_ids_inverse:
  assumes ok: "externals_ok db" and save: "external_Save (Some x) db = Inr db'"
  shows "externals_ok db'
    \<and> (\<forall>g y i. i \<noteq> uuid_nil \<longrightarrow> y \<noteq> [] \<longrightarrow> (LookupMessageID g y db' = i \<longleftrightarrow> LookupExternalID i g db' = y))
    \<and> (\<forall>g y. LookupMessageID g y db \<noteq> uuid_nil \<longrightarrow> LookupMessageID g y db' = LookupMessageID g y db)
    \<and> (\<forall>g i. LookupExternalID i g db \<noteq> [] \<longrightarrow> LookupExternalID i g db' = LookupExternalID i g db)
    \<and> (LookupMessageID (xi_GateID x) (xi_ExternalID x) db = uuid_nil \<and> LookupExternalID (xi_MessageID x) (xi_GateID x) db = []
         \<longrightarrow> LookupMessageID (xi_GateID x) (xi_ExternalID x) db' = xi_MessageID x)"
proof -
  note ok' = externals_ok_Save [OF ok save] and s = external_Save_Inr [OF save]
  have mono: "linked db g y i \<Longrightarrow> linked db' g y i" for g y i using s(4) by (auto simp: linked_def)
  have "LookupMessageID g y db' = LookupMessageID g y db" if "LookupMessageID g y db \<noteq> uuid_nil" for g y
    using LookupMessageID_linked [OF ok that] LookupMessageID_linked [OF ok' that] mono by blast
  moreover have "LookupExternalID i g db' = LookupExternalID i g db" if "LookupExternalID i g db \<noteq> []" for i g
    using LookupExternalID_linked [OF ok that] LookupExternalID_linked [OF ok' that] mono by blast
  moreover have "LookupMessageID (xi_GateID x) (xi_ExternalID x) db' = xi_MessageID x"
    if "LookupMessageID (xi_GateID x) (xi_ExternalID x) db = uuid_nil" "LookupExternalID (xi_MessageID x) (xi_GateID x) db = []"
  proof -
    have "\<not> external_conflict x r" if r: "r \<in> set (db_externals db)" for r
    proof
      assume "external_conflict x r"
      then have "linked db (xi_GateID x) (xi_ExternalID x) (xr_message_id r) \<or> linked db (xi_GateID x) (xr_external_id r) (xi_MessageID x)"
        using r by (auto simp: external_conflict_def linked_def)
      moreover have "xr_message_id r \<noteq> uuid_nil" "xr_external_id r \<noteq> []" using ok r by (auto simp: externals_ok_def)
      ultimately show False
        using LookupMessageID_linked [OF ok] LookupExternalID_linked [OF ok]
          \<open>LookupMessageID (xi_GateID x) (xi_ExternalID x) db = uuid_nil\<close> \<open>LookupExternalID (xi_MessageID x) (xi_GateID x) db = []\<close> by metis
    qed
    then have "linked db' (xi_GateID x) (xi_ExternalID x) (xi_MessageID x)"
      using s(4) by (auto simp: linked_def list_ex_iff external_row_of_def)
    then show ?thesis using LookupMessageID_linked [OF ok' s(1)] by blast
  qed
  ultimately show ?thesis using ok' LookupMessageID_linked [OF ok'] LookupExternalID_linked [OF ok'] by blast
qed

definition gate_id :: "string \<Rightarrow> uuid \<Rightarrow> MessageExternalID" where
  "gate_id x i = \<lparr>xi_MessageID = i, xi_ThreadID = 6, xi_GateID = ''gate'', xi_ExternalID = x, xi_Direction = ExternalDirectionInbound\<rparr>"

definition gate_db :: db where
  "gate_db = status_db\<lparr>db_externals := [external_row_of (gate_id ''a'' 11)]\<rparr>"

lemma gate_db_ok: "externals_ok gate_db"
  by (simp add: externals_ok_def gate_db_def gate_id_def external_row_of_def)

lemma gate_db_save: "external_Save (Some (gate_id ''b'' 12)) gate_db
    = Inr (gate_db\<lparr>db_externals := [external_row_of (gate_id ''a'' 11), external_row_of (gate_id ''b'' 12)]\<rparr>)"
  by (simp add: external_Save_def external_conflict_def gate_db_def gate_id_def external_row_of_def message_of_def status_example_defs)

theorem external_ids_inverse_witness:
  "\<exists>db'. external_Save (Some (gate_id ''b'' 12)) gate_db = Inr db' \<and> externals_ok db' \<and> LookupMessageID ''gate'' ''b'' db' = 12"
proof -
  have "LookupMessageID ''gate'' ''b'' gate_db = uuid_nil" "LookupExternalID 12 ''gate'' gate_db = []"
    by (simp_all add: LookupMessageID_def LookupExternalID_def at_gate_def gate_db_def gate_id_def external_row_of_def)
  then show ?thesis using external_ids_inverse [OF gate_db_ok gate_db_save] gate_db_save by (simp add: gate_id_def)
qed

section \<open>The delivery state\<close>

text \<open>What the reports say, in the order in which they arrive: the first delivery, the first reading and the last failure.\<close>

definition first_report :: "(MessageDeliveryStatus \<Rightarrow> bool) \<Rightarrow> MessageDelivery list \<Rightarrow> time option" where
  "first_report P ds = map_option md_At (find (\<lambda>d. P (md_Status d)) ds)"

definition last_failure :: "MessageDelivery list \<Rightarrow> MessageDelivery option" where
  "last_failure ds = find (\<lambda>d. md_Status d = 4) (rev ds)"

lemma first_report_snoc: "first_report P (ds @ [d]) = first_of (first_report P ds) (if P (md_Status d) then Some (md_At d) else None)"
  by (simp add: first_report_def first_of_def find_append split: option.split)

lemma fold_report_delivery:
  "fold report_delivery ds r = r\<lparr>xr_delivered_at := first_of (xr_delivered_at r) (first_report (\<lambda>s. s = 2 \<or> s = 3) ds),
     xr_read_at := first_of (xr_read_at r) (first_report (\<lambda>s. s = 3) ds),
     xr_failed_at := (case last_failure ds of None \<Rightarrow> xr_failed_at r | Some d \<Rightarrow> Some (md_At d)),
     xr_failed_reason := (case last_failure ds of None \<Rightarrow> xr_failed_reason r | Some d \<Rightarrow> nullIfEmpty (md_Reason d))\<rparr>"
proof (induction ds rule: rev_induct)
  case Nil
  then show ?case by (cases r) (simp add: first_report_def last_failure_def first_of_def split: option.split)
next
  case (snoc d ds)
  then show ?case
    by (simp add: report_delivery_def first_report_snoc last_failure_def) (simp add: first_of_def split: option.split)
qed

definition run_reports :: "time \<Rightarrow> MessageDelivery list \<Rightarrow> db \<Rightarrow> db" where
  "run_reports now ds db = fold (\<lambda>d db. snd (UpdateMessageDelivery now (Some d) db)) ds db"

lemma UpdateMessageDelivery_rows:
  assumes "md_GateID d = g" "md_ExternalID d = x" "g \<noteq> []" "x \<noteq> []" "DeliveryStatus_Valid (md_Status d)" "md_At d \<noteq> time_zero"
  shows "db_externals (snd (UpdateMessageDelivery now (Some d) db)) = update_where (at_gate g x) (report_delivery d) (db_externals db)"
proof (cases "find (at_gate g x) (db_externals db)")
  case None
  then have "update_where (at_gate g x) (report_delivery d) (db_externals db) = db_externals db"
    by (intro update_where_none) (auto simp: find_None_iff)
  then show ?thesis using None assms by (simp add: UpdateMessageDelivery_def UpdateDelivery_def)
qed (use assms in \<open>simp add: UpdateMessageDelivery_def UpdateDelivery_def\<close>)

lemma update_where_comp:
  assumes "\<And>r. P (f r) = P r"
  shows "update_where P h (update_where P f rows) = update_where P (h \<circ> f) rows"
  using assms by (simp add: update_where_def)

lemma run_reports_rows:
  assumes "\<forall>d \<in> set ds. md_GateID d = g \<and> md_ExternalID d = x \<and> DeliveryStatus_Valid (md_Status d) \<and> md_At d \<noteq> time_zero" "g \<noteq> []" "x \<noteq> []"
  shows "db_externals (run_reports now ds db) = update_where (at_gate g x) (fold report_delivery ds) (db_externals db)"
  using assms
proof (induction ds arbitrary: db)
  case Nil
  then show ?case by (simp add: run_reports_def update_where_def)
next
  case (Cons d ds)
  have keep: "at_gate g x (report_delivery d r) = at_gate g x r" for r by (simp add: at_gate_def report_delivery_def)
  have head: "db_externals (snd (UpdateMessageDelivery now (Some d) db)) = update_where (at_gate g x) (report_delivery d) (db_externals db)"
    using Cons.prems by (intro UpdateMessageDelivery_rows) simp_all
  have rest: "\<forall>d \<in> set ds. md_GateID d = g \<and> md_ExternalID d = x \<and> DeliveryStatus_Valid (md_Status d) \<and> md_At d \<noteq> time_zero"
    using Cons.prems(1) by simp
  have "run_reports now (d # ds) db = run_reports now ds (snd (UpdateMessageDelivery now (Some d) db))" by (simp add: run_reports_def)
  also have "db_externals \<dots> = update_where (at_gate g x) (fold report_delivery ds) (update_where (at_gate g x) (report_delivery d) (db_externals db))"
    unfolding Cons.IH [OF rest Cons.prems(2,3)] head ..
  also have "\<dots> = update_where (at_gate g x) (fold report_delivery (d # ds)) (db_externals db)"
    using update_where_comp [of "at_gate g x" "report_delivery d", OF keep] by simp
  finally show ?case .
qed

text \<open>
  C31. The delivery state reported from a gate: however many reports arrive for a message and in whatever order, the stored delivery
  and reading times are those of the first report of their kind (reading counts as delivery), the failure is the last one
  reported, a message that was read is also delivered, and no other message of any gate changes.
\<close>

theorem delivery_reports_settle:
  assumes reports: "\<forall>d \<in> set ds. md_GateID d = g \<and> md_ExternalID d = x \<and> DeliveryStatus_Valid (md_Status d) \<and> md_At d \<noteq> time_zero"
    and ids: "g \<noteq> []" "x \<noteq> []"
  shows "list_all2 (\<lambda>r r'. if at_gate g x r
      then r' = r\<lparr>xr_delivered_at := first_of (xr_delivered_at r) (first_report (\<lambda>s. s = 2 \<or> s = 3) ds),
                   xr_read_at := first_of (xr_read_at r) (first_report (\<lambda>s. s = 3) ds),
                   xr_failed_at := (case last_failure ds of None \<Rightarrow> xr_failed_at r | Some d \<Rightarrow> Some (md_At d)),
                   xr_failed_reason := (case last_failure ds of None \<Rightarrow> xr_failed_reason r | Some d \<Rightarrow> nullIfEmpty (md_Reason d))\<rparr>
         \<and> ((xr_read_at r \<noteq> None \<longrightarrow> xr_delivered_at r \<noteq> None) \<longrightarrow> xr_read_at r' \<noteq> None \<longrightarrow> xr_delivered_at r' \<noteq> None)
      else r' = r) (db_externals db) (db_externals (run_reports now ds db))"
proof -
  have rd: "first_report (\<lambda>s. s = 3) ds \<noteq> None \<Longrightarrow> first_report (\<lambda>s. s = 2 \<or> s = 3) ds \<noteq> None"
    by (auto simp: first_report_def find_None_iff)
  show ?thesis unfolding run_reports_rows [OF reports ids] update_where_def list_all2_map2
    using rd by (intro list_all2_refl) (auto simp: fold_report_delivery first_of_def split: option.splits)
qed

definition gate_report :: "MessageDeliveryStatus \<Rightarrow> time \<Rightarrow> MessageDelivery" where
  "gate_report s at = \<lparr>md_GateID = ''gate'', md_ExternalID = ''a'', md_Status = s, md_Reason = ''late'', md_At = at\<rparr>"

theorem delivery_reports_settle_witness:
  "db_externals (run_reports 9 [gate_report 3 5, gate_report 2 6, gate_report 4 7, gate_report 3 8] gate_db)
     = [(external_row_of (gate_id ''a'' 11))\<lparr>xr_delivered_at := Some 5, xr_read_at := Some 5, xr_failed_at := Some 7,
          xr_failed_reason := Some ''late''\<rparr>]"
proof -
  have r: "\<forall>d \<in> set [gate_report 3 5, gate_report 2 6, gate_report 4 7, gate_report 3 8].
      md_GateID d = ''gate'' \<and> md_ExternalID d = ''a'' \<and> DeliveryStatus_Valid (md_Status d) \<and> md_At d \<noteq> time_zero"
    by (simp add: gate_report_def DeliveryStatus_Valid_def time_zero_def)
  have rows: "db_externals gate_db = [external_row_of (gate_id ''a'' 11)]" "at_gate ''gate'' ''a'' (external_row_of (gate_id ''a'' 11))"
    by (simp_all add: gate_db_def at_gate_def gate_id_def external_row_of_def)
  show ?thesis using delivery_reports_settle [OF r, where now = 9 and db = gate_db] rows
    by (auto simp: list_all2_Cons1 first_report_def last_failure_def gate_report_def first_of_def gate_id_def external_row_of_def nullIfEmpty_def)
qed

section \<open>Replies stay in their thread\<close>

lemma take_add_drop: "take a s @ take b (drop a s) = take (a + b) s"
  by (simp add: take_add)

lemma left_chars_take: "\<exists>k. left_chars n s = take k s \<and> k \<le> 4 * n"
proof (induction n arbitrary: s)
  case (Suc n)
  obtain k where k: "left_chars n (drop (rune_width s) s) = take k (drop (rune_width s) s)" "k \<le> 4 * n" using Suc by blast
  have "rune_width s \<le> 4" by (simp add: rune_width_def Let_def split: list.split)
  with k show ?case by (intro exI [of _ "if s = [] then 0 else rune_width s + k"]) (auto simp: take_add)
qed simp

text \<open>
  A reply never quotes beyond its thread: whichever way the target of a reply is named, by its id or by the id it has at the sender's
  gate, what is quoted is a message of that very thread and domain that is not deleted, and at most the first 256
  characters of its text.
\<close>

theorem reply_in_thread:
  assumes "resolveReply i x from t domain db = Inr (Some p)"
  shows "\<exists>m \<in> set (db_messages db). ms_id m = rt_MessageID p \<and> ms_thread_id m = t_ID t \<and> ms_domain_id m = domain
    \<and> ms_deleted_at m = None \<and> (\<forall>j. i = Some j \<longrightarrow> ms_id m = j)
    \<and> (\<exists>k \<le> 1024. rt_Body p = take k (ms_body m))"
proof -
  have "\<exists>j. GetReplyPreview j domain db = Some p \<and> rt_ThreadID p = t_ID t \<and> (\<forall>j'. i = Some j' \<longrightarrow> j = j')"
  proof (cases i)
    case None
    then have "resolveExternalReply x from t domain db = Some p" using assms by (simp add: resolveReply_def)
    then show ?thesis using None by (auto simp: resolveExternalReply_def Let_def split: if_splits option.splits)
  next
    case (Some j)
    then have "resolveReplyPreview j (t_ID t) domain db = Inr p"
      using assms by (cases "resolveReplyPreview j (t_ID t) domain db") (auto simp: resolveReply_def)
    then show ?thesis using Some by (auto simp: resolveReplyPreview_def split: if_splits option.splits)
  qed
  then obtain j m where m: "find (\<lambda>m. ms_id m = j \<and> ms_domain_id m = domain \<and> ms_deleted_at m = None) (db_messages db) = Some m"
      "rt_MessageID p = ms_id m" "rt_ThreadID p = ms_thread_id m" "rt_Body p = left_chars 256 (ms_body m)" "rt_ThreadID p = t_ID t"
      "\<forall>j'. i = Some j' \<longrightarrow> j = j'"
    by (auto simp: GetReplyPreview_def)
  moreover from m(1) have "m \<in> set (db_messages db)" "ms_id m = j" "ms_domain_id m = domain" "ms_deleted_at m = None"
    by (auto dest!: find_SomeD)
  moreover obtain k where "left_chars 256 (ms_body m) = take k (ms_body m)" "k \<le> 1024" using left_chars_take [of 256 "ms_body m"] by auto
  ultimately show ?thesis by (intro bexI [of _ m]) auto
qed

definition gate_peer :: Peer where
  "gate_peer = (example_peer 54 ''Ann'')\<lparr>pr_Identity := Some \<lparr>idn_Issuer = [], idn_Name = ''Ann'', idn_ChatName = [],
     idn_ViaInfo = Some \<lparr>vi_ID = ''gate'', vi_Name = [], vi_Type = []\<rparr>\<rparr>\<rparr>"

theorem reply_in_thread_witness:
  "\<exists>p. resolveReply None ''a'' gate_peer (zero_thread\<lparr>t_ID := 6\<rparr>) 7 gate_db = Inr (Some p)
     \<and> (\<exists>m \<in> set (db_messages gate_db). ms_id m = rt_MessageID p \<and> ms_thread_id m = 6)"
proof -
  have "LookupMessageID ''gate'' ''a'' gate_db = 11"
    by (simp add: LookupMessageID_def at_gate_def gate_db_def gate_id_def external_row_of_def)
  moreover obtain p where "GetReplyPreview 11 7 gate_db = Some p" "rt_ThreadID p = 6"
    by (simp add: GetReplyPreview_def gate_db_def status_example_defs)
  moreover have "gateIDForPeer (Some gate_peer) ms = ''gate''" for ms
    by (simp add: gateIDForPeer_def ResolveVia_def gate_peer_def)
  ultimately have "resolveReply None ''a'' gate_peer (zero_thread\<lparr>t_ID := 6\<rparr>) 7 gate_db = Inr (Some p)"
    by (simp add: resolveReply_def resolveExternalReply_def)
  from reply_in_thread [OF this] this show ?thesis by auto
qed

end
