(* ===== verification/Providers.thy ===== *)
theory Providers
  imports External_Ids Journal Text_Entities
begin

text \<open>
  The hand-over of messages, reactions and typing signs to external messengers:
  \<^verbatim>\<open>internal/service/providers_adapter.go\<close> and \<^verbatim>\<open>internal/service/reaction_capability.go\<close>. The
  provider service answers a request with an external id or an error and is a parameter; so are
  \<^verbatim>\<open>fmt.Sprint\<close> of a dynamic value and the JSON decoder of stored entities. The requests of one call run
  concurrently: the order in which they take effect is a parameter too, an arbitrary permutation. A nil row or button
  of a keyboard is dereferenced by the code, which stops the process; the model gives that case as a value.
\<close>

section \<open>Requests\<close>

record ProviderFile =
  pf_Id :: string
  pf_Url :: string
  pf_Name :: string
  pf_MimeType :: string
  pf_Size :: int

record ProviderEntity =
  pe_Type :: string
  pe_Offset :: int
  pe_Length :: int
  pe_Value :: "string option"

datatype ProviderButtonKind = ButtonUrl string | ButtonCallback string | ButtonRequest string

record ProviderKeyboardButton =
  pb_Id :: string
  pb_Label :: string
  pb_Kind :: "ProviderButtonKind option"

datatype ProviderKind = Markup "ProviderKeyboardButton list list" | ListReply string "(string \<times> ProviderKeyboardButton list) list"

record ProviderInteractive =
  pi_SingleUse :: bool
  pi_Placement :: int
  pi_InputFieldState :: int
  pi_Kind :: "ProviderKind option"

text \<open>The fields the requests share; a field that a request does not have is \<open>None\<close> or empty.\<close>

record provider_header =
  ph_GateId :: string
  ph_ExternalUserId :: uuid
  ph_DomainId :: int
  ph_MessageId :: "uuid option"
  ph_ThreadId :: "uuid option"
  ph_ReplyToExternalId :: string
  ph_SenderName :: string

datatype provider_payload =
    PText string "ProviderEntity list"
  | PDocument "ProviderFile list" string "ProviderEntity list"
  | PContact string string "string option"
  | PInteractive string uuid ProviderInteractive
  | PLocation nat nat "string option" "string option"
  | PSystem string "string \<rightharpoonup> string"
  | PTyping bool
  | PReaction string string bool

type_synonym provider_request = "provider_header \<times> provider_payload"

record providers =
  pv_call :: "provider_request \<Rightarrow> string res"
  pv_order :: "ExternalPeerPair list \<Rightarrow> ExternalPeerPair list"
  pv_sprint :: "anyv \<Rightarrow> string"
  pv_json :: "anyv \<Rightarrow> Entity list option"
  pv_allowed :: "string list"

section \<open>Mapping\<close>

definition strval :: "string option \<Rightarrow> string" where
  "strval s = (case s of None \<Rightarrow> [] | Some v \<Rightarrow> v)"

definition mapMenuPlacement :: "int \<Rightarrow> int" where
  "mapMenuPlacement p = (if p = 1 then 1 else if p = 2 then 2 else 0)"

definition mapInputFieldState :: "int \<Rightarrow> int" where
  "mapInputFieldState s = (if s = 1 then 1 else if s = 2 then 2 else if s = 3 then 3 else 0)"

definition provider_button :: "KeyboardButton \<Rightarrow> ProviderKeyboardButton" where
  "provider_button b = \<lparr>pb_Id = kb_ID b, pb_Label = kb_Label b,
     pb_Kind = (if kb_Type b = ''url'' then Some (ButtonUrl (strval (kb_URL b)))
                else if kb_Type b = ''callback'' then Some (ButtonCallback (strval (kb_Data b)))
                else if kb_Type b = ''request'' then Some (ButtonRequest (strval (kb_Action b)))
                else None)\<rparr>"

definition mapButtons :: "KeyboardButton option list \<Rightarrow> ProviderKeyboardButton list option" where
  "mapButtons bs = those (map (map_option provider_button) bs)"

definition mapInteractive :: "MessageInteractive \<Rightarrow> ProviderInteractive option" where
  "mapInteractive m =
     (let out = \<lparr>pi_SingleUse = ia_SingleUse m, pi_Placement = mapMenuPlacement (ia_Placement m),
                  pi_InputFieldState = mapInputFieldState (ia_InputFieldState m), pi_Kind = None\<rparr>
      in (case ia_Markup m of
            Some rows \<Rightarrow>
              map_option (\<lambda>rs. out\<lparr>pi_Kind := Some (Markup rs)\<rparr>)
                (those (map (\<lambda>r. Option.bind r mapButtons) rows))
          | None \<Rightarrow>
             (case ia_ListReply m of
                None \<Rightarrow> Some out
              | Some l \<Rightarrow>
                 map_option (\<lambda>ss. out\<lparr>pi_Kind := Some (ListReply (lr_Title l) ss)\<rparr>)
                   (those (map (\<lambda>s. Option.bind s (\<lambda>x. map_option (Pair (ls_Section x)) (mapButtons (ls_Buttons x)))) (lr_Sections l))))))"

definition mapEntitiesToProvider :: "Entity list \<Rightarrow> ProviderEntity list" where
  "mapEntitiesToProvider = map (\<lambda>e. \<lparr>pe_Type = en_Type e, pe_Offset = to_int32 (en_Offset e), pe_Length = to_int32 (en_Length e),
     pe_Value = nullIfEmpty (en_Value e)\<rparr>)"

definition metadataToStringMap :: "(anyv \<Rightarrow> string) \<Rightarrow> metadata \<Rightarrow> (string \<rightharpoonup> string)" where
  "metadataToStringMap sprint m = (\<lambda>k. map_option sprint (m k))"

definition senderName :: "Message option \<Rightarrow> string" where
  "senderName msg = (case Option.bind msg (\<lambda>m. pr_Identity (m_From m)) of None \<Rightarrow> [] | Some i \<Rightarrow> idn_ChatName i)"

definition extractFile :: "MessageDocument \<Rightarrow> ProviderFile" where
  "extractFile d = \<lparr>pf_Id = FormatInt (dc_FileID d), pf_Url = dc_URL d, pf_Name = dc_Name d, pf_MimeType = dc_Mime d, pf_Size = dc_Size d\<rparr>"

definition extratcFiles :: "MessageDocument list \<Rightarrow> ProviderFile list" where
  "extratcFiles = map extractFile"

section \<open>Messages\<close>

definition lookupReplyExternalID :: "Message \<Rightarrow> string \<Rightarrow> db \<Rightarrow> string" where
  "lookupReplyExternalID m g db =
     (case m_ReplyTo m of None \<Rightarrow> [] | Some r \<Rightarrow> LookupExternalID (rt_MessageID r) g db)"

definition persistExternalID :: "Message \<Rightarrow> string \<Rightarrow> string \<Rightarrow> db \<Rightarrow> db" where
  "persistExternalID m g x db =
     (if x = [] then db
      else (case external_Save (Some \<lparr>xi_MessageID = m_ID m, xi_ThreadID = m_ThreadID m, xi_GateID = g, xi_ExternalID = x,
                   xi_Direction = ExternalDirectionOutbound\<rparr>) db of Inl _ \<Rightarrow> db | Inr db' \<Rightarrow> db'))"

text \<open>What one peer is sent: \<open>Panic\<close> where a nil pointer is dereferenced, \<open>Skip\<close> where the switch sends nothing.\<close>

datatype 'a attempt = Panic | Skip | Attempt 'a

definition full_header :: "Message \<Rightarrow> ExternalPeerPair \<Rightarrow> string \<Rightarrow> provider_header" where
  "full_header m p reply = \<lparr>ph_GateId = ep_Via p, ph_ExternalUserId = ep_ContactID p, ph_DomainId = m_DomainID m,
     ph_MessageId = Some (m_ID m), ph_ThreadId = Some (m_ThreadID m), ph_ReplyToExternalId = reply, ph_SenderName = senderName (Some m)\<rparr>"

definition peer_request :: "providers \<Rightarrow> Message \<Rightarrow> ExternalPeerPair \<Rightarrow> string \<Rightarrow> provider_request attempt" where
  "peer_request P m p reply =
     (let full = full_header m p reply; bare = full\<lparr>ph_MessageId := None, ph_ThreadId := None\<rparr>;
          entities = mapEntitiesToProvider (DecodeEntitiesFromMetadata (pv_json P) (m_Metadata m))
      in if m_Type m = MessageTypeFile then Attempt (full, PDocument (extratcFiles (m_Documents m)) (m_Body m) entities)
         else if m_Type m = MessageTypeText then Attempt (full, PText (m_Body m) entities)
         else if m_Type m = MessageTypeContact then
           (case m_Contact m of None \<Rightarrow> Skip
            | Some c \<Rightarrow> Attempt (bare, PContact (strval (co_Name c)) (strval (co_PhoneNumber c)) (co_Email c)))
         else if m_Type m = MessageTypeInteractive then
           (case m_Interactive m of None \<Rightarrow> Skip
            | Some i \<Rightarrow> (case mapInteractive i of None \<Rightarrow> Panic | Some x \<Rightarrow> Attempt (full, PInteractive (m_Body m) (m_ID m) x)))
         else if m_Type m = MessageTypeLocation then
           (case m_Location m of None \<Rightarrow> Skip
            | Some l \<Rightarrow> Attempt (bare, PLocation (lo_Latitude l) (lo_Longitude l) (lo_Name l) (lo_Address l)))
         else if m_Type m = MessageTypeSystem then
           (case m_System m of None \<Rightarrow> Skip
            | Some s \<Rightarrow> Attempt (full\<lparr>ph_ReplyToExternalId := [], ph_SenderName := []\<rparr>,
                                PSystem (sy_Type s) (metadataToStringMap (pv_sprint P) (sy_Metadata s))))
         else Skip)"

text \<open>What a fan-out did: the requests it made, the errors it collected, the state it left; or that the process stopped.\<close>

record outcome =
  oc_panic :: bool
  oc_requests :: "provider_request list"
  oc_errors :: "err list"
  oc_db :: db

definition start_outcome :: "db \<Rightarrow> outcome" where
  "start_outcome db = \<lparr>oc_panic = False, oc_requests = [], oc_errors = [], oc_db = db\<rparr>"

definition deliver :: "providers \<Rightarrow> Message \<Rightarrow> ExternalPeerPair \<Rightarrow> outcome \<Rightarrow> outcome" where
  "deliver P m p oc =
     (case peer_request P m p (lookupReplyExternalID m (ep_Via p) (oc_db oc)) of
        Panic \<Rightarrow> oc\<lparr>oc_panic := True\<rparr>
      | Skip \<Rightarrow> oc
      | Attempt r \<Rightarrow>
         (case pv_call P r of
            Inl e \<Rightarrow> oc\<lparr>oc_requests := oc_requests oc @ [r], oc_errors := oc_errors oc @ [e]\<rparr>
          | Inr x \<Rightarrow> oc\<lparr>oc_requests := oc_requests oc @ [r], oc_db := persistExternalID m (ep_Via p) x (oc_db oc)\<rparr>))"

definition external_pairs :: "uuid \<Rightarrow> ThreadDialog list \<Rightarrow> ExternalPeerPair list" where
  "external_pairs sender to = filter (\<lambda>p. ep_ContactID p \<noteq> sender) (ExtractExternalPeers to)"

definition SendMessage :: "providers \<Rightarrow> Message option \<Rightarrow> db \<Rightarrow> outcome" where
  "SendMessage P msg db =
     (case msg of None \<Rightarrow> (start_outcome db)\<lparr>oc_errors := [Err InvalidArgument ''received nil pointer message'']\<rparr>
      | Some m \<Rightarrow> fold (deliver P m) (pv_order P (external_pairs (GetSender m) (m_To m))) (start_outcome db))"

section \<open>Typing signs and reactions\<close>

record TypingDispatch =
  ty_ThreadID :: uuid
  ty_DomainID :: int
  ty_TypingOn :: bool
  ty_Peers :: "ExternalPeerPair list"

definition signal :: "providers \<Rightarrow> provider_request \<Rightarrow> outcome \<Rightarrow> outcome" where
  "signal P r oc =
     (case pv_call P r of Inl e \<Rightarrow> oc\<lparr>oc_requests := oc_requests oc @ [r], oc_errors := oc_errors oc @ [e]\<rparr>
      | Inr _ \<Rightarrow> oc\<lparr>oc_requests := oc_requests oc @ [r]\<rparr>)"

definition typing_request :: "TypingDispatch \<Rightarrow> ExternalPeerPair \<Rightarrow> provider_request" where
  "typing_request q p = (\<lparr>ph_GateId = ep_Via p, ph_ExternalUserId = ep_ContactID p, ph_DomainId = ty_DomainID q, ph_MessageId = None,
     ph_ThreadId = Some (ty_ThreadID q), ph_ReplyToExternalId = [], ph_SenderName = []\<rparr>, PTyping (ty_TypingOn q))"

definition providers_SendTyping :: "providers \<Rightarrow> TypingDispatch option \<Rightarrow> db \<Rightarrow> outcome" where
  "providers_SendTyping P req db =
     (case req of None \<Rightarrow> start_outcome db
      | Some q \<Rightarrow> fold (\<lambda>p. signal P (typing_request q p)) (pv_order P (ty_Peers q)) (start_outcome db))"

definition Allowed :: "providers \<Rightarrow> string \<Rightarrow> string \<Rightarrow> bool" where
  "Allowed P gate emoji = (if pv_allowed P = [] then True else emoji \<in> set (pv_allowed P))"

text \<open>
  The reaction a service call hands over carries the request, the thread of the result and the members of that thread.
\<close>

definition reaction_request :: "SetReactionRequest \<Rightarrow> ReactionResult \<Rightarrow> string \<Rightarrow> ExternalPeerPair \<Rightarrow> provider_request" where
  "reaction_request r result x p = (\<lparr>ph_GateId = ep_Via p, ph_ExternalUserId = ep_ContactID p, ph_DomainId = rs_DomainID r,
     ph_MessageId = Some (rs_MessageID r), ph_ThreadId = Some (rt_Thread result), ph_ReplyToExternalId = [], ph_SenderName = []\<rparr>,
     PReaction x (rt_Emoji result) (rt_Action result = ActionRemoved))"

definition carries_reaction :: "providers \<Rightarrow> SetReactionRequest \<Rightarrow> ReactionResult \<Rightarrow> db \<Rightarrow> ExternalPeerPair \<Rightarrow> bool" where
  "carries_reaction P r result db p \<longleftrightarrow> LookupExternalID (rs_MessageID r) (ep_Via p) db \<noteq> []
     \<and> (rt_Action result = ActionRemoved \<or> Allowed P (ep_Via p) (rt_Emoji result))"

definition SendReaction :: "providers \<Rightarrow> SetReactionRequest \<Rightarrow> ReactionResult \<Rightarrow> ThreadDialog list \<Rightarrow> db \<Rightarrow> outcome" where
  "SendReaction P r result to db =
     fold (\<lambda>p. signal P (reaction_request r result (LookupExternalID (rs_MessageID r) (ep_Via p) db) p))
       (pv_order P (filter (carries_reaction P r result db) (external_pairs (pr_ID (rs_Reactor r)) to))) (start_outcome db)"

section \<open>What a fan-out does\<close>

text \<open>
  The contract the three hand-overs share: each peer that is taken up gets one request, an error is collected exactly
  when the provider answers with one, nothing stops the process, and the property of the state the requests are built
  from is kept.
\<close>

locale fan_out =
  fixes step :: "ExternalPeerPair \<Rightarrow> outcome \<Rightarrow> outcome"
    and request :: "ExternalPeerPair \<Rightarrow> provider_request"
    and call :: "provider_request \<Rightarrow> string res"
    and keeps :: "db \<Rightarrow> bool"
  assumes step_requests: "keeps (oc_db oc) \<Longrightarrow> oc_requests (step p oc) = oc_requests oc @ [request p]"
    and step_errors: "keeps (oc_db oc) \<Longrightarrow> oc_errors (step p oc) = oc_errors oc @ (case call (request p) of Inl e \<Rightarrow> [e] | Inr _ \<Rightarrow> [])"
    and step_panic: "keeps (oc_db oc) \<Longrightarrow> oc_panic (step p oc) = oc_panic oc"
    and step_keeps: "keeps (oc_db oc) \<Longrightarrow> keeps (oc_db (step p oc))"
begin

lemma run_all:
  assumes "keeps (oc_db oc)"
  shows "oc_requests (fold step ps oc) = oc_requests oc @ map request ps
    \<and> oc_errors (fold step ps oc) = oc_errors oc @ concat (map (\<lambda>p. case call (request p) of Inl e \<Rightarrow> [e] | Inr _ \<Rightarrow> []) ps)
    \<and> oc_panic (fold step ps oc) = oc_panic oc"
  using assms
proof (induction ps arbitrary: oc)
  case (Cons p ps)
  then show ?case using Cons.IH [OF step_keeps [OF Cons.prems]] step_requests [OF Cons.prems] step_errors [OF Cons.prems]
      step_panic [OF Cons.prems] by simp
qed simp

lemma run_requests: "keeps db \<Longrightarrow> oc_requests (fold step ps (start_outcome db)) = map request ps"
  and run_errors: "keeps db \<Longrightarrow> oc_errors (fold step ps (start_outcome db)) = concat (map (\<lambda>r. case call r of Inl e \<Rightarrow> [e] | Inr _ \<Rightarrow> []) (map request ps))"
  and run_panic: "keeps db \<Longrightarrow> \<not> oc_panic (fold step ps (start_outcome db))"
  using run_all [of "start_outcome db" ps] by (simp_all add: start_outcome_def comp_def)

lemma run_failed: "keeps db \<Longrightarrow> oc_errors (fold step ps (start_outcome db)) = [] \<longleftrightarrow> (\<forall>p \<in> set ps. \<exists>x. call (request p) = Inr x)"
  by (simp add: run_errors comp_def split: sum.split) (metis Inl_Inr_False old.sum.exhaust)

end

interpretation typing: fan_out "\<lambda>p. signal P (typing_request q p)" "typing_request q" "pv_call P" "\<lambda>_. True" for P q
  by unfold_locales (auto simp: signal_def split: sum.splits)

interpretation reactions: fan_out "\<lambda>p. signal P (reaction_request r result (LookupExternalID (rs_MessageID r) (ep_Via p) db) p)"
  "\<lambda>p. reaction_request r result (LookupExternalID (rs_MessageID r) (ep_Via p) db) p" "pv_call P" "\<lambda>_. True" for P r result db
  by unfold_locales (auto simp: signal_def split: sum.splits)

text \<open>A message that the switch turns into a request, and that request.\<close>

definition sendable :: "Message \<Rightarrow> bool" where
  "sendable m \<longleftrightarrow> m_Type m = MessageTypeFile \<or> m_Type m = MessageTypeText \<or> (m_Type m = MessageTypeContact \<and> m_Contact m \<noteq> None)
     \<or> (m_Type m = MessageTypeInteractive \<and> Option.bind (m_Interactive m) mapInteractive \<noteq> None)
     \<or> (m_Type m = MessageTypeLocation \<and> m_Location m \<noteq> None) \<or> (m_Type m = MessageTypeSystem \<and> m_System m \<noteq> None)"

definition message_request :: "providers \<Rightarrow> Message \<Rightarrow> db \<Rightarrow> ExternalPeerPair \<Rightarrow> provider_request" where
  "message_request P m db p =
     (case peer_request P m p (lookupReplyExternalID m (ep_Via p) db) of Attempt r \<Rightarrow> r | _ \<Rightarrow> undefined)"

lemma peer_request_sendable: "sendable m \<Longrightarrow> \<exists>r. peer_request P m p x = Attempt r"
  by (auto simp: sendable_def peer_request_def Let_def split: option.splits)

lemma message_request_eq:
  "sendable m \<Longrightarrow> peer_request P m p (lookupReplyExternalID m (ep_Via p) db) = Attempt (message_request P m db p)"
  using peer_request_sendable [of m P p "lookupReplyExternalID m (ep_Via p) db"] by (auto simp: message_request_def)

definition same_replies :: "Message \<Rightarrow> db \<Rightarrow> db \<Rightarrow> bool" where
  "same_replies m db db' \<longleftrightarrow> sendable m \<and> (\<forall>r. m_ReplyTo m = Some r \<longrightarrow> rt_MessageID r \<noteq> m_ID m)
     \<and> (\<forall>g. lookupReplyExternalID m g db' = lookupReplyExternalID m g db)"

lemma persist_replies:
  assumes "\<forall>r. m_ReplyTo m = Some r \<longrightarrow> rt_MessageID r \<noteq> m_ID m"
  shows "lookupReplyExternalID m g (persistExternalID m g' x db) = lookupReplyExternalID m g db"
  using assms by (auto simp: lookupReplyExternalID_def persistExternalID_def external_Save_def LookupExternalID_def find_append
      external_row_of_def split: option.splits if_splits)

interpretation messages: fan_out "deliver P m" "message_request P m db" "pv_call P" "same_replies m db" for P m db
proof unfold_locales
  fix oc :: outcome and p
  assume k: "same_replies m db (oc_db oc)"
  then have "peer_request P m p (lookupReplyExternalID m (ep_Via p) (oc_db oc)) = Attempt (message_request P m db p)"
    by (simp add: same_replies_def message_request_eq)
  then have d: "deliver P m p oc =
     (case pv_call P (message_request P m db p) of
        Inl e \<Rightarrow> oc\<lparr>oc_requests := oc_requests oc @ [message_request P m db p], oc_errors := oc_errors oc @ [e]\<rparr>
      | Inr x \<Rightarrow> oc\<lparr>oc_requests := oc_requests oc @ [message_request P m db p], oc_db := persistExternalID m (ep_Via p) x (oc_db oc)\<rparr>)"
    by (simp add: deliver_def)
  show "oc_requests (deliver P m p oc) = oc_requests oc @ [message_request P m db p]"
    "oc_errors (deliver P m p oc) = oc_errors oc @ (case pv_call P (message_request P m db p) of Inl e \<Rightarrow> [e] | Inr _ \<Rightarrow> [])"
    "oc_panic (deliver P m p oc) = oc_panic oc"
    by (simp_all add: d split: sum.splits)
  show "same_replies m db (oc_db (deliver P m p oc))"
    using k by (simp add: d same_replies_def persist_replies split: sum.splits)
qed

lemma message_request_header:
  assumes "sendable m"
  shows "ph_GateId (fst (message_request P m db p)) = ep_Via p" "ph_ExternalUserId (fst (message_request P m db p)) = ep_ContactID p"
    "m_Type m \<noteq> MessageTypeSystem \<Longrightarrow> ph_ReplyToExternalId (fst (message_request P m db p)) = lookupReplyExternalID m (ep_Via p) db"
  using assms by (auto simp: message_request_def sendable_def peer_request_def full_header_def Let_def split: option.splits)

section \<open>What it leaves behind\<close>

definition only_externals :: "db \<Rightarrow> db \<Rightarrow> bool" where
  "only_externals db db' \<longleftrightarrow> (\<exists>rows. db' = db\<lparr>db_externals := db_externals db @ rows\<rparr>)"

lemma only_externals_refl [simp]: "only_externals db db"
  unfolding only_externals_def by (intro exI [of _ "[]"]) simp

lemma only_externals_trans: "only_externals a b \<Longrightarrow> only_externals b c \<Longrightarrow> only_externals a c"
  by (auto simp: only_externals_def)

lemma persist_only_externals: "only_externals db (persistExternalID m g x db)"
  by (auto simp: persistExternalID_def external_Save_def only_externals_def split: sum.splits if_splits intro: exI [of _ "[]"])

lemma deliver_only_externals: "only_externals (oc_db oc) (oc_db (deliver P m p oc))"
  by (auto simp: deliver_def persist_only_externals split: attempt.splits sum.splits)

lemma SendMessage_only_externals: "only_externals db (oc_db (SendMessage P msg db))"
proof -
  have "only_externals (oc_db oc) (oc_db (fold (deliver P m) ps oc))" for m ps oc
    by (induction ps arbitrary: oc) (auto intro: only_externals_trans deliver_only_externals)
  from this [of "start_outcome db"] show ?thesis by (auto simp: SendMessage_def start_outcome_def split: option.splits)
qed

lemma persist_externals_ok: "externals_ok db \<Longrightarrow> externals_ok (persistExternalID m g x db)"
  by (auto simp: persistExternalID_def split: sum.splits intro: externals_ok_Save)

lemma SendMessage_externals_ok: "externals_ok db \<Longrightarrow> externals_ok (oc_db (SendMessage P msg db))"
proof -
  have "externals_ok (oc_db oc) \<Longrightarrow> externals_ok (oc_db (fold (deliver P m) ps oc))" for m ps oc
    by (induction ps arbitrary: oc) (auto simp: deliver_def persist_externals_ok split: attempt.splits sum.splits)
  from this [of "start_outcome db"] show "externals_ok db \<Longrightarrow> ?thesis" by (auto simp: SendMessage_def start_outcome_def split: option.splits)
qed



definition echo_providers :: providers where
  "echo_providers = \<lparr>pv_call = (\<lambda>_. Inr ''ext''), pv_order = (\<lambda>xs. xs), pv_sprint = (\<lambda>_. []), pv_json = (\<lambda>_. None), pv_allowed = []\<rparr>"

definition gate_message :: Message where
  "gate_message = zero_message\<lparr>m_ID := 12, m_ThreadID := 6, m_DomainID := 7, m_Type := MessageTypeText, m_Body := ''hi'',
     m_From := empty_peer\<lparr>pr_ID := 52\<rparr>, m_To := [zero_dialog\<lparr>td_ContactID := 52\<rparr>, zero_dialog\<lparr>td_ContactID := 54, td_Via := Some ''gate''\<rparr>]\<rparr>"


end
