(* ===== verification/Typing.thy ===== *)
theory Typing
  imports Providers
begin

text \<open>
  The typing sign with its live draft: \<^verbatim>\<open>internal/service/typing.go\<close>, \<^verbatim>\<open>internal/service/guards/send_typing.go\<close>,
  \<^verbatim>\<open>internal/service/dto/typing.go\<close>, \<^verbatim>\<open>internal/domain/event/typing_v1.go\<close> and the typing section of
  \<^verbatim>\<open>config/config.go\<close>. Nothing is stored: an operation answers with the event it publishes and the requests it
  makes. The rate limiter is a parameter; durations are in nanoseconds.
\<close>

section \<open>Configuration and requests\<close>

record TypingConfig =
  tc_Enabled :: bool
  tc_PreviewEnabled :: bool
  tc_RateLimitWindow :: int
  tc_DefaultTimeout :: int
  tc_MaxTimeout :: int
  tc_MaxPreviewBytes :: int

abbreviation (input) Second :: int where "Second \<equiv> 1000000000"
abbreviation (input) Millisecond :: int where "Millisecond \<equiv> 1000000"

definition applyDefaults :: "TypingConfig \<Rightarrow> TypingConfig" where
  "applyDefaults c =
     c\<lparr>tc_RateLimitWindow := (if tc_RateLimitWindow c \<le> 0 then 3 * Second else tc_RateLimitWindow c),
       tc_DefaultTimeout := (if tc_DefaultTimeout c \<le> 0 then 6 * Second else tc_DefaultTimeout c),
       tc_MaxTimeout := (if tc_MaxTimeout c \<le> 0 then 30 * Second else tc_MaxTimeout c),
       tc_MaxPreviewBytes := (if tc_MaxPreviewBytes c \<le> 0 then 1024 else tc_MaxPreviewBytes c)\<rparr>"

text \<open>The typing part of the validation of the configuration, which also fills in the defaults.\<close>

definition validate_typing :: "TypingConfig \<Rightarrow> TypingConfig res" where
  "validate_typing c =
     (let c' = applyDefaults c
      in if tc_DefaultTimeout c' > tc_MaxTimeout c'
         then Inl (Err Unknown ''config: typing.default_timeout must not exceed typing.max_timeout'') else Inr c')"

record SendTypingRequest =
  sq_From :: Peer
  sq_ThreadID :: uuid
  sq_DomainID :: int
  sq_TimeoutMS :: int
  sq_PreviewText :: string

definition SendTypingGuard :: "SendTypingRequest option \<Rightarrow> unit res" where
  "SendTypingGuard req =
     (case req of None \<Rightarrow> Inl (Err Unknown ''request is nil'')
      | Some q \<Rightarrow>
         if pr_ID (sq_From q) = uuid_nil then Inl (Err Unknown ''typing sender id is required'')
         else if sq_ThreadID q = uuid_nil then Inl (Err Unknown ''typing thread id is required'')
         else Inr ())"

record Typing =
  ty_Thread :: uuid
  ty_Member :: uuid
  ty_Role :: int
  ty_TimeoutMS :: int
  ty_OccurredAt :: time
  ty_To :: "uuid list"
  ty_Domain :: int
  ty_PreviewText :: string
  ty_PreviewVisibleTo :: "uuid list"

section \<open>Operations\<close>

definition isActiveMember :: "ThreadDialog list \<Rightarrow> uuid \<Rightarrow> bool" where
  "isActiveMember members i = list_ex (\<lambda>m. td_ContactID m = i \<and> td_DeletedAt m = None) members"

definition memberRole :: "ThreadDialog list \<Rightarrow> uuid \<Rightarrow> ThreadRole" where
  "memberRole members i = (case find (\<lambda>m. td_ContactID m = i) members of None \<Rightarrow> UnspecifiedRole | Some m \<Rightarrow> td_ThreadRole m)"

definition isInternalRecipient :: "ThreadDialog \<Rightarrow> uuid \<Rightarrow> bool" where
  "isInternalRecipient m sender \<longleftrightarrow> td_DeletedAt m = None \<and> td_ContactID m \<noteq> sender \<and> \<not> td_IsBot m \<and> td_Via m = None"

definition internalRecipients :: "ThreadDialog list \<Rightarrow> uuid \<Rightarrow> uuid list" where
  "internalRecipients members sender = map td_ContactID (filter (\<lambda>m. isInternalRecipient m sender) members)"

fun cut_back :: "string \<Rightarrow> nat \<Rightarrow> nat" where
  "cut_back s 0 = 0"
| "cut_back s (Suc n) = (if RuneStart (s ! Suc n) then Suc n else cut_back s n)"

definition truncateUTF8 :: "string \<Rightarrow> int \<Rightarrow> string" where
  "truncateUTF8 s maxBytes = (if maxBytes \<le> 0 \<or> int (length s) \<le> maxBytes then s else take (cut_back s (nat maxBytes)) s)"

definition resolveTypingTimeout :: "TypingConfig \<Rightarrow> int \<Rightarrow> int" where
  "resolveTypingTimeout c requestedMS =
     (let d = (if requestedMS > 0 then requestedMS * Millisecond else tc_DefaultTimeout c);
          d' = (if d > tc_MaxTimeout c then tc_MaxTimeout c else d)
      in to_int32 (d' div Millisecond))"

definition dispatchExternalTyping :: "providers \<Rightarrow> ThreadDialog list \<Rightarrow> SendTypingRequest \<Rightarrow> db \<Rightarrow> provider_request list" where
  "dispatchExternalTyping P members q db =
     (let peers = external_pairs (pr_ID (sq_From q)) members
      in if peers = [] then []
         else oc_requests (providers_SendTyping P (Some \<lparr>ty_ThreadID = sq_ThreadID q, ty_DomainID = to_int32 (sq_DomainID q),
                ty_TypingOn = True, ty_Peers = peers\<rparr>) db))"

record typing_env =
  te_config :: TypingConfig
  te_Allow :: bool
  te_now :: time
  te_providers :: providers

definition SendTyping :: "typing_env \<Rightarrow> SendTypingRequest option \<Rightarrow> db \<Rightarrow> unit res \<times> Typing option \<times> provider_request list" where
  "SendTyping env req db =
     (case SendTypingGuard req of Inl _ \<Rightarrow> (Inl (Err InvalidArgument ''typing: invalid request''), None, [])
      | Inr _ \<Rightarrow>
         (let q = the req; c = te_config env
          in if \<not> tc_Enabled c then (Inr (), None, [])
             else if \<not> te_Allow env then (Inr (), None, [])
             else (let members = GetQuickView ((thread_filter (sq_ThreadID q))\<lparr>f_DomainID := sq_DomainID q\<rparr>) db
               in if \<not> isActiveMember members (pr_ID (sq_From q))
                  then (Inl (Err Unknown ''typing: sender is not a participant of the thread''), None, [])
                  else (let recipients = internalRecipients members (pr_ID (sq_From q));
                            ev = \<lparr>ty_Thread = sq_ThreadID q, ty_Member = pr_ID (sq_From q),
                                  ty_Role = to_int32 (memberRole members (pr_ID (sq_From q))),
                                  ty_TimeoutMS = resolveTypingTimeout c (sq_TimeoutMS q), ty_OccurredAt = te_now env, ty_To = recipients,
                                  ty_Domain = to_int32 (sq_DomainID q), ty_PreviewText = [], ty_PreviewVisibleTo = []\<rparr>;
                            ev' = (if tc_PreviewEnabled c \<and> recipients \<noteq> []
                                   then ev\<lparr>ty_PreviewText := truncateUTF8 (sq_PreviewText q) (tc_MaxPreviewBytes c), ty_PreviewVisibleTo := recipients\<rparr>
                                   else ev)
                        in (Inr (), Some ev', dispatchExternalTyping (te_providers env) members q db)))))"

section \<open>The lifetime and the draft are bounded\<close>

lemma cut_back_le: "cut_back s n \<le> n"
  by (induction n) auto

lemma cut_back_boundary: "cut_back s n = 0 \<or> RuneStart (s ! cut_back s n)"
  by (induction n) auto

lemma truncateUTF8_prefix:
  assumes "maxBytes > 0"
  shows "\<exists>k. truncateUTF8 s maxBytes = take k s \<and> k \<le> length s \<and> int k \<le> max maxBytes 0 \<and> (k = 0 \<or> k = length s \<or> RuneStart (s ! k))"
proof (cases "int (length s) \<le> maxBytes")
  case True
  then show ?thesis by (intro exI [of _ "length s"]) (simp add: truncateUTF8_def)
next
  case False
  have "cut_back s (nat maxBytes) \<le> nat maxBytes" by (rule cut_back_le)
  with False assms cut_back_boundary [of s "nat maxBytes"] show ?thesis
    by (intro exI [of _ "cut_back s (nat maxBytes)"]) (auto simp: truncateUTF8_def)
qed

lemma resolveTypingTimeout_bounds:
  assumes "0 < tc_DefaultTimeout c" "Millisecond \<le> tc_MaxTimeout c" "tc_MaxTimeout c < 2 ^ 31 * Millisecond"
  shows "0 \<le> resolveTypingTimeout c ms" "resolveTypingTimeout c ms * Millisecond \<le> tc_MaxTimeout c"
    "ms > 0 \<Longrightarrow> ms * Millisecond \<le> tc_MaxTimeout c \<Longrightarrow> resolveTypingTimeout c ms = ms"
proof -
  define d where "d = (if ms > 0 then ms * Millisecond else tc_DefaultTimeout c)"
  define d' where "d' = (if d > tc_MaxTimeout c then tc_MaxTimeout c else d)"
  have d: "0 < d" "0 < d'" "d' \<le> tc_MaxTimeout c" using assms by (auto simp: d_def d'_def)
  have "d' div Millisecond < 2 ^ 31" using d assms by (simp add: div_less_iff_less_mult)
  moreover have "0 \<le> d' div Millisecond" using d by (simp add: pos_imp_zdiv_nonneg_iff)
  ultimately have r: "resolveTypingTimeout c ms = d' div Millisecond"
    by (simp add: resolveTypingTimeout_def d_def [symmetric] d'_def [symmetric] Let_def to_int32_id)
  then show "0 \<le> resolveTypingTimeout c ms" using \<open>0 \<le> d' div Millisecond\<close> by simp
  show "resolveTypingTimeout c ms * Millisecond \<le> tc_MaxTimeout c"
    using r d(3) div_mult_mod_eq [of d' Millisecond] pos_mod_sign [of Millisecond d'] by linarith
  show "ms > 0 \<Longrightarrow> ms * Millisecond \<le> tc_MaxTimeout c \<Longrightarrow> resolveTypingTimeout c ms = ms"
    using r by (simp add: d_def d'_def)
qed

lemma typing_members:
  "GetQuickView ((thread_filter t)\<lparr>f_DomainID := n\<rparr>) db
     = map quick_row (filter (\<lambda>d. dl_thread_id d = t \<and> (n = 0 \<or> dl_domain_id d = n) \<and> active d) (db_dialogs db))"
  by (simp add: GetQuickView_def thread_filter_def any_of_def limited_def)

text \<open>What a call publishes, when it publishes anything.\<close>

lemma SendTyping_published:
  assumes "SendTyping env (Some q) db = (r, Some ev, reqs)"
  defines "members \<equiv> GetQuickView ((thread_filter (sq_ThreadID q))\<lparr>f_DomainID := sq_DomainID q\<rparr>) db"
  shows "r = Inr ()" "isActiveMember members (pr_ID (sq_From q))" "ty_To ev = internalRecipients members (pr_ID (sq_From q))"
    "ty_TimeoutMS ev = resolveTypingTimeout (te_config env) (sq_TimeoutMS q)"
    "if tc_PreviewEnabled (te_config env) \<and> ty_To ev \<noteq> []
     then ty_PreviewText ev = truncateUTF8 (sq_PreviewText q) (tc_MaxPreviewBytes (te_config env)) \<and> ty_PreviewVisibleTo ev = ty_To ev
     else ty_PreviewText ev = [] \<and> ty_PreviewVisibleTo ev = []"
    "reqs = dispatchExternalTyping (te_providers env) members q db"
  using assms by (auto simp: SendTyping_def Let_def split: sum.splits if_splits)


section \<open>The draft stays inside\<close>

text \<open>
  C33. A typing sign is published only for an active member of the thread; it goes to active members of that very thread that are neither the
  sender nor a bot nor reached through a gate, a draft is attached only when the feature is on and then only for those
  recipients, and what external messengers are told is the bare sign, never the draft and never for the sender.
\<close>

theorem typing_private:
  assumes order: "\<And>xs. mset (pv_order (te_providers env) xs) = mset xs"
    and sent: "SendTyping env (Some q) db = (r, Some ev, reqs)"
  shows "(\<exists>d \<in> set (db_dialogs db). dl_thread_id d = sq_ThreadID q \<and> dl_member_id d = pr_ID (sq_From q) \<and> active d)
    \<and> (\<forall>c \<in> set (ty_To ev). \<exists>d \<in> set (db_dialogs db). dl_thread_id d = sq_ThreadID q \<and> dl_member_id d = c \<and> active d
          \<and> \<not> dl_is_bot d \<and> dl_via d = None \<and> c \<noteq> pr_ID (sq_From q))
    \<and> set (ty_PreviewVisibleTo ev) \<subseteq> set (ty_To ev)
    \<and> (ty_PreviewText ev \<noteq> [] \<longrightarrow> tc_PreviewEnabled (te_config env) \<and> ty_PreviewVisibleTo ev \<noteq> [])
    \<and> (\<forall>(h, payload) \<in> set reqs. payload = PTyping True \<and> ph_ExternalUserId h \<noteq> pr_ID (sq_From q))"
proof -
  note s = SendTyping_published [OF sent]
  let ?members = "GetQuickView ((thread_filter (sq_ThreadID q))\<lparr>f_DomainID := sq_DomainID q\<rparr>) db"
  have "\<exists>d \<in> set (db_dialogs db). dl_thread_id d = sq_ThreadID q \<and> dl_member_id d = pr_ID (sq_From q) \<and> active d"
    using s(2) by (auto simp: isActiveMember_def typing_members list_ex_iff quick_row_def)
  moreover have "\<forall>c \<in> set (ty_To ev). \<exists>d \<in> set (db_dialogs db). dl_thread_id d = sq_ThreadID q \<and> dl_member_id d = c \<and> active d
          \<and> \<not> dl_is_bot d \<and> dl_via d = None \<and> c \<noteq> pr_ID (sq_From q)"
    using s(3) by (auto simp: internalRecipients_def typing_members isInternalRecipient_def quick_row_def)
  moreover have "set (ty_PreviewVisibleTo ev) \<subseteq> set (ty_To ev)" using s(5) by (auto split: if_splits)
  moreover have "ty_PreviewText ev \<noteq> [] \<longrightarrow> tc_PreviewEnabled (te_config env) \<and> ty_PreviewVisibleTo ev \<noteq> []"
    using s(5) by (auto split: if_splits)
  moreover have "payload = PTyping True \<and> ph_ExternalUserId h \<noteq> pr_ID (sq_From q)" if "(h, payload) \<in> set reqs" for h payload
  proof -
    let ?peers = "external_pairs (pr_ID (sq_From q)) ?members"
    let ?d = "\<lparr>ty_ThreadID = sq_ThreadID q, ty_DomainID = to_int32 (sq_DomainID q), ty_TypingOn = True, ty_Peers = ?peers\<rparr>"
    have "reqs = (if ?peers = [] then [] else map (typing_request ?d) (pv_order (te_providers env) ?peers))"
      using s(6) by (simp add: dispatchExternalTyping_def Let_def providers_SendTyping_def typing.run_requests)
    with that obtain p where "p \<in> set (pv_order (te_providers env) ?peers)" "(h, payload) = typing_request ?d p" by (auto split: if_splits)
    moreover have "set (pv_order (te_providers env) ?peers) = set ?peers" using order mset_eq_setD by blast
    ultimately show ?thesis by (auto simp: typing_request_def external_pairs_def)
  qed
  ultimately show ?thesis by blast
qed

section \<open>Witnesses\<close>

definition typing_config :: TypingConfig where
  "typing_config = \<lparr>tc_Enabled = True, tc_PreviewEnabled = True, tc_RateLimitWindow = 0, tc_DefaultTimeout = 0, tc_MaxTimeout = 0,
     tc_MaxPreviewBytes = 4\<rparr>"

definition example_typing :: typing_env where
  "example_typing = \<lparr>te_config = applyDefaults typing_config, te_Allow = True, te_now = 9, te_providers = echo_providers\<rparr>"

definition typing_query :: SendTypingRequest where
  "typing_query = \<lparr>sq_From = gate_peer, sq_ThreadID = 6, sq_DomainID = 7, sq_TimeoutMS = 99999, sq_PreviewText = ''hello''\<rparr>"

definition typing_sign :: Typing where
  "typing_sign = \<lparr>ty_Thread = 6, ty_Member = 54, ty_Role = RoleMember, ty_TimeoutMS = 30000, ty_OccurredAt = 9, ty_To = [52], ty_Domain = 7,
     ty_PreviewText = ''hell'', ty_PreviewVisibleTo = [52]\<rparr>"

lemma typing_example:
  obtains reqs where "SendTyping example_typing (Some typing_query) gate_db = (Inr (), Some typing_sign, reqs)"
proof -
  have cut: "truncateUTF8 ''hello'' 4 = ''hell''" by code_simp
  have "active d" if "d \<in> set (db_dialogs gate_db)" for d using that by (auto simp: gate_db_def status_example_defs active_def)
  then have "GetQuickView ((thread_filter 6)\<lparr>f_DomainID := 7\<rparr>) gate_db
      = [quick_row (example_dialog 2 52 False RoleOwner), quick_row ((example_dialog 4 54 False RoleMember)\<lparr>dl_unread_count := 3\<rparr>)]"
    by (simp add: typing_members gate_db_def status_example_defs)
  then have "\<exists>reqs. SendTyping example_typing (Some typing_query) gate_db = (Inr (), Some typing_sign, reqs)"
    by (simp add: SendTyping_def SendTypingGuard_def example_typing_def typing_query_def typing_sign_def gate_peer_def example_peer_def
        applyDefaults_def typing_config_def isActiveMember_def internalRecipients_def isInternalRecipient_def memberRole_def
        quick_row_def example_dialog_def zero_dialog_def resolveTypingTimeout_def to_int32_def cut Let_def)
  then show thesis using that by blast
qed


theorem typing_private_witness:
  "\<exists>ev reqs. SendTyping example_typing (Some typing_query) gate_db = (Inr (), Some ev, reqs) \<and> set (ty_PreviewVisibleTo ev) \<subseteq> set (ty_To ev)
     \<and> ty_PreviewText ev \<noteq> []"
proof -
  have "mset (pv_order (te_providers example_typing) xs) = mset xs" for xs
    by (simp add: example_typing_def echo_providers_def)
  moreover obtain reqs where sent: "SendTyping example_typing (Some typing_query) gate_db = (Inr (), Some typing_sign, reqs)" by (rule typing_example)
  ultimately have "set (ty_PreviewVisibleTo typing_sign) \<subseteq> set (ty_To typing_sign)" using typing_private by blast
  moreover have "ty_PreviewText typing_sign \<noteq> []" by (simp add: typing_sign_def)
  ultimately show ?thesis using sent by blast
qed

end
