(* ===== verification/Media.thy ===== *)
theory Media
  imports Typing Variables
begin

text \<open>
  Documents and the other content of messages: \<^verbatim>\<open>internal/service/dto/document.go\<close>,
  \<^verbatim>\<open>internal/service/media_processor.go\<close>, \<^verbatim>\<open>internal/utils/url.go\<close>, \<^verbatim>\<open>NewDocumentMessage\<close> of
  \<^verbatim>\<open>internal/domain/model/message_factory.go\<close>, the statements of \<^verbatim>\<open>internal/store/postgres/message.go\<close> for
  documents, locations and contacts, and \<^verbatim>\<open>assertDocumentsBelongToThread\<close> of \<^verbatim>\<open>internal/service/message.go\<close>.
  The storage service, \<^verbatim>\<open>net/url\<close>, Unicode normalisation and the conversion of coordinates to the
  database's decimal columns are parameters. The links of several files are fetched concurrently; when more than one fails the
  model returns the error of the first file.
\<close>

section \<open>Requests\<close>

record Document =
  do_ID :: int
  do_Name :: string
  do_MimeType :: string
  do_Size :: int
  do_URL :: string

record DocumentRequest =
  dq_Body :: string
  dq_Documents :: "Document list"

record SendDocumentRequest =
  sd_From :: Peer
  sd_To :: Peer
  sd_Document :: DocumentRequest
  sd_DomainID :: int
  sd_SendID :: string
  sd_SendAs :: "uuid option"
  sd_ReplyToMessageID :: "uuid option"
  sd_ExternalID :: string
  sd_ReplyToExternalID :: string
  sd_ForwardOrigin :: "ForwardOrigin option"
  sd_Entities :: "Entity list"
  sd_Variables :: "(string \<times> string) list"

definition Document_Validate :: "(string \<Rightarrow> bool) \<Rightarrow> Document option \<Rightarrow> unit res" where
  "Document_Validate url_parses doc =
     (case doc of None \<Rightarrow> Inl (Err InvalidArgument ''document is required'')
      | Some d \<Rightarrow>
         if do_ID d \<le> 0 \<and> do_URL d = [] then Inl (Err InvalidArgument ''either ID or URL is reqired'')
         else if do_URL d \<noteq> [] \<and> \<not> url_parses (do_URL d) then Inl (Err InvalidArgument ''provided invalid download URL'')
         else Inr ())"

fun DocumentRequest_Validate :: "(string \<Rightarrow> bool) \<Rightarrow> Document list \<Rightarrow> unit res" where
  "DocumentRequest_Validate url_parses [] = Inr ()"
| "DocumentRequest_Validate url_parses (d # ds) =
     bindr (Document_Validate url_parses (Some d)) (\<lambda>_. DocumentRequest_Validate url_parses ds)"

definition SendDocumentRequest_Validate :: "SendDocumentRequest option \<Rightarrow> unit res" where
  "SendDocumentRequest_Validate req =
     (case req of None \<Rightarrow> Inl (Err InvalidArgument ''send document request is required'')
      | Some q \<Rightarrow>
         if sd_DomainID q \<le> 0 then Inl (Err InvalidArgument ''domain id is required and must be gt 0'')
         else if pr_ID (sd_From q) = uuid_nil then Inl (Err InvalidArgument ''from peer id is required'')
         else if pr_ID (sd_To q) = uuid_nil then Inl (Err InvalidArgument ''to peer is required'')
         else if sd_ReplyToMessageID q = Some uuid_nil then Inl (Err InvalidArgument ''reply_to_message_id is not a valid uuid'')
         else Inr ())"

section \<open>The storage service\<close>

record storage =
  sg_UploadFileURL :: "int \<Rightarrow> string \<Rightarrow> string \<Rightarrow> string \<Rightarrow> (int \<times> string \<times> string) res"
  sg_GenerateFileLink :: "int \<Rightarrow> int \<Rightarrow> (string \<times> string \<times> (string \<times> string \<times> int) option) res"
  sg_url_parses :: "string \<Rightarrow> bool"
  sg_ResolveReference :: "string \<Rightarrow> string \<Rightarrow> string"
  sg_normalize :: "string \<Rightarrow> string"

definition ResolveFullURL :: "storage \<Rightarrow> string \<Rightarrow> string \<Rightarrow> string res" where
  "ResolveFullURL sg base rel =
     (if base = [] then Inl (Err InvalidArgument ''base URL cannot be empty'')
      else if rel = [] then Inl (Err InvalidArgument ''relative URL cannot be empty'')
      else if \<not> sg_url_parses sg base then Inl (Err InvalidArgument ''parsing base URL'')
      else if \<not> sg_url_parses sg rel then Inl (Err InvalidArgument ''parsing relative URL'')
      else Inr (sg_ResolveReference sg base rel))"

text \<open>The files with a URL are uploaded one after the other; the others are left as they are.\<close>

fun uploadFile :: "storage \<Rightarrow> int \<Rightarrow> Document list \<Rightarrow> Document list res" where
  "uploadFile sg domain [] = Inr []"
| "uploadFile sg domain (d # ds) =
     bindr (if do_URL d = [] then Inr d
            else (case sg_UploadFileURL sg domain (do_URL d) (do_Name d) (do_MimeType d) of
                    Inl _ \<Rightarrow> Inl (Err Unknown ''[MEDIA_PROCESSOR] storage: upload failed'')
                  | Inr (i, mime, url) \<Rightarrow>
                      Inr (d\<lparr>do_ID := i, do_MimeType := (if mime \<noteq> [] then mime else do_MimeType d), do_URL := url\<rparr>)))
       (\<lambda>d'. bindr (uploadFile sg domain ds) (\<lambda>ds'. Inr (d' # ds')))"

definition Process :: "storage \<Rightarrow> int \<Rightarrow> Document list \<Rightarrow> Document list res" where
  "Process sg domain items = (if items = [] then Inr [] else uploadFile sg domain items)"

record fileMetadata =
  fm_Size :: int
  fm_Mime :: string
  fm_Name :: string
  fm_URL :: string

definition file_link :: "storage \<Rightarrow> int \<Rightarrow> int \<Rightarrow> fileMetadata res" where
  "file_link sg domain i =
     (case sg_GenerateFileLink sg domain i of
        Inl e \<Rightarrow> Inl (Err (err_code e) ''failed to generate file link'')
      | Inr (base, rel, meta) \<Rightarrow>
         (case ResolveFullURL sg base rel of
            Inl _ \<Rightarrow> Inl (Err Internal ''failed to resolve url'')
          | Inr url \<Rightarrow> Inr (case meta of None \<Rightarrow> \<lparr>fm_Size = 0, fm_Mime = [], fm_Name = [], fm_URL = url\<rparr>
              | Some (mime, name, sz) \<Rightarrow> \<lparr>fm_Size = sz, fm_Mime = mime, fm_Name = name, fm_URL = url\<rparr>)))"

fun FetchFileLinksWithMetadata :: "storage \<Rightarrow> int \<Rightarrow> Document list \<Rightarrow> (int \<rightharpoonup> fileMetadata) res" where
  "FetchFileLinksWithMetadata sg domain [] = Inr Map.empty"
| "FetchFileLinksWithMetadata sg domain (d # ds) =
     (if do_ID d \<le> 0 then FetchFileLinksWithMetadata sg domain ds
      else bindr (file_link sg domain (do_ID d)) (\<lambda>m.
           bindr (FetchFileLinksWithMetadata sg domain ds) (\<lambda>ms. Inr (ms(do_ID d \<mapsto> m)))))"

definition set_metadata :: "(int \<rightharpoonup> fileMetadata) \<Rightarrow> Document \<Rightarrow> Document" where
  "set_metadata ms d =
     (case ms (do_ID d) of None \<Rightarrow> d
      | Some m \<Rightarrow> d\<lparr>do_MimeType := fm_Mime m, do_Name := fm_Name m, do_URL := fm_URL m, do_Size := fm_Size m\<rparr>)"

section \<open>The document message\<close>

definition prepareText :: "storage \<Rightarrow> string \<Rightarrow> string" where
  "prepareText sg s = sg_normalize sg (TrimSpace s)"

record DocumentInput =
  di_FileID :: string
  di_Name :: string
  di_MimeType :: string
  di_Size :: int
  di_URL :: string

definition mapDocumentInputs :: "Document list \<Rightarrow> DocumentInput list" where
  "mapDocumentInputs = map (\<lambda>d. \<lparr>di_FileID = FormatInt (do_ID d), di_Name = do_Name d, di_MimeType = do_MimeType d, di_Size = do_Size d, di_URL = do_URL d\<rparr>)"

definition domain_document :: "DocumentInput \<Rightarrow> MessageDocument" where
  "domain_document d = \<lparr>dc_ID = uuid_nil, dc_FileID = (case ParseInt (di_FileID d) of None \<Rightarrow> 0 | Some n \<Rightarrow> n), dc_Name = di_Name d,
     dc_Mime = di_MimeType d, dc_Size = di_Size d, dc_URL = di_URL d\<rparr>"

text \<open>The id and the creation time the constructor makes up are replaced or unused; the model leaves them out.\<close>

definition NewDocumentMessage :: "storage \<Rightarrow> (string \<Rightarrow> int) \<Rightarrow> uuid \<Rightarrow> int \<Rightarrow> Peer \<Rightarrow> ThreadDialog list \<Rightarrow> string \<Rightarrow> DocumentInput list
    \<Rightarrow> Entity list \<Rightarrow> Message" where
  "NewDocumentMessage sg graphemes t domain from to body docs entities =
     (let cleanText = (if entities = [] then prepareText sg body else body)
      in zero_message\<lparr>m_ThreadID := t, m_DomainID := domain, m_From := from, m_Member := Some zero_dialog, m_To := to, m_Body := cleanText,
           m_Type := MessageTypeFile, m_Documents := map domain_document docs, m_Metadata := BuildMetadata graphemes cleanText entities\<rparr>)"

section \<open>The statements\<close>

text \<open>\<^verbatim>\<open>::int[]\<close> is an array of 32-bit integers: the driver refuses a value beyond them.\<close>

definition int4 :: "int \<Rightarrow> bool" where
  "int4 n \<longleftrightarrow> - (2 ^ 31) \<le> n \<and> n < 2 ^ 31"

definition document_row :: "uuid \<Rightarrow> MessageDocument \<Rightarrow> attachment_row" where
  "document_row i d = \<lparr>ar_message_id = i, ar_file_id = dc_FileID d, ar_name = dc_Name d, ar_mime = dc_Mime d, ar_size = dc_Size d,
     ar_width = 0, ar_height = 0, ar_thumbnails = Map.empty\<rparr>"

definition SaveDocuments :: "uuid \<Rightarrow> MessageDocument list \<Rightarrow> db \<Rightarrow> db res" where
  "SaveDocuments i docs db =
     (if docs = [] then Inr db
      else if \<not> list_all (\<lambda>d. int4 (dc_FileID d) \<and> int4 (dc_Size d)) docs then Inl (Err Unknown ''unable to encode into int4'')
      else if message_of db i = None then Inl (Err Unknown ''message_documents_message_id_fkey'')
      else Inr (db\<lparr>db_documents := db_documents db @ map (document_row i) docs, db_next_id := db_next_id db + length docs\<rparr>))"

definition file_uses :: "db \<Rightarrow> int list \<Rightarrow> (int \<times> uuid) list" where
  "file_uses db fileIDs =
     concat (map (\<lambda>a. if ar_file_id a \<in> set fileIDs
                       then map (\<lambda>m. (ar_file_id a, ms_thread_id m)) (filter (\<lambda>m. ms_id m = ar_message_id a) (db_messages db)) else [])
       (db_documents db @ db_images db))"

definition FileIDsBoundToOtherThreads :: "int list \<Rightarrow> uuid \<Rightarrow> db \<Rightarrow> int list res" where
  "FileIDsBoundToOtherThreads fileIDs t db =
     (if fileIDs = [] then Inr []
      else if \<not> list_all int4 fileIDs then Inl (Err Unknown ''unable to encode into int4'')
      else (let used = file_uses db fileIDs
            in Inr (filter (\<lambda>f. \<forall>(f', t') \<in> set used. f' = f \<longrightarrow> t' \<noteq> t) (remdups (map fst used)))))"

definition assertDocumentsBelongToThread :: "uuid \<Rightarrow> Document list \<Rightarrow> db \<Rightarrow> unit res" where
  "assertDocumentsBelongToThread t docs db =
     (let fileIDs = map do_ID (filter (\<lambda>d. do_ID d > 0) docs)
      in if fileIDs = [] then Inr ()
         else (case FileIDsBoundToOtherThreads fileIDs t db of
                 Inl _ \<Rightarrow> Inl (Err Internal ''verify document ownership'')
               | Inr foreign \<Rightarrow> if foreign \<noteq> [] then Inl (Err Forbidden ''files were not uploaded in this chat'') else Inr ()))"

text \<open>
  What the decimal columns make of a latitude and a longitude: the coordinate rounded to seven places, or nothing for
  a value outside the range of the column's check. A message without its location or contact is a nil dereference.
\<close>

record coordinates =
  cd_latitude :: "nat \<Rightarrow> nat option"
  cd_longitude :: "nat \<Rightarrow> nat option"

definition nil_dereference :: err where
  "nil_dereference = Err Unknown ''invalid memory address or nil pointer dereference''"

definition content_row :: "Message \<Rightarrow> message_row" where
  "content_row msg = zero_message_row\<lparr>ms_domain_id := m_DomainID msg, ms_sender_id := pr_ID (m_From msg),
     ms_member_id := (case m_Member msg of None \<Rightarrow> uuid_nil | Some d \<Rightarrow> bm_ID d), ms_type := m_Type msg, ms_body := m_Body msg,
     ms_metadata := m_Metadata msg, ms_reply_to := replyToArg msg, ms_forward := addForwardOriginArgs msg\<rparr>"

text \<open>The checks both statements fail on: the type, the foreign keys, the thread.\<close>

definition insert_content :: "string \<Rightarrow> Message \<Rightarrow> db \<Rightarrow> (message_row \<times> db) res" where
  "insert_content what msg db =
     (if m_Member msg = None then Inl nil_dereference
      else if \<not> (0 \<le> m_Type msg \<and> m_Type msg \<le> 7) \<or> \<not> message_exists db (replyToArg msg)
         \<or> \<not> message_exists db (Option.bind (addForwardOriginArgs msg) (\<lambda>(_, _, _, _, _, _, i). i))
      then Inl (Err Internal what)
      else (case insert_message (m_ThreadID msg) (content_row msg) db of None \<Rightarrow> Inl (Err Internal what) | Some x \<Rightarrow> Inr x))"

definition SaveMessageLocation :: "coordinates \<Rightarrow> Message \<Rightarrow> db \<Rightarrow> (Message \<times> db) res" where
  "SaveMessageLocation C msg db =
     bindr (validateMessageForSave (Some msg)) (\<lambda>_.
       (case m_Location msg of None \<Rightarrow> Inl nil_dereference
        | Some l \<Rightarrow>
           (case (cd_latitude C (lo_Latitude l), cd_longitude C (lo_Longitude l)) of
              (Some lat, Some lon) \<Rightarrow>
                bindr (insert_content ''eror collecting saved location'' msg db) (\<lambda>(r, db1).
                  Inr ((scan_message r)\<lparr>m_MemberID := uuid_nil, m_Location := Some (l\<lparr>lo_Latitude := lat, lo_Longitude := lon\<rparr>),
                          m_BotControllerMemberID := m_BotControllerMemberID msg\<rparr>,
                       db1\<lparr>db_locations := db_locations db1 @ [\<lparr>lr_message_id = ms_id r, lr_address = lo_Address l, lr_name = lo_Name l,
                              lr_latitude = lat, lr_longitude = lon\<rparr>]\<rparr>))
            | _ \<Rightarrow> if m_Member msg = None then Inl nil_dereference else Inl (Err Internal ''eror collecting saved location''))))"

definition SaveMessageContact :: "Message \<Rightarrow> db \<Rightarrow> (Message \<times> db) res" where
  "SaveMessageContact msg db =
     bindr (validateMessageForSave (Some msg)) (\<lambda>_.
       (case m_Contact msg of None \<Rightarrow> Inl nil_dereference
        | Some c \<Rightarrow>
           bindr (insert_content ''eror collecting saved contact'' msg db) (\<lambda>(r, db1).
             Inr ((scan_message r)\<lparr>m_Contact := Some c, m_BotControllerMemberID := m_BotControllerMemberID msg\<rparr>,
                  db1\<lparr>db_cards := db_cards db1 @ [\<lparr>cr_message_id = ms_id r, cr_name = co_Name c, cr_phone_number = co_PhoneNumber c,
                         cr_email = co_Email c\<rparr>]\<rparr>))))"

section \<open>Bounds of what is stored\<close>

lemma FileIDs_exact:
  assumes "FileIDsBoundToOtherThreads fileIDs t db = Inr foreign"
  shows "set foreign = {f. (\<exists>t'. (f, t') \<in> set (file_uses db fileIDs)) \<and> (f, t) \<notin> set (file_uses db fileIDs)}"
proof (cases "fileIDs = []")
  case True
  then have "file_uses db fileIDs = []" by (simp add: file_uses_def)
  with True assms show ?thesis by (simp add: FileIDsBoundToOtherThreads_def)
next
  case False
  have *: "set (filter (\<lambda>f. \<forall>(f', t') \<in> set used. f' = f \<longrightarrow> t' \<noteq> t) (remdups (map fst used)))
      = {f. (\<exists>t'. (f, t') \<in> set used) \<and> (f, t) \<notin> set used}" for used :: "(int \<times> uuid) list"
    by (auto split: prod.splits) force
  from False assms have "foreign = filter (\<lambda>f. \<forall>(f', t') \<in> set (file_uses db fileIDs). f' = f \<longrightarrow> t' \<noteq> t)
      (remdups (map fst (file_uses db fileIDs)))"
    by (simp add: FileIDsBoundToOtherThreads_def Let_def split: if_splits)
  with * show ?thesis by simp
qed

text \<open>
  The documents of a message are stored exactly when every file id and every size fits a 32-bit integer, although requests, the domain and the
  columns have 64 bits: a file of two gibibytes or more, or with an id beyond the range, always fails, and a success
  adds one row per document with its data unchanged.
\<close>

theorem documents_bounds:
  assumes "docs \<noteq> []" "message_of db i \<noteq> None"
  shows "case SaveDocuments i docs db of
      Inl e \<Rightarrow> \<exists>d \<in> set docs. \<not> (- (2 ^ 31) \<le> dc_FileID d \<and> dc_FileID d < 2 ^ 31 \<and> - (2 ^ 31) \<le> dc_Size d \<and> dc_Size d < 2 ^ 31)
    | Inr db' \<Rightarrow> (\<forall>d \<in> set docs. - (2 ^ 31) \<le> dc_FileID d \<and> dc_FileID d < 2 ^ 31 \<and> - (2 ^ 31) \<le> dc_Size d \<and> dc_Size d < 2 ^ 31)
        \<and> db_documents db' = db_documents db @ map (document_row i) docs"
  using assms by (auto simp: SaveDocuments_def list_all_iff int4_def split: option.splits)

definition large_file :: MessageDocument where
  "large_file = \<lparr>dc_ID = uuid_nil, dc_FileID = 5, dc_Name = ''film.mkv'', dc_Mime = ''video/x-matroska'', dc_Size = 3 * 2 ^ 30, dc_URL = []\<rparr>"

theorem documents_bounds_witness: "\<exists>e. SaveDocuments 11 [large_file] status_db = Inl e"
proof -
  have "message_of status_db 11 \<noteq> None" by (simp add: message_of_def status_example_defs)
  with documents_bounds [of "[large_file]" status_db 11] show ?thesis
    by (cases "SaveDocuments 11 [large_file] status_db") (auto simp: large_file_def)
qed

end
