(* ===== verification/Message_Send.thy ===== *)
theory Message_Send
  imports Media
begin

text \<open>
  Sending messages: \<^verbatim>\<open>SendText\<close>, \<^verbatim>\<open>SendDocument\<close>, \<^verbatim>\<open>SendLocation\<close>, \<^verbatim>\<open>SendContact\<close> and
  \<^verbatim>\<open>SendSystemMessage\<close> of \<^verbatim>\<open>internal/service/message.go\<close> with their guards (\<^verbatim>\<open>internal/service/guards/send_text.go\<close>)
  and the command dispatcher (\<^verbatim>\<open>internal/service/command.go\<close>, \<^verbatim>\<open>internal/service/command_close.go\<close>). An operation
  makes sure of the thread, saves the message in a transaction of its own together with its number, its external id, the
  counters and the event, and hands the saved message over to the external messengers after the commit. The result pairs the answer with
  what the hand-over did and the state that remains.
\<close>

section \<open>Requests and surroundings\<close>

record send_env =
  se_thread :: env
  se_pick :: picker
  se_tx :: "time \<times> int"
  se_providers :: providers
  se_storage :: storage
  se_coordinates :: coordinates

text \<open>The transaction that saves the message is not the one that made the thread.\<close>

definition start_tx :: "send_env \<Rightarrow> db \<Rightarrow> db" where
  "start_tx E db = db\<lparr>db_now := fst (se_tx E), db_tx := snd (se_tx E)\<rparr>"

record SendTextRequest =
  sx_From :: Peer
  sx_To :: Peer
  sx_Body :: string
  sx_DomainID :: int
  sx_SendID :: string
  sx_SendAs :: "uuid option"
  sx_ReplyToMessageID :: "uuid option"
  sx_ExternalID :: string
  sx_ReplyToExternalID :: string
  sx_ForwardOrigin :: "ForwardOrigin option"
  sx_Entities :: "Entity list"
  sx_Variables :: "(string \<times> string) list"

record SendTextResponse =
  sxr_To :: Peer
  sxr_ID :: uuid

definition SendTextGuard :: "SendTextRequest option \<Rightarrow> unit res" where
  "SendTextGuard req =
     (case req of None \<Rightarrow> Inl (Err Unknown ''request is nil'')
      | Some q \<Rightarrow>
         if pr_ID (sx_From q) = uuid_nil \<or> pr_ID (sx_To q) = uuid_nil then Inl (Err Unknown ''sender and receiver ids are required'')
         else if sx_Body q = [] then Inl (Err Unknown ''message body is empty'')
         else if sx_ReplyToMessageID q = Some uuid_nil then Inl (Err Unknown ''reply_to_message_id is not a valid uuid'')
         else Inr ())"

definition seedThreadVariables :: "Message \<Rightarrow> (string \<times> string) list \<Rightarrow> db \<Rightarrow> db" where
  "seedThreadVariables msg variables db =
     (case m_Member msg of None \<Rightarrow> db
      | Some d \<Rightarrow>
         if variables = [] \<or> bm_ID d = uuid_nil then db
         else (case variables_Set \<lparr>sv_Member = bm_ID d, sv_ThreadID = m_ThreadID msg,
                      sv_Entries = map (\<lambda>(k, v). (k, \<lparr>ve_Value = VStr v, ve_SetBy = bm_ID d, ve_SetAt = time_zero\<rparr>)) variables\<rparr> db of
                 Inl _ \<Rightarrow> db | Inr (_, db') \<Rightarrow> db'))"

text \<open>What every transaction does after its message has been saved.\<close>

definition publish_created :: "send_env \<Rightarrow> string \<Rightarrow> Message \<Rightarrow> db \<Rightarrow> (Message \<times> db) res" where
  "publish_created E sendID saved db =
     (let m = WithCreatedEvent (ev_uuid_valid (se_thread E)) (ev_ctx (se_thread E)) sendID saved
      in bindr (dispatchMessageEvents m db) (\<lambda>db2. Inr (snd (Message_Events m), db2)))"

definition announce :: "send_env \<Rightarrow> string \<Rightarrow> Message \<Rightarrow> db \<Rightarrow> (Message \<times> db) res" where
  "announce E sendID saved db =
     bindr (insertSentStatuses (se_pick E) (ev_now (se_thread E)) saved db) (publish_created E sendID saved)"

section \<open>Commands\<close>

definition commandPrefix :: string where
  "commandPrefix = ''/''"

definition CommandClose :: string where
  "CommandClose = ''/close''"

definition memberByContactID :: "ThreadDialog list \<Rightarrow> uuid \<Rightarrow> ThreadDialog option" where
  "memberByContactID members c = find (\<lambda>m. td_ContactID m = c) members"

text \<open>The one registered command; \<open>True\<close> when the body names it.\<close>

definition lookup_command :: "string \<Rightarrow> bool" where
  "lookup_command body = (let b = TrimSpace body in starts_with commandPrefix b \<and> b = CommandClose)"

definition CanExecute :: "Thread \<Rightarrow> ThreadDialog option \<Rightarrow> bool" where
  "CanExecute t sender =
     (case t_BotControllerID t of None \<Rightarrow> False
      | Some c \<Rightarrow> (case sender of None \<Rightarrow> True | Some s \<Rightarrow> \<not> (td_IsBot s \<or> bm_ID s = c)))"

definition buildBotStoppedMessage :: "send_env \<Rightarrow> SendTextRequest \<Rightarrow> Thread \<Rightarrow> Message" where
  "buildBotStoppedMessage E q t =
     SetMemberFromSlice (t_Members t)
       (zero_message\<lparr>m_ThreadID := t_ID t, m_DomainID := to_int32 (sx_DomainID q), m_From := sx_From q, m_SendTo := sx_To q, m_SendAs := sx_SendAs q,
          m_Body := sx_Body q, m_To := filter (\<lambda>m. \<not> td_IsBot m) (t_Members t), m_Type := MessageTypeSystem, m_IdempotencyKey := sx_SendID q,
          m_Metadata := BuildMetadata (ev_graphemes (se_thread E)) (sx_Body q) [],
          m_System := Some \<lparr>sy_Type = ''bot_stopped'', sy_Metadata = Map.empty\<rparr>\<rparr>)"

definition Execute :: "send_env \<Rightarrow> SendTextRequest \<Rightarrow> Thread \<Rightarrow> ThreadDialog option \<Rightarrow> db \<Rightarrow> Message res \<times> db" where
  "Execute E q t sender db =
     (case ReleaseBotControl (se_thread E) (Some \<lparr>rb_ThreadID = t_ID t,
             rb_InitiatorMemberID = (case sender of None \<Rightarrow> uuid_nil | Some s \<Rightarrow> bm_ID s), rb_DomainID = sx_DomainID q\<rparr>) db of
        (Inl e, db1) \<Rightarrow> (Inl e, db1)
      | (Inr _, db1) \<Rightarrow> (Inr (buildBotStoppedMessage E q t), db1))"

text \<open>\<open>None\<close>: the text is not a command that the sender may give here.\<close>

definition Dispatch :: "send_env \<Rightarrow> Thread \<Rightarrow> SendTextRequest \<Rightarrow> db \<Rightarrow> (Message res \<times> db) option" where
  "Dispatch E t q db =
     (let sender = memberByContactID (t_Members t) (pr_ID (sx_From q))
      in if lookup_command (sx_Body q) \<and> CanExecute t sender then Some (Execute E q t sender db) else None)"

definition writeSystemMessage :: "send_env \<Rightarrow> Message \<Rightarrow> db \<Rightarrow> Message res \<times> db" where
  "writeSystemMessage E msg db =
     WithinTransaction (\<lambda>db.
       bindr (SaveSystemMessage msg db) (\<lambda>(saved, db1).
         announce E (m_IdempotencyKey msg) (saved\<lparr>m_To := m_To msg, m_IdempotencyKey := m_IdempotencyKey msg\<rparr>) db1)) db"

definition sendCommandMessage :: "send_env \<Rightarrow> SendTextRequest \<Rightarrow> Message \<Rightarrow> db \<Rightarrow> SendTextResponse \<times> db" where
  "sendCommandMessage E q msg db =
     (case writeSystemMessage E msg db of
        (Inl _, db1) \<Rightarrow> (\<lparr>sxr_To = sx_To q, sxr_ID = uuid_nil\<rparr>, db1)
      | (Inr saved, db1) \<Rightarrow> (\<lparr>sxr_To = sx_To q, sxr_ID = m_ID saved\<rparr>, db1))"

section \<open>Text\<close>

definition text_message :: "send_env \<Rightarrow> SendTextRequest \<Rightarrow> Thread \<Rightarrow> ReplyToPreview option \<Rightarrow> Message" where
  "text_message E q t reply =
     SetMemberFromSlice (t_Members t)
       (zero_message\<lparr>m_ThreadID := t_ID t, m_DomainID := to_int32 (sx_DomainID q), m_From := sx_From q, m_Body := sx_Body q, m_To := t_Members t,
          m_Type := MessageTypeText, m_Metadata := BuildMetadata (ev_graphemes (se_thread E)) (sx_Body q) (sx_Entities q), m_SendAs := sx_SendAs q,
          m_BotControllerMemberID := t_BotControllerID t, m_ReplyTo := reply, m_ForwardOrigin := sx_ForwardOrigin q\<rparr>)"

definition text_tx :: "send_env \<Rightarrow> SendTextRequest \<Rightarrow> Message \<Rightarrow> db \<Rightarrow> (Message \<times> db) res" where
  "text_tx E q msg db =
     bindr (SaveMessage msg db) (\<lambda>(saved0, db1).
       (let saved = saved0\<lparr>m_To := m_To msg, m_ReplyTo := m_ReplyTo msg\<rparr>
        in bindr (recordInboundExternalID saved (sx_From q) (sx_ExternalID q) db1) (\<lambda>db2.
             announce E (sx_SendID q) saved (seedThreadVariables saved (sx_Variables q) db2))))"

definition SendText :: "send_env \<Rightarrow> SendTextRequest option \<Rightarrow> db \<Rightarrow> SendTextResponse res \<times> outcome" where
  "SendText E req db =
     (case SendTextGuard req of Inl _ \<Rightarrow> (Inl (Err InvalidArgument ''validating text message''), start_outcome db)
      | Inr _ \<Rightarrow>
         (let q = the req in
          case EnsureDirectThread (se_thread E) (Some \<lparr>ed_DomainID = sx_DomainID q, ed_From = sx_From q, ed_To = sx_To q, ed_SendAs = sx_SendAs q\<rparr>) db of
            (Inl e, db1) \<Rightarrow> (Inl e, start_outcome db1)
          | (Inr thread, db1) \<Rightarrow>
              (case Dispatch E thread q db1 of
                 Some (Inl e, db2) \<Rightarrow> (Inl e, start_outcome db2)
               | Some (Inr msg, db2) \<Rightarrow> (case sendCommandMessage E q msg (start_tx E db2) of (r, db3) \<Rightarrow> (Inr r, start_outcome db3))
               | None \<Rightarrow>
                   (case resolveReply (sx_ReplyToMessageID q) (sx_ReplyToExternalID q) (sx_From q) thread (to_int32 (sx_DomainID q)) db1 of
                      Inl e \<Rightarrow> (Inl e, start_outcome db1)
                    | Inr reply \<Rightarrow>
                        (case WithinTransaction (text_tx E q (text_message E q thread reply)) (start_tx E db1) of
                           (Inl _, db2) \<Rightarrow> (Inl (Err Internal ''error saving text message''), start_outcome db2)
                         | (Inr saved, db2) \<Rightarrow> (Inr \<lparr>sxr_To = sx_To q, sxr_ID = m_ID saved\<rparr>, SendMessage (se_providers E) (Some saved) db2))))))"

section \<open>Documents\<close>

definition document_message :: "send_env \<Rightarrow> SendDocumentRequest \<Rightarrow> Thread \<Rightarrow> ReplyToPreview option \<Rightarrow> Document list \<Rightarrow> Message" where
  "document_message E q t reply docs =
     SetMemberFromSlice (t_Members t)
       ((NewDocumentMessage (se_storage E) (ev_graphemes (se_thread E)) (t_ID t) (to_int32 (sd_DomainID q)) (sd_From q) (t_Members t)
           (dq_Body (sd_Document q)) (mapDocumentInputs docs) (sd_Entities q))
          \<lparr>m_BotControllerMemberID := t_BotControllerID t, m_SendAs := sd_SendAs q, m_ReplyTo := reply, m_ForwardOrigin := sd_ForwardOrigin q\<rparr>)"

definition as_internal :: "string \<Rightarrow> 'a res \<Rightarrow> 'a res" where
  "as_internal what r = (case r of Inl _ \<Rightarrow> Inl (Err Internal what) | Inr x \<Rightarrow> Inr x)"

definition document_tx :: "send_env \<Rightarrow> SendDocumentRequest \<Rightarrow> Message \<Rightarrow> db \<Rightarrow> (Message \<times> db) res" where
  "document_tx E q msg db =
     bindr (as_internal ''save message'' (SaveMessage msg db)) (\<lambda>(saved, db1).
     bindr (as_internal ''save documents'' (SaveDocuments (m_ID saved) (m_Documents msg) db1)) (\<lambda>db2.
       (let msg' = msg\<lparr>m_ID := m_ID saved, m_From := m_From saved, m_Seq := m_Seq saved\<rparr>
        in bindr (as_internal ''save external message id'' (recordInboundExternalID msg' (sd_From q) (sd_ExternalID q) db2)) (\<lambda>db3.
           bindr (as_internal ''insert sent statuses''
                    (insertSentStatuses (se_pick E) (ev_now (se_thread E)) msg' (seedThreadVariables msg' (sd_Variables q) db3))) (\<lambda>db4.
             as_internal ''dispatch message events'' (publish_created E (sd_SendID q) msg' db4))))))"

definition SendDocument :: "send_env \<Rightarrow> SendDocumentRequest option \<Rightarrow> db \<Rightarrow> uuid res \<times> outcome" where
  "SendDocument E req db =
     (case SendDocumentRequest_Validate req of Inl _ \<Rightarrow> (Inl (Err InvalidArgument ''send document request validation''), start_outcome db)
      | Inr _ \<Rightarrow>
         (let q = the req in
          case EnsureDirectThread (se_thread E) (Some \<lparr>ed_DomainID = sd_DomainID q, ed_From = sd_From q, ed_To = sd_To q, ed_SendAs = sd_SendAs q\<rparr>) db of
            (Inl e, db1) \<Rightarrow> (Inl e, start_outcome db1)
          | (Inr t, db1) \<Rightarrow>
              (case (bindr (resolveReply (sd_ReplyToMessageID q) (sd_ReplyToExternalID q) (sd_From q) t (to_int32 (sd_DomainID q)) db1) (\<lambda>reply.
                     bindr (assertDocumentsBelongToThread (t_ID t) (dq_Documents (sd_Document q)) db1) (\<lambda>_.
                     bindr (Process (se_storage E) (sd_DomainID q) (dq_Documents (sd_Document q))) (\<lambda>docs.
                     bindr (FetchFileLinksWithMetadata (se_storage E) (sd_DomainID q) docs) (\<lambda>ms.
                       Inr (document_message E q t reply (map (set_metadata ms) docs))))))) of
                 Inl e \<Rightarrow> (Inl e, start_outcome db1)
               | Inr msg \<Rightarrow>
                   (case WithinTransaction (document_tx E q msg) (start_tx E db1) of
                      (Inl e, db2) \<Rightarrow> (Inl e, start_outcome db2)
                    | (Inr saved, db2) \<Rightarrow> (Inr (m_ID saved), SendMessage (se_providers E) (Some saved) db2)))))"

section \<open>Locations, contacts and system messages\<close>

definition prepareMessageForSending :: "send_env \<Rightarrow> Message \<Rightarrow> db \<Rightarrow> Message res \<times> db" where
  "prepareMessageForSending E msg db =
     (case EnsureDirectThread (se_thread E) (Some \<lparr>ed_DomainID = m_DomainID msg, ed_From = m_From msg, ed_To = m_SendTo msg, ed_SendAs = m_SendAs msg\<rparr>) db of
        (Inl e, db1) \<Rightarrow> (Inl e, db1)
      | (Inr t, db1) \<Rightarrow>
          (let m = SetMemberFromSlice (t_Members t)
                     (msg\<lparr>m_ThreadID := t_ID t, m_To := t_Members t, m_BotControllerMemberID := t_BotControllerID t\<rparr>)
           in (case m_ReplyTo m of
                 Some r \<Rightarrow> (map_sum id (\<lambda>p. m\<lparr>m_ReplyTo := Some p\<rparr>) (resolveReplyPreview (rt_MessageID r) (t_ID t) (m_DomainID m) db1), db1)
               | None \<Rightarrow>
                   (Inr (if m_ReplyToExternalID m \<noteq> []
                         then m\<lparr>m_ReplyTo := resolveExternalReply (m_ReplyToExternalID m) (m_From m) t (m_DomainID m) db1\<rparr> else m), db1))))"

definition content_tx :: "(Message \<Rightarrow> db \<Rightarrow> (Message \<times> db) res) \<Rightarrow> send_env \<Rightarrow> Message \<Rightarrow> db \<Rightarrow> (Message \<times> db) res" where
  "content_tx save E msg db =
     bindr (save msg db) (\<lambda>(saved0, db1).
       (let saved = saved0\<lparr>m_To := m_To msg, m_IdempotencyKey := m_IdempotencyKey msg, m_ReplyTo := m_ReplyTo msg\<rparr>
        in bindr (recordInboundExternalID saved (m_From msg) (m_ExternalID msg) db1) (\<lambda>db2. announce E (m_IdempotencyKey msg) saved db2)))"

text \<open>
  The two operations differ in the statement only; what goes to the messengers is the request with the id of the saved message. The
  error of the hand-over is assigned to the variable that is returned, so it becomes the answer although the message is
  saved; the model returns the first of the joined errors.
\<close>

definition send_content :: "(Message \<Rightarrow> db \<Rightarrow> (Message \<times> db) res) \<Rightarrow> send_env \<Rightarrow> Message \<Rightarrow> db \<Rightarrow> Message res \<times> outcome" where
  "send_content save E msg0 db =
     (case prepareMessageForSending E msg0 db of
        (Inl e, db1) \<Rightarrow> (Inl e, start_outcome db1)
      | (Inr msg, db1) \<Rightarrow>
          (case WithinTransaction (content_tx save E msg) (start_tx E db1) of
             (Inl e, db2) \<Rightarrow> (Inl e, start_outcome db2)
           | (Inr saved, db2) \<Rightarrow>
               (let oc = SendMessage (se_providers E) (Some (msg\<lparr>m_ID := m_ID saved\<rparr>)) db2
                in (if oc_errors oc = [] then Inr saved else Inl (hd (oc_errors oc)), oc))))"

definition SendLocation :: "send_env \<Rightarrow> Message \<Rightarrow> db \<Rightarrow> Message res \<times> outcome" where
  "SendLocation E = send_content (SaveMessageLocation (se_coordinates E)) E"

definition SendContact :: "send_env \<Rightarrow> Message \<Rightarrow> db \<Rightarrow> Message res \<times> outcome" where
  "SendContact E = send_content SaveMessageContact E"

definition SendSystemMessage :: "send_env \<Rightarrow> Message \<Rightarrow> db \<Rightarrow> Message res \<times> outcome" where
  "SendSystemMessage E msg0 db =
     (case prepareMessageForSending E msg0 db of
        (Inl e, db1) \<Rightarrow> (Inl e, start_outcome db1)
      | (Inr msg, db1) \<Rightarrow>
          (case writeSystemMessage E msg (start_tx E db1) of
             (Inl e, db2) \<Rightarrow> (Inl e, start_outcome db2)
           | (Inr saved, db2) \<Rightarrow> (Inr saved, SendMessage (se_providers E) (Some saved) db2)))"


section \<open>What saving and announcing change\<close>

text \<open>
  The tables that the bookkeeping of a message leaves alone; it adds events to the outbox, none of which announces a message.
\<close>

definition keeps_content :: "db \<Rightarrow> db \<Rightarrow> bool" where
  "keeps_content db db' \<longleftrightarrow> db_messages db' = db_messages db \<and> db_threads db' = db_threads db \<and> db_stack db' = db_stack db
     \<and> db_documents db' = db_documents db \<and> db_images db' = db_images db \<and> db_variables db' = db_variables db
     \<and> db_externals db' = db_externals db \<and> db_next_id db' = db_next_id db
     \<and> (\<exists>evs. db_outbox db' = db_outbox db @ evs \<and> (\<forall>e k c. (k, EvMessageCreated e, c) \<notin> set evs))"

lemma keeps_content_refl [simp]: "keeps_content db db"
  by (simp add: keeps_content_def)

lemma keeps_content_trans: "keeps_content a b \<Longrightarrow> keeps_content b c \<Longrightarrow> keeps_content a c"
  by (auto simp: keeps_content_def)

lemma keeps_content_published: "(\<And>m. e \<noteq> EvMessageCreated m) \<Longrightarrow> keeps_content db (published e db)"
  by (auto simp: keeps_content_def)

lemma keeps_content_fold: "(\<And>x db. keeps_content db (f x db)) \<Longrightarrow> keeps_content db (fold f xs db)"
  by (induction xs arbitrary: db) (auto intro: keeps_content_trans)

lemma keeps_content_dialogs [simp]: "keeps_content db (db\<lparr>db_dialogs := ds\<rparr>)"
  by (simp add: keeps_content_def)

lemma keeps_content_tags [simp]: "keeps_content db (db\<lparr>db_tags := ts\<rparr>)"
  by (simp add: keeps_content_def)

lemma keeps_content_InsertSent: "keeps_content db (InsertSent m rs db)"
  by (simp add: InsertSent_def split: option.split)

lemma keeps_content_OnMessage:
  assumes "OnMessage now m db = Inr db'"
  shows "keeps_content db db'"
proof -
  have "keeps_content db (publish_tags now t d cs db)" for t d cs db
    unfolding publish_tags_def by (intro keeps_content_fold keeps_content_published) simp
  moreover have "keeps_content db (snd (RemoveForContacts t cs tags db))" for t cs tags
    by (simp add: RemoveForContacts_def Let_def)
  ultimately show ?thesis using assms
    by (auto simp: OnMessage_def publish_tags_fold split: if_splits prod.splits intro: keeps_content_trans) (metis keeps_content_trans snd_conv)
qed

lemma keeps_content_delivered: "store_MarkDelivered pick now rs db = (changes, db') \<Longrightarrow> keeps_content db db'"
  by (auto simp: store_MarkDelivered_def advanceDeliveredHorizon_def Let_def clearRecoveredErrors_def keeps_content_def split: if_splits)

lemma keeps_content_dispatch: "dispatchStatusChangeEvents changes db = Inr db' \<Longrightarrow> keeps_content db db'"
  by (auto simp: dispatch_eq intro!: keeps_content_fold keeps_content_published)

lemma keeps_content_sent:
  assumes "insertSentStatuses pick now m db = Inr db'"
  shows "keeps_content db db'"
proof -
  from assms obtain db2 where o: "OnMessage now m (InsertSent (Some m) (RecipientIDs m) db) = Inr db2"
    and rest: "(if bot_receipts m = [] then Inr db2
       else (case store_MarkDelivered pick now (bot_receipts m) db2 of (changes, db3) \<Rightarrow> dispatchStatusChangeEvents changes db3)) = Inr db'"
    by (auto simp: insertSentStatuses_def bindr_Inr_iff)
  have "keeps_content db db2" using keeps_content_trans [OF keeps_content_InsertSent keeps_content_OnMessage [OF o]] .
  moreover have "keeps_content db2 db'"
    using rest by (auto split: if_splits prod.splits intro: keeps_content_trans keeps_content_delivered keeps_content_dispatch)
  ultimately show ?thesis by (rule keeps_content_trans)
qed

lemma publish_created_Inr:
  assumes "publish_created E sendID m db = Inr (m', db')" "m_domainEvents m = []"
  obtains e where "m' = m" "db' = published (EvMessageCreated e) db" "mc_MessageID e = m_ID m" "mc_ThreadID e = m_ThreadID m" "mc_Seq e = m_Seq m"
    "mc_Body e = m_Body m" "map tm_ContactID (mc_To e) = map td_ContactID (m_To m)" "mc_ForwardOrigin e = ForwardOrigin_AsEvent (m_ForwardOrigin m)"
    "mc_SendID e = sendID"
proof -
  let ?m = "WithCreatedEvent (ev_uuid_valid (se_thread E)) (ev_ctx (se_thread E)) sendID m"
  obtain e where e: "?m = m\<lparr>m_domainEvents := [EvMessageCreated e]\<rparr>" "mc_MessageID e = m_ID m" "mc_ThreadID e = m_ThreadID m" "mc_Seq e = m_Seq m"
      "mc_Body e = m_Body m" "map tm_ContactID (mc_To e) = map td_ContactID (m_To m)" "mc_ForwardOrigin e = ForwardOrigin_AsEvent (m_ForwardOrigin m)"
      "mc_SendID e = sendID"
    using assms(2) by (simp add: WithCreatedEvent_def AddEvent_def Let_def WithContextPropogatedMetadata_def
        AddMetadata_def threadDialogsAsEventMembers_def event_member_def comp_def split: option.splits)
  have "m' = m\<lparr>m_domainEvents := []\<rparr>" "db' = published (EvMessageCreated e) db"
    using assms(1) by (auto simp: publish_created_def e(1) dispatchMessageEvents_def publish_event_eq Message_Events_def)
  moreover have "m\<lparr>m_domainEvents := []\<rparr> = m" using assms(2) by (cases m) simp
  ultimately show thesis using that e by metis
qed


lemma announce_Inr:
  assumes "announce E sendID m db = Inr (m', db')" "m_domainEvents m = []"
  obtains e k evs where "m' = m" "db_messages db' = db_messages db" "db_externals db' = db_externals db" "db_variables db' = db_variables db"
    "db_outbox db' = db_outbox db @ evs @ [(event_topic (EvMessageCreated e), EvMessageCreated e, k)]"
    "\<forall>e k c. (k, EvMessageCreated e, c) \<notin> set evs"
    "mc_MessageID e = m_ID m" "mc_ThreadID e = m_ThreadID m" "mc_Seq e = m_Seq m" "mc_Body e = m_Body m"
    "map tm_ContactID (mc_To e) = map td_ContactID (m_To m)" "mc_ForwardOrigin e = ForwardOrigin_AsEvent (m_ForwardOrigin m)" "mc_SendID e = sendID"
proof -
  from assms(1) obtain db1 where i: "insertSentStatuses (se_pick E) (ev_now (se_thread E)) m db = Inr db1"
    and p: "publish_created E sendID m db1 = Inr (m', db')" by (auto simp: announce_def bindr_Inr_iff)
  from keeps_content_sent [OF i] obtain evs where k: "db_messages db1 = db_messages db" "db_externals db1 = db_externals db"
      "db_variables db1 = db_variables db" "db_outbox db1 = db_outbox db @ evs" "\<forall>e k c. (k, EvMessageCreated e, c) \<notin> set evs"
    unfolding keeps_content_def by blast
  obtain e where e: "m' = m" "db' = published (EvMessageCreated e) db1" "mc_MessageID e = m_ID m" "mc_ThreadID e = m_ThreadID m" "mc_Seq e = m_Seq m"
    "mc_Body e = m_Body m" "map tm_ContactID (mc_To e) = map td_ContactID (m_To m)" "mc_ForwardOrigin e = ForwardOrigin_AsEvent (m_ForwardOrigin m)"
    "mc_SendID e = sendID" by (rule publish_created_Inr [OF p assms(2)])
  show thesis by (rule that [of evs e "cursor_of (EvMessageCreated e) db1"]) (use e(1,3-) k in \<open>simp_all add: e(2)\<close>)
qed

lemma recordInbound_frame:
  assumes "recordInboundExternalID m from x db = Inr db'"
  shows "only_externals db db'"
proof -
  have "only_externals db db'" if "external_Save (Some r) db = Inr db'" for r
    using external_Save_Inr(4) [OF that] by (auto simp: only_externals_def intro: exI [of _ "[]"])
  with assms show ?thesis by (auto simp: recordInboundExternalID_def Let_def split: if_splits)
qed

lemma SetMember_simps [simp]:
  "m_ThreadID (SetMemberFromSlice ds m) = m_ThreadID m" "m_Body (SetMemberFromSlice ds m) = m_Body m" "m_Type (SetMemberFromSlice ds m) = m_Type m"
  "m_To (SetMemberFromSlice ds m) = m_To m" "m_ReplyTo (SetMemberFromSlice ds m) = m_ReplyTo m" "m_SendAs (SetMemberFromSlice ds m) = m_SendAs m"
  "m_From (SetMemberFromSlice ds m) = m_From m" "m_domainEvents (SetMemberFromSlice ds m) = m_domainEvents m"
  "m_Documents (SetMemberFromSlice ds m) = m_Documents m" "m_ForwardOrigin (SetMemberFromSlice ds m) = m_ForwardOrigin m"
  "m_ReplyToExternalID (SetMemberFromSlice ds m) = m_ReplyToExternalID m" "m_DomainID (SetMemberFromSlice ds m) = m_DomainID m"
  by (simp_all add: SetMemberFromSlice_def split: option.split)

lemma SaveMessage_row:
  assumes "SaveMessage msg db = Inr (saved, db')"
  obtains r th where "db_messages db' = db_messages db @ [r]" "thread_of db (m_ThreadID msg) = Some th"
    "ms_thread_id r = m_ThreadID msg" "ms_sender_id r = GetSender msg" "ms_type r = m_Type msg" "ms_body r = m_Body msg" "ms_reply_to r = replyToArg msg"
    "ms_forward r = addForwardOriginArgs msg" "ms_seq r = th_last_seq th + 1" "ms_id r = m_ID saved" "m_Seq saved = ms_seq r"
    "m_ThreadID saved = m_ThreadID msg" "m_Body saved = m_Body msg" "m_Type saved = m_Type msg" "m_domainEvents saved = []" "m_Member saved = None"
    "m_ForwardOrigin saved = None" "m_From saved = empty_peer\<lparr>pr_ID := GetSender msg\<rparr>" "m_SendAs saved = None"
    "db_outbox db' = db_outbox db" "db_variables db' = db_variables db" "db_externals db' = db_externals db" "db_documents db' = db_documents db"
    "db_images db' = db_images db"
proof -
  from assms obtain th r where th: "thread_of db (m_ThreadID msg) = Some th"
    and r: "r = zero_message_row\<lparr>ms_domain_id := m_DomainID msg, ms_sender_id := GetSender msg,
                    ms_member_id := (case m_Member msg of None \<Rightarrow> uuid_nil | Some d \<Rightarrow> bm_ID d),
                    ms_type := m_Type msg, ms_body := m_Body msg, ms_metadata := m_Metadata msg,
                    ms_origin_sender := GetOriginSender msg, ms_reply_to := replyToArg msg, ms_forward := addForwardOriginArgs msg,
                    ms_id := db_next_id db, ms_thread_id := m_ThreadID msg, ms_seq := th_last_seq th + 1,
                    ms_created_at := db_now db, ms_updated_at := db_now db\<rparr>"
    and s: "saved = (scan_message r)\<lparr>m_BotControllerMemberID := m_BotControllerMemberID msg\<rparr>"
    and d: "db' = (update_thread (m_ThreadID msg) (\<lambda>x. x\<lparr>th_last_seq := th_last_seq x + 1\<rparr>) db)
                      \<lparr>db_messages := db_messages db @ [r], db_next_id := Suc (db_next_id db)\<rparr>"
    by (auto simp: SaveMessage_def insert_message_def bindr_Inr_iff Let_def split: option.splits if_splits)
  show thesis by (rule that [of r th]) (simp_all add: th r s d scan_message_def zero_message_def update_thread_def)
qed

lemma seed_without_member: "m_Member m = None \<Longrightarrow> seedThreadVariables m vs db = db"
  by (simp add: seedThreadVariables_def)

text \<open>The transaction of a text: one row, one event, and what both carry.\<close>

lemma text_tx_Inr:
  assumes "text_tx E q msg db = Inr (m, db')"
  obtains r th e k evs where "db_messages db' = db_messages db @ [r]" "thread_of db (m_ThreadID msg) = Some th" "ms_seq r = th_last_seq th + 1"
    "ms_id r = m_ID m" "ms_thread_id r = m_ThreadID msg" "ms_sender_id r = GetSender msg" "ms_type r = m_Type msg" "ms_body r = m_Body msg"
    "ms_reply_to r = replyToArg msg" "ms_forward r = addForwardOriginArgs msg"
    "db_outbox db' = db_outbox db @ evs @ [(event_topic (EvMessageCreated e), EvMessageCreated e, k)]"
    "\<forall>e k c. (k, EvMessageCreated e, c) \<notin> set evs" "mc_MessageID e = ms_id r" "mc_ThreadID e = m_ThreadID msg" "mc_Seq e = ms_seq r"
    "mc_Body e = m_Body msg" "map tm_ContactID (mc_To e) = map td_ContactID (m_To msg)" "mc_ForwardOrigin e = None" "mc_SendID e = sx_SendID q"
    "m_To m = m_To msg" "m_Type m = m_Type msg" "m_Body m = m_Body msg" "m_ReplyTo m = m_ReplyTo msg" "m_From m = empty_peer\<lparr>pr_ID := GetSender msg\<rparr>"
    "m_SendAs m = None" "db_variables db' = db_variables db"
proof -
  from assms obtain saved0 db1 db2 where s: "SaveMessage msg db = Inr (saved0, db1)"
    and x: "recordInboundExternalID (saved0\<lparr>m_To := m_To msg, m_ReplyTo := m_ReplyTo msg\<rparr>) (sx_From q) (sx_ExternalID q) db1 = Inr db2"
    and a: "announce E (sx_SendID q) (saved0\<lparr>m_To := m_To msg, m_ReplyTo := m_ReplyTo msg\<rparr>)
       (seedThreadVariables (saved0\<lparr>m_To := m_To msg, m_ReplyTo := m_ReplyTo msg\<rparr>) (sx_Variables q) db2) = Inr (m, db')"
    by (auto simp: text_tx_def bindr_Inr_iff Let_def)
  obtain rows where f: "db2 = db1\<lparr>db_externals := db_externals db1 @ rows\<rparr>" using recordInbound_frame [OF x] by (auto simp: only_externals_def)
  show thesis
  proof (rule SaveMessage_row [OF s])
    fix r th
    assume r: "db_messages db1 = db_messages db @ [r]" "thread_of db (m_ThreadID msg) = Some th"
      "ms_thread_id r = m_ThreadID msg" "ms_sender_id r = GetSender msg" "ms_type r = m_Type msg" "ms_body r = m_Body msg" "ms_reply_to r = replyToArg msg"
      "ms_forward r = addForwardOriginArgs msg" "ms_seq r = th_last_seq th + 1" "ms_id r = m_ID saved0" "m_Seq saved0 = ms_seq r"
      "m_ThreadID saved0 = m_ThreadID msg" "m_Body saved0 = m_Body msg" "m_Type saved0 = m_Type msg" "m_domainEvents saved0 = []" "m_Member saved0 = None"
      "m_ForwardOrigin saved0 = None" "m_From saved0 = empty_peer\<lparr>pr_ID := GetSender msg\<rparr>" "m_SendAs saved0 = None"
      "db_outbox db1 = db_outbox db" "db_variables db1 = db_variables db"
    have a': "announce E (sx_SendID q) (saved0\<lparr>m_To := m_To msg, m_ReplyTo := m_ReplyTo msg\<rparr>) db2 = Inr (m, db')"
      using a r(16) by (simp add: seed_without_member)
    show thesis
      by (rule announce_Inr [OF a']) (use r f in \<open>auto simp: ForwardOrigin_AsEvent_def intro!: that\<close>)
  qed
qed


section \<open>Sending a text\<close>

definition text_thread :: "SendTextRequest \<Rightarrow> EnsureDirectThreadRequest" where
  "text_thread q = \<lparr>ed_DomainID = sx_DomainID q, ed_From = sx_From q, ed_To = sx_To q, ed_SendAs = sx_SendAs q\<rparr>"

lemma SendText_plain:
  assumes "SendText E (Some q) db = (Inr resp, oc)" "EnsureDirectThread (se_thread E) (Some (text_thread q)) db = (Inr t, db1)"
    "Dispatch E t q db1 = None"
  obtains reply m db2 where "resolveReply (sx_ReplyToMessageID q) (sx_ReplyToExternalID q) (sx_From q) t (to_int32 (sx_DomainID q)) db1 = Inr reply"
    "text_tx E q (text_message E q t reply) (start_tx E db1) = Inr (m, db2)" "sxr_ID resp = m_ID m"
    "oc = SendMessage (se_providers E) (Some m) db2"
proof -
  have g: "\<exists>u. SendTextGuard (Some q) = Inr u" using assms(1) by (auto simp: SendText_def split: sum.splits)
  with assms show thesis
    by (auto simp: SendText_def text_thread_def [symmetric] WithinTransaction_Inr split: sum.splits prod.splits intro: that)
qed

lemma start_tx_frame [simp]:
  "db_messages (start_tx E db) = db_messages db" "db_threads (start_tx E db) = db_threads db" "db_outbox (start_tx E db) = db_outbox db"
  "db_variables (start_tx E db) = db_variables db" "thread_of (start_tx E db) t = thread_of db t" "db_externals (start_tx E db) = db_externals db"
  "db_documents (start_tx E db) = db_documents db" "db_images (start_tx E db) = db_images db"
  by (simp_all add: start_tx_def thread_of_def)

lemma only_externals_simps:
  "only_externals db db' \<Longrightarrow> db_messages db' = db_messages db \<and> db_outbox db' = db_outbox db \<and> db_variables db' = db_variables db"
  by (auto simp: only_externals_def)

lemma text_message_simps [simp]:
  "m_ThreadID (text_message E q t reply) = t_ID t" "m_Body (text_message E q t reply) = sx_Body q" "m_Type (text_message E q t reply) = MessageTypeText"
  "m_To (text_message E q t reply) = t_Members t" "m_ReplyTo (text_message E q t reply) = reply" "m_ForwardOrigin (text_message E q t reply) = sx_ForwardOrigin q"
  "m_SendAs (text_message E q t reply) = sx_SendAs q" "m_From (text_message E q t reply) = sx_From q"
  by (simp_all add: text_message_def)

text \<open>
  C11. Sending a text: a successful call that is not a command stores exactly one new message, with the text, the sender (or the contact it is sent
  as) and the next number of the thread, under the id the caller gets back; it answers a message that was resolved in that
  thread; and the outbox gets exactly one announcement of a message, with that id and number, for all members of the thread and with
  the caller's correlation id, after whatever the bookkeeping publishes.
\<close>

theorem send_text_exact:
  assumes sent: "SendText E (Some q) db = (Inr resp, oc)" and thread: "EnsureDirectThread (se_thread E) (Some (text_thread q)) db = (Inr t, db1)"
    and plain: "Dispatch E t q db1 = None"
  shows "\<exists>r th e k evs reply.
      db_messages (oc_db oc) = db_messages db1 @ [r] \<and> ms_id r = sxr_ID resp \<and> ms_thread_id r = t_ID t \<and> ms_type r = MessageTypeText
    \<and> ms_body r = sx_Body q \<and> ms_sender_id r = (if sx_SendAs q = None \<or> sx_SendAs q = Some uuid_nil then pr_ID (sx_From q) else the (sx_SendAs q))
    \<and> thread_of db1 (t_ID t) = Some th \<and> ms_seq r = th_last_seq th + 1
    \<and> resolveReply (sx_ReplyToMessageID q) (sx_ReplyToExternalID q) (sx_From q) t (to_int32 (sx_DomainID q)) db1 = Inr reply
    \<and> ms_reply_to r = map_option rt_MessageID reply
    \<and> db_outbox (oc_db oc) = db_outbox db1 @ evs @ [(event_topic (EvMessageCreated e), EvMessageCreated e, k)]
    \<and> (\<forall>e k c. (k, EvMessageCreated e, c) \<notin> set evs) \<and> mc_MessageID e = sxr_ID resp \<and> mc_Seq e = th_last_seq th + 1 \<and> mc_Body e = sx_Body q
    \<and> map tm_ContactID (mc_To e) = map td_ContactID (t_Members t) \<and> mc_SendID e = sx_SendID q"
proof -
  obtain reply m db2 where p: "resolveReply (sx_ReplyToMessageID q) (sx_ReplyToExternalID q) (sx_From q) t (to_int32 (sx_DomainID q)) db1 = Inr reply"
    "text_tx E q (text_message E q t reply) (start_tx E db1) = Inr (m, db2)" "sxr_ID resp = m_ID m" "oc = SendMessage (se_providers E) (Some m) db2"
    by (rule SendText_plain [OF assms])
  have s: "db_messages (oc_db oc) = db_messages db2" "db_outbox (oc_db oc) = db_outbox db2"
    using only_externals_simps [OF SendMessage_only_externals] p(4) by simp_all
  show ?thesis
    by (rule text_tx_Inr [OF p(2)], intro exI conjI)
      (use p(1,3) s in \<open>simp_all add: GetSender_def replyToArg_def split: option.split\<close>)
qed


text \<open>A call that fails leaves no message behind and tells no messenger.\<close>

lemma ReleaseBotControl_fail: "ReleaseBotControl env req db = (Inl e, db') \<Longrightarrow> db' = db"
  by (auto simp: ReleaseBotControl_def WithinTransaction_def split: option.splits if_splits sum.splits)

lemma Dispatch_fail: "Dispatch E t q db = Some (Inl e, db') \<Longrightarrow> db' = db"
  by (auto simp: Dispatch_def Execute_def Let_def split: if_splits sum.splits prod.splits dest: ReleaseBotControl_fail)

lemma WithinTransaction_fail: "WithinTransaction f db = (Inl e, db') \<Longrightarrow> db' = db"
  by (auto simp: WithinTransaction_def split: sum.splits)

text \<open>
  C12. A text that is refused: whichever step refuses it, the guard, the thread, a command, the reply or the database, no messenger is told anything,
  and what remains is the state before the call or the state after the thread was made sure of; in particular no
  message of the failed call is kept.
\<close>

theorem send_text_refused:
  assumes "SendText E (Some q) db = (Inl e, oc)"
  shows "oc_requests oc = [] \<and> (oc_db oc = db \<or> (let db1 = snd (EnsureDirectThread (se_thread E) (Some (text_thread q)) db)
      in (oc_db oc = db1 \<or> oc_db oc = start_tx E db1) \<and> db_messages (oc_db oc) = db_messages db1))"
proof -
  have "oc = start_outcome db \<or> oc = start_outcome (snd (EnsureDirectThread (se_thread E) (Some (text_thread q)) db))
      \<or> oc = start_outcome (start_tx E (snd (EnsureDirectThread (se_thread E) (Some (text_thread q)) db)))"
    using assms by (auto simp: SendText_def text_thread_def [symmetric] Let_def split: sum.splits prod.splits option.splits
        dest!: Dispatch_fail WithinTransaction_fail)
  then show ?thesis by (auto simp: start_outcome_def Let_def)
qed

lemma deliver_sender:
  assumes "senderName (Some m) = []" "\<forall>r \<in> set (oc_requests oc). ph_SenderName (fst r) = []"
  shows "\<forall>r \<in> set (oc_requests (deliver P m p oc)). ph_SenderName (fst r) = []"
proof -
  have "ph_SenderName (fst r) = []" if "peer_request P m p x = Attempt r" for r x
    using that assms(1) by (auto simp: peer_request_def full_header_def Let_def split: if_splits option.splits)
  with assms(2) show ?thesis by (auto simp: deliver_def split: attempt.splits sum.splits)
qed

lemma SendMessage_sender:
  assumes "senderName (Some m) = []"
  shows "\<forall>r \<in> set (oc_requests (SendMessage P (Some m) db)). ph_SenderName (fst r) = []"
proof -
  have "\<forall>r \<in> set (oc_requests oc). ph_SenderName (fst r) = [] \<Longrightarrow> \<forall>r \<in> set (oc_requests (fold (deliver P m) ps oc)). ph_SenderName (fst r) = []" for ps oc
  proof (induction ps arbitrary: oc)
    case (Cons p ps)
    show ?case unfolding fold_simps by (rule Cons.IH [OF deliver_sender [OF assms Cons.prems]])
  qed simp
  from this [of "start_outcome db"] show ?thesis unfolding SendMessage_def option.case by (simp add: start_outcome_def)
qed

text \<open>
  What a text loses on its way: the message that is announced and handed over is the one read back from the database, so the
  announcement never carries the origin of a forwarded text although the row has it, the variables that come with
  a text are never stored, and the name of the sender is empty in every request to a messenger.
\<close>

theorem send_text_loses:
  assumes sent: "SendText E (Some q) db = (Inr resp, oc)" and thread: "EnsureDirectThread (se_thread E) (Some (text_thread q)) db = (Inr t, db1)"
    and plain: "Dispatch E t q db1 = None"
  shows "db_variables (oc_db oc) = db_variables db1
    \<and> (\<exists>e. fst (snd (last (db_outbox (oc_db oc)))) = EvMessageCreated e \<and> mc_ForwardOrigin e = None)
    \<and> (ms_forward (last (db_messages (oc_db oc))) = None \<longleftrightarrow> sx_ForwardOrigin q = None)
    \<and> (\<forall>(h, _) \<in> set (oc_requests oc). ph_SenderName h = [])"
proof -
  obtain reply m db2 where p: "resolveReply (sx_ReplyToMessageID q) (sx_ReplyToExternalID q) (sx_From q) t (to_int32 (sx_DomainID q)) db1 = Inr reply"
    "text_tx E q (text_message E q t reply) (start_tx E db1) = Inr (m, db2)" "sxr_ID resp = m_ID m" "oc = SendMessage (se_providers E) (Some m) db2"
    by (rule SendText_plain [OF assms])
  have s: "db_messages (oc_db oc) = db_messages db2" "db_outbox (oc_db oc) = db_outbox db2" "db_variables (oc_db oc) = db_variables db2"
    using only_externals_simps [OF SendMessage_only_externals] p(4) by simp_all
  show ?thesis
  proof (rule text_tx_Inr [OF p(2)])
    fix r e k evs
    assume r: "db_messages db2 = db_messages (start_tx E db1) @ [r]" "ms_forward r = addForwardOriginArgs (text_message E q t reply)"
      "db_outbox db2 = db_outbox (start_tx E db1) @ evs @ [(event_topic (EvMessageCreated e), EvMessageCreated e, k)]" "mc_ForwardOrigin e = None"
      "m_From m = empty_peer\<lparr>pr_ID := GetSender (text_message E q t reply)\<rparr>" "db_variables db2 = db_variables (start_tx E db1)"
    have "senderName (Some m) = []" by (simp add: senderName_def r(5) empty_peer_def)
    from SendMessage_sender [OF this, of "se_providers E" db2] have "\<forall>(h, _) \<in> set (oc_requests oc). ph_SenderName h = []" by (auto simp: p(4))
    with s r show ?thesis by (simp add: addForwardOriginArgs_def)
  qed
qed


section \<open>An example\<close>

text \<open>Agent 52 and customer 54, who is reached through a gate, in thread 6.\<close>

definition chat_db :: db where
  "chat_db = status_db\<lparr>db_dialogs := [example_dialog 2 52 False RoleOwner, (example_dialog 4 54 False RoleMember)\<lparr>dl_via := Some ''gate''\<rparr>]\<rparr>"

definition example_storage :: storage where
  "example_storage = \<lparr>sg_UploadFileURL = (\<lambda>_ u n m. Inr (77, [], ''stored'')), sg_GenerateFileLink = (\<lambda>_ i. Inr (''base'', ''link'', None)),
     sg_url_parses = (\<lambda>_. True), sg_ResolveReference = (\<lambda>b r. b @ r), sg_normalize = (\<lambda>s. s)\<rparr>"

definition example_send :: send_env where
  "example_send = \<lparr>se_thread = example_env, se_pick = hd, se_tx = (100, 2), se_providers = echo_providers, se_storage = example_storage,
     se_coordinates = \<lparr>cd_latitude = Some, cd_longitude = Some\<rparr>\<rparr>"

definition forwarded :: ForwardOrigin where
  "forwarded = \<lparr>fo_Kind = 2, fo_SenderID = None, fo_SenderName = ''Bob'', fo_SenderIss = [], fo_SenderSub = [], fo_OriginalSentAt = 5,
     fo_SourceMessageID = None\<rparr>"

definition hello :: "uuid option \<Rightarrow> SendTextRequest" where
  "hello reply = \<lparr>sx_From = example_peer 52 ''Helper'', sx_To = example_peer 54 ''Ann'', sx_Body = ''hello'', sx_DomainID = 7, sx_SendID = ''s1'',
     sx_SendAs = None, sx_ReplyToMessageID = reply, sx_ExternalID = [], sx_ReplyToExternalID = [], sx_ForwardOrigin = Some forwarded,
     sx_Entities = [], sx_Variables = [(''k'', ''v'')]\<rparr>"

definition chat_thread :: Thread where
  "chat_thread = zero_thread\<lparr>t_ID := 6, t_DomainID := 7, t_Kind := ThreadDirect, t_CreatedAt := 0, t_UpdatedAt := 0,
     t_Members := map json_member (active_members chat_db 6)\<rparr>"

lemma chat_members: "active_members chat_db 6
    = [example_dialog 2 52 False RoleOwner, (example_dialog 4 54 False RoleMember)\<lparr>dl_via := Some ''gate''\<rparr>]"
  by (simp add: active_members_def chat_db_def example_dialog_def active_def)

lemma chat_ensured: "EnsureDirectThread (se_thread example_send) (Some (text_thread (hello reply))) chat_db = (Inr chat_thread, chat_db)"
proof -
  have "find (resolves \<lparr>q_From = example_peer 52 ''Helper'', q_To = example_peer 54 ''Ann'', q_SendAs = None\<rparr> chat_db) (db_threads chat_db)
      = Some (example_thread\<lparr>th_last_seq := 3\<rparr>)"
    by (simp add: chat_db_def status_db_def resolves_def example_peer_def ResolveThreadID_def ResolveContactID_def SendAsPtr_def ResolveVia_def
        example_thread_def example_dialog_def active_def)
  then show ?thesis
    by (simp add: EnsureDirectThread_def ResolveThread_def text_thread_def hello_def example_send_def chat_thread_def zero_thread_def
        chat_members isBotMember_def json_member_def zero_dialog_def example_dialog_def example_peer_def example_thread_def)
qed

lemma chat_plain: "Dispatch E chat_thread q db = None"
  by (simp add: Dispatch_def CanExecute_def chat_thread_def zero_thread_def Let_def)

lemma insertSent_total: "\<exists>db'. insertSentStatuses pick now m db = Inr db'"
  by (simp add: insertSentStatuses_def OnMessage_def publish_tags_fold dispatch_eq split: prod.split)

lemma publish_created_total: "m_domainEvents m = [] \<Longrightarrow> \<exists>x. publish_created E s m db = Inr x"
  using WithCreatedEvent_adds [of "ev_uuid_valid (se_thread E)" "ev_ctx (se_thread E)" s m]
  by (auto simp: publish_created_def dispatchMessageEvents_def publish_event_eq)

lemma announce_total: "m_domainEvents m = [] \<Longrightarrow> \<exists>x. announce E s m db = Inr x"
  using insertSent_total [of "se_pick E" "ev_now (se_thread E)" m db] publish_created_total by (auto simp: announce_def)

lemma chat_text_saved: "\<exists>x. text_tx example_send (hello None) (text_message example_send (hello None) chat_thread None) (start_tx example_send chat_db) = Inr x"
proof -
  let ?msg = "text_message example_send (hello None) chat_thread None"
  have "m_Member ?msg = Some (zero_dialog\<lparr>bm_ID := 2\<rparr>)" "m_DomainID ?msg = 7"
    by (simp_all add: text_message_def SetMemberFromSlice_def GetSender_def hello_def chat_thread_def zero_thread_def chat_members json_member_def
        example_dialog_def zero_dialog_def example_peer_def zero_message_def to_int32_def)
  then have "\<exists>p. SaveMessage ?msg (start_tx example_send chat_db) = Inr p"
    by (simp add: SaveMessage_def validateMessageForSave_def Let_def message_exists_def replyToArg_def addForwardOriginArgs_def hello_def
        forwarded_def insert_message_def chat_thread_def zero_thread_def zero_dialog_def thread_of_def chat_db_def status_db_def example_thread_def)
  then obtain saved db1 where s: "SaveMessage ?msg (start_tx example_send chat_db) = Inr (saved, db1)" by auto
  have "m_domainEvents saved = []" by (rule SaveMessage_row [OF s])
  then have "m_domainEvents (saved\<lparr>m_To := m_To ?msg, m_ReplyTo := m_ReplyTo ?msg\<rparr>) = []" by simp
  from announce_total [OF this] s show ?thesis by (simp add: text_tx_def recordInboundExternalID_def hello_def Let_def)
qed

lemma chat_sent: "\<exists>resp oc. SendText example_send (Some (hello None)) chat_db = (Inr resp, oc)"
proof -
  have "resolveReply None [] p chat_thread d chat_db = Inr None" for p d by (simp add: resolveReply_def resolveExternalReply_def)
  moreover have "SendTextGuard (Some (hello None)) = Inr ()" by (simp add: SendTextGuard_def hello_def example_peer_def)
  moreover have "sx_ReplyToMessageID (hello None) = None" "sx_ReplyToExternalID (hello None) = []" by (simp_all add: hello_def)
  moreover obtain m db2 where "text_tx example_send (hello None) (text_message example_send (hello None) chat_thread None) (start_tx example_send chat_db)
      = Inr (m, db2)" using chat_text_saved by auto
  ultimately show ?thesis using chat_ensured [of None] chat_plain
    by (simp add: SendText_def text_thread_def [symmetric] WithinTransaction_def Let_def)
qed

theorem send_text_exact_witness:
  "\<exists>resp oc r. SendText example_send (Some (hello None)) chat_db = (Inr resp, oc) \<and> db_messages (oc_db oc) = db_messages chat_db @ [r]
     \<and> ms_id r = sxr_ID resp \<and> ms_body r = ''hello'' \<and> ms_seq r = 4"
proof -
  obtain resp oc where s: "SendText example_send (Some (hello None)) chat_db = (Inr resp, oc)" using chat_sent by blast
  have "thread_of chat_db 6 = Some (example_thread\<lparr>th_last_seq := 3\<rparr>)" "t_ID chat_thread = 6"
    by (simp_all add: thread_of_def chat_db_def status_db_def example_thread_def chat_thread_def)
  with send_text_exact [OF s chat_ensured chat_plain] have "\<exists>r. db_messages (oc_db oc) = db_messages chat_db @ [r]
     \<and> ms_id r = sxr_ID resp \<and> ms_body r = ''hello'' \<and> ms_seq r = 4"
    by (auto simp: hello_def example_thread_def)
  with s show ?thesis by blast
qed

theorem send_text_loses_witness:
  "\<exists>resp oc e. SendText example_send (Some (hello None)) chat_db = (Inr resp, oc) \<and> fst (snd (last (db_outbox (oc_db oc)))) = EvMessageCreated e
     \<and> mc_ForwardOrigin e = None \<and> ms_forward (last (db_messages (oc_db oc))) \<noteq> None \<and> db_variables (oc_db oc) = []"
proof -
  obtain resp oc where s: "SendText example_send (Some (hello None)) chat_db = (Inr resp, oc)" using chat_sent by blast
  have "sx_ForwardOrigin (hello None) \<noteq> None" "db_variables chat_db = []" by (simp_all add: hello_def chat_db_def status_example_defs)
  moreover obtain e where "fst (snd (last (db_outbox (oc_db oc)))) = EvMessageCreated e" "mc_ForwardOrigin e = None"
    using send_text_loses [OF s chat_ensured chat_plain] by blast
  ultimately show ?thesis using send_text_loses [OF s chat_ensured chat_plain] s by metis
qed

theorem send_text_refused_witness:
  "\<exists>e oc. SendText example_send (Some (hello (Some 99))) chat_db = (Inl e, oc) \<and> oc_requests oc = []"
proof -
  have "message_of chat_db 99 = None" by (simp add: message_of_def chat_db_def status_example_defs)
  then have "GetReplyPreview 99 7 chat_db = None" by (auto simp: GetReplyPreview_def message_of_def find_None_iff)
  then have "resolveReply (Some 99) x p chat_thread 7 chat_db = Inl reply_missing" for x p
    by (simp add: resolveReply_def resolveReplyPreview_def)
  moreover have "SendTextGuard (Some (hello (Some 99))) = Inr ()" by (simp add: SendTextGuard_def hello_def example_peer_def)
  moreover have "sx_ReplyToMessageID (hello (Some 99)) = Some 99" "to_int32 (sx_DomainID (hello (Some 99))) = 7" by (simp_all add: hello_def to_int32_def)
  ultimately have "\<exists>oc. SendText example_send (Some (hello (Some 99))) chat_db = (Inl reply_missing, oc)"
    using chat_ensured [of "Some 99"] chat_plain by (simp add: SendText_def text_thread_def [symmetric] Let_def)
  then obtain oc where s: "SendText example_send (Some (hello (Some 99))) chat_db = (Inl reply_missing, oc)" by blast
  with send_text_refused [OF s] show ?thesis by blast
qed


section \<open>Documents\<close>

definition document_thread :: "SendDocumentRequest \<Rightarrow> EnsureDirectThreadRequest" where
  "document_thread q = \<lparr>ed_DomainID = sd_DomainID q, ed_From = sd_From q, ed_To = sd_To q, ed_SendAs = sd_SendAs q\<rparr>"

lemma SendDocument_Inr:
  assumes "SendDocument E (Some q) db = (Inr i, oc)" "EnsureDirectThread (se_thread E) (Some (document_thread q)) db = (Inr t, db1)"
  shows "assertDocumentsBelongToThread (t_ID t) (dq_Documents (sd_Document q)) db1 = Inr ()"
  using assms by (auto simp: SendDocument_def document_thread_def [symmetric] Let_def bindr_Inr_iff split: sum.splits prod.splits)

lemma set_file_uses: "(f, t) \<in> set (file_uses db ids) \<longleftrightarrow> f \<in> set ids \<and> (\<exists>a \<in> set (db_documents db @ db_images db). \<exists>m \<in> set (db_messages db).
    ar_file_id a = f \<and> ms_id m = ar_message_id a \<and> ms_thread_id m = t)"
  unfolding file_uses_def by (auto split: if_splits)

lemma assert_documents:
  assumes ok: "assertDocumentsBelongToThread t docs db = Inr ()" and d: "d \<in> set docs" "do_ID d > 0"
    and a: "a \<in> set (db_documents db @ db_images db)" "ar_file_id a = do_ID d" and m: "m \<in> set (db_messages db)" "ms_id m = ar_message_id a"
  shows "\<exists>a' \<in> set (db_documents db @ db_images db). \<exists>m' \<in> set (db_messages db).
    ar_file_id a' = do_ID d \<and> ms_id m' = ar_message_id a' \<and> ms_thread_id m' = t"
proof -
  let ?ids = "map do_ID (filter (\<lambda>d. do_ID d > 0) docs)"
  have ids: "do_ID d \<in> set ?ids" using d by auto
  then have ne: "?ids \<noteq> []" by force
  have "FileIDsBoundToOtherThreads ?ids t db = Inr []"
    using ok ne by (auto simp: assertDocumentsBelongToThread_def Let_def split: sum.splits if_splits)
  from FileIDs_exact [OF this] have all: "\<And>f t'. (f, t') \<in> set (file_uses db ?ids) \<Longrightarrow> (f, t) \<in> set (file_uses db ?ids)" by auto
  have "(do_ID d, ms_thread_id m) \<in> set (file_uses db ?ids)"
    unfolding set_file_uses using a m ids by blast
  from all [OF this] show ?thesis unfolding set_file_uses by blast
qed

text \<open>
  C14. Files stay in their chat: a document message that names a stored file by its id is accepted only if the file is not yet attached to
  any message, or is attached to a message of that very thread; a file that is only in use elsewhere is refused.
\<close>

theorem files_stay_in_chat:
  assumes "SendDocument E (Some q) db = (Inr i, oc)" and "EnsureDirectThread (se_thread E) (Some (document_thread q)) db = (Inr t, db1)"
    and "d \<in> set (dq_Documents (sd_Document q))" "do_ID d > 0"
    and "a \<in> set (db_documents db1 @ db_images db1)" "ar_file_id a = do_ID d" "m \<in> set (db_messages db1)" "ms_id m = ar_message_id a"
  shows "\<exists>a' \<in> set (db_documents db1 @ db_images db1). \<exists>m' \<in> set (db_messages db1).
    ar_file_id a' = do_ID d \<and> ms_id m' = ar_message_id a' \<and> ms_thread_id m' = t_ID t"
  using assert_documents [OF SendDocument_Inr [OF assms(1,2)] assms(3-8)] .

lemma seed_needs_contact:
  assumes "m_Member msg = Some d" "bm_ID d \<notin> dl_member_id ` {x \<in> set (db_dialogs db). dl_thread_id x = m_ThreadID msg \<and> active x}"
  shows "seedThreadVariables msg vs db = db"
  using assms by (auto simp: seedThreadVariables_def variables_Set_def members_list_def Let_def)

text \<open>A document of the thread that is sent again, and a document that names no file at all.\<close>

definition files_db :: db where
  "files_db = chat_db\<lparr>db_documents := [\<lparr>ar_message_id = 11, ar_file_id = 5, ar_name = ''a.txt'', ar_mime = [], ar_size = 3, ar_width = 0, ar_height = 0, ar_thumbnails = Map.empty\<rparr>]\<rparr>"

definition document_request :: "int \<Rightarrow> SendDocumentRequest" where
  "document_request i = \<lparr>sd_From = example_peer 52 ''Helper'', sd_To = example_peer 54 ''Ann'',
     sd_Document = \<lparr>dq_Body = [], dq_Documents = [\<lparr>do_ID = i, do_Name = [], do_MimeType = [], do_Size = 0, do_URL = []\<rparr>]\<rparr>, sd_DomainID = 7, sd_SendID = [],
     sd_SendAs = None, sd_ReplyToMessageID = None, sd_ExternalID = [], sd_ReplyToExternalID = [], sd_ForwardOrigin = None, sd_Entities = [], sd_Variables = []\<rparr>"

lemma files_ensured: "EnsureDirectThread (se_thread example_send) (Some (document_thread (document_request i))) files_db = (Inr chat_thread, files_db)"
proof -
  have "find (resolves \<lparr>q_From = example_peer 52 ''Helper'', q_To = example_peer 54 ''Ann'', q_SendAs = None\<rparr> files_db) (db_threads files_db)
      = Some (example_thread\<lparr>th_last_seq := 3\<rparr>)"
    by (simp add: files_db_def chat_db_def status_db_def resolves_def example_peer_def ResolveThreadID_def ResolveContactID_def SendAsPtr_def ResolveVia_def
        example_thread_def example_dialog_def active_def)
  moreover have "active_members files_db 6 = active_members chat_db 6" by (simp add: active_members_def files_db_def)
  ultimately show ?thesis
    by (simp add: EnsureDirectThread_def ResolveThread_def document_thread_def document_request_def example_send_def chat_thread_def zero_thread_def
        chat_members isBotMember_def json_member_def zero_dialog_def example_dialog_def example_peer_def example_thread_def)
qed


lemma as_internal_Inr [simp]: "as_internal what (Inr x) = Inr x"
  by (simp add: as_internal_def)

lemma document_tx_total:
  assumes s: "SaveMessage msg db = Inr (saved, db1)" and docs: "\<forall>d \<in> set (m_Documents msg). int4 (dc_FileID d) \<and> int4 (dc_Size d)"
    and x: "sd_ExternalID q = []" and e: "m_domainEvents msg = []" and v: "sd_Variables q = []"
  shows "\<exists>m db'. document_tx E q msg db = Inr (m, db') \<and> db_documents db' = db_documents db @ map (document_row (m_ID saved)) (m_Documents msg)"
proof (rule SaveMessage_row [OF s])
  fix r th
  assume r: "db_messages db1 = db_messages db @ [r]" "ms_id r = m_ID saved" "db_documents db1 = db_documents db"
  have "message_of db1 (m_ID saved) \<noteq> None" using r by (auto simp: message_of_def find_None_iff)
  with docs have save: "SaveDocuments (m_ID saved) (m_Documents msg) db1 = Inr (if m_Documents msg = [] then db1
      else db1\<lparr>db_documents := db_documents db1 @ map (document_row (m_ID saved)) (m_Documents msg), db_next_id := db_next_id db1 + length (m_Documents msg)\<rparr>)"
    unfolding SaveDocuments_def list_all_iff by (simp only: not_not if_True if_False split: if_split) simp
  then obtain db2 where d: "SaveDocuments (m_ID saved) (m_Documents msg) db1 = Inr db2"
      "db_documents db2 = db_documents db @ map (document_row (m_ID saved)) (m_Documents msg)"
    by (cases "m_Documents msg = []") (simp_all add: r(3))
  let ?msg = "msg\<lparr>m_ID := m_ID saved, m_From := m_From saved, m_Seq := m_Seq saved\<rparr>"
  obtain db4 where i: "insertSentStatuses (se_pick E) (ev_now (se_thread E)) ?msg db2 = Inr db4" using insertSent_total by blast
  have e': "m_domainEvents ?msg = []" using e by simp
  obtain m db' where p: "publish_created E (sd_SendID q) ?msg db4 = Inr (m, db')" using publish_created_total [OF e'] by fastforce
  have "db_documents db' = db_documents db2"
    using keeps_content_sent [OF i] by (rule_tac publish_created_Inr [OF p e']) (simp add: keeps_content_def)
  moreover have "seedThreadVariables ?msg [] db2 = db2" by (simp add: seedThreadVariables_def split: option.split)
  ultimately show ?thesis using s d i p x v by (simp add: document_tx_def recordInboundExternalID_def Let_def)
qed


lemma document_sent:
  assumes "i = 0 \<or> i = 5"
  shows "\<exists>x oc a. SendDocument example_send (Some (document_request i)) files_db = (Inr x, oc)
    \<and> db_documents (oc_db oc) = db_documents files_db @ [a] \<and> ar_file_id a = i"
proof -
  let ?q = "document_request i"
  let ?doc = "\<lparr>do_ID = i, do_Name = [], do_MimeType = [], do_Size = 0, do_URL = (if i > 0 then ''baselink'' else [])\<rparr>"
  let ?msg = "document_message example_send ?q chat_thread None [?doc]"
  have v: "SendDocumentRequest_Validate (Some ?q) = Inr ()" by (simp add: SendDocumentRequest_Validate_def document_request_def example_peer_def)
  have reply: "resolveReply (sd_ReplyToMessageID ?q) (sd_ReplyToExternalID ?q) p chat_thread n files_db = Inr None" for p n
    by (simp add: resolveReply_def resolveExternalReply_def document_request_def)
  have docs: "dq_Documents (sd_Document (document_request n)) = [\<lparr>do_ID = n, do_Name = [], do_MimeType = [], do_Size = 0, do_URL = []\<rparr>]" for n
    by (simp add: document_request_def)
  have "file_uses files_db [5] = [(5, 6)]" by (simp add: file_uses_def files_db_def chat_db_def status_example_defs)
  then have own: "assertDocumentsBelongToThread (t_ID chat_thread) (dq_Documents (sd_Document ?q)) files_db = Inr ()"
    using assms by (auto simp: docs assertDocumentsBelongToThread_def FileIDsBoundToOtherThreads_def int4_def chat_thread_def)
  have proc: "Process (se_storage example_send) n (dq_Documents (sd_Document ?q)) = Inr (dq_Documents (sd_Document ?q))" for n
    by (simp add: Process_def docs)
  have se: "se_storage example_send = example_storage" by (simp add: example_send_def)
  have fetch: "bindr (FetchFileLinksWithMetadata (se_storage example_send) n (dq_Documents (sd_Document ?q)))
      (\<lambda>ms. Inr (document_message example_send ?q chat_thread None (map (set_metadata ms) (dq_Documents (sd_Document ?q))))) = Inr ?msg" for n
    using assms by (elim disjE) (simp_all add: docs se file_link_def ResolveFullURL_def example_storage_def set_metadata_def)
  have "m_Member ?msg = Some (zero_dialog\<lparr>bm_ID := 2\<rparr>)"
    by (simp add: document_message_def SetMemberFromSlice_def NewDocumentMessage_def GetSender_def document_request_def chat_thread_def
        zero_thread_def chat_members json_member_def example_dialog_def zero_dialog_def example_peer_def Let_def)
  moreover have "m_ThreadID ?msg = 6" "m_DomainID ?msg = 7" "m_Type ?msg = MessageTypeFile" "m_ReplyTo ?msg = None" "m_ForwardOrigin ?msg = None"
    by (simp_all add: document_message_def NewDocumentMessage_def chat_thread_def document_request_def to_int32_def Let_def)
  ultimately have "\<exists>p. SaveMessage ?msg (start_tx example_send files_db) = Inr p"
    by (simp add: SaveMessage_def validateMessageForSave_def Let_def message_exists_def replyToArg_def addForwardOriginArgs_def zero_dialog_def
        insert_message_def thread_of_def files_db_def chat_db_def status_db_def example_thread_def)
  then obtain saved db1 where s: "SaveMessage ?msg (start_tx example_send files_db) = Inr (saved, db1)" by auto
  have "ParseInt (FormatInt i) = Some i" using assms by (intro ParseInt_FormatInt) auto
  then have md: "m_Documents ?msg = [\<lparr>dc_ID = uuid_nil, dc_FileID = i, dc_Name = [], dc_Mime = [], dc_Size = 0, dc_URL = do_URL ?doc\<rparr>]"
    by (simp add: document_message_def NewDocumentMessage_def Let_def mapDocumentInputs_def domain_document_def)
  have fits: "\<forall>d \<in> set (m_Documents ?msg). int4 (dc_FileID d) \<and> int4 (dc_Size d)" using assms by (auto simp: md int4_def)
  have none: "sd_ExternalID ?q = []" "m_domainEvents ?msg = []" "sd_Variables ?q = []"
    by (simp_all add: document_request_def document_message_def NewDocumentMessage_def zero_message_def Let_def)
  obtain m db' where t: "document_tx example_send ?q ?msg (start_tx example_send files_db) = Inr (m, db')"
      "db_documents db' = db_documents files_db @ map (document_row (m_ID saved)) (m_Documents ?msg)"
    using document_tx_total [OF s fits none, of example_send] by auto
  have r: "SendDocument example_send (Some ?q) files_db = (Inr (m_ID m), SendMessage (se_providers example_send) (Some m) db')"
    using v files_ensured [of i] reply own proc fetch t(1)
    by (simp add: SendDocument_def document_thread_def [symmetric] WithinTransaction_def Let_def)
  have "db_documents (oc_db (SendMessage (se_providers example_send) (Some m) db')) = db_documents db'"
    using SendMessage_only_externals [of db' "se_providers example_send" "Some m"] by (auto simp: only_externals_def)
  with r t(2) show ?thesis by (auto simp: md document_row_def)
qed

theorem files_stay_in_chat_witness:
  "\<exists>x oc. SendDocument example_send (Some (document_request 5)) files_db = (Inr x, oc)
     \<and> (\<exists>a' \<in> set (db_documents files_db @ db_images files_db). \<exists>m' \<in> set (db_messages files_db). ar_file_id a' = 5 \<and> ms_id m' = ar_message_id a' \<and> ms_thread_id m' = 6)"
proof -
  obtain x oc where s: "SendDocument example_send (Some (document_request 5)) files_db = (Inr x, oc)" using document_sent [of 5] by blast
  have "\<exists>a' \<in> set (db_documents files_db @ db_images files_db). \<exists>m' \<in> set (db_messages files_db).
      ar_file_id a' = do_ID \<lparr>do_ID = 5, do_Name = [], do_MimeType = [], do_Size = 0, do_URL = []\<rparr> \<and> ms_id m' = ar_message_id a' \<and> ms_thread_id m' = t_ID chat_thread"
    by (rule files_stay_in_chat [OF s files_ensured, where a = "hd (db_documents files_db)" and m = "status_message 11 1"])
      (simp_all add: document_request_def files_db_def chat_db_def status_example_defs)
  with s show ?thesis by (simp add: chat_thread_def)
qed

text \<open>
  The validation of documents is never called: a document that has neither an id nor an address, which the validation refuses, is accepted by
  \<^verbatim>\<open>SendDocument\<close> and stored as an attachment with the file id 0.
\<close>

theorem document_without_file_accepted:
  "\<exists>x oc a. SendDocument example_send (Some (document_request 0)) files_db = (Inr x, oc)
     \<and> db_documents (oc_db oc) = db_documents files_db @ [a] \<and> ar_file_id a = 0
     \<and> DocumentRequest_Validate (\<lambda>_. True) (dq_Documents (sd_Document (document_request 0))) = Inl (Err InvalidArgument ''either ID or URL is reqired'')"
proof -
  have "DocumentRequest_Validate (\<lambda>_. True) (dq_Documents (sd_Document (document_request 0))) = Inl (Err InvalidArgument ''either ID or URL is reqired'')"
    by (simp add: document_request_def Document_Validate_def bindr_def)
  with document_sent [of 0] show ?thesis by blast
qed


section \<open>A messenger that is down\<close>

definition down :: send_env where
  "down = example_send\<lparr>se_providers := echo_providers\<lparr>pv_call := (\<lambda>_. Inl (Err Internal ''unavailable''))\<rparr>\<rparr>"

definition business_card :: Message where
  "business_card = zero_message\<lparr>m_DomainID := 7, m_From := example_peer 52 ''Helper'', m_SendTo := example_peer 54 ''Ann'', m_Type := MessageTypeContact,
     m_Contact := Some \<lparr>co_PhoneNumber = Some ''1'', co_Name = Some ''Eve'', co_Email = None\<rparr>\<rparr>"

definition prepared_card :: Message where
  "prepared_card = business_card\<lparr>m_ThreadID := 6, m_To := t_Members chat_thread, m_MemberID := 2, m_Member := Some (zero_dialog\<lparr>bm_ID := 2\<rparr>)\<rparr>"

lemma card_prepared: "prepareMessageForSending down business_card chat_db = (Inr prepared_card, chat_db)"
proof -
  have "\<lparr>ed_DomainID = m_DomainID business_card, ed_From = m_From business_card, ed_To = m_SendTo business_card, ed_SendAs = m_SendAs business_card\<rparr> = text_thread (hello None)"
    by (simp add: business_card_def zero_message_def text_thread_def hello_def)
  moreover have "se_thread down = se_thread example_send" by (simp add: down_def)
  moreover have "SetMemberFromSlice (t_Members chat_thread) (business_card\<lparr>m_ThreadID := 6, m_To := t_Members chat_thread\<rparr>) = prepared_card"
    by (simp add: prepared_card_def SetMemberFromSlice_def GetSender_def business_card_def zero_message_def example_peer_def chat_thread_def zero_thread_def
        chat_members json_member_def example_dialog_def zero_dialog_def)
  moreover have "t_ID chat_thread = 6" "t_BotControllerID chat_thread = None" by (simp_all add: chat_thread_def zero_thread_def)
  moreover have "business_card\<lparr>m_ThreadID := 6, m_To := ms, m_BotControllerMemberID := None\<rparr> = business_card\<lparr>m_ThreadID := 6, m_To := ms\<rparr>" for ms
    by (simp add: business_card_def zero_message_def)
  moreover have "m_ReplyTo prepared_card = None" "m_ReplyToExternalID prepared_card = []" by (simp_all add: prepared_card_def business_card_def zero_message_def)
  ultimately show ?thesis using chat_ensured [of None] by (simp add: prepareMessageForSending_def Let_def)
qed

lemma card_saved:
  "\<exists>saved db2. content_tx SaveMessageContact down prepared_card (start_tx down chat_db) = Inr (saved, db2)
     \<and> length (db_messages db2) = length (db_messages chat_db) + 1"
proof -
  have "\<exists>r db1. insert_content what prepared_card (start_tx down chat_db) = Inr (r, db1) \<and> db_messages db1 = db_messages chat_db @ [r]" for what
    by (simp add: insert_content_def prepared_card_def business_card_def zero_message_def message_exists_def replyToArg_def addForwardOriginArgs_def
        insert_message_def thread_of_def Let_def chat_db_def status_db_def example_thread_def update_thread_def)
  then obtain r db1 where i: "insert_content ''eror collecting saved contact'' prepared_card (start_tx down chat_db) = Inr (r, db1)"
      "db_messages db1 = db_messages chat_db @ [r]" by blast
  have "validateMessageForSave (Some prepared_card) = Inr ()"
    by (simp add: validateMessageForSave_def prepared_card_def business_card_def zero_dialog_def)
  then obtain saved db2 where s: "SaveMessageContact prepared_card (start_tx down chat_db) = Inr (saved, db2)"
      "m_domainEvents saved = []" "db_messages db2 = db_messages chat_db @ [r]"
    using i by (simp add: SaveMessageContact_def prepared_card_def business_card_def scan_message_def zero_message_def)
  let ?m = "saved\<lparr>m_To := m_To prepared_card, m_IdempotencyKey := m_IdempotencyKey prepared_card, m_ReplyTo := m_ReplyTo prepared_card\<rparr>"
  have "m_domainEvents ?m = []" using s(2) by simp
  then obtain m db3 where a: "announce down (m_IdempotencyKey prepared_card) ?m db2 = Inr (m, db3)" "db_messages db3 = db_messages db2"
    using announce_total [of ?m down "m_IdempotencyKey prepared_card" db2] announce_Inr by (metis surj_pair)
  have "m_ExternalID prepared_card = []" by (simp add: prepared_card_def business_card_def zero_message_def)
  with s a show ?thesis by (simp add: content_tx_def recordInboundExternalID_def Let_def)
qed

lemma card_refused: "oc_errors (SendMessage (se_providers down) (Some (prepared_card\<lparr>m_ID := i\<rparr>)) db) = [Err Internal ''unavailable'']"
proof -
  have "external_pairs (GetSender (prepared_card\<lparr>m_ID := i\<rparr>)) (m_To (prepared_card\<lparr>m_ID := i\<rparr>)) = [\<lparr>ep_ContactID = 54, ep_Via = ''gate''\<rparr>]"
    by (simp add: external_pairs_def ExtractExternalPeers_def GetSender_def prepared_card_def business_card_def zero_message_def example_peer_def chat_thread_def
        zero_thread_def chat_members json_member_def example_dialog_def zero_dialog_def has_via_def)
  then show ?thesis
    by (simp add: SendMessage_def deliver_def peer_request_def down_def echo_providers_def start_outcome_def prepared_card_def business_card_def Let_def)
qed

text \<open>
  An error after the fact: when the messenger of a member is down, sending a contact answers with the messenger's error although the message has been saved
  and announced, so a client that tries again sends it twice; the other kinds of messages only log that error.
\<close>

theorem contact_fails_after_saving:
  "\<exists>e oc. SendContact down business_card chat_db = (Inl e, oc) \<and> length (db_messages (oc_db oc)) = length (db_messages chat_db) + 1"
proof -
  obtain saved db2 where c: "content_tx SaveMessageContact down prepared_card (start_tx down chat_db) = Inr (saved, db2)"
      "length (db_messages db2) = length (db_messages chat_db) + 1" using card_saved by blast
  let ?oc = "SendMessage (se_providers down) (Some (prepared_card\<lparr>m_ID := m_ID saved\<rparr>)) db2"
  have "SendContact down business_card chat_db = (Inl (Err Internal ''unavailable''), ?oc)"
    using c(1) card_refused [of "m_ID saved" db2] by (simp add: SendContact_def send_content_def card_prepared WithinTransaction_def Let_def)
  moreover have "db_messages (oc_db ?oc) = db_messages db2" using only_externals_simps [OF SendMessage_only_externals] by blast
  ultimately show ?thesis using c(2) by simp
qed

end
