(* ===== verification/Interactive.thy ===== *)
theory Interactive
  imports Message_Send
begin

text \<open>
  Messages with a keyboard and what comes back from it: \<^verbatim>\<open>SendInteractive\<close> and \<^verbatim>\<open>SendInteractiveCallback\<close> of
  \<^verbatim>\<open>internal/service/message.go\<close>, \<^verbatim>\<open>SaveInteractiveMessage\<close> of \<^verbatim>\<open>internal/store/postgres/message.go\<close>
  and \<^verbatim>\<open>internal/store/postgres/interactive_callback.go\<close>. A keyboard is stored with its message as one value; a pressed
  button is a row of its own and an event that is not part of the history of a thread.
\<close>

section \<open>The message\<close>

text \<open>The attachments are uploaded in place, the documents before the images.\<close>

definition document_item :: "MessageDocument \<Rightarrow> Document" where
  "document_item d = \<lparr>do_ID = dc_FileID d, do_Name = dc_Name d, do_MimeType = dc_Mime d, do_Size = dc_Size d, do_URL = dc_URL d\<rparr>"

definition image_item :: "MessageImage \<Rightarrow> Document" where
  "image_item i = \<lparr>do_ID = im_FileID i, do_Name = im_Name i, do_MimeType = im_Mime i, do_Size = im_Size i, do_URL = im_URL i\<rparr>"

definition set_document :: "Document \<Rightarrow> MessageDocument \<Rightarrow> MessageDocument" where
  "set_document x d = d\<lparr>dc_FileID := do_ID x, dc_Mime := do_MimeType x, dc_URL := do_URL x\<rparr>"

definition set_image :: "Document \<Rightarrow> MessageImage \<Rightarrow> MessageImage" where
  "set_image x i = i\<lparr>im_FileID := do_ID x, im_Mime := do_MimeType x, im_URL := do_URL x\<rparr>"

definition process_attachments :: "storage \<Rightarrow> Message \<Rightarrow> Message res" where
  "process_attachments sg msg =
     (if m_Documents msg = [] \<and> m_Images msg = [] then Inr msg
      else (case Process sg (m_DomainID msg) (map document_item (m_Documents msg) @ map image_item (m_Images msg)) of
              Inl _ \<Rightarrow> Inl (Err Internal ''media_process_failed'')
            | Inr items \<Rightarrow>
                (let n = length (m_Documents msg)
                 in Inr (msg\<lparr>m_Documents := map2 set_document (take n items) (m_Documents msg),
                             m_Images := map2 set_image (drop n items) (m_Images msg)\<rparr>))))"

text \<open>
  The statement inserts the message, its documents and its images; widths and heights are 32-bit integers in the code as well. The
  attachments come back from their tables, which have no addresses, and those of images no names.
\<close>

definition image_row :: "uuid \<Rightarrow> MessageImage \<Rightarrow> attachment_row" where
  "image_row i m = \<lparr>ar_message_id = i, ar_file_id = im_FileID m, ar_name = [], ar_mime = im_Mime m, ar_size = 0,
     ar_width = im_Width m, ar_height = im_Height m, ar_thumbnails = im_Thumbnails m\<rparr>"

definition saved_document :: "uuid \<Rightarrow> MessageDocument \<Rightarrow> MessageDocument" where
  "saved_document i d = d\<lparr>dc_ID := i, dc_URL := []\<rparr>"

definition saved_image :: "uuid \<Rightarrow> MessageImage \<Rightarrow> MessageImage" where
  "saved_image i m = m\<lparr>im_ID := i, im_Name := [], im_URL := [], im_Size := 0\<rparr>"

definition interactive_row :: "Message \<Rightarrow> message_row" where
  "interactive_row msg = zero_message_row\<lparr>ms_domain_id := m_DomainID msg, ms_sender_id := pr_ID (m_From msg),
     ms_member_id := (case m_Member msg of None \<Rightarrow> uuid_nil | Some d \<Rightarrow> bm_ID d), ms_type := m_Type msg, ms_body := m_Body msg,
     ms_metadata := m_Metadata msg, ms_interactive := m_Interactive msg\<rparr>"

definition SaveInteractiveMessage :: "Message \<Rightarrow> db \<Rightarrow> (Message \<times> db) res" where
  "SaveInteractiveMessage msg db =
     bindr (validateMessageForSave (Some msg)) (\<lambda>_.
       (if m_Member msg = None then Inl nil_dereference
        else if \<not> list_all (\<lambda>d. int4 (dc_FileID d) \<and> int4 (dc_Size d)) (m_Documents msg) \<or> \<not> list_all (\<lambda>i. int4 (im_FileID i)) (m_Images msg)
        then Inl (Err Internal ''eror querying insert interactive message'')
        else if \<not> (0 \<le> m_Type msg \<and> m_Type msg \<le> 7) then Inl (Err Internal ''eror collecting saved interactive message'')
        else (case insert_message (m_ThreadID msg) (interactive_row msg) db of
                None \<Rightarrow> Inl (Err Internal ''eror collecting saved interactive message'')
              | Some (r, db1) \<Rightarrow>
                  (let n = length (m_Documents msg); k = length (m_Images msg); i = db_next_id db1
                   in Inr ((scan_message r)\<lparr>m_Interactive := m_Interactive msg, m_Documents := map2 saved_document [i..<i + n] (m_Documents msg),
                             m_Images := map2 saved_image [i + n..<i + n + k] (m_Images msg)\<rparr>,
                           db1\<lparr>db_documents := db_documents db1 @ map (document_row (ms_id r)) (m_Documents msg),
                               db_images := db_images db1 @ map (image_row (ms_id r)) (m_Images msg), db_next_id := i + n + k\<rparr>)))))"

definition interactive_tx :: "send_env \<Rightarrow> Message \<Rightarrow> db \<Rightarrow> (Message \<times> db) res" where
  "interactive_tx E msg db =
     bindr (SaveInteractiveMessage msg db) (\<lambda>(saved, db1). announce E (m_IdempotencyKey msg) (saved\<lparr>m_To := m_To msg\<rparr>) db1)"

definition SendInteractive :: "send_env \<Rightarrow> Message \<Rightarrow> db \<Rightarrow> Message res \<times> outcome" where
  "SendInteractive E msg0 db =
     (case prepareMessageForSending E msg0 db of
        (Inl e, db1) \<Rightarrow> (Inl e, start_outcome db1)
      | (Inr msg1, db1) \<Rightarrow>
          (case process_attachments (se_storage E) msg1 of
             Inl e \<Rightarrow> (Inl e, start_outcome db1)
           | Inr msg \<Rightarrow>
               (case WithinTransaction (interactive_tx E msg) (start_tx E db1) of
                  (Inl e, db2) \<Rightarrow> (Inl e, start_outcome db2)
                | (Inr saved, db2) \<Rightarrow> (Inr saved, SendMessage (se_providers E) (Some (msg\<lparr>m_ID := m_ID saved\<rparr>)) db2))))"

section \<open>The pressed button\<close>

record InteractiveCallback =
  ib_ReactedBy :: uuid
  ib_InReplyTo :: uuid
  ib_ButtonCode :: string
  ib_CallbackData :: string
  ib_ReactedAt :: time
  ib_ThreadID :: uuid
  ib_DomainID :: int
  ib_Receiver :: uuid

definition pressed :: "db \<Rightarrow> uuid \<Rightarrow> string \<Rightarrow> bool" where
  "pressed db i code \<longleftrightarrow> (\<exists>r \<in> set (db_callbacks db). cb_in_reply_to r = i \<and> cb_button_code r = code)"

definition callback_Save :: "InteractiveCallback \<Rightarrow> db \<Rightarrow> (InteractiveCallback \<times> db) res" where
  "callback_Save c db =
     (case message_of db (ib_InReplyTo c) of
        None \<Rightarrow> Inl (Err Forbidden ''replying to a not existing message or not member of the thread'')
      | Some m \<Rightarrow>
         if \<not> (\<exists>d \<in> set (db_dialogs db). dl_member_id d = ib_ReactedBy c \<and> dl_thread_id d = ms_thread_id m)
         then Inl (Err Forbidden ''replying to a not existing message or not member of the thread'')
         else if pressed db (ib_InReplyTo c) (ib_ButtonCode c)
         then Inl (Err AlreadyExists ''callback for button binded for this message already exists'')
         else Inr (c\<lparr>ib_ReactedAt := db_now db, ib_ThreadID := ms_thread_id m, ib_DomainID := ms_domain_id m, ib_Receiver := ms_sender_id m\<rparr>,
                   db\<lparr>db_callbacks := db_callbacks db @ [\<lparr>cb_in_reply_to = ib_InReplyTo c, cb_button_code = ib_ButtonCode c,
                        cb_callback_data = ib_CallbackData c, cb_reacted_at = db_now db, cb_reacted_by = ib_ReactedBy c\<rparr>]\<rparr>))"

definition callback_event :: "ctx \<Rightarrow> InteractiveCallback \<Rightarrow> InteractiveCallbackPayload" where
  "callback_event cx c =
     \<lparr>icp_ReactedBy = empty_peer\<lparr>pr_ID := ib_ReactedBy c, pr_Type := PeerContact\<rparr>, icp_InReplyTo = ib_InReplyTo c, icp_ButtonCode = ib_ButtonCode c,
      icp_CallbackData = ib_CallbackData c, icp_ReactedAt = ib_ReactedAt c, icp_DomainID = ib_DomainID c, icp_ThreadID = ib_ThreadID c,
      icp_Receiver = ib_Receiver c, icp_ExternalMetadata = propagated_metadata (\<lambda>_. False) cx []\<rparr>"

definition SendInteractiveCallback :: "ctx \<Rightarrow> InteractiveCallback \<Rightarrow> db \<Rightarrow> InteractiveCallback res \<times> db" where
  "SendInteractiveCallback cx c db =
     WithinTransaction (\<lambda>db.
       bindr (callback_Save c db) (\<lambda>(saved, db1).
         bindr (publish_event (EvInteractiveCallback (callback_event cx saved)) db1) (\<lambda>db2. Inr (saved, db2)))) db"


section \<open>A button is answered once\<close>

text \<open>The requests of any members in the order the database serves them, and the ones that were accepted.\<close>

fun answers :: "(ctx \<times> InteractiveCallback) list \<Rightarrow> db \<Rightarrow> (ctx \<times> InteractiveCallback) list \<times> db" where
  "answers [] db = ([], db)"
| "answers ((cx, c) # cs) db =
     (case SendInteractiveCallback cx c db of
        (Inl _, db1) \<Rightarrow> answers cs db1
      | (Inr s, db1) \<Rightarrow> (case answers cs db1 of (ss, db2) \<Rightarrow> ((cx, s) # ss, db2)))"

abbreviation (input) button :: "InteractiveCallback \<Rightarrow> uuid \<times> string" where
  "button c \<equiv> (ib_InReplyTo c, ib_ButtonCode c)"

text \<open>Who may answer: whoever has or had a membership of the thread of the message.\<close>

definition may_answer :: "db \<Rightarrow> InteractiveCallback \<Rightarrow> bool" where
  "may_answer db s \<longleftrightarrow> (\<exists>m. message_of db (ib_InReplyTo s) = Some m \<and> ib_ThreadID s = ms_thread_id m \<and> ib_DomainID s = ms_domain_id m
     \<and> ib_Receiver s = ms_sender_id m \<and> (\<exists>d \<in> set (db_dialogs db). dl_member_id d = ib_ReactedBy s \<and> dl_thread_id d = ms_thread_id m))"

definition announced_callback :: "ctx \<times> InteractiveCallback \<Rightarrow> outbox_row" where
  "announced_callback = (\<lambda>(cx, s). (event_topic (EvInteractiveCallback (callback_event cx s)), EvInteractiveCallback (callback_event cx s), None))"

lemma callback_fail: "SendInteractiveCallback cx c db = (Inl e, db') \<Longrightarrow> db' = db"
  unfolding SendInteractiveCallback_def by (rule WithinTransaction_fail)

lemma callback_Inr:
  assumes "SendInteractiveCallback cx c db = (Inr s, db')"
  shows "button s = button c" "\<not> pressed db (ib_InReplyTo c) (ib_ButtonCode c)" "may_answer db s"
    "db_callbacks db' = db_callbacks db @ [\<lparr>cb_in_reply_to = ib_InReplyTo c, cb_button_code = ib_ButtonCode c,
        cb_callback_data = ib_CallbackData c, cb_reacted_at = db_now db, cb_reacted_by = ib_ReactedBy c\<rparr>]"
    "db_outbox db' = db_outbox db @ [announced_callback (cx, s)]"
    "db_messages db' = db_messages db" "db_dialogs db' = db_dialogs db" "db_journal db' = db_journal db"
  using assms
  by (auto simp: SendInteractiveCallback_def WithinTransaction_Inr bindr_Inr_iff callback_Save_def may_answer_def publish_event_def Publish_def announced_callback_def
      split: option.splits if_splits)

lemma answers_frame:
  "db_messages (snd (answers cs db)) = db_messages db \<and> db_dialogs (snd (answers cs db)) = db_dialogs db \<and> db_journal (snd (answers cs db)) = db_journal db"
  by (induction cs db rule: answers.induct) (auto split: prod.splits sum.splits dest: callback_fail callback_Inr(6-8))

lemma may_answer_cong: "db_messages db' = db_messages db \<Longrightarrow> db_dialogs db' = db_dialogs db \<Longrightarrow> may_answer db' s = may_answer db s"
  by (simp add: may_answer_def message_of_def)

lemma pressed_step:
  "SendInteractiveCallback cx c db = (Inr s, db') \<Longrightarrow> pressed db' i k \<longleftrightarrow> pressed db i k \<or> (i, k) = button s"
  using callback_Inr(1,4) [of cx c db s db'] by (auto simp: pressed_def)

lemma answers_buttons:
  "distinct (map (button \<circ> snd) (fst (answers cs db)))
   \<and> (\<forall>s \<in> snd ` set (fst (answers cs db)). \<not> pressed db (ib_InReplyTo s) (ib_ButtonCode s) \<and> may_answer db s)"
proof (induction cs db rule: answers.induct)
  case (2 cx c cs db)
  show ?case
  proof (cases "SendInteractiveCallback cx c db")
    case (Pair r db1)
    show ?thesis
    proof (cases r)
      case (Inl e)
      with Pair have "db1 = db" using callback_fail [of cx c db e db1] by simp
      with 2(1) [OF Pair [symmetric] Inl] Pair Inl show ?thesis by simp
    next
      case (Inr s)
      then have c: "SendInteractiveCallback cx c db = (Inr s, db1)" using Pair by simp
      from 2(2) [OF Pair [symmetric] Inr] have ih: "distinct (map (button \<circ> snd) (fst (answers cs db1)))"
        "\<forall>s \<in> snd ` set (fst (answers cs db1)). \<not> pressed db1 (ib_InReplyTo s) (ib_ButtonCode s) \<and> may_answer db1 s" by (simp_all add: comp_def)
      have "\<not> pressed db1 i k \<Longrightarrow> \<not> pressed db i k \<and> (i, k) \<noteq> button s" for i k using pressed_step [OF c] by blast
      moreover have "may_answer db1 x = may_answer db x" for x using callback_Inr(6,7) [OF c] by (rule may_answer_cong)
      ultimately have "\<forall>x \<in> snd ` set (fst (answers cs db1)). \<not> pressed db (ib_InReplyTo x) (ib_ButtonCode x) \<and> button x \<noteq> button s \<and> may_answer db x"
        using ih(2) by fastforce
      moreover have "fst (answers ((cx, c) # cs) db) = (cx, s) # fst (answers cs db1)" using c by (simp split: prod.split)
      ultimately show ?thesis using ih(1) callback_Inr(1-3) [OF c] by (force simp: comp_def)
    qed
  qed
qed simp

lemma answers_announced:
  "db_outbox (snd (answers cs db)) = db_outbox db @ map announced_callback (fst (answers cs db))"
  by (induction cs db rule: answers.induct) (auto split: prod.splits sum.splits dest: callback_fail callback_Inr(5))


text \<open>Two members press the same button of a message, and one presses it twice.\<close>

definition press :: "uuid \<Rightarrow> string \<Rightarrow> ctx \<times> InteractiveCallback" where
  "press c code = (plain_ctx, \<lparr>ib_ReactedBy = c, ib_InReplyTo = 11, ib_ButtonCode = code, ib_CallbackData = ''x'', ib_ReactedAt = time_zero,
     ib_ThreadID = uuid_nil, ib_DomainID = 0, ib_Receiver = uuid_nil\<rparr>)"

lemma press_twice: "map (ib_ReactedBy \<circ> snd) (fst (answers [press 52 ''yes'', press 54 ''yes'', press 52 ''yes''] status_db)) = [52]"
  by (simp add: press_def SendInteractiveCallback_def WithinTransaction_def callback_Save_def pressed_def message_of_def publish_event_def Publish_def
      status_example_defs)


section \<open>Sending a keyboard\<close>

lemma announce_attachments:
  assumes "announce E sendID m db = Inr (m', db')" "m_domainEvents m = []"
  shows "db_documents db' = db_documents db \<and> db_images db' = db_images db"
proof -
  from assms(1) obtain db1 where i: "insertSentStatuses (se_pick E) (ev_now (se_thread E)) m db = Inr db1"
    and p: "publish_created E sendID m db1 = Inr (m', db')" by (auto simp: announce_def bindr_Inr_iff)
  show ?thesis using keeps_content_sent [OF i] by (rule_tac publish_created_Inr [OF p assms(2)]) (simp add: keeps_content_def)
qed

lemma interactive_tx_Inr:
  assumes "interactive_tx E msg db = Inr (m, db')"
  obtains r th e k evs where "db_messages db' = db_messages db @ [r]" "thread_of db (m_ThreadID msg) = Some th" "ms_seq r = th_last_seq th + 1"
    "ms_id r = m_ID m" "ms_thread_id r = m_ThreadID msg" "ms_sender_id r = pr_ID (m_From msg)" "ms_body r = m_Body msg" "ms_reply_to r = None"
    "ms_interactive r = m_Interactive msg"
    "db_documents db' = db_documents db @ map (document_row (ms_id r)) (m_Documents msg)"
    "db_images db' = db_images db @ map (image_row (ms_id r)) (m_Images msg)"
    "db_outbox db' = db_outbox db @ evs @ [(event_topic (EvMessageCreated e), EvMessageCreated e, k)]"
    "\<forall>e k c. (k, EvMessageCreated e, c) \<notin> set evs" "mc_MessageID e = ms_id r" "mc_Seq e = ms_seq r"
    "map tm_ContactID (mc_To e) = map td_ContactID (m_To msg)" "mc_SendID e = m_IdempotencyKey msg"
proof -
  from assms obtain saved db1 where s: "SaveInteractiveMessage msg db = Inr (saved, db1)"
    and a: "announce E (m_IdempotencyKey msg) (saved\<lparr>m_To := m_To msg\<rparr>) db1 = Inr (m, db')" by (auto simp: interactive_tx_def bindr_Inr_iff)
  from s obtain r db2 where i: "insert_message (m_ThreadID msg) (interactive_row msg) db = Some (r, db2)"
    and sv: "m_domainEvents saved = []" "m_ID saved = ms_id r" "m_Seq saved = ms_seq r"
    and d: "db_documents db1 = db_documents db2 @ map (document_row (ms_id r)) (m_Documents msg)"
      "db_images db1 = db_images db2 @ map (image_row (ms_id r)) (m_Images msg)" "db_messages db1 = db_messages db2" "db_outbox db1 = db_outbox db2"
    by (auto simp: SaveInteractiveMessage_def bindr_Inr_iff scan_message_def zero_message_def Let_def split: option.splits if_splits)
  from i obtain th where t: "thread_of db (m_ThreadID msg) = Some th" "db_messages db2 = db_messages db @ [r]" "ms_seq r = th_last_seq th + 1"
      "ms_thread_id r = m_ThreadID msg" "ms_sender_id r = pr_ID (m_From msg)" "ms_body r = m_Body msg" "ms_reply_to r = None"
      "ms_interactive r = m_Interactive msg" "db_documents db2 = db_documents db" "db_images db2 = db_images db" "db_outbox db2 = db_outbox db"
    by (auto simp: insert_message_def interactive_row_def zero_message_row_def Let_def split: option.splits)
  have at: "db_documents db' = db_documents db1 \<and> db_images db' = db_images db1" by (rule announce_attachments [OF a]) (simp add: sv)
  show thesis by (rule announce_Inr [OF a]) (use sv d t at in \<open>auto intro!: that\<close>)
qed

text \<open>
  Sending a keyboard: a successful call stores exactly one new message, with the keyboard and the next number of its thread, attaches the
  documents and images to it in the order they were given, and announces it once. The reply that was resolved for the message is
  not stored: an interactive message never answers another one.
\<close>

theorem send_interactive_exact:
  assumes "SendInteractive E msg db = (Inr saved, oc)" "prepareMessageForSending E msg db = (Inr p, db1)"
  shows "\<exists>r th e k evs x. process_attachments (se_storage E) p = Inr x
    \<and> db_messages (oc_db oc) = db_messages db1 @ [r] \<and> ms_id r = m_ID saved \<and> ms_thread_id r = m_ThreadID p \<and> ms_interactive r = m_Interactive p
    \<and> ms_body r = m_Body p \<and> ms_reply_to r = None \<and> thread_of db1 (m_ThreadID p) = Some th \<and> ms_seq r = th_last_seq th + 1
    \<and> db_documents (oc_db oc) = db_documents db1 @ map (document_row (m_ID saved)) (m_Documents x)
    \<and> db_images (oc_db oc) = db_images db1 @ map (image_row (m_ID saved)) (m_Images x)
    \<and> db_outbox (oc_db oc) = db_outbox db1 @ evs @ [(event_topic (EvMessageCreated e), EvMessageCreated e, k)]
    \<and> (\<forall>e k c. (k, EvMessageCreated e, c) \<notin> set evs) \<and> mc_MessageID e = m_ID saved \<and> mc_Seq e = th_last_seq th + 1
    \<and> map tm_ContactID (mc_To e) = map td_ContactID (m_To p)"
proof -
  from assms obtain x db2 where x: "process_attachments (se_storage E) p = Inr x" and tx: "interactive_tx E x (start_tx E db1) = Inr (saved, db2)"
    and oc: "oc = SendMessage (se_providers E) (Some (x\<lparr>m_ID := m_ID saved\<rparr>)) db2"
    by (auto simp: SendInteractive_def WithinTransaction_Inr split: sum.splits prod.splits)
  have k: "m_ThreadID x = m_ThreadID p" "m_Interactive x = m_Interactive p" "m_Body x = m_Body p" "m_To x = m_To p"
    using x by (auto simp: process_attachments_def Let_def split: if_splits sum.splits)
  have s: "db_messages (oc_db oc) = db_messages db2" "db_outbox (oc_db oc) = db_outbox db2" "db_documents (oc_db oc) = db_documents db2"
      "db_images (oc_db oc) = db_images db2"
    using SendMessage_only_externals [of db2 "se_providers E" "Some (x\<lparr>m_ID := m_ID saved\<rparr>)"] oc by (auto simp: only_externals_def)
  show ?thesis
    by (rule interactive_tx_Inr [OF tx], intro exI conjI) (use x s k in \<open>simp_all\<close>)
qed

text \<open>A keyboard with one button, sent in the example conversation.\<close>

definition board :: Message where
  "board = business_card\<lparr>m_Type := MessageTypeInteractive, m_Contact := None,
     m_Interactive := Some \<lparr>ia_Attachments = None, ia_SingleUse = True,
       ia_Markup = Some [Some [Some \<lparr>kb_ID = ''1'', kb_Label = ''Yes'', kb_Metadata = Map.empty, kb_Type = ''callback'', kb_URL = None, kb_Data = Some ''yes'',
         kb_Action = None\<rparr>]], ia_ListReply = None, ia_Placement = 0, ia_InputFieldState = 0\<rparr>\<rparr>"

definition prepared_board :: Message where
  "prepared_board = board\<lparr>m_ThreadID := 6, m_To := t_Members chat_thread, m_MemberID := 2, m_Member := Some (zero_dialog\<lparr>bm_ID := 2\<rparr>)\<rparr>"

lemma board_simps [simp]:
  "m_DomainID board = m_DomainID business_card" "m_From board = m_From business_card" "m_SendTo board = m_SendTo business_card" "m_SendAs board = m_SendAs business_card"
  "m_ReplyTo prepared_board = None" "m_ReplyToExternalID prepared_board = []" "m_Documents prepared_board = []" "m_Images prepared_board = []"
  "m_ThreadID prepared_board = 6"
  by (simp_all add: board_def prepared_board_def business_card_def zero_message_def)

lemma board_prepared: "prepareMessageForSending down board chat_db = (Inr prepared_board, chat_db)"
proof -
  have "\<lparr>ed_DomainID = m_DomainID business_card, ed_From = m_From business_card, ed_To = m_SendTo business_card, ed_SendAs = m_SendAs business_card\<rparr> = text_thread (hello None)"
    by (simp add: business_card_def zero_message_def text_thread_def hello_def)
  moreover have "se_thread down = se_thread example_send" by (simp add: down_def)
  moreover have "SetMemberFromSlice (t_Members chat_thread) (board\<lparr>m_ThreadID := 6, m_To := t_Members chat_thread, m_BotControllerMemberID := None\<rparr>) = prepared_board"
    by (simp add: prepared_board_def SetMemberFromSlice_def GetSender_def board_def business_card_def zero_message_def example_peer_def chat_thread_def zero_thread_def
        chat_members json_member_def example_dialog_def zero_dialog_def)
  moreover have "t_ID chat_thread = 6" "t_BotControllerID chat_thread = None" by (simp_all add: chat_thread_def zero_thread_def)
  ultimately show ?thesis using chat_ensured [of None] by (simp add: prepareMessageForSending_def Let_def)
qed

lemma board_sent: "\<exists>saved oc. SendInteractive down board chat_db = (Inr saved, oc)"
proof -
  have v: "validateMessageForSave (Some prepared_board) = Inr ()" "m_Member prepared_board \<noteq> None" "0 \<le> m_Type prepared_board" "m_Type prepared_board \<le> 7"
    by (simp_all add: validateMessageForSave_def prepared_board_def board_def business_card_def zero_dialog_def)
  obtain r db1 where i: "insert_message 6 (interactive_row prepared_board) (start_tx down chat_db) = Some (r, db1)"
    by (simp add: insert_message_def thread_of_def chat_db_def status_db_def example_thread_def Let_def)
  obtain saved db2 where s: "SaveInteractiveMessage prepared_board (start_tx down chat_db) = Inr (saved, db2)" "m_domainEvents saved = []"
    using v i by (simp add: SaveInteractiveMessage_def scan_message_def zero_message_def Let_def)
  obtain x where "announce down (m_IdempotencyKey prepared_board) (saved\<lparr>m_To := m_To prepared_board\<rparr>) db2 = Inr x"
    using announce_total [of "saved\<lparr>m_To := m_To prepared_board\<rparr>" down "m_IdempotencyKey prepared_board" db2] s(2) by auto
  with s(1) have "interactive_tx down prepared_board (start_tx down chat_db) = Inr x" by (simp add: interactive_tx_def)
  then show ?thesis by (cases x) (simp add: SendInteractive_def board_prepared process_attachments_def WithinTransaction_def)
qed

theorem send_interactive_exact_witness:
  "\<exists>saved oc r. SendInteractive down board chat_db = (Inr saved, oc) \<and> db_messages (oc_db oc) = db_messages chat_db @ [r]
     \<and> ms_id r = m_ID saved \<and> ms_interactive r = m_Interactive board"
proof -
  obtain saved oc where s: "SendInteractive down board chat_db = (Inr saved, oc)" using board_sent by blast
  have "m_Interactive prepared_board = m_Interactive board" by (simp add: prepared_board_def)
  with s send_interactive_exact [OF s board_prepared] show ?thesis by metis
qed

text \<open>Neither the button nor the message is looked at: a message without a keyboard can be answered with any code.\<close>

lemma callback_without_button:
  "\<exists>s db'. SendInteractiveCallback plain_ctx (snd (press 54 ''nonsense'')) status_db = (Inr s, db')
     \<and> (\<exists>m. message_of status_db 11 = Some m \<and> ms_type m = MessageTypeText \<and> ms_interactive m = None)"
  by (simp add: press_def SendInteractiveCallback_def WithinTransaction_def callback_Save_def pressed_def message_of_def publish_event_def Publish_def
      status_example_defs zero_message_row_def)

end
