(* ===== verification/Forward.thy ===== *)
theory Forward
  imports Interactive
begin

text \<open>
  Forwarding messages: \<^verbatim>\<open>internal/service/message_forward.go\<close>, its guard \<^verbatim>\<open>internal/service/guards/forward_messages.go\<close> and
  \<^verbatim>\<open>internal/store/postgres/message_forward_store.go\<close>. The messages the caller may read are loaded from the view
  \<^verbatim>\<open>im_thread.v_messages\<close>, copied into the thread with the target in one transaction, and handed over to the messengers.
  The search for contact names is a parameter.
\<close>

section \<open>The request\<close>

record ForwardMessagesRequest =
  fw_From :: Peer
  fw_To :: Peer
  fw_DomainID :: int
  fw_SendID :: string
  fw_SendAs :: "uuid option"
  fw_MessageIDs :: "uuid list"

record ForwardMessagesResponse =
  fwr_To :: Peer
  fwr_ThreadID :: uuid
  fwr_IDs :: "uuid list"
  fwr_Skipped :: "(uuid \<times> MessageSkipReason) list"

definition MaxForwardBatch :: nat where
  "MaxForwardBatch = 20"

fun check_targets :: "uuid list \<Rightarrow> uuid set \<Rightarrow> unit res" where
  "check_targets [] seen = Inr ()"
| "check_targets (i # ids) seen =
     (if i = uuid_nil then Inl (Err Unknown ''message_ids holds an invalid uuid'')
      else if i \<in> seen then Inl (Err Unknown ''message_ids holds an id more than once'')
      else check_targets ids (insert i seen))"

definition ForwardMessagesGuard :: "ForwardMessagesRequest option \<Rightarrow> unit res" where
  "ForwardMessagesGuard req =
     (case req of None \<Rightarrow> Inl (Err Unknown ''request is nil'')
      | Some q \<Rightarrow>
         if pr_ID (fw_From q) = uuid_nil \<or> pr_ID (fw_To q) = uuid_nil then Inl (Err Unknown ''sender and receiver ids are required'')
         else if fw_MessageIDs q = [] then Inl (Err Unknown ''message_ids is empty'')
         else if length (fw_MessageIDs q) > MaxForwardBatch then Inl (Err Unknown ''at most 20 may be forwarded at once'')
         else check_targets (fw_MessageIDs q) {})"

section \<open>The sources\<close>

text \<open>
  The columns of the view: attachments are shown for files, images and the keyboards that say they have them, a location
  and a contact for their types only. The join with the pressed buttons repeats the row of a keyboard once per button.
\<close>

definition shows_files :: "int \<Rightarrow> message_row \<Rightarrow> bool" where
  "shows_files k m \<longleftrightarrow> ms_type m = k \<or> (ms_type m = MessageTypeInteractive \<and> Option.bind (ms_interactive m) ia_Attachments \<noteq> None)"

definition view_message :: "db \<Rightarrow> message_row \<Rightarrow> Message" where
  "view_message db m =
     zero_message\<lparr>m_ID := ms_id m, m_ThreadID := ms_thread_id m, m_SenderID := ms_sender_id m, m_Type := ms_type m, m_Body := ms_body m,
       m_Metadata := ms_metadata m, m_CreatedAt := ms_created_at m, m_Interactive := ms_interactive m,
       m_Documents := (if shows_files MessageTypeFile m
         then map (\<lambda>a. \<lparr>dc_ID = uuid_nil, dc_FileID = ar_file_id a, dc_Name = ar_name a, dc_Mime = ar_mime a, dc_Size = ar_size a, dc_URL = []\<rparr>)
                (filter (\<lambda>a. ar_message_id a = ms_id m) (db_documents db)) else []),
       m_Images := (if shows_files MessageTypeImage m
         then map (\<lambda>a. \<lparr>im_ID = uuid_nil, im_FileID = ar_file_id a, im_Name = [], im_Mime = ar_mime a, im_Width = ar_width a, im_Height = ar_height a,
                  im_URL = [], im_Size = 0, im_Thumbnails = Map.empty\<rparr>) (filter (\<lambda>a. ar_message_id a = ms_id m) (db_images db)) else []),
       m_Location := (if ms_type m = MessageTypeLocation
         then map_option (\<lambda>l. \<lparr>lo_Address = lr_address l, lo_Latitude = lr_latitude l, lo_Longitude = lr_longitude l, lo_Name = lr_name l\<rparr>)
                (find (\<lambda>l. lr_message_id l = ms_id m) (db_locations db)) else None),
       m_Contact := (if ms_type m = MessageTypeContact
         then map_option (\<lambda>c. \<lparr>co_PhoneNumber = cr_phone_number c, co_Name = cr_name c, co_Email = cr_email c\<rparr>)
                (find (\<lambda>c. cr_message_id c = ms_id m) (db_cards db)) else None)\<rparr>"

definition view_rows :: "db \<Rightarrow> message_row \<Rightarrow> message_row list" where
  "view_rows db m =
     (if ms_type m = MessageTypeInteractive
      then replicate (max 1 (length (filter (\<lambda>c. cb_in_reply_to c = ms_id m) (db_callbacks db)))) m else [m])"

text \<open>The membership that decides is the active one, or else the one that ended first.\<close>

definition forward_reason :: "db \<Rightarrow> uuid \<Rightarrow> message_row \<Rightarrow> MessageSkipReason" where
  "forward_reason db c m =
     (case deleter_dialog db (ms_thread_id m) c of None \<Rightarrow> 1
      | Some d \<Rightarrow> if ms_deleted_at m \<noteq> None then 3
                  else if dl_deleted_at d \<noteq> None then 4
                  else if ms_type m = MessageTypeSystem then 5 else 0)"

definition LoadForwardSources :: "uuid list \<Rightarrow> uuid \<Rightarrow> int \<Rightarrow> db \<Rightarrow> (Message list \<times> (uuid \<times> MessageSkipReason) list) res" where
  "LoadForwardSources ids c domain db =
     (if ids = [] then Inl (Err InvalidArgument ''message ids cannot be empty'')
      else if c = uuid_nil then Inl (Err InvalidArgument ''caller id cannot be nil'')
      else Inr (splitSkipOutcome ids (map (\<lambda>m. (view_message db m)\<lparr>m_SkipReason := forward_reason db c m\<rparr>)
             (sort_key (\<lambda>m. (ms_created_at m, ms_id m))
               (concat (map (view_rows db) (filter (\<lambda>m. ms_id m \<in> set ids \<and> ms_domain_id m = domain) (db_messages db))))))))"

text \<open>The rows copied: all attachments of the source, also those that the view does not show.\<close>

definition CopyAttachments :: "uuid \<Rightarrow> uuid \<Rightarrow> db \<Rightarrow> db res" where
  "CopyAttachments src tgt db =
     (if src = uuid_nil \<or> tgt = uuid_nil then Inl (Err InvalidArgument ''source and target message ids are required'')
      else (let docs = map (\<lambda>a. a\<lparr>ar_message_id := tgt\<rparr>) (filter (\<lambda>a. ar_message_id a = src) (db_documents db));
                imgs = map (\<lambda>a. a\<lparr>ar_message_id := tgt\<rparr>) (filter (\<lambda>a. ar_message_id a = src) (db_images db))
            in if message_of db tgt = None \<and> docs @ imgs \<noteq> [] then Inl (Err Internal ''copying message attachments'')
               else Inr (db\<lparr>db_documents := db_documents db @ docs, db_images := db_images db @ imgs,
                            db_next_id := db_next_id db + length docs + length imgs\<rparr>)))"

section \<open>Copying\<close>

text \<open>What the contact service finds: the contact's id when it parses, its name and its user name.\<close>

type_synonym contact_search = "uuid list \<Rightarrow> int \<Rightarrow> (uuid option \<times> string \<times> string) list res"

definition origin_ids :: "Message list \<Rightarrow> uuid list" where
  "origin_ids sources = rev (remdups (rev (filter (\<lambda>i. i \<noteq> uuid_nil) (map m_SenderID sources))))"

definition resolveOriginNames :: "contact_search option \<Rightarrow> Message list \<Rightarrow> int \<Rightarrow> uuid \<Rightarrow> string" where
  "resolveOriginNames client sources domain =
     (case client of None \<Rightarrow> (\<lambda>_. [])
      | Some search \<Rightarrow>
         (let ids = origin_ids sources
          in if ids = [] then (\<lambda>_. [])
             else (case search ids domain of Inl _ \<Rightarrow> (\<lambda>_. [])
                   | Inr contacts \<Rightarrow> fold (\<lambda>(i, name, username) names.
                       (case i of None \<Rightarrow> names
                        | Some x \<Rightarrow> if x \<notin> set ids then names else names(x := if name = [] then username else name))) contacts (\<lambda>_. []))))"

definition forwardedType :: "Message \<Rightarrow> MessageType" where
  "forwardedType src =
     (if m_Type src = MessageTypeInteractive then (if m_Documents src \<noteq> [] \<or> m_Images src \<noteq> [] then MessageTypeFile else MessageTypeText)
      else if m_Type src = MessageTypeLocation \<and> m_Location src = None then MessageTypeText
      else if m_Type src = MessageTypeContact \<and> m_Contact src = None then MessageTypeText
      else m_Type src)"

definition saveForwardedMessage :: "coordinates \<Rightarrow> Message \<Rightarrow> db \<Rightarrow> (Message \<times> db) res" where
  "saveForwardedMessage C msg db =
     (if m_Type msg = MessageTypeLocation \<and> m_Location msg \<noteq> None then SaveMessageLocation C msg db
      else if m_Type msg = MessageTypeContact \<and> m_Contact msg \<noteq> None then SaveMessageContact msg db
      else SaveMessage msg db)"

definition forwarded_message :: "send_env \<Rightarrow> ForwardMessagesRequest \<Rightarrow> Thread \<Rightarrow> Message \<Rightarrow> string \<Rightarrow> Message" where
  "forwarded_message E q t src name =
     SetMemberFromSlice (t_Members t)
       (zero_message\<lparr>m_ThreadID := t_ID t, m_DomainID := to_int32 (fw_DomainID q), m_From := fw_From q, m_To := t_Members t, m_Body := m_Body src,
          m_Type := forwardedType src,
          m_Metadata := BuildMetadata (ev_graphemes (se_thread E)) (m_Body src) (DecodeEntitiesFromMetadata (pv_json (se_providers E)) (m_Metadata src)),
          m_SendAs := fw_SendAs q, m_BotControllerMemberID := t_BotControllerID t, m_ForwardOrigin := NewInternalForwardOrigin (Some src) name,
          m_Location := m_Location src, m_Contact := m_Contact src, m_Documents := m_Documents src, m_Images := m_Images src\<rparr>)"

definition forwardOne :: "send_env \<Rightarrow> ForwardMessagesRequest \<Rightarrow> Thread \<Rightarrow> (uuid \<Rightarrow> string) \<Rightarrow> Message \<Rightarrow> db \<Rightarrow> (Message \<times> db) res" where
  "forwardOne E q t names src db =
     (let msg = forwarded_message E q t src (names (m_SenderID src))
      in bindr (saveForwardedMessage (se_coordinates E) msg db) (\<lambda>(saved0, db1).
           (let saved = saved0\<lparr>m_To := t_Members t, m_From := fw_From q, m_SendAs := fw_SendAs q, m_ForwardOrigin := m_ForwardOrigin msg,
                          m_BotControllerMemberID := t_BotControllerID t, m_Documents := m_Documents msg, m_Images := m_Images msg,
                          m_Location := m_Location msg, m_Contact := m_Contact msg, m_Member := m_Member msg\<rparr>
            in bindr (if m_Documents src \<noteq> [] \<or> m_Images src \<noteq> [] then CopyAttachments (m_ID src) (m_ID saved) db1 else Inr db1) (\<lambda>db2.
                 announce E (fw_SendID q) saved db2))))"

fun forward_all :: "send_env \<Rightarrow> ForwardMessagesRequest \<Rightarrow> Thread \<Rightarrow> (uuid \<Rightarrow> string) \<Rightarrow> Message list \<Rightarrow> db \<Rightarrow> (Message list \<times> db) res" where
  "forward_all E q t names [] db = Inr ([], db)"
| "forward_all E q t names (src # srcs) db =
     bindr (forwardOne E q t names src db) (\<lambda>(m, db1). bindr (forward_all E q t names srcs db1) (\<lambda>(ms, db2). Inr (m # ms, db2)))"

definition send_copy :: "providers \<Rightarrow> Message \<Rightarrow> outcome \<Rightarrow> outcome" where
  "send_copy P m oc =
     (let o1 = SendMessage P (Some m) (oc_db oc)
      in \<lparr>oc_panic = oc_panic oc \<or> oc_panic o1, oc_requests = oc_requests oc @ oc_requests o1, oc_errors = oc_errors oc @ oc_errors o1, oc_db = oc_db o1\<rparr>)"

definition ForwardMessages :: "send_env \<Rightarrow> contact_search option \<Rightarrow> ForwardMessagesRequest option \<Rightarrow> db \<Rightarrow> ForwardMessagesResponse res \<times> outcome" where
  "ForwardMessages E client req db =
     (case ForwardMessagesGuard req of Inl _ \<Rightarrow> (Inl (Err InvalidArgument ''validating forward request''), start_outcome db)
      | Inr _ \<Rightarrow>
         (let q = the req in
          case LoadForwardSources (fw_MessageIDs q) (pr_ID (fw_From q)) (to_int32 (fw_DomainID q)) db of
            Inl e \<Rightarrow> (Inl e, start_outcome db)
          | Inr (sources, skipped) \<Rightarrow>
              if sources = [] then (Inl (Err NotFound ''none of the requested messages can be forwarded''), start_outcome db)
              else (case EnsureDirectThread (se_thread E) (Some \<lparr>ed_DomainID = fw_DomainID q, ed_From = fw_From q, ed_To = fw_To q, ed_SendAs = fw_SendAs q\<rparr>) db of
                      (Inl e, db1) \<Rightarrow> (Inl e, start_outcome db1)
                    | (Inr t, db1) \<Rightarrow>
                        (case WithinTransaction (forward_all E q t (resolveOriginNames client sources (to_int32 (fw_DomainID q))) sources) (start_tx E db1) of
                           (Inl e, db2) \<Rightarrow> (Inl e, start_outcome db2)
                         | (Inr copies, db2) \<Rightarrow>
                             (Inr \<lparr>fwr_To = fw_To q, fwr_ThreadID = t_ID t, fwr_IDs = map m_ID copies, fwr_Skipped = skipped\<rparr>,
                              fold (send_copy (se_providers E)) copies (start_outcome db2))))))"

section \<open>Which messages are copied\<close>

definition forwardable :: "db \<Rightarrow> uuid \<Rightarrow> message_row \<Rightarrow> bool" where
  "forwardable db c m \<longleftrightarrow> ms_deleted_at m = None \<and> ms_type m \<noteq> MessageTypeSystem
     \<and> (\<exists>d \<in> set (db_dialogs db). dl_thread_id d = ms_thread_id m \<and> dl_member_id d = c \<and> active d)"

lemma deleter_dialog_active:
  "(\<exists>d. deleter_dialog db t c = Some d \<and> dl_deleted_at d = None)
     \<longleftrightarrow> (\<exists>d \<in> set (db_dialogs db). dl_thread_id d = t \<and> dl_member_id d = c \<and> active d)"
proof -
  let ?ds = "filter (\<lambda>d. dl_thread_id d = t \<and> dl_member_id d = c) (db_dialogs db)"
  show ?thesis
  proof (cases "find active ?ds")
    case None
    then have n: "\<forall>d \<in> set ?ds. dl_deleted_at d \<noteq> None" by (simp add: find_None_iff active_def)
    then have "first_min (\<lambda>d. the (dl_deleted_at d)) ?ds = Some d \<Longrightarrow> dl_deleted_at d \<noteq> None" for d by (auto dest!: first_min_Some)
    with None n show ?thesis by (auto simp: deleter_dialog_def Let_def active_def)
  next
    case (Some d)
    then have "active d" "d \<in> set ?ds" by (auto dest: find_SomeD)
    with Some show ?thesis by (auto simp: deleter_dialog_def active_def)
  qed
qed

lemma forward_reason_0: "forward_reason db c m = 0 \<longleftrightarrow> forwardable db c m"
proof -
  have "forward_reason db c m = 0 \<longleftrightarrow> ms_deleted_at m = None \<and> ms_type m \<noteq> MessageTypeSystem
      \<and> (\<exists>d. deleter_dialog db (ms_thread_id m) c = Some d \<and> dl_deleted_at d = None)"
    by (auto simp: forward_reason_def split: option.split)
  then show ?thesis by (simp add: forwardable_def deleter_dialog_active)
qed

text \<open>A repeated row counts once: what is kept are the rows without a reason, each once and in order.\<close>

lemma split_rows_keep:
  assumes "inj_on (m_ID \<circ> f) (set ys)"
  obtains zs sk where "split_rows (map f ys) seen = (map f zs, sk, seen \<union> (m_ID \<circ> f) ` set ys)" "distinct zs"
    "set zs = {y \<in> set ys. m_ID (f y) \<notin> seen \<and> m_SkipReason (f y) = 0}"
    "fst ` set sk = {m_ID (f y) | y. y \<in> set ys \<and> m_ID (f y) \<notin> seen \<and> m_SkipReason (f y) \<noteq> 0}"
    "sorted_wrt P ys \<longrightarrow> sorted_wrt P zs"
  using assms
proof (induction ys arbitrary: seen thesis)
  case Nil
  then show ?case by simp
next
  case (Cons y ys)
  have inj: "inj_on (m_ID \<circ> f) (set ys)" using Cons.prems(2) by (rule inj_on_subset) auto
  show ?case
  proof (cases "m_ID (f y) \<in> seen")
    case True
    obtain zs sk where z: "split_rows (map f ys) seen = (map f zs, sk, seen \<union> (m_ID \<circ> f) ` set ys)" "distinct zs"
        "set zs = {y \<in> set ys. m_ID (f y) \<notin> seen \<and> m_SkipReason (f y) = 0}"
        "fst ` set sk = {m_ID (f y) | y. y \<in> set ys \<and> m_ID (f y) \<notin> seen \<and> m_SkipReason (f y) \<noteq> 0}"
        "sorted_wrt P ys \<longrightarrow> sorted_wrt P zs" using Cons.IH [OF _ inj] by blast
    show ?thesis by (rule Cons.prems(1) [of zs sk]) (use True z in auto)
  next
    case False
    obtain zs sk where z: "split_rows (map f ys) (insert (m_ID (f y)) seen) = (map f zs, sk, insert (m_ID (f y)) seen \<union> (m_ID \<circ> f) ` set ys)"
        "distinct zs" "set zs = {x \<in> set ys. m_ID (f x) \<notin> insert (m_ID (f y)) seen \<and> m_SkipReason (f x) = 0}"
        "fst ` set sk = {m_ID (f x) | x. x \<in> set ys \<and> m_ID (f x) \<notin> insert (m_ID (f y)) seen \<and> m_SkipReason (f x) \<noteq> 0}"
        "sorted_wrt P ys \<longrightarrow> sorted_wrt P zs" using Cons.IH [OF _ inj] by blast
    have same: "m_ID (f x) = m_ID (f y) \<longleftrightarrow> x = y" if "x \<in> set ys" for x using Cons.prems(2) that by (auto simp: inj_on_def)
    show ?thesis
    proof (cases "m_SkipReason (f y) = 0")
      case True
      show ?thesis by (rule Cons.prems(1) [of "y # zs" sk]) (use True False z same in auto)
    next
      case r: False
      show ?thesis by (rule Cons.prems(1) [of zs "(m_ID (f y), m_SkipReason (f y)) # sk"]) (use r False z same in auto)
    qed
  qed
qed

lemma view_message_simps [simp]: "m_ID (view_message db m) = ms_id m" "m_Body (view_message db m) = ms_body m" "m_SenderID (view_message db m) = ms_sender_id m"
  by (simp_all add: view_message_def zero_message_def)

abbreviation (input) source :: "db \<Rightarrow> uuid \<Rightarrow> message_row \<Rightarrow> Message" where
  "source db c m \<equiv> (view_message db m)\<lparr>m_SkipReason := forward_reason db c m\<rparr>"

lemma set_view_rows [simp]: "set (view_rows db m) = {m}"
  by (simp add: view_rows_def)

lemma LoadForwardSources_exact:
  assumes "LoadForwardSources ids c domain db = Inr (sources, skipped)" "distinct (map ms_id (db_messages db))"
  obtains ms where "sources = map (source db c) ms" "distinct ms" "sorted (map (\<lambda>m. (ms_created_at m, ms_id m)) ms)"
    "set ms = {m \<in> set (db_messages db). ms_id m \<in> set ids \<and> ms_domain_id m = domain \<and> forwardable db c m}"
    "fst ` set skipped = set ids - ms_id ` set ms"
proof -
  let ?key = "\<lambda>m. (ms_created_at m, ms_id m)"
  let ?target = "filter (\<lambda>m. ms_id m \<in> set ids \<and> ms_domain_id m = domain) (db_messages db)"
  define ys where "ys = sort_key ?key (concat (map (view_rows db) ?target))"
  have ys: "set ys = set ?target" by (simp add: ys_def)
  have "inj_on ms_id (set (db_messages db))" using assms(2) by (simp add: distinct_map)
  then have "inj_on (m_ID \<circ> source db c) (set ys)" unfolding comp_def ys by (simp add: inj_on_def)
  from split_rows_keep [OF this, where seen = "{}" and P = "\<lambda>a b. ?key a \<le> ?key b"]
  obtain ms sk where m: "split_rows (map (source db c) ys) {} = (map (source db c) ms, sk, (m_ID \<circ> source db c) ` set ys)" "distinct ms"
      "set ms = {y \<in> set ys. m_SkipReason (source db c y) = 0}"
      "fst ` set sk = {m_ID (source db c y) | y. y \<in> set ys \<and> m_SkipReason (source db c y) \<noteq> 0}"
      "sorted_wrt (\<lambda>a b. ?key a \<le> ?key b) ys \<longrightarrow> sorted_wrt (\<lambda>a b. ?key a \<le> ?key b) ms"
    by auto
  have so: "sources = map (source db c) ms" "skipped = sk @ missing_ids ids (ms_id ` set ys)"
    using assms(1) m(1) by (auto simp: LoadForwardSources_def splitSkipOutcome_def ys_def [symmetric] comp_def split: if_splits)
  have "sorted (map ?key ys)" by (simp add: ys_def)
  then have "sorted (map ?key ms)" using m(5) by (simp add: sorted_map)
  moreover have "set ms = {m \<in> set (db_messages db). ms_id m \<in> set ids \<and> ms_domain_id m = domain \<and> forwardable db c m}"
    using m(3) by (auto simp: ys forward_reason_0)
  moreover have "fst ` set skipped = set ids - ms_id ` set ms"
  proof -
    have "fst ` set skipped = ms_id ` {y \<in> set ys. \<not> forwardable db c y} \<union> (set ids - ms_id ` set ys)"
      using m(4) missing_ids_props [of ids "ms_id ` set ys"] by (auto simp: so(2) image_Un forward_reason_0)
    also have "\<dots> = set ids - ms_id ` set ms"
      using m(3) \<open>inj_on ms_id (set (db_messages db))\<close> by (auto simp: ys forward_reason_0 inj_on_def)
    finally show ?thesis .
  qed
  ultimately show thesis by (rule that [OF so(1) m(2)])
qed

section \<open>What a copy is\<close>

text \<open>A message stored in its thread with the next number, the thread's counter moved by one.\<close>

definition stored :: "Message \<Rightarrow> db \<Rightarrow> uuid \<Rightarrow> db \<Rightarrow> bool" where
  "stored msg db i db' \<longleftrightarrow> (\<exists>r th. thread_of db (m_ThreadID msg) = Some th \<and> db_messages db' = db_messages db @ [r] \<and> ms_id r = i
     \<and> ms_thread_id r = m_ThreadID msg \<and> ms_body r = m_Body msg \<and> ms_forward r = addForwardOriginArgs msg \<and> ms_seq r = th_last_seq th + 1
     \<and> db_threads db' = db_threads (update_thread (m_ThreadID msg) (\<lambda>x. x\<lparr>th_last_seq := th_last_seq x + 1\<rparr>) db))"

lemma stored_cong: "stored msg db i db1 \<Longrightarrow> db_messages db' = db_messages db1 \<Longrightarrow> db_threads db' = db_threads db1 \<Longrightarrow> stored msg db i db'"
  by (simp add: stored_def)

lemma insert_stored:
  assumes "insert_message (m_ThreadID msg) row db = Some (r, db')" "ms_body row = m_Body msg" "ms_forward row = addForwardOriginArgs msg"
  shows "stored msg db (ms_id r) db'"
  using assms by (auto simp: insert_message_def stored_def Let_def update_thread_def split: option.splits)

lemma saveForwarded_stored:
  assumes "saveForwardedMessage C msg db = Inr (saved, db')"
  shows "stored msg db (m_ID saved) db' \<and> m_domainEvents saved = []"
proof -
  have l: "stored msg db (m_ID saved) db' \<and> m_domainEvents saved = []" if s: "SaveMessageLocation C msg db = Inr (saved, db')"
  proof -
    from s obtain r db1 where "insert_message (m_ThreadID msg) (content_row msg) db = Some (r, db1)" "m_ID saved = ms_id r" "m_domainEvents saved = []"
        "db_messages db' = db_messages db1" "db_threads db' = db_threads db1"
      by (auto simp: SaveMessageLocation_def insert_content_def bindr_Inr_iff scan_message_def zero_message_def split: option.splits if_splits)
    then show ?thesis using insert_stored [of msg "content_row msg" db r db1] by (auto simp: content_row_def intro: stored_cong)
  qed
  have c: "stored msg db (m_ID saved) db' \<and> m_domainEvents saved = []" if s: "SaveMessageContact msg db = Inr (saved, db')"
  proof -
    from s obtain r db1 where "insert_message (m_ThreadID msg) (content_row msg) db = Some (r, db1)" "m_ID saved = ms_id r" "m_domainEvents saved = []"
        "db_messages db' = db_messages db1" "db_threads db' = db_threads db1"
      by (auto simp: SaveMessageContact_def insert_content_def bindr_Inr_iff scan_message_def zero_message_def split: option.splits if_splits)
    then show ?thesis using insert_stored [of msg "content_row msg" db r db1] by (auto simp: content_row_def intro: stored_cong)
  qed
  have m: "stored msg db (m_ID saved) db' \<and> m_domainEvents saved = []" if s: "SaveMessage msg db = Inr (saved, db')"
  proof -
    from s obtain row r where i: "insert_message (m_ThreadID msg) row db = Some (r, db')" "m_ID saved = ms_id r" "m_domainEvents saved = []"
        "ms_body row = m_Body msg" "ms_forward row = addForwardOriginArgs msg"
      by (auto simp: SaveMessage_def bindr_Inr_iff scan_message_def zero_message_def Let_def split: option.splits if_splits)
    then show ?thesis using insert_stored [OF i(1)] by simp
  qed
  show ?thesis using assms l c m by (auto simp: saveForwardedMessage_def split: if_splits)
qed

lemma announce_keeps:
  assumes "announce E sendID m db = Inr (m', db')" "m_domainEvents m = []"
  shows "m' = m \<and> db_messages db' = db_messages db \<and> db_threads db' = db_threads db"
proof -
  from assms(1) obtain db1 where i: "insertSentStatuses (se_pick E) (ev_now (se_thread E)) m db = Inr db1"
    and p: "publish_created E sendID m db1 = Inr (m', db')" by (auto simp: announce_def bindr_Inr_iff)
  show ?thesis using keeps_content_sent [OF i] by (rule_tac publish_created_Inr [OF p assms(2)]) (simp add: keeps_content_def)
qed

lemma forwarded_message_simps [simp]:
  "m_ThreadID (forwarded_message E q t src n) = t_ID t" "m_Body (forwarded_message E q t src n) = m_Body src"
  "m_ForwardOrigin (forwarded_message E q t src n) = NewInternalForwardOrigin (Some src) n"
  by (simp_all add: forwarded_message_def)

lemma forwardOne_stored:
  assumes "forwardOne E q t names src db = Inr (m, db')"
  shows "stored (forwarded_message E q t src (names (m_SenderID src))) db (m_ID m) db'"
proof -
  let ?msg = "forwarded_message E q t src (names (m_SenderID src))"
  let ?f = "\<lambda>saved0. saved0\<lparr>m_To := t_Members t, m_From := fw_From q, m_SendAs := fw_SendAs q, m_ForwardOrigin := m_ForwardOrigin ?msg,
      m_BotControllerMemberID := t_BotControllerID t, m_Documents := m_Documents ?msg, m_Images := m_Images ?msg,
      m_Location := m_Location ?msg, m_Contact := m_Contact ?msg, m_Member := m_Member ?msg\<rparr>"
  from assms obtain saved0 db1 db2 where s: "saveForwardedMessage (se_coordinates E) ?msg db = Inr (saved0, db1)"
    and c: "(if m_Documents src \<noteq> [] \<or> m_Images src \<noteq> [] then CopyAttachments (m_ID src) (m_ID (?f saved0)) db1 else Inr db1) = Inr db2"
    and a: "announce E (fw_SendID q) (?f saved0) db2 = Inr (m, db')"
    unfolding forwardOne_def Let_def by (auto simp: bindr_Inr_iff)
  have e: "m_domainEvents (?f saved0) = []" using saveForwarded_stored [OF s] by simp
  have "db_messages db2 = db_messages db1 \<and> db_threads db2 = db_threads db1" using c by (auto simp: CopyAttachments_def Let_def split: if_splits)
  moreover have "m = ?f saved0 \<and> db_messages db' = db_messages db2 \<and> db_threads db' = db_threads db2" by (rule announce_keeps [OF a e])
  ultimately show ?thesis using saveForwarded_stored [OF s] by (auto intro: stored_cong)
qed

text \<open>The row of a copy and its source.\<close>

definition copy_of :: "uuid \<Rightarrow> Message \<Rightarrow> message_row \<Rightarrow> bool" where
  "copy_of t src r \<longleftrightarrow> ms_thread_id r = t \<and> ms_body r = m_Body src
     \<and> (\<exists>name sent. ms_forward r = Some (1, Some (m_SenderID src), name, None, None, sent, Some (m_ID src)))"

lemma thread_of_stored:
  assumes "stored msg db i db'" "thread_of db (m_ThreadID msg) = Some th"
  shows "thread_of db' (m_ThreadID msg) = Some (th\<lparr>th_last_seq := th_last_seq th + 1\<rparr>)"
proof -
  let ?u = "update_thread (m_ThreadID msg) (\<lambda>x. x\<lparr>th_last_seq := th_last_seq x + 1\<rparr>) db"
  have "thread_of db' (m_ThreadID msg) = thread_of ?u (m_ThreadID msg)" using assms(1) by (auto simp: stored_def intro: thread_of_cong)
  with assms(2) show ?thesis by (simp add: thread_of_update_thread)
qed

lemma forward_all_exact:
  assumes "forward_all E q t names srcs db = Inr (ms, db')" "thread_of db (t_ID t) = Some th"
  shows "\<exists>rs. db_messages db' = db_messages db @ rs \<and> map ms_id rs = map m_ID ms \<and> list_all2 (copy_of (t_ID t)) srcs rs
    \<and> map ms_seq rs = map (\<lambda>k. th_last_seq th + 1 + int k) [0..<length srcs]"
  using assms
proof (induction srcs arbitrary: db ms th)
  case (Cons src srcs)
  from Cons.prems(1) obtain m db1 ms' where o: "forwardOne E q t names src db = Inr (m, db1)" and rest: "forward_all E q t names srcs db1 = Inr (ms', db')"
    and ms: "ms = m # ms'" by (auto simp: bindr_Inr_iff)
  note st = forwardOne_stored [OF o]
  have th1: "thread_of db1 (t_ID t) = Some (th\<lparr>th_last_seq := th_last_seq th + 1\<rparr>)"
    using thread_of_stored [OF st, of th] Cons.prems(2) by simp
  from st Cons.prems(2) obtain r where r: "db_messages db1 = db_messages db @ [r]" "ms_id r = m_ID m" "ms_seq r = th_last_seq th + 1" "copy_of (t_ID t) src r"
    by (auto simp: stored_def copy_of_def addForwardOriginArgs_def NewInternalForwardOrigin_def nullIfEmpty_def)
  from Cons.IH [OF rest th1] obtain rs where rs: "db_messages db' = db_messages db1 @ rs" "map ms_id rs = map m_ID ms'" "list_all2 (copy_of (t_ID t)) srcs rs"
      "map ms_seq rs = map (\<lambda>k. th_last_seq th + 1 + 1 + int k) [0..<length srcs]" by auto
  have "map ms_seq (r # rs) = map (\<lambda>k. th_last_seq th + 1 + int k) [0..<length (src # srcs)]"
    using r(3) rs(4) by (simp add: map_upt_Suc del: upt_Suc)
  then show ?case using r rs ms by (intro exI [of _ "r # rs"]) simp
qed simp

lemma forward_all_needs_thread:
  assumes "forward_all E q t names srcs db = Inr (ms, db')" "srcs \<noteq> []"
  shows "\<exists>th. thread_of db (t_ID t) = Some th"
proof -
  from assms obtain src where "\<exists>m db1. forwardOne E q t names src db = Inr (m, db1)" by (cases srcs) (auto simp: bindr_Inr_iff)
  then show ?thesis by (auto dest!: forwardOne_stored simp: stored_def)
qed

lemma send_copies_only_externals: "only_externals (oc_db oc) (oc_db (fold (send_copy P) cs oc))"
proof (induction cs arbitrary: oc)
  case (Cons c cs)
  have "oc_db (send_copy P c oc) = oc_db (SendMessage P (Some c) (oc_db oc))" by (simp add: send_copy_def Let_def)
  then have "only_externals (oc_db oc) (oc_db (send_copy P c oc))" using SendMessage_only_externals by metis
  with Cons.IH [of "send_copy P c oc"] show ?case by (simp add: only_externals_trans)
qed simp

definition forward_thread :: "ForwardMessagesRequest \<Rightarrow> EnsureDirectThreadRequest" where
  "forward_thread q = \<lparr>ed_DomainID = fw_DomainID q, ed_From = fw_From q, ed_To = fw_To q, ed_SendAs = fw_SendAs q\<rparr>"

lemma ForwardMessages_Inr:
  assumes "ForwardMessages E client (Some q) db = (Inr resp, oc)" "EnsureDirectThread (se_thread E) (Some (forward_thread q)) db = (Inr t, db1)"
  obtains sources skipped copies db2 where
    "LoadForwardSources (fw_MessageIDs q) (pr_ID (fw_From q)) (to_int32 (fw_DomainID q)) db = Inr (sources, skipped)" "sources \<noteq> []"
    "forward_all E q t (resolveOriginNames client sources (to_int32 (fw_DomainID q))) sources (start_tx E db1) = Inr (copies, db2)"
    "resp = \<lparr>fwr_To = fw_To q, fwr_ThreadID = t_ID t, fwr_IDs = map m_ID copies, fwr_Skipped = skipped\<rparr>"
    "oc = fold (send_copy (se_providers E)) copies (start_outcome db2)"
  using assms
  by (auto simp: ForwardMessages_def forward_thread_def [symmetric] WithinTransaction_Inr Let_def split: sum.splits prod.splits if_splits intro: that)

text \<open>
  C16. Forwarding: the messages that are copied are exactly those of the request that exist in the caller's domain, are neither deleted nor system
  messages, and belong to a thread of which the caller is an active member; each is copied once, in the order of their creation, with
  consecutive numbers at the end of the destination, with its text and with its sender and id as origin; and every id of the request
  that was not copied is reported as skipped.
\<close>

theorem forward_exact:
  assumes "ForwardMessages E client (Some q) db = (Inr resp, oc)" "EnsureDirectThread (se_thread E) (Some (forward_thread q)) db = (Inr t, db1)"
    and "distinct (map ms_id (db_messages db))"
  shows "\<exists>ms rs th. set ms = {m \<in> set (db_messages db). ms_id m \<in> set (fw_MessageIDs q) \<and> ms_domain_id m = to_int32 (fw_DomainID q)
        \<and> forwardable db (pr_ID (fw_From q)) m} \<and> distinct ms \<and> sorted (map (\<lambda>m. (ms_created_at m, ms_id m)) ms)
    \<and> db_messages (oc_db oc) = db_messages db1 @ rs \<and> fwr_IDs resp = map ms_id rs
    \<and> list_all2 (\<lambda>m. copy_of (t_ID t) (view_message db m)) ms rs
    \<and> thread_of db1 (t_ID t) = Some th \<and> map ms_seq rs = map (\<lambda>k. th_last_seq th + 1 + int k) [0..<length ms]
    \<and> fst ` set (fwr_Skipped resp) = set (fw_MessageIDs q) - ms_id ` set ms"
proof -
  obtain sources skipped copies db2 where l: "LoadForwardSources (fw_MessageIDs q) (pr_ID (fw_From q)) (to_int32 (fw_DomainID q)) db = Inr (sources, skipped)"
      "sources \<noteq> []" and f: "forward_all E q t (resolveOriginNames client sources (to_int32 (fw_DomainID q))) sources (start_tx E db1) = Inr (copies, db2)"
    and r: "resp = \<lparr>fwr_To = fw_To q, fwr_ThreadID = t_ID t, fwr_IDs = map m_ID copies, fwr_Skipped = skipped\<rparr>"
      "oc = fold (send_copy (se_providers E)) copies (start_outcome db2)" by (rule ForwardMessages_Inr [OF assms(1,2)])
  obtain ms where ms: "sources = map (source db (pr_ID (fw_From q))) ms" "distinct ms" "sorted (map (\<lambda>m. (ms_created_at m, ms_id m)) ms)"
      "set ms = {m \<in> set (db_messages db). ms_id m \<in> set (fw_MessageIDs q) \<and> ms_domain_id m = to_int32 (fw_DomainID q) \<and> forwardable db (pr_ID (fw_From q)) m}"
      "fst ` set skipped = set (fw_MessageIDs q) - ms_id ` set ms" by (rule LoadForwardSources_exact [OF l(1) assms(3)])
  obtain th where th: "thread_of db1 (t_ID t) = Some th" using forward_all_needs_thread [OF f l(2)] by auto
  from forward_all_exact [OF f, of th] th obtain rs where rs: "db_messages db2 = db_messages db1 @ rs" "map ms_id rs = map m_ID copies"
      "list_all2 (copy_of (t_ID t)) sources rs" "map ms_seq rs = map (\<lambda>k. th_last_seq th + 1 + int k) [0..<length sources]" by auto
  have "db_messages (oc_db oc) = db_messages db2"
    using only_externals_simps [OF send_copies_only_externals] r(2) by (simp add: start_outcome_def)
  moreover have "list_all2 (\<lambda>m. copy_of (t_ID t) (view_message db m)) ms rs"
    using rs(3) unfolding ms(1) list_all2_map1 by (rule list_all2_mono) (simp add: copy_of_def)
  ultimately show ?thesis using ms rs th r(1) by (intro exI [of _ ms] exI [of _ rs] exI [of _ th]) simp
qed

section \<open>An example\<close>

definition pass_on :: ForwardMessagesRequest where
  "pass_on = \<lparr>fw_From = example_peer 52 ''Helper'', fw_To = example_peer 54 ''Ann'', fw_DomainID = 7, fw_SendID = ''f1'', fw_SendAs = None,
     fw_MessageIDs = [11, 99]\<rparr>"

lemma pass_on_ensured: "EnsureDirectThread (se_thread example_send) (Some (forward_thread pass_on)) chat_db = (Inr chat_thread, chat_db)"
  using chat_ensured [of None] by (simp add: forward_thread_def text_thread_def pass_on_def hello_def)

lemma pass_on_loaded: "LoadForwardSources [11, 99] 52 7 chat_db = Inr ([source chat_db 52 (status_message 11 1)], [(99, 1)])"
proof -
  have "forwardable chat_db 52 (status_message 11 1)"
    by (simp add: forwardable_def chat_db_def status_message_def zero_message_row_def example_dialog_def active_def)
  then have "forward_reason chat_db 52 (status_message 11 1) = 0" by (simp add: forward_reason_0)
  moreover have "concat (map (view_rows chat_db) (filter (\<lambda>m. ms_id m \<in> set [11, 99] \<and> ms_domain_id m = 7) (db_messages chat_db))) = [status_message 11 1]"
    by (simp add: chat_db_def status_db_def view_rows_def status_message_def)
  moreover have "ms_id (status_message 11 1) = 11" by (simp add: status_message_def)
  ultimately show ?thesis by (simp add: LoadForwardSources_def splitSkipOutcome_def)
qed

lemma announce_pair: "m_domainEvents m = [] \<Longrightarrow> \<exists>m' db'. announce E s m db = Inr (m', db')"
  using announce_total [of m E s db] by (metis surj_pair)

lemma pass_on_copied: "\<exists>x. forwardOne example_send pass_on chat_thread names (source chat_db 52 (status_message 11 1)) (start_tx example_send chat_db) = Inr x"
proof -
  let ?src = "source chat_db 52 (status_message 11 1)"
  let ?msg = "forwarded_message example_send pass_on chat_thread ?src (names (m_SenderID ?src))"
  have src: "m_Documents ?src = []" "m_Images ?src = []" "forwardedType ?src = MessageTypeText"
    by (simp_all add: view_message_def forwardedType_def zero_message_def shows_files_def status_message_def zero_message_row_def)
  have m: "m_Member ?msg = Some (zero_dialog\<lparr>bm_ID := 2\<rparr>)" "m_DomainID ?msg = 7" "m_Type ?msg = MessageTypeText"
    by (simp_all add: src forwarded_message_def SetMemberFromSlice_def GetSender_def pass_on_def chat_thread_def zero_thread_def chat_members json_member_def
        example_dialog_def zero_dialog_def example_peer_def zero_message_def to_int32_def)
  have "m_ReplyTo ?msg = None" by (simp add: forwarded_message_def zero_message_def)
  then have "\<exists>p. SaveMessage ?msg (start_tx example_send chat_db) = Inr p"
    using m by (simp add: SaveMessage_def validateMessageForSave_def Let_def message_exists_def replyToArg_def addForwardOriginArgs_def NewInternalForwardOrigin_def
        insert_message_def chat_thread_def zero_thread_def zero_dialog_def thread_of_def chat_db_def status_db_def example_thread_def status_message_def)
  then obtain saved db1 where s: "saveForwardedMessage (se_coordinates example_send) ?msg (start_tx example_send chat_db) = Inr (saved, db1)"
    using m(3) by (auto simp: saveForwardedMessage_def)
  have e: "m_domainEvents saved = []" using saveForwarded_stored [OF s] by simp
  show ?thesis using s src e by (simp add: forwardOne_def Let_def announce_pair)
qed

lemma pass_on_sent: "\<exists>resp oc. ForwardMessages example_send None (Some pass_on) chat_db = (Inr resp, oc)"
proof -
  have "ForwardMessagesGuard (Some pass_on) = Inr ()" by (simp add: ForwardMessagesGuard_def pass_on_def example_peer_def MaxForwardBatch_def)
  moreover have "pr_ID (fw_From pass_on) = 52" "to_int32 (fw_DomainID pass_on) = 7" "fw_MessageIDs pass_on = [11, 99]"
    by (simp_all add: pass_on_def example_peer_def to_int32_def)
  moreover obtain m db1 where "forwardOne example_send pass_on chat_thread (\<lambda>_. []) (source chat_db 52 (status_message 11 1)) (start_tx example_send chat_db)
      = Inr (m, db1)" using pass_on_copied by (metis surj_pair)
  ultimately show ?thesis
    by (simp add: ForwardMessages_def pass_on_loaded forward_thread_def [symmetric] pass_on_ensured resolveOriginNames_def WithinTransaction_def)
qed

theorem forward_exact_witness:
  "\<exists>resp oc r. ForwardMessages example_send None (Some pass_on) chat_db = (Inr resp, oc) \<and> last (db_messages (oc_db oc)) = r
     \<and> ms_seq r = 4 \<and> ms_thread_id r = 6 \<and> fst ` set (fwr_Skipped resp) = {99}"
proof -
  obtain resp oc where f: "ForwardMessages example_send None (Some pass_on) chat_db = (Inr resp, oc)" using pass_on_sent by blast
  have d: "distinct (map ms_id (db_messages chat_db))" by (simp add: chat_db_def status_db_def status_message_def)
  have th: "t_ID chat_thread = 6" "thread_of chat_db 6 = Some (example_thread\<lparr>th_last_seq := 3\<rparr>)"
    by (simp_all add: thread_of_def chat_db_def status_db_def example_thread_def chat_thread_def)
  have own: "{m \<in> set (db_messages chat_db). ms_id m \<in> set (fw_MessageIDs pass_on) \<and> ms_domain_id m = to_int32 (fw_DomainID pass_on)
      \<and> forwardable chat_db (pr_ID (fw_From pass_on)) m} = {status_message 11 1}"
    by (auto simp: forwardable_def chat_db_def status_db_def status_message_def zero_message_row_def example_dialog_def active_def pass_on_def to_int32_def
        example_peer_def)
  from forward_exact [OF f pass_on_ensured d] obtain ms rs where ms: "set ms = {status_message 11 1}" "distinct ms"
      "db_messages (oc_db oc) = db_messages chat_db @ rs" "list_all2 (\<lambda>m. copy_of 6 (view_message chat_db m)) ms rs"
      "map ms_seq rs = map (\<lambda>k. 4 + int k) [0..<length ms]" "fst ` set (fwr_Skipped resp) = {11, 99} - ms_id ` set ms"
    unfolding own th by (auto simp: pass_on_def)
  obtain m where m: "ms = [m]" "m = status_message 11 1" using ms(1,2) by (cases ms) (auto dest!: subset_singletonD)
  then obtain r where "rs = [r]" "copy_of 6 (view_message chat_db m) r" using ms(4) by (auto simp: list_all2_Cons1)
  with ms m f show ?thesis by (intro exI [of _ resp] exI [of _ oc] exI [of _ r]) (auto simp: copy_of_def status_message_def)
qed

end
