(* ===== verification/Paginator.thy ===== *)
theory Paginator
  imports Shared "HOL-Library.List_Lexorder" "HOL-Library.Multiset"
begin

text \<open>
  \<^verbatim>\<open>internal/store/query_object/paginator.go\<close>: keyset pagination. A query before pagination is the
  list of its rows with a reader of their columns; \<open>Apply\<close> and \<open>ApplyAround\<close> are what the decorated statement returns on them,
  \<open>BuildPageInfo\<close> and \<open>BuildAroundPageInfo\<close> cut the page and its cursors out of the rows that came
  back. The paginator is generic in the cursor; \<open>zc\<close> is the zero value of that type.
  A column value is the number that orders it. \<^verbatim>\<open>uint64\<close> limits are numbers with the wrap-around written out.

  The lemmas say that the disjunction built for a cursor is the lexicographic comparison of the columns, that the
  backward order is the reverse of the forward one, and what a page is as a segment of the whole listing.
\<close>

section \<open>Orders, columns and cursors\<close>

abbreviation (input) DirectionAfter :: string where "DirectionAfter \<equiv> ''after''"
abbreviation (input) DirectionBefore :: string where "DirectionBefore \<equiv> ''before''"
abbreviation (input) DirectionAround :: string where "DirectionAround \<equiv> ''around''"
abbreviation (input) OrderAsc :: string where "OrderAsc \<equiv> ''ASC''"
abbreviation (input) OrderDesc :: string where "OrderDesc \<equiv> ''DESC''"

definition order_reverse :: "string \<Rightarrow> string" where
  "order_reverse ord = (if ord = OrderAsc then OrderDesc else OrderAsc)"

record Column =
  cl_Name :: string
  cl_Order :: string

type_synonym CursorValues = "string \<rightharpoonup> int"

text \<open>Of the codec and the mapper, the methods that paging calls; nil is None.\<close>

record 'c Config =
  cf_Limit :: nat
  cf_Cursor :: 'c
  cf_HasCursor :: bool
  cf_Direction :: string
  cf_Columns :: "Column list"
  cf_Codec :: "('c \<Rightarrow> string res) option"
  cf_Mapper :: "('c \<Rightarrow> CursorValues res) option"

record 'c PageInfo =
  pg_HasNextPage :: bool
  pg_HasPrevPage :: bool
  pg_NextCursor :: 'c
  pg_PrevCursor :: 'c
  pg_NextToken :: string
  pg_PrevToken :: string

definition no_pages :: "'c \<Rightarrow> 'c PageInfo" where
  "no_pages zc = \<lparr>pg_HasNextPage = False, pg_HasPrevPage = False, pg_NextCursor = zc, pg_PrevCursor = zc,
     pg_NextToken = [], pg_PrevToken = []\<rparr>"

fun validate_columns :: "Column list \<Rightarrow> unit res" where
  "validate_columns [] = Inr ()"
| "validate_columns (c # cs) =
     (if TrimSpace (cl_Name c) = [] then Inl (Err Unknown ''paginator: column has empty Name'')
      else if cl_Order c \<noteq> OrderAsc \<and> cl_Order c \<noteq> OrderDesc then Inl (Err Unknown ''paginator: column has invalid Order'')
      else validate_columns cs)"

definition ValidateConfig :: "'c Config \<Rightarrow> unit res" where
  "ValidateConfig cfg =
     bindr (fail_if (cf_Limit cfg = 0) (Err Unknown ''paginator: Limit must be > 0'')) (\<lambda>_.
     bindr (fail_if (cf_Columns cfg = []) (Err Unknown ''paginator: at least one Column is required'')) (\<lambda>_.
     bindr (validate_columns (cf_Columns cfg)) (\<lambda>_.
     bindr (fail_if (cf_Direction cfg \<noteq> DirectionAfter \<and> cf_Direction cfg \<noteq> DirectionBefore \<and> cf_Direction cfg \<noteq> DirectionAround
         \<and> cf_Direction cfg \<noteq> []) (Err Unknown ''paginator: invalid Direction'')) (\<lambda>_.
     bindr (fail_if (cf_Codec cfg = None) (Err Unknown ''paginator: Codec is required'')) (\<lambda>_.
     fail_if (cf_Mapper cfg = None) (Err Unknown ''paginator: Mapper is required''))))))"

definition EffectiveOrder :: "Column \<Rightarrow> string \<Rightarrow> string" where
  "EffectiveOrder c dir = (if dir = DirectionBefore then order_reverse (cl_Order c) else cl_Order c)"

text \<open>\<^verbatim>\<open>ORDER BY c1 o1, c2 o2, ...\<close> sorts by the values of the columns, those of a descending column negated.\<close>

definition signed :: "string \<Rightarrow> int \<Rightarrow> int" where
  "signed ord v = (if ord = OrderDesc then - v else v)"

definition order_key :: "Column list \<Rightarrow> string \<Rightarrow> (string \<Rightarrow> int) \<Rightarrow> int list" where
  "order_key cols dir v = map (\<lambda>c. signed (EffectiveOrder c dir) (v (cl_Name c))) cols"

definition applyOrderBy :: "('r \<Rightarrow> string \<Rightarrow> int) \<Rightarrow> Column list \<Rightarrow> string \<Rightarrow> 'r list \<Rightarrow> 'r list" where
  "applyOrderBy col cols dir rows = sort_key (\<lambda>r. order_key cols dir (col r)) rows"

definition inequalityOp :: "string \<Rightarrow> string \<Rightarrow> string" where
  "inequalityOp ord dir =
     (if (ord = OrderAsc \<and> dir = DirectionAfter) \<or> (ord = OrderDesc \<and> dir = DirectionBefore) then ''>'' else ''<'')"

definition sql_compare :: "string \<Rightarrow> int \<Rightarrow> int \<Rightarrow> bool" where
  "sql_compare oper x y = (if oper = ''>'' then x > y else if oper = ''>='' then x \<ge> y else if oper = ''<'' then x < y else x \<le> y)"

text \<open>The i-th disjunct: equality on the columns before the i-th, the inequality on it.\<close>

definition cursor_disjunct :: "Column list \<Rightarrow> CursorValues \<Rightarrow> string \<Rightarrow> bool \<Rightarrow> nat \<Rightarrow> (string \<Rightarrow> int) \<Rightarrow> bool" where
  "cursor_disjunct cols vals dir inclusive i v \<longleftrightarrow>
     (\<forall>j \<in> set [0..<i]. v (cl_Name (cols ! j)) = the (vals (cl_Name (cols ! j))))
     \<and> sql_compare (inequalityOp (cl_Order (cols ! i)) dir @ (if inclusive \<and> i = length cols - 1 then ''='' else []))
         (v (cl_Name (cols ! i))) (the (vals (cl_Name (cols ! i))))"

definition cursorPredicate :: "Column list \<Rightarrow> CursorValues \<Rightarrow> string \<Rightarrow> bool \<Rightarrow> ((string \<Rightarrow> int) \<Rightarrow> bool) res" where
  "cursorPredicate cols vals dir inclusive =
     (if \<exists>c \<in> set cols. vals (cl_Name c) = None then Inl (Err Unknown ''paginator: cursor is missing value for column'')
      else Inr (\<lambda>v. \<exists>i \<in> set [0..<length cols]. cursor_disjunct cols vals dir inclusive i v))"

definition buildCursorPredicate :: "Column list \<Rightarrow> CursorValues \<Rightarrow> string \<Rightarrow> ((string \<Rightarrow> int) \<Rightarrow> bool) res" where
  "buildCursorPredicate cols vals dir = cursorPredicate cols vals dir False"

section \<open>A page in one direction\<close>

definition uint64 :: "nat \<Rightarrow> nat" where
  "uint64 n = n mod 2 ^ 64"

definition to_int64 :: "int \<Rightarrow> int" where
  "to_int64 x = (x + 2 ^ 63) mod 2 ^ 64 - 2 ^ 63"

definition cursor_values :: "'c Config \<Rightarrow> CursorValues res" where
  "cursor_values cfg =
     (case the (cf_Mapper cfg) (cf_Cursor cfg) of
        Inl e \<Rightarrow> Inl (Err Unknown ''paginator: cursor mapper ToValues'')
      | Inr v \<Rightarrow> Inr v)"

definition Apply :: "('r \<Rightarrow> string \<Rightarrow> int) \<Rightarrow> 'r list \<Rightarrow> 'c Config \<Rightarrow> 'r list res" where
  "Apply col rows cfg =
     bindr (ValidateConfig cfg) (\<lambda>_.
     bindr (if cf_HasCursor cfg
            then bindr (cursor_values cfg) (\<lambda>v. buildCursorPredicate (cf_Columns cfg) v (cf_Direction cfg))
            else Inr (\<lambda>_. True)) (\<lambda>pred.
     Inr (take (uint64 (cf_Limit cfg + 1)) (applyOrderBy col (cf_Columns cfg) (cf_Direction cfg) (filter (\<lambda>r. pred (col r)) rows)))))"

text \<open>\<^verbatim>\<open>reverseSlice\<close> swaps the ends and moves inwards.\<close>

function reverse_loop :: "nat \<Rightarrow> int \<Rightarrow> 'a list \<Rightarrow> 'a list" where
  "reverse_loop i j s =
     (if int i < j then reverse_loop (i + 1) (j - 1) (s[i := s ! nat j, nat j := s ! i]) else s)"
  by pat_completeness auto
termination by (relation "measure (\<lambda>(i, j, s). nat (j - int i))") auto

definition reverseSlice :: "'a list \<Rightarrow> 'a list" where
  "reverseSlice s = reverse_loop 0 (int (length s) - 1) s"

text \<open>The cursor at an edge of the page and its token, where the page has a neighbour on that side.\<close>

definition page_edge :: "'c \<Rightarrow> 'c Config \<Rightarrow> bool \<Rightarrow> 'c res \<Rightarrow> ('c \<times> string) res" where
  "page_edge zc cfg neighbour cur =
     (if neighbour
      then bindr cur (\<lambda>c. bindr (the (cf_Codec cfg) c) (\<lambda>token. Inr (c, token)))
      else Inr (zc, []))"

definition page_info :: "'c \<Rightarrow> 'c Config \<Rightarrow> bool \<Rightarrow> bool \<Rightarrow> 'c res \<Rightarrow> 'c res \<Rightarrow> 'c PageInfo res" where
  "page_info zc cfg hasNext hasPrev lastCursor firstCursor =
     bindr (page_edge zc cfg hasNext lastCursor) (\<lambda>(nc, nt).
     bindr (page_edge zc cfg hasPrev firstCursor) (\<lambda>(pc, pt).
     Inr \<lparr>pg_HasNextPage = hasNext, pg_HasPrevPage = hasPrev, pg_NextCursor = nc, pg_PrevCursor = pc,
          pg_NextToken = nt, pg_PrevToken = pt\<rparr>))"

definition BuildPageInfo :: "'c \<Rightarrow> 'r list \<Rightarrow> 'c Config \<Rightarrow> ('r \<Rightarrow> 'c res) \<Rightarrow> ('r list \<times> 'c PageInfo) res" where
  "BuildPageInfo zc rows0 cfg extract =
     bindr (ValidateConfig cfg) (\<lambda>_.
     let limit = to_int64 (int (cf_Limit cfg));
         hasExtra = int (length rows0) > limit
     in if hasExtra \<and> limit < 0 then Inl (Err Unknown ''panic: slice bounds out of range'')
        else let rows1 = (if hasExtra then take (nat limit) rows0 else rows0);
                 rows = (if cf_Direction cfg = DirectionBefore then reverseSlice rows1 else rows1)
             in if rows = [] then Inr (rows, no_pages zc)
                else if cf_Direction cfg = DirectionAround
                then Inl (Err Unknown ''paginator: around pages are built by BuildAroundPageInfo'')
                else bindr (page_info zc cfg
                       (if cf_Direction cfg = DirectionAfter then hasExtra else cf_Direction cfg = DirectionBefore \<and> cf_HasCursor cfg)
                       (if cf_Direction cfg = DirectionAfter then cf_HasCursor cfg else cf_Direction cfg = DirectionBefore \<and> hasExtra)
                       (extract (last rows)) (extract (hd rows)))
                     (\<lambda>info. Inr (rows, info)))"

section \<open>A page around a cursor\<close>

definition aroundLimits :: "nat \<Rightarrow> nat \<times> nat" where
  "aroundLimits limit = (let prev = limit div 2 in (limit - prev, prev))"

text \<open>The two sides are read separately; the union is ordered as the columns say.\<close>

definition ApplyAround :: "('r \<Rightarrow> string \<Rightarrow> int) \<Rightarrow> 'r list \<Rightarrow> 'c Config \<Rightarrow> 'r list res" where
  "ApplyAround col rows cfg =
     bindr (ValidateConfig cfg) (\<lambda>_.
     bindr (fail_if (\<not> cf_HasCursor cfg) (Err Unknown ''paginator: around requires a cursor'')) (\<lambda>_.
     bindr (cursor_values cfg) (\<lambda>vals.
     bindr (cursorPredicate (cf_Columns cfg) vals DirectionAfter True) (\<lambda>nextPred.
     bindr (cursorPredicate (cf_Columns cfg) vals DirectionBefore False) (\<lambda>prevPred.
     let (nextLimit, prevLimit) = aroundLimits (cf_Limit cfg);
         next = take (uint64 (nextLimit + 1)) (applyOrderBy col (cf_Columns cfg) DirectionAfter (filter (\<lambda>r. nextPred (col r)) rows));
         prev = take (uint64 (prevLimit + 1)) (applyOrderBy col (cf_Columns cfg) DirectionBefore (filter (\<lambda>r. prevPred (col r)) rows))
     in Inr (sort_key (\<lambda>r. map (\<lambda>c. signed (cl_Order c) (col r (cl_Name c))) (cf_Columns cfg)) (next @ prev)))))))"

definition BuildAroundPageInfo ::
    "'c \<Rightarrow> 'r list \<Rightarrow> 'c Config \<Rightarrow> ('r \<Rightarrow> 'c res) \<Rightarrow> ('r \<Rightarrow> bool) \<Rightarrow> ('r list \<times> 'c PageInfo) res" where
  "BuildAroundPageInfo zc rows cfg extract isPrev =
     bindr (ValidateConfig cfg) (\<lambda>_.
     let (nextLimit, prevLimit) = aroundLimits (cf_Limit cfg);
         prevRows = takeWhile isPrev rows;
         nextRows = dropWhile isPrev rows;
         hasPrev = length prevRows > prevLimit;
         hasNext = length nextRows > nextLimit;
         window = (if hasPrev then drop (length prevRows - prevLimit) prevRows else prevRows)
           @ (if hasNext then take nextLimit nextRows else nextRows);
         edgeCursor = (\<lambda>r. if window = [] then Inr (cf_Cursor cfg) else extract r)
     in bindr (page_info zc cfg hasNext hasPrev (edgeCursor (last window)) (edgeCursor (hd window)))
          (\<lambda>info. Inr (window, info)))"

section \<open>The loop that reverses a page\<close>

lemma reverse_loop_nth:
  "j < int (length s) \<Longrightarrow> length (reverse_loop i j s) = length s \<and>
     (\<forall>k < length s. reverse_loop i j s ! k = (if i \<le> k \<and> int k \<le> j then s ! (i + nat j - k) else s ! k))"
proof (induction i j s rule: reverse_loop.induct)
  case (1 i j s)
  show ?case
  proof (cases "int i < j")
    case True
    define s' where "s' = s[i := s ! nat j, nat j := s ! i]"
    have ih: "length (reverse_loop (i + 1) (j - 1) s') = length s"
      "k < length s \<Longrightarrow> reverse_loop (i + 1) (j - 1) s' ! k =
         (if i + 1 \<le> k \<and> int k \<le> j - 1 then s' ! (i + 1 + nat (j - 1) - k) else s' ! k)" for k
      using "1.IH" [OF True] "1.prems" by (simp_all add: s'_def)
    have "reverse_loop i j s = reverse_loop (i + 1) (j - 1) s'" using True by (simp add: s'_def)
    moreover have "(if i + 1 \<le> k \<and> int k \<le> j - 1 then s' ! (i + 1 + nat (j - 1) - k) else s' ! k)
        = (if i \<le> k \<and> int k \<le> j then s ! (i + nat j - k) else s ! k)" if "k < length s" for k
      using True "1.prems" that by (auto simp: s'_def nth_list_update nat_diff_distrib)
    ultimately show ?thesis using ih by simp
  next
    case False
    then have "i + nat j - k = k" if "i \<le> k" "int k \<le> j" for k using that by linarith
    with False show ?thesis by auto
  qed
qed

lemma reverseSlice_rev: "reverseSlice s = rev s"
  using reverse_loop_nth [of "int (length s) - 1" s 0]
  by (intro nth_equalityI) (auto simp: reverseSlice_def rev_nth nat_diff_distrib)

section \<open>The cursor predicate is the lexicographic comparison\<close>

definition columns_ok :: "Column list \<Rightarrow> bool" where
  "columns_ok cols \<longleftrightarrow> (\<forall>c \<in> set cols. cl_Order c = OrderAsc \<or> cl_Order c = OrderDesc)"

lemma validate_columns_ok: "validate_columns cols = Inr u \<Longrightarrow> columns_ok cols"
  by (induction cols) (auto simp: columns_ok_def split: if_splits)

lemma order_key_length [simp]: "length (order_key cols dir v) = length cols"
  by (simp add: order_key_def)

lemma order_key_Cons: "order_key (c # cols) dir v = signed (EffectiveOrder c dir) (v (cl_Name c)) # order_key cols dir v"
  by (simp add: order_key_def)

lemma signed_eq [simp]: "signed ord x = signed ord y \<longleftrightarrow> x = y"
  by (simp add: signed_def)

lemma column_compare:
  assumes "cl_Order c = OrderAsc \<or> cl_Order c = OrderDesc" and "dir = DirectionAfter \<or> dir = DirectionBefore"
  shows "sql_compare (inequalityOp (cl_Order c) dir @ (if incl then ''='' else [])) x y \<longleftrightarrow>
     (if incl then signed (EffectiveOrder c dir) y \<le> signed (EffectiveOrder c dir) x
      else signed (EffectiveOrder c dir) y < signed (EffectiveOrder c dir) x)"
  using assms by (auto simp: sql_compare_def inequalityOp_def signed_def EffectiveOrder_def order_reverse_def)

lemma cursor_disjunct_0:
  "cursor_disjunct (c # cols) vals dir incl 0 v \<longleftrightarrow>
     sql_compare (inequalityOp (cl_Order c) dir @ (if incl \<and> cols = [] then ''='' else [])) (v (cl_Name c)) (the (vals (cl_Name c)))"
  by (simp add: cursor_disjunct_def)

lemma cursor_disjunct_Suc:
  "i < length cols \<Longrightarrow> cursor_disjunct (c # cols) vals dir incl (Suc i) v \<longleftrightarrow>
     v (cl_Name c) = the (vals (cl_Name c)) \<and> cursor_disjunct cols vals dir incl i v"
proof -
  assume i: "i < length cols"
  let ?eq = "\<lambda>cs j. v (cl_Name (cs ! j)) = the (vals (cl_Name (cs ! j)))"
  have "(\<forall>j \<in> set [0..<n]. P j) \<longleftrightarrow> (\<forall>j < n. P j)" for n P by auto
  moreover have "(\<forall>j < Suc i. ?eq (c # cols) j) \<longleftrightarrow> ?eq (c # cols) 0 \<and> (\<forall>j < i. ?eq (c # cols) (Suc j))" by (rule All_less_Suc2)
  moreover have "Suc i = length (c # cols) - 1 \<longleftrightarrow> i = length cols - 1" using i by auto
  ultimately show ?thesis unfolding cursor_disjunct_def by (simp only: nth_Cons_0 nth_Cons_Suc conj_assoc)
qed

lemma some_disjunct_Cons:
  "(\<exists>i \<in> set [0..<length (c # cols)]. cursor_disjunct (c # cols) vals dir incl i v) \<longleftrightarrow>
     cursor_disjunct (c # cols) vals dir incl 0 v
     \<or> v (cl_Name c) = the (vals (cl_Name c)) \<and> (\<exists>i \<in> set [0..<length cols]. cursor_disjunct cols vals dir incl i v)"
proof -
  let ?d = "\<lambda>i. cursor_disjunct (c # cols) vals dir incl i v" and ?e = "\<lambda>i. cursor_disjunct cols vals dir incl i v"
  have "(\<exists>i < Suc (length cols). ?d i) \<longleftrightarrow> ?d 0 \<or> (\<exists>i < length cols. ?d (Suc i))" by (rule Ex_less_Suc2)
  moreover have "(\<exists>i < length cols. ?d (Suc i)) \<longleftrightarrow> v (cl_Name c) = the (vals (cl_Name c)) \<and> (\<exists>i < length cols. ?e i)"
    using cursor_disjunct_Suc [of _ cols c vals dir incl v] by metis
  moreover have "(\<exists>i \<in> set [0..<n]. P i) \<longleftrightarrow> (\<exists>i < n. P i)" for n P by (auto simp: Bex_def)
  ultimately show ?thesis by (simp only: list.size add_Suc_right add_0_right)
qed

text \<open>
  Written out over any number of columns, the condition holds of exactly the rows that come after the cursor in
  the order of the page, or at it when the cursor is included.
\<close>

lemma some_disjunct_lex:
  assumes "columns_ok cols" and "dir = DirectionAfter \<or> dir = DirectionBefore" and "cols \<noteq> []"
  shows "(\<exists>i \<in> set [0..<length cols]. cursor_disjunct cols vals dir incl i v) \<longleftrightarrow>
     (if incl then order_key cols dir (\<lambda>n. the (vals n)) \<le> order_key cols dir v
      else order_key cols dir (\<lambda>n. the (vals n)) < order_key cols dir v)"
  using assms
proof (induction cols)
  case (Cons c cols)
  have c: "cl_Order c = OrderAsc \<or> cl_Order c = OrderDesc" "columns_ok cols" using Cons.prems by (auto simp: columns_ok_def)
  show ?case
  proof (cases "cols = []")
    case True
    then show ?thesis
      unfolding some_disjunct_Cons cursor_disjunct_0 using column_compare [OF c(1) Cons.prems(2)] by (auto simp: order_key_def le_less)
  next
    case False
    then show ?thesis
      unfolding some_disjunct_Cons cursor_disjunct_0 using Cons.IH [OF c(2) Cons.prems(2) False] column_compare [OF c(1) Cons.prems(2), where incl = False] False
      by (auto simp: order_key_Cons)
  qed
qed simp

lemma cursorPredicate_lex:
  assumes "columns_ok cols" and "dir = DirectionAfter \<or> dir = DirectionBefore" and "cols \<noteq> []"
    and "\<forall>c \<in> set cols. vals (cl_Name c) \<noteq> None"
  obtains p where "cursorPredicate cols vals dir incl = Inr p"
    "\<And>v. p v \<longleftrightarrow> (if incl then order_key cols dir (\<lambda>n. the (vals n)) \<le> order_key cols dir v
      else order_key cols dir (\<lambda>n. the (vals n)) < order_key cols dir v)"
  using assms some_disjunct_lex [OF assms(1-3)] by (auto simp: cursorPredicate_def)

section \<open>Forward and backward order\<close>

lemma lex_uminus: "length xs = length ys \<Longrightarrow> map uminus xs < map uminus ys \<longleftrightarrow> ys < (xs :: int list)"
  by (induction xs ys rule: list_induct2) auto

lemma order_key_Before: "columns_ok cols \<Longrightarrow> order_key cols DirectionBefore v = map uminus (order_key cols DirectionAfter v)"
  by (auto simp: order_key_def columns_ok_def signed_def EffectiveOrder_def order_reverse_def)

lemma order_key_Before_less:
  "columns_ok cols \<Longrightarrow> order_key cols DirectionBefore v < order_key cols DirectionBefore w \<longleftrightarrow> order_key cols DirectionAfter w < order_key cols DirectionAfter v"
  by (simp add: order_key_Before lex_uminus)

lemma applyOrderBy_filter: "applyOrderBy col cols dir (filter p rows) = filter p (applyOrderBy col cols dir rows)"
  by (simp add: applyOrderBy_def filter_sort)

lemma applyOrderBy_sorted: "sorted (map (\<lambda>r. order_key cols dir (col r)) (applyOrderBy col cols dir rows))"
  by (simp add: applyOrderBy_def)

lemma set_applyOrderBy [simp]: "set (applyOrderBy col cols dir rows) = set rows"
  by (simp add: applyOrderBy_def)

lemma distinct_applyOrderBy: "distinct (map f rows) \<Longrightarrow> distinct (map f (applyOrderBy col cols dir rows))"
proof -
  have "mset (map f (applyOrderBy col cols dir rows)) = mset (map f rows)" by (simp add: applyOrderBy_def)
  then show "distinct (map f rows) \<Longrightarrow> ?thesis" by (metis mset_eq_imp_distinct_iff)
qed

lemma applyOrderBy_Before:
  assumes "columns_ok cols" and "distinct (map (\<lambda>r. order_key cols DirectionAfter (col r)) rows)"
  shows "applyOrderBy col cols DirectionBefore rows = rev (applyOrderBy col cols DirectionAfter rows)"
proof -
  let ?k = "\<lambda>r. order_key cols DirectionAfter (col r)" and ?b = "\<lambda>r. order_key cols DirectionBefore (col r)"
  have inj: "inj_on ?b (set rows)"
    using assms by (intro inj_onI) (auto simp: order_key_Before distinct_map dest!: map_inj_on inj_onD)
  have "sorted_wrt (\<lambda>x y. ?b y \<le> ?b x) (applyOrderBy col cols DirectionAfter rows)"
    using applyOrderBy_sorted [of cols DirectionAfter col rows] assms(1)
    by (simp add: sorted_map not_less [symmetric] order_key_Before_less)
  then have "sorted (map ?b (rev (applyOrderBy col cols DirectionAfter rows)))"
    by (simp add: sorted_map sorted_wrt_rev)
  then show ?thesis unfolding applyOrderBy_def [of _ _ DirectionBefore]
    by (intro sort_key_inj_key_eq) (simp_all add: inj applyOrderBy_def)
qed

text \<open>What is beyond a cursor in a sorted listing is a suffix of it, what is before it a prefix.\<close>

lemma sorted_after: "sorted (map f xs) \<Longrightarrow> filter (\<lambda>r. k < f r) xs = dropWhile (\<lambda>r. f r \<le> k) xs" for k :: "'k :: linorder"
proof (induction xs)
  case (Cons x xs)
  then have "k < f x \<Longrightarrow> \<forall>y \<in> set xs. k < f y" by (auto intro: less_le_trans)
  with Cons show ?case by (cases "k < f x") (simp_all add: not_le [symmetric] filter_True)
qed simp

lemma sorted_from: "sorted (map f xs) \<Longrightarrow> filter (\<lambda>r. k \<le> f r) xs = dropWhile (\<lambda>r. f r < k) xs" for k :: "'k :: linorder"
proof (induction xs)
  case (Cons x xs)
  then have "k \<le> f x \<Longrightarrow> \<forall>y \<in> set xs. k \<le> f y" by (auto intro: order_trans)
  with Cons show ?case by (cases "k \<le> f x") (simp_all add: not_le filter_True)
qed simp

lemma sorted_before: "sorted (map f xs) \<Longrightarrow> filter (\<lambda>r. f r < k) xs = takeWhile (\<lambda>r. f r < k) xs" for k :: "'k :: linorder"
proof (induction xs)
  case (Cons x xs)
  then have "\<not> f x < k \<Longrightarrow> \<forall>y \<in> set xs. \<not> f y < k" by (auto simp: not_less intro: order_trans)
  with Cons show ?case by (cases "f x < k") (simp_all add: filter_False)
qed simp

section \<open>Pages as segments of the listing\<close>

text \<open>A configuration of a client: valid, with a limit that fits a signed integer, and a cursor with a value for every column.\<close>

definition config_ok :: "'c Config \<Rightarrow> bool" where
  "config_ok cfg \<longleftrightarrow> ValidateConfig cfg = Inr () \<and> cf_Limit cfg < 2 ^ 63
     \<and> (cf_HasCursor cfg \<longrightarrow> (\<exists>v. cursor_values cfg = Inr v \<and> (\<forall>c \<in> set (cf_Columns cfg). v (cl_Name c) \<noteq> None)))"

definition cursor_key :: "'c Config \<Rightarrow> int list" where
  "cursor_key cfg = order_key (cf_Columns cfg) DirectionAfter (\<lambda>n. the (projr (cursor_values cfg) n))"

abbreviation (input) row_key :: "('r \<Rightarrow> string \<Rightarrow> int) \<Rightarrow> 'c Config \<Rightarrow> 'r \<Rightarrow> int list" where
  "row_key col cfg r \<equiv> order_key (cf_Columns cfg) DirectionAfter (col r)"

text \<open>The whole listing, in the order of the columns.\<close>

definition listing :: "('r \<Rightarrow> string \<Rightarrow> int) \<Rightarrow> 'r list \<Rightarrow> 'c Config \<Rightarrow> 'r list" where
  "listing col rows cfg = applyOrderBy col (cf_Columns cfg) DirectionAfter rows"

lemma config_okD:
  assumes "config_ok cfg"
  shows "ValidateConfig cfg = Inr ()" "columns_ok (cf_Columns cfg)" "cf_Columns cfg \<noteq> []" "0 < cf_Limit cfg"
    "uint64 (cf_Limit cfg + 1) = cf_Limit cfg + 1" "to_int64 (int (cf_Limit cfg)) = int (cf_Limit cfg)"
    "uint64 (cf_Limit cfg - cf_Limit cfg div 2 + 1) = cf_Limit cfg - cf_Limit cfg div 2 + 1"
    "uint64 (cf_Limit cfg div 2 + 1) = cf_Limit cfg div 2 + 1"
  using assms
  by (auto simp: config_ok_def ValidateConfig_def bindr_Inr_iff uint64_def to_int64_def intro: validate_columns_ok)

lemma sorted_listing: "sorted (map (row_key col cfg) (listing col rows cfg))"
  unfolding listing_def by (rule applyOrderBy_sorted)

lemma Apply_after:
  assumes "config_ok cfg" and "cf_Direction cfg = DirectionAfter"
  shows "Apply col rows cfg = Inr (take (cf_Limit cfg + 1)
     (if cf_HasCursor cfg then filter (\<lambda>r. cursor_key cfg < row_key col cfg r) (listing col rows cfg) else listing col rows cfg))"
proof (cases "cf_HasCursor cfg")
  case True
  with assms obtain v where v: "cursor_values cfg = Inr v" "\<forall>c \<in> set (cf_Columns cfg). v (cl_Name c) \<noteq> None"
    by (auto simp: config_ok_def)
  obtain p where p: "cursorPredicate (cf_Columns cfg) v DirectionAfter False = Inr p" "\<And>x. p x \<longleftrightarrow> cursor_key cfg < order_key (cf_Columns cfg) DirectionAfter x"
    using cursorPredicate_lex [OF config_okD(2) [OF assms(1)] _ config_okD(3) [OF assms(1)] v(2), of DirectionAfter False] v(1)
    by (auto simp: cursor_key_def)
  show ?thesis using True assms v(1) p config_okD [OF assms(1)]
    by (simp add: Apply_def buildCursorPredicate_def applyOrderBy_filter listing_def)
qed (use assms config_okD [OF assms(1)] in \<open>simp add: Apply_def listing_def\<close>)

lemma Apply_before:
  assumes "config_ok cfg" and "cf_Direction cfg = DirectionBefore" and "distinct (map (row_key col cfg) rows)"
  shows "Apply col rows cfg = Inr (take (cf_Limit cfg + 1)
     (rev (if cf_HasCursor cfg then filter (\<lambda>r. row_key col cfg r < cursor_key cfg) (listing col rows cfg) else listing col rows cfg)))"
proof (cases "cf_HasCursor cfg")
  case True
  with assms obtain v where v: "cursor_values cfg = Inr v" "\<forall>c \<in> set (cf_Columns cfg). v (cl_Name c) \<noteq> None"
    by (auto simp: config_ok_def)
  obtain p where p: "cursorPredicate (cf_Columns cfg) v DirectionBefore False = Inr p" "\<And>x. p x \<longleftrightarrow> order_key (cf_Columns cfg) DirectionAfter x < cursor_key cfg"
    using cursorPredicate_lex [OF config_okD(2) [OF assms(1)] _ config_okD(3) [OF assms(1)] v(2), of DirectionBefore False] v(1)
    by (auto simp: cursor_key_def order_key_Before_less [OF config_okD(2) [OF assms(1)]])
  show ?thesis using True assms v(1) p config_okD [OF assms(1)]
    by (simp add: Apply_def buildCursorPredicate_def applyOrderBy_filter listing_def applyOrderBy_Before rev_filter)
qed (use assms config_okD [OF assms(1)] in \<open>simp add: Apply_def listing_def applyOrderBy_Before\<close>)

text \<open>
  The page and its cursors when the rows yield their cursors and the codec does not fail: the first rows of those
  that came back, in the order of the listing whichever way they were read.
\<close>

definition page_at :: "'c \<Rightarrow> ('r \<Rightarrow> 'c) \<Rightarrow> ('c \<Rightarrow> string) \<Rightarrow> 'r list \<Rightarrow> bool \<Rightarrow> bool \<Rightarrow> 'c PageInfo" where
  "page_at zc f tok rows hasNext hasPrev =
     \<lparr>pg_HasNextPage = hasNext, pg_HasPrevPage = hasPrev,
      pg_NextCursor = if hasNext then f (last rows) else zc, pg_PrevCursor = if hasPrev then f (hd rows) else zc,
      pg_NextToken = if hasNext then tok (f (last rows)) else [], pg_PrevToken = if hasPrev then tok (f (hd rows)) else []\<rparr>"

lemma page_info_at:
  "cf_Codec cfg = Some (\<lambda>c. Inr (tok c)) \<Longrightarrow>
     page_info zc cfg hasNext hasPrev (Inr (f (last rows))) (Inr (f (hd rows))) = Inr (page_at zc f tok rows hasNext hasPrev)"
  by (simp add: page_info_def page_edge_def page_at_def)

lemma page_at_none: "page_at zc f tok rows False False = no_pages zc"
  by (simp add: page_at_def no_pages_def)

lemma BuildPageInfo_after:
  assumes "config_ok cfg" and "cf_Direction cfg = DirectionAfter" and "cf_Codec cfg = Some (\<lambda>c. Inr (tok c))"
  shows "BuildPageInfo zc (take (cf_Limit cfg + 1) xs) cfg (\<lambda>r. Inr (f r)) =
     Inr (take (cf_Limit cfg) xs, page_at zc f tok (take (cf_Limit cfg) xs) (length xs > cf_Limit cfg) (xs \<noteq> [] \<and> cf_HasCursor cfg))"
proof -
  have "take (cf_Limit cfg) (take (cf_Limit cfg + 1) xs) = take (cf_Limit cfg) xs"
    "\<not> length xs > cf_Limit cfg \<Longrightarrow> take (cf_Limit cfg + 1) xs = take (cf_Limit cfg) xs"
    "int (length (take (cf_Limit cfg + 1) xs)) > int (cf_Limit cfg) \<longleftrightarrow> length xs > cf_Limit cfg" by (auto simp: min_def)
  then show ?thesis
    using config_okD(1,4,6) [OF assms(1)] assms(2,3) by (auto simp: BuildPageInfo_def Let_def page_info_at page_at_none)
qed

lemma BuildPageInfo_before:
  assumes "config_ok cfg" and "cf_Direction cfg = DirectionBefore" and "cf_Codec cfg = Some (\<lambda>c. Inr (tok c))"
  shows "BuildPageInfo zc (take (cf_Limit cfg + 1) xs) cfg (\<lambda>r. Inr (f r)) =
     Inr (rev (take (cf_Limit cfg) xs), page_at zc f tok (rev (take (cf_Limit cfg) xs)) (xs \<noteq> [] \<and> cf_HasCursor cfg) (length xs > cf_Limit cfg))"
proof -
  have "take (cf_Limit cfg) (take (cf_Limit cfg + 1) xs) = take (cf_Limit cfg) xs"
    "\<not> length xs > cf_Limit cfg \<Longrightarrow> take (cf_Limit cfg + 1) xs = take (cf_Limit cfg) xs"
    "int (length (take (cf_Limit cfg + 1) xs)) > int (cf_Limit cfg) \<longleftrightarrow> length xs > cf_Limit cfg" by (auto simp: min_def)
  then show ?thesis
    using config_okD(1,4,6) [OF assms(1)] assms(2,3) by (auto simp: BuildPageInfo_def Let_def page_info_at page_at_none reverseSlice_rev)
qed

text \<open>The rows read around a cursor are a segment of the listing that reaches one row beyond the window at either side.\<close>

lemma ApplyAround_segment:
  assumes "config_ok cfg" and "cf_HasCursor cfg" and "distinct (map (row_key col cfg) rows)"
  defines "P \<equiv> takeWhile (\<lambda>r. row_key col cfg r < cursor_key cfg) (listing col rows cfg)"
    and "N \<equiv> dropWhile (\<lambda>r. row_key col cfg r < cursor_key cfg) (listing col rows cfg)"
  shows "ApplyAround col rows cfg =
     Inr (drop (length P - (cf_Limit cfg div 2 + 1)) P @ take (cf_Limit cfg - cf_Limit cfg div 2 + 1) N)"
proof -
  let ?key = "row_key col cfg" and ?L = "listing col rows cfg"
  from assms(1,2) obtain v where v: "cursor_values cfg = Inr v" "\<forall>c \<in> set (cf_Columns cfg). v (cl_Name c) \<noteq> None"
    by (auto simp: config_ok_def)
  note ok = config_okD [OF assms(1)]
  obtain p where p: "cursorPredicate (cf_Columns cfg) v DirectionAfter True = Inr p" "\<And>x. p x \<longleftrightarrow> cursor_key cfg \<le> order_key (cf_Columns cfg) DirectionAfter x"
    using cursorPredicate_lex [OF ok(2) _ ok(3) v(2), of DirectionAfter True] v(1) by (auto simp: cursor_key_def)
  obtain q where q: "cursorPredicate (cf_Columns cfg) v DirectionBefore False = Inr q" "\<And>x. q x \<longleftrightarrow> order_key (cf_Columns cfg) DirectionAfter x < cursor_key cfg"
    using cursorPredicate_lex [OF ok(2) _ ok(3) v(2), of DirectionBefore False] v(1)
    by (auto simp: cursor_key_def order_key_Before_less [OF ok(2)])
  have P: "filter (\<lambda>r. ?key r < cursor_key cfg) ?L = P" and N: "filter (\<lambda>r. cursor_key cfg \<le> ?key r) ?L = N"
    unfolding P_def N_def by (rule sorted_before sorted_from; rule sorted_listing)+
  let ?S = "drop (length P - (cf_Limit cfg div 2 + 1)) P @ take (cf_Limit cfg - cf_Limit cfg div 2 + 1) N"
  have PN: "P @ N = ?L" by (simp add: P_def N_def)
  then have S: "?L = take (length P - (cf_Limit cfg div 2 + 1)) P @ ?S @ drop (cf_Limit cfg - cf_Limit cfg div 2 + 1) N"
    by (metis append.assoc append_take_drop_id)
  have "distinct (map ?key ?L)" unfolding listing_def by (rule distinct_applyOrderBy [OF assms(3)])
  then have "inj_on ?key (set ?L)" by (simp add: distinct_map)
  moreover have "set ?S \<subseteq> set ?L" unfolding PN [symmetric] by (auto dest: in_set_dropD in_set_takeD)
  ultimately have inj: "inj_on ?key (set ?S)" by (rule inj_on_subset)
  have "sorted (map ?key (as @ bs @ cs)) \<Longrightarrow> sorted (map ?key bs)" for as bs cs by (simp add: sorted_append)
  then have "sorted (map ?key ?S)" using sorted_listing [of cfg col rows] S by metis
  moreover have "mset (take (cf_Limit cfg - cf_Limit cfg div 2 + 1) N @ take (cf_Limit cfg div 2 + 1) (rev P)) = mset ?S"
    by (simp add: take_rev add.commute)
  ultimately have "sort_key ?key (take (cf_Limit cfg - cf_Limit cfg div 2 + 1) N @ take (cf_Limit cfg div 2 + 1) (rev P)) = ?S"
    using inj by (intro sort_key_inj_key_eq) (auto simp: take_rev Un_commute)
  moreover have "map (\<lambda>c. signed (cl_Order c) (col r (cl_Name c))) (cf_Columns cfg) = ?key r" for r
    by (simp add: order_key_def EffectiveOrder_def)
  ultimately show ?thesis
    using assms(1-3) v(1) p q ok P N
    by (simp add: ApplyAround_def aroundLimits_def Let_def applyOrderBy_filter applyOrderBy_Before rev_filter [symmetric] listing_def)
qed

lemma BuildAroundPageInfo_window:
  assumes "config_ok cfg" and "cf_Codec cfg = Some (\<lambda>c. Inr (tok c))" and "\<forall>r \<in> set P. isPrev r" and "\<forall>r \<in> set N. \<not> isPrev r"
  defines "p \<equiv> cf_Limit cfg div 2" and "n \<equiv> cf_Limit cfg - cf_Limit cfg div 2"
  shows "BuildAroundPageInfo zc (drop (length P - (p + 1)) P @ take (n + 1) N) cfg (\<lambda>r. Inr (f r)) isPrev =
     (let w = drop (length P - p) P @ take n N
      in Inr (w, if w = [] then page_at zc (\<lambda>_. cf_Cursor cfg) tok w (length N > n) (length P > p)
                 else page_at zc f tok w (length N > n) (length P > p)))"
proof -
  have "takeWhile isPrev (drop (length P - (p + 1)) P @ take (n + 1) N) = drop (length P - (p + 1)) P"
    "dropWhile isPrev (drop (length P - (p + 1)) P @ take (n + 1) N) = take (n + 1) N"
    using assms(3,4) by (auto simp: takeWhile_append dropWhile_append dest: in_set_dropD in_set_takeD
        intro!: takeWhile_eq_Nil_iff [THEN iffD2] simp: dropWhile_eq_self_iff)
  moreover have "(if length (drop (length P - (p + 1)) P) > p then drop (length (drop (length P - (p + 1)) P) - p) (drop (length P - (p + 1)) P)
      else drop (length P - (p + 1)) P) = drop (length P - p) P" by (cases "p < length P") (auto simp: Suc_diff_Suc)
  moreover have "(if length (take (n + 1) N) > n then take n (take (n + 1) N) else take (n + 1) N) = take n N" by (auto simp: min_def)
  moreover have "length (drop (length P - (p + 1)) P) > p \<longleftrightarrow> length P > p" "length (take (n + 1) N) > n \<longleftrightarrow> length N > n" by auto
  moreover have "aroundLimits (cf_Limit cfg) = (n, p)" by (simp add: aroundLimits_def p_def n_def Let_def)
  moreover have "page_info zc cfg a b (if w = [] then Inr (cf_Cursor cfg) else Inr (f (last w))) (if w = [] then Inr (cf_Cursor cfg) else Inr (f (hd w)))
      = Inr (if w = [] then page_at zc (\<lambda>_. cf_Cursor cfg) tok w a b else page_at zc f tok w a b)" for a b w
    using page_info_at [OF assms(2), of zc a b _ w] by (cases "w = []") (simp_all, metis)
  ultimately show ?thesis
    by (simp only: BuildAroundPageInfo_def Let_def config_okD(1) [OF assms(1)] bindr_simps prod.case)
qed

text \<open>
  The configuration may leave the direction empty. Rows of an ascending column then come in forward order, but the cursor selects
  those that precede it.
\<close>

lemma empty_direction_reads_backwards:
  "buildCursorPredicate [\<lparr>cl_Name = n, cl_Order = OrderAsc\<rparr>] [n \<mapsto> k] [] = Inr (\<lambda>v. v n < k)"
  "order_key [\<lparr>cl_Name = n, cl_Order = OrderAsc\<rparr>] [] v = [v n]"
  by (simp_all add: buildCursorPredicate_def cursorPredicate_def cursor_disjunct_def inequalityOp_def sql_compare_def order_key_def EffectiveOrder_def signed_def)

end
