(* ===== verification/History_Query.thy ===== *)
theory History_Query
  imports Paginator Interactive Previews
begin

text \<open>
  The queries of the message history: \<^verbatim>\<open>internal/store/query_object/message_history.go\<close>,
  \<^verbatim>\<open>message_search.go\<close>, \<^verbatim>\<open>message_history_cursor.go\<close>, \<^verbatim>\<open>LikeContains\<close> of \<^verbatim>\<open>utils.go\<close>, the store
  \<^verbatim>\<open>internal/store/postgres/message_history_store.go\<close>, and the view \<^verbatim>\<open>im_thread.v_messages\<close> they read as the last
  migration leaves it. A query object keeps the conditions that were added to it, the selected fields and the paginator's configuration; what is not
  selected stays zero in the message that is scanned. The primary keys and creation times of attachments are not columns of the model.
\<close>

section \<open>The view\<close>

record DeliveryFailure =
  df_MemberID :: uuid
  df_Code :: string
  df_Message :: string

record HistoryMessage = Message +
  hm_DeletedBy :: "ThreadDialog option"
  hm_RevisionCount :: int
  hm_ReactedMetadata :: "callback_row option"
  hm_Reactions :: "ReactionAggregate list"
  hm_Failures :: "DeliveryFailure list"

definition zero_history_message :: HistoryMessage where
  "zero_history_message = Message.extend zero_message
     \<lparr>hm_DeletedBy = None, hm_RevisionCount = 0, hm_ReactedMetadata = None, hm_Reactions = [], hm_Failures = []\<rparr>"

text \<open>The left join with the answers to buttons gives a message one row for each answer, or one without.\<close>

type_synonym view_row = "message_row \<times> callback_row option"

definition answers_of :: "db \<Rightarrow> message_row \<Rightarrow> callback_row list" where
  "answers_of db m = filter (\<lambda>b. ms_type m = MessageTypeInteractive \<and> cb_in_reply_to b = ms_id m) (db_callbacks db)"

definition v_messages :: "db \<Rightarrow> view_row list" where
  "v_messages db = concat (map (\<lambda>m. if answers_of db m = [] then [(m, None)] else map (\<lambda>b. (m, Some b)) (answers_of db m)) (db_messages db))"

definition last_dialog :: "db \<Rightarrow> uuid \<Rightarrow> uuid \<Rightarrow> dialog_row option" where
  "last_dialog db t c = first_max dl_id (filter (\<lambda>d. dl_member_id d = c \<and> dl_thread_id d = t) (db_dialogs db))"

definition view_deleted_by :: "db \<Rightarrow> message_row \<Rightarrow> ThreadDialog option" where
  "view_deleted_by db m =
     map_option (\<lambda>c. case last_dialog db (ms_thread_id m) c of
         None \<Rightarrow> zero_dialog\<lparr>td_ContactID := c\<rparr>
       | Some d \<Rightarrow> zero_dialog\<lparr>bm_ID := dl_id d, td_ContactID := c, td_ThreadRole := dl_thread_role d\<rparr>) (ms_deleted_by m)"

definition view_member :: "db \<Rightarrow> message_row \<Rightarrow> ThreadDialog option" where
  "view_member db m =
     map_option (\<lambda>d. zero_dialog\<lparr>bm_ID := dl_id d, td_ContactID := ms_sender_id m, td_ThreadRole := dl_thread_role d\<rparr>)
       (last_dialog db (ms_thread_id m) (ms_sender_id m))"

text \<open>
  Attachments are listed for files, images and interactive messages that have an attachments object (its two flags are always written).
\<close>

definition shows_attachments :: "MessageType \<Rightarrow> message_row \<Rightarrow> bool" where
  "shows_attachments t m \<longleftrightarrow> ms_type m = t
     \<or> ms_type m = MessageTypeInteractive \<and> (\<exists>i. ms_interactive m = Some i \<and> ia_Attachments i \<noteq> None)"

definition view_documents :: "db \<Rightarrow> message_row \<Rightarrow> MessageDocument list" where
  "view_documents db m =
     (if shows_attachments MessageTypeFile m
      then map (\<lambda>a. \<lparr>dc_ID = uuid_nil, dc_FileID = ar_file_id a, dc_Name = ar_name a, dc_Mime = ar_mime a, dc_Size = ar_size a, dc_URL = []\<rparr>)
             (filter (\<lambda>a. ar_message_id a = ms_id m) (db_documents db))
      else [])"

definition view_images :: "db \<Rightarrow> message_row \<Rightarrow> MessageImage list" where
  "view_images db m =
     (if shows_attachments MessageTypeImage m
      then map (\<lambda>a. \<lparr>im_ID = uuid_nil, im_FileID = ar_file_id a, im_Name = [], im_Mime = ar_mime a, im_Width = ar_width a, im_Height = ar_height a,
                    im_URL = [], im_Size = 0, im_Thumbnails = Map.empty\<rparr>)
             (filter (\<lambda>a. ar_message_id a = ms_id m) (db_images db))
      else [])"

definition view_location :: "db \<Rightarrow> message_row \<Rightarrow> MessageLocation option" where
  "view_location db m =
     (if ms_type m = MessageTypeLocation
      then map_option (\<lambda>l. \<lparr>lo_Address = lr_address l, lo_Latitude = lr_latitude l, lo_Longitude = lr_longitude l, lo_Name = lr_name l\<rparr>)
             (find (\<lambda>l. lr_message_id l = ms_id m) (db_locations db))
      else None)"

definition view_contact :: "db \<Rightarrow> message_row \<Rightarrow> MessageContact option" where
  "view_contact db m =
     (if ms_type m = MessageTypeContact
      then map_option (\<lambda>c. \<lparr>co_PhoneNumber = cr_phone_number c, co_Name = cr_name c, co_Email = cr_email c\<rparr>)
             (find (\<lambda>c. cr_message_id c = ms_id m) (db_cards db))
      else None)"

definition view_system :: "message_row \<Rightarrow> MessageSystem option" where
  "view_system m =
     (if ms_type m = MessageTypeSystem then map_option (\<lambda>(t, md). \<lparr>sy_Type = t, sy_Metadata = md\<rparr>) (ms_system m) else None)"

text \<open>A deleted message is quoted without its text and attachment, except in the column for administrators.\<close>

definition view_reply_to :: "bool \<Rightarrow> db \<Rightarrow> message_row \<Rightarrow> ReplyToPreview option" where
  "view_reply_to audit db m =
     map_option (\<lambda>r. let hidden = (ms_deleted_at r \<noteq> None \<and> \<not> audit)
       in \<lparr>rt_MessageID = ms_id r, rt_ThreadID = uuid_nil, rt_SenderID = ms_sender_id r, rt_Type = ms_type r,
           rt_Body = if hidden then [] else left_chars 256 (ms_body r), rt_CreatedAt = epoch_millis (ms_created_at r),
           rt_Attachment = if hidden then None else reply_attachment db (ms_id r), rt_IsDeleted = ms_deleted_at r \<noteq> None\<rparr>)
       (Option.bind (ms_reply_to m) (message_of db))"

definition view_forward_origin :: "message_row \<Rightarrow> ForwardOrigin option" where
  "view_forward_origin m =
     map_option (\<lambda>(kind, sender, name, iss, sub, sent, source).
        \<lparr>fo_Kind = kind, fo_SenderID = sender, fo_SenderName = name, fo_SenderIss = [], fo_SenderSub = [],
         fo_OriginalSentAt = (case sent of None \<Rightarrow> 0 | Some t \<Rightarrow> epoch_millis t), fo_SourceMessageID = source\<rparr>) (ms_forward m)"

definition view_revision_count :: "db \<Rightarrow> message_row \<Rightarrow> int" where
  "view_revision_count db m =
     int (length (filter (\<lambda>r. rv_message_id r = ms_id m) (db_revisions db))) + (if ms_deleted_at m \<noteq> None then 1 else 0)"

section \<open>The selected fields\<close>

text \<open>\<^verbatim>\<open>coalesce(error->>key, '')\<close>; the provider's reason is kept as texts.\<close>

definition error_text :: "metadata \<Rightarrow> string \<Rightarrow> string" where
  "error_text md k = (case md k of Some (VStr s) \<Rightarrow> s | _ \<Rightarrow> [])"

definition failuresColumn :: "db \<Rightarrow> message_row \<Rightarrow> DeliveryFailure list" where
  "failuresColumn db m =
     map (\<lambda>e. \<lparr>df_MemberID = me_member_id e, df_Code = error_text (me_error e) ''code'', df_Message = error_text (me_error e) ''message''\<rparr>)
       (sort_key me_failed_at (filter (\<lambda>e. me_message_id e = ms_id m) (db_errors db)))"

text \<open>An administrator or more of a chat that is not direct sees what a deleted message said where it is quoted.\<close>

definition may_audit :: "uuid \<Rightarrow> db \<Rightarrow> message_row \<Rightarrow> bool" where
  "may_audit callerID db m \<longleftrightarrow>
     (\<exists>d \<in> set (db_dialogs db). dl_thread_id d = ms_thread_id m \<and> dl_domain_id d = ms_domain_id m \<and> dl_member_id d = callerID
        \<and> active d \<and> dl_thread_role d \<ge> RoleAdmin \<and> (\<exists>th. thread_of db (dl_thread_id d) = Some th \<and> th_kind th \<noteq> ThreadDirect))"

definition replyToColumn :: "uuid \<Rightarrow> db \<Rightarrow> message_row \<Rightarrow> ReplyToPreview option" where
  "replyToColumn callerID db m = view_reply_to (may_audit callerID db m) db m"

definition defaultFields :: "string list" where
  "defaultFields = [''id'', ''thread_id'', ''sender_id'', ''type'', ''body'', ''metadata'', ''created_at'', ''updated_at'', ''seq'', ''images'', ''documents'',
     ''member'', ''interactive'', ''location'', ''contact'', ''system'', ''reacted_metadata'', ''reply_to'', ''forward_origin'', ''reactions'',
     ''edited'', ''deleted_at'', ''deleted_by'', ''revision_count'', ''failures'']"

text \<open>The fields that may be asked for are the default ones.\<close>

definition availableFields :: "string \<Rightarrow> bool" where
  "availableFields f \<longleftrightarrow> f \<in> set [''id'', ''thread_id'', ''sender_id'', ''type'', ''body'', ''metadata'', ''created_at'', ''updated_at'', ''seq'', ''documents'', ''images'',
     ''member'', ''interactive'', ''location'', ''contact'', ''system'', ''reacted_metadata'', ''reply_to'', ''forward_origin'', ''reactions'',
     ''edited'', ''deleted_at'', ''deleted_by'', ''revision_count'', ''failures'']"

definition select_field :: "db \<Rightarrow> uuid \<Rightarrow> view_row \<Rightarrow> string \<Rightarrow> HistoryMessage \<Rightarrow> HistoryMessage" where
  "select_field db callerID r f h =
     (let m = fst r in
      if f = ''id'' then h\<lparr>m_ID := ms_id m\<rparr>
      else if f = ''thread_id'' then h\<lparr>m_ThreadID := ms_thread_id m\<rparr>
      else if f = ''sender_id'' then h\<lparr>m_SenderID := ms_sender_id m\<rparr>
      else if f = ''type'' then h\<lparr>m_Type := ms_type m\<rparr>
      else if f = ''body'' then h\<lparr>m_Body := ms_body m\<rparr>
      else if f = ''metadata'' then h\<lparr>m_Metadata := ms_metadata m\<rparr>
      else if f = ''created_at'' then h\<lparr>m_CreatedAt := ms_created_at m\<rparr>
      else if f = ''updated_at'' then h\<lparr>m_UpdatedAt := ms_updated_at m\<rparr>
      else if f = ''seq'' then h\<lparr>m_Seq := ms_seq m\<rparr>
      else if f = ''images'' then h\<lparr>m_Images := view_images db m\<rparr>
      else if f = ''documents'' then h\<lparr>m_Documents := view_documents db m\<rparr>
      else if f = ''member'' then h\<lparr>m_Member := view_member db m\<rparr>
      else if f = ''interactive'' then h\<lparr>m_Interactive := ms_interactive m\<rparr>
      else if f = ''location'' then h\<lparr>m_Location := view_location db m\<rparr>
      else if f = ''contact'' then h\<lparr>m_Contact := view_contact db m\<rparr>
      else if f = ''system'' then h\<lparr>m_System := view_system m\<rparr>
      else if f = ''reacted_metadata'' then h\<lparr>hm_ReactedMetadata := snd r\<rparr>
      else if f = ''reply_to'' then h\<lparr>m_ReplyTo := (if callerID \<noteq> uuid_nil then replyToColumn callerID db m else view_reply_to False db m)\<rparr>
      else if f = ''forward_origin'' then h\<lparr>m_ForwardOrigin := view_forward_origin m\<rparr>
      else if f = ''reactions'' then h\<lparr>hm_Reactions := AggregateForMessage (ms_id m) db\<rparr>
      else if f = ''edited'' then h\<lparr>m_Edited := ms_edited m\<rparr>
      else if f = ''deleted_at'' then h\<lparr>m_DeletedAt := ms_deleted_at m\<rparr>
      else if f = ''deleted_by'' then h\<lparr>hm_DeletedBy := view_deleted_by db m\<rparr>
      else if f = ''revision_count'' then h\<lparr>hm_RevisionCount := view_revision_count db m\<rparr>
      else if f = ''failures'' then h\<lparr>hm_Failures := failuresColumn db m\<rparr>
      else h)"

definition selectMessageFields :: "db \<Rightarrow> uuid \<Rightarrow> string list \<Rightarrow> view_row \<Rightarrow> HistoryMessage" where
  "selectMessageFields db callerID fs r = fold (select_field db callerID r) fs zero_history_message"

section \<open>Cursors\<close>

record MessageHistoryCursor =
  mc_ID :: uuid
  mc_Before :: bool

definition zero_cursor :: MessageHistoryCursor where
  "zero_cursor = \<lparr>mc_ID = uuid_nil, mc_Before = False\<rparr>"

definition MessageHistoryColumns :: "Column list" where
  "MessageHistoryColumns = [\<lparr>cl_Name = ''id'', cl_Order = OrderDesc\<rparr>]"

definition MessageHistoryCursorMapper :: "MessageHistoryCursor \<Rightarrow> CursorValues res" where
  "MessageHistoryCursorMapper c =
     (if mc_ID c = uuid_nil then Inl (Err Unknown ''MessageHistoryCursorMapper: ID must not be nil UUID'')
      else Inr [''id'' \<mapsto> int (mc_ID c)])"

text \<open>\<^verbatim>\<open>json.Marshal\<close> of a cursor and the standard base64 of it.\<close>

definition hex :: "nat \<Rightarrow> nat \<Rightarrow> string" where
  "hex w n = map (\<lambda>i. ''0123456789abcdef'' ! (n div 16 ^ (w - 1 - i) mod 16)) [0..<w]"

definition uuid_String :: "uuid \<Rightarrow> string" where
  "uuid_String u =
     (let h = hex 32 u
      in take 8 h @ ''-'' @ take 4 (drop 8 h) @ ''-'' @ take 4 (drop 12 h) @ ''-'' @ take 4 (drop 16 h) @ ''-'' @ drop 20 h)"

definition quoted :: "string \<Rightarrow> string" where
  "quoted s = [CHR 0x22] @ s @ [CHR 0x22]"

definition cursor_json :: "MessageHistoryCursor \<Rightarrow> string" where
  "cursor_json c = ''{'' @ quoted ''id'' @ '':'' @ quoted (uuid_String (mc_ID c)) @ '','' @ quoted ''Before'' @ '':''
     @ (if mc_Before c then ''true'' else ''false'') @ ''}''"

definition base64_digit :: "nat \<Rightarrow> char" where
  "base64_digit n = ''ABCDEFGHIJKLMNOPQRSTUVWXYZabcdefghijklmnopqrstuvwxyz0123456789+/'' ! n"

fun base64 :: "nat list \<Rightarrow> string" where
  "base64 [] = []"
| "base64 [a] = map base64_digit [a div 4, a mod 4 * 16] @ ''==''"
| "base64 [a, b] = map base64_digit [a div 4, a mod 4 * 16 + b div 16, b mod 16 * 4] @ ''=''"
| "base64 (a # b # c # r) = map base64_digit [a div 4, a mod 4 * 16 + b div 16, b mod 16 * 4 + c div 64, c mod 64] @ base64 r"

definition JSONBase64Codec_Encode :: "MessageHistoryCursor \<Rightarrow> string res" where
  "JSONBase64Codec_Encode c = Inr (base64 (map of_char (cursor_json c)))"

definition RawParamsCursorCodec_Encode :: "MessageHistoryCursor \<Rightarrow> string res" where
  "RawParamsCursorCodec_Encode c = Inr []"

definition parseMessageHistoryFields :: "uuid \<Rightarrow> MessageHistoryCursor \<times> bool" where
  "parseMessageHistoryFields rawID =
     (if rawID = uuid_nil then (zero_cursor, False) else (\<lparr>mc_ID = rawID, mc_Before = False\<rparr>, True))"

definition NewMessageHistoryConfigFromRaw :: "nat \<Rightarrow> MessageHistoryCursor \<Rightarrow> bool \<Rightarrow> MessageHistoryCursor Config" where
  "NewMessageHistoryConfigFromRaw limit raw before =
     (let (cur, hasCursor) = parseMessageHistoryFields (mc_ID raw)
      in \<lparr>cf_Limit = limit, cf_Cursor = cur, cf_HasCursor = hasCursor, cf_Direction = (if before then DirectionBefore else DirectionAfter),
          cf_Columns = MessageHistoryColumns, cf_Codec = Some RawParamsCursorCodec_Encode, cf_Mapper = Some MessageHistoryCursorMapper\<rparr>)"

section \<open>The history query\<close>

record HistoryMessageCursor =
  hc_ID :: uuid
  hc_Direction :: bool
  hc_Around :: bool

record history_query =
  hq_where :: "(db \<Rightarrow> view_row \<Rightarrow> bool) list"
  hq_fields :: "string list"
  hq_callerID :: uuid
  hq_cfg :: "MessageHistoryCursor Config"

definition DefaultLimit :: nat where
  "DefaultLimit = 20"

definition zero_config :: "MessageHistoryCursor Config" where
  "zero_config = \<lparr>cf_Limit = 0, cf_Cursor = zero_cursor, cf_HasCursor = False, cf_Direction = [], cf_Columns = [], cf_Codec = None, cf_Mapper = None\<rparr>"

definition NewMessageHistoryQuery :: history_query where
  "NewMessageHistoryQuery = \<lparr>hq_where = [], hq_fields = [], hq_callerID = uuid_nil, hq_cfg = zero_config\<rparr>"

definition add_where :: "(db \<Rightarrow> view_row \<Rightarrow> bool) \<Rightarrow> history_query \<Rightarrow> history_query" where
  "add_where p q = q\<lparr>hq_where := hq_where q @ [p]\<rparr>"

definition valid_fields :: "string list \<Rightarrow> string list" where
  "valid_fields fs = fold (\<lambda>f valid. if availableFields f \<and> f \<notin> set valid then valid @ [f] else valid) fs []"

definition WithFields :: "string list \<Rightarrow> history_query \<Rightarrow> history_query" where
  "WithFields fs q = q\<lparr>hq_fields := (if fs = [] then defaultFields else valid_fields fs)\<rparr>"

definition WithDomainIDsFilter :: "int list \<Rightarrow> history_query \<Rightarrow> history_query" where
  "WithDomainIDsFilter domainIDs q =
     (if domainIDs \<noteq> [] \<and> hd domainIDs \<noteq> 0 then add_where (\<lambda>_ r. ms_domain_id (fst r) \<in> set domainIDs) q else q)"

definition WithIDsFilter :: "uuid list \<Rightarrow> history_query \<Rightarrow> history_query" where
  "WithIDsFilter ids q = (if ids \<noteq> [] then add_where (\<lambda>_ r. ms_id (fst r) \<in> set ids) q else q)"

definition WithThreadIDsFilter :: "uuid list \<Rightarrow> history_query \<Rightarrow> history_query" where
  "WithThreadIDsFilter threadIDs q = (if threadIDs \<noteq> [] then add_where (\<lambda>_ r. ms_thread_id (fst r) \<in> set threadIDs) q else q)"

definition WithSenderIDsFilter :: "uuid list \<Rightarrow> history_query \<Rightarrow> history_query" where
  "WithSenderIDsFilter senderIDs q = (if senderIDs \<noteq> [] then add_where (\<lambda>_ r. ms_sender_id (fst r) \<in> set senderIDs) q else q)"

definition WithTypeFilter :: "int list \<Rightarrow> history_query \<Rightarrow> history_query" where
  "WithTypeFilter types q = (if types \<noteq> [] then add_where (\<lambda>_ r. ms_type (fst r) \<in> set types) q else q)"

text \<open>A nil list does not restrict; an empty one blocks every system message.\<close>

definition WithSystemMessageAllowList :: "string list option \<Rightarrow> history_query \<Rightarrow> history_query" where
  "WithSystemMessageAllowList allowed q =
     (case allowed of None \<Rightarrow> q
      | Some types \<Rightarrow> add_where (\<lambda>_ r. ms_type (fst r) \<noteq> MessageTypeSystem
          \<or> (\<exists>t md. ms_system (fst r) = Some (t, md) \<and> t \<in> set types)) q)"

definition limitOrDefault :: "history_query \<Rightarrow> nat" where
  "limitOrDefault q = (if cf_Limit (hq_cfg q) > 0 then cf_Limit (hq_cfg q) else DefaultLimit)"

definition WithCursor :: "HistoryMessageCursor option \<Rightarrow> history_query \<Rightarrow> history_query" where
  "WithCursor cursor q =
     (case cursor of None \<Rightarrow> q
      | Some c \<Rightarrow>
         let cfg = NewMessageHistoryConfigFromRaw (limitOrDefault q) \<lparr>mc_ID = hc_ID c, mc_Before = False\<rparr> (hc_Direction c)
         in q\<lparr>hq_cfg := (if hc_Around c \<and> cf_HasCursor cfg then cfg\<lparr>cf_Direction := DirectionAround\<rparr> else cfg)\<rparr>)"

text \<open>The caller is a member of one of the threads asked for, or has a preview of one of them.\<close>

definition may_read_any :: "uuid \<Rightarrow> uuid list \<Rightarrow> db \<Rightarrow> bool" where
  "may_read_any callerID threadIDs db \<longleftrightarrow>
     (\<exists>d \<in> set (db_dialogs db). dl_thread_id d \<in> set threadIDs \<and> dl_member_id d = callerID \<and> active d)
     \<or> (\<exists>p \<in> set (db_previews db). pv_thread_id p \<in> set threadIDs \<and> pv_contact_id p = callerID \<and> unrevoked p \<and> pv_expires_at p > db_now db)"

definition WithCallerLimitation :: "uuid \<Rightarrow> uuid list \<Rightarrow> history_query \<Rightarrow> history_query" where
  "WithCallerLimitation callerID threadIDs q =
     (if callerID = uuid_nil then q else add_where (\<lambda>db _. may_read_any callerID threadIDs db) (q\<lparr>hq_callerID := callerID\<rparr>))"

definition WithLimit :: "int \<Rightarrow> history_query \<Rightarrow> history_query" where
  "WithLimit limit q = (if limit > 0 \<and> limit \<le> 100 then q\<lparr>hq_cfg := (hq_cfg q)\<lparr>cf_Limit := nat limit\<rparr>\<rparr> else q)"

text \<open>
  \<^verbatim>\<open>ToSQL\<close> settles the fields and the configuration in the object, where \<^verbatim>\<open>BuildPageInfo\<close> finds them, and the statement
  it returns selects the rows.
\<close>

definition settle :: "history_query \<Rightarrow> history_query" where
  "settle q =
     (let q1 = (if hq_fields q = [] then q\<lparr>hq_fields := defaultFields\<rparr> else q);
          c1 = (if cf_Limit (hq_cfg q1) = 0 then (hq_cfg q1)\<lparr>cf_Limit := DefaultLimit\<rparr> else hq_cfg q1);
          c2 = (if cf_Codec c1 = None
                then c1\<lparr>cf_Codec := Some JSONBase64Codec_Encode, cf_Mapper := Some MessageHistoryCursorMapper,
                        cf_Columns := MessageHistoryColumns, cf_Direction := DirectionAfter\<rparr>
                else c1)
      in q1\<lparr>hq_cfg := c2\<rparr>)"

definition view_col :: "view_row \<Rightarrow> string \<Rightarrow> int" where
  "view_col r n = (if n = ''id'' then int (ms_id (fst r)) else 0)"

definition matching :: "history_query \<Rightarrow> db \<Rightarrow> view_row list" where
  "matching q db = filter (\<lambda>r. \<forall>p \<in> set (hq_where q). p db r) (v_messages db)"

definition history_ToSQL :: "history_query \<Rightarrow> db \<Rightarrow> HistoryMessage list res" where
  "history_ToSQL q db =
     (if cf_Direction (hq_cfg q) = DirectionAround
      then bindr (ApplyAround view_col (matching q db) (hq_cfg q)) (\<lambda>rows.
             Inr (map (selectMessageFields db (hq_callerID q) (if ''id'' \<in> set (hq_fields q) then hq_fields q else hq_fields q @ [''id''])) rows))
      else bindr (Apply view_col (matching q db) (hq_cfg q)) (\<lambda>rows.
             Inr (map (selectMessageFields db (hq_callerID q) (hq_fields q)) rows)))"

definition messageHistoryStore_Search :: "(db \<Rightarrow> HistoryMessage list res) \<Rightarrow> db \<Rightarrow> HistoryMessage list res" where
  "messageHistoryStore_Search stmt db =
     (case stmt db of Inl e \<Rightarrow> Inl (Err Internal ''preparing history message query'') | Inr ms \<Rightarrow> Inr ms)"

definition newerThan :: "uuid \<Rightarrow> HistoryMessage \<Rightarrow> bool" where
  "newerThan i m \<longleftrightarrow> m_ID m > i"

definition history_BuildPageInfo ::
    "history_query \<Rightarrow> HistoryMessage list \<Rightarrow> (HistoryMessage list \<times> MessageHistoryCursor PageInfo) res" where
  "history_BuildPageInfo q rows =
     (let extract = (\<lambda>m. Inr \<lparr>mc_ID = m_ID m, mc_Before = False\<rparr>)
      in if cf_Direction (hq_cfg q) = DirectionAround
         then BuildAroundPageInfo zero_cursor rows (hq_cfg q) extract (newerThan (mc_ID (cf_Cursor (hq_cfg q))))
         else BuildPageInfo zero_cursor rows (hq_cfg q) extract)"

section \<open>The search query\<close>

text \<open>\<^verbatim>\<open>NewMessageSearchQuery\<close> starts from the messages that are not deleted.\<close>

definition NewMessageSearchQuery :: history_query where
  "NewMessageSearchQuery = add_where (\<lambda>_ r. ms_deleted_at (fst r) = None) NewMessageHistoryQuery"

definition like_escape :: "char \<Rightarrow> string" where
  "like_escape c = (if c = CHR 0x5C \<or> c = CHR ''%'' \<or> c = CHR ''_'' then [CHR 0x5C, c] else [c])"

definition LikeContains :: "string \<Rightarrow> string" where
  "LikeContains term = ''%'' @ concat (map like_escape term) @ ''%''"

text \<open>\<^verbatim>\<open>LIKE\<close>: a percent sign is any text, an underscore any character, and a backslash takes the next character as it is.\<close>

fun like_match :: "string \<Rightarrow> string \<Rightarrow> bool" where
  "like_match [] s = (s = [])"
| "like_match (p # ps) s =
     (if p = CHR ''%'' then (\<exists>k \<in> set [0..<Suc (length s)]. like_match ps (drop k s))
      else if p = CHR ''_'' then s \<noteq> [] \<and> like_match ps (drop (rune_width s) s)
      else if p = CHR 0x5C then (case ps of [] \<Rightarrow> False | q # qs \<Rightarrow> s \<noteq> [] \<and> hd s = q \<and> like_match qs (tl s))
      else s \<noteq> [] \<and> hd s = p \<and> like_match ps (tl s))"

text \<open>\<^verbatim>\<open>ILIKE\<close> compares in lower case, which the collation of the database defines.\<close>

definition WithTermFilter :: "(string \<Rightarrow> string) \<Rightarrow> string \<Rightarrow> history_query \<Rightarrow> history_query" where
  "WithTermFilter lower term q =
     (let t = TrimSpace term in if t = [] then q else add_where (\<lambda>_ r. like_match (lower (LikeContains t)) (lower (ms_body (fst r)))) q)"

definition WithDomainIDFilter :: "int \<Rightarrow> history_query \<Rightarrow> history_query" where
  "WithDomainIDFilter domainID q = (if domainID > 0 then add_where (\<lambda>_ r. ms_domain_id (fst r) = domainID) q else q)"

text \<open>The caller was a member of the thread when the message was written.\<close>

definition in_scope :: "uuid \<Rightarrow> db \<Rightarrow> message_row \<Rightarrow> bool" where
  "in_scope callerID db m \<longleftrightarrow>
     (\<exists>d \<in> set (db_dialogs db). dl_thread_id d = ms_thread_id m \<and> dl_member_id d = callerID \<and> ms_created_at m \<ge> dl_created_at d
        \<and> (case dl_deleted_at d of None \<Rightarrow> True | Some t \<Rightarrow> ms_created_at m \<le> t))"

definition WithCallerScope :: "uuid \<Rightarrow> history_query \<Rightarrow> history_query" where
  "WithCallerScope callerID q =
     (if callerID = uuid_nil then q else add_where (\<lambda>db r. in_scope callerID db (fst r)) (q\<lparr>hq_callerID := callerID\<rparr>))"

text \<open>The search has no page around a message: the cursor's direction only.\<close>

definition search_WithCursor :: "HistoryMessageCursor option \<Rightarrow> history_query \<Rightarrow> history_query" where
  "search_WithCursor cursor q =
     (case cursor of None \<Rightarrow> q
      | Some c \<Rightarrow> q\<lparr>hq_cfg := NewMessageHistoryConfigFromRaw (limitOrDefault q) \<lparr>mc_ID = hc_ID c, mc_Before = False\<rparr> (hc_Direction c)\<rparr>)"

section \<open>What a query selects\<close>

lemma select_field_frame:
  "m_Metadata (select_field db c r f h) = (if f = ''metadata'' then ms_metadata (fst r) else m_Metadata h)"
  "m_ReplyTo (select_field db c r f h) =
     (if f = ''reply_to'' then (if c \<noteq> uuid_nil then replyToColumn c db (fst r) else view_reply_to False db (fst r)) else m_ReplyTo h)"
  "m_ID (select_field db c r f h) = (if f = ''id'' then ms_id (fst r) else m_ID h)"
  "m_Body (select_field db c r f h) = (if f = ''body'' then ms_body (fst r) else m_Body h)"
  "m_ThreadID (select_field db c r f h) = (if f = ''thread_id'' then ms_thread_id (fst r) else m_ThreadID h)"
  "m_DeletedAt (select_field db c r f h) = (if f = ''deleted_at'' then ms_deleted_at (fst r) else m_DeletedAt h)"
  by (simp_all add: select_field_def Let_def)

lemma fold_field:
  assumes "\<And>f h. g (select_field db c r f h) = (if f = k then v else g h)"
  shows "g (fold (select_field db c r) fs h) = (if k \<in> set fs then v else g h)"
  by (induction fs arbitrary: h) (auto simp: assms)

lemma selected_fields:
  "m_ID (selectMessageFields db c fs r) = (if ''id'' \<in> set fs then ms_id (fst r) else uuid_nil)"
  "m_Body (selectMessageFields db c fs r) = (if ''body'' \<in> set fs then ms_body (fst r) else [])"
  "m_ThreadID (selectMessageFields db c fs r) = (if ''thread_id'' \<in> set fs then ms_thread_id (fst r) else uuid_nil)"
  "m_DeletedAt (selectMessageFields db c fs r) = (if ''deleted_at'' \<in> set fs then ms_deleted_at (fst r) else None)"
  "m_Metadata (selectMessageFields db c fs r) = (if ''metadata'' \<in> set fs then ms_metadata (fst r) else Map.empty)"
  "m_ReplyTo (selectMessageFields db c fs r) = (if ''reply_to'' \<in> set fs
     then (if c \<noteq> uuid_nil then replyToColumn c db (fst r) else view_reply_to False db (fst r)) else None)"
  unfolding selectMessageFields_def
  by (subst fold_field [of m_ID, OF select_field_frame(3)] fold_field [of m_Body, OF select_field_frame(4)]
      fold_field [of m_ThreadID, OF select_field_frame(5)] fold_field [of m_DeletedAt, OF select_field_frame(6)] fold_field [of m_Metadata, OF select_field_frame(1)]
      fold_field [of m_ReplyTo, OF select_field_frame(2)];
      simp add: zero_history_message_def zero_message_def Message.defs)+

lemma valid_fields_set: "set (valid_fields fs) = {f \<in> set fs. availableFields f}"
proof -
  have "set (fold (\<lambda>f valid. if availableFields f \<and> f \<notin> set valid then valid @ [f] else valid) fs vs) = set vs \<union> {f \<in> set fs. availableFields f}" for vs
    by (induction fs arbitrary: vs) auto
  then show ?thesis by (simp add: valid_fields_def)
qed

text \<open>The conditions that each method adds.\<close>

lemma where_simps [simp]:
  "hq_where (add_where p q) = hq_where q @ [p]" "hq_cfg (add_where p q) = hq_cfg q" "hq_fields (add_where p q) = hq_fields q"
  "hq_callerID (add_where p q) = hq_callerID q"
  by (simp_all add: add_where_def)

lemma filter_methods_frame [simp]:
  "hq_cfg (WithDomainIDsFilter ds q) = hq_cfg q" "hq_cfg (WithIDsFilter ids q) = hq_cfg q" "hq_cfg (WithThreadIDsFilter ids q) = hq_cfg q"
  "hq_cfg (WithSenderIDsFilter ids q) = hq_cfg q" "hq_cfg (WithTypeFilter ts q) = hq_cfg q" "hq_cfg (WithSystemMessageAllowList al q) = hq_cfg q"
  "hq_cfg (WithCallerLimitation c ids q) = hq_cfg q" "hq_cfg (WithFields fs q) = hq_cfg q" "hq_cfg (WithTermFilter lw t q) = hq_cfg q"
  "hq_cfg (WithDomainIDFilter d q) = hq_cfg q" "hq_cfg (WithCallerScope c q) = hq_cfg q"
  "hq_fields (WithDomainIDsFilter ds q) = hq_fields q" "hq_fields (WithIDsFilter ids q) = hq_fields q" "hq_fields (WithThreadIDsFilter ids q) = hq_fields q"
  "hq_fields (WithSenderIDsFilter ids q) = hq_fields q" "hq_fields (WithTypeFilter ts q) = hq_fields q"
  "hq_fields (WithSystemMessageAllowList al q) = hq_fields q" "hq_fields (WithCallerLimitation c ids q) = hq_fields q"
  "hq_fields (WithLimit n q) = hq_fields q" "hq_fields (WithCursor cu q) = hq_fields q" "hq_fields (search_WithCursor cu q) = hq_fields q"
  "hq_fields (WithTermFilter lw t q) = hq_fields q" "hq_fields (WithDomainIDFilter d q) = hq_fields q" "hq_fields (WithCallerScope c q) = hq_fields q"
  "hq_where (WithLimit n q) = hq_where q" "hq_where (WithCursor cu q) = hq_where q" "hq_where (search_WithCursor cu q) = hq_where q"
  "hq_where (WithFields fs q) = hq_where q"
  by (simp_all add: WithDomainIDsFilter_def WithIDsFilter_def WithThreadIDsFilter_def WithSenderIDsFilter_def WithTypeFilter_def
      WithSystemMessageAllowList_def WithCallerLimitation_def WithFields_def WithTermFilter_def WithDomainIDFilter_def WithCallerScope_def
      WithLimit_def WithCursor_def search_WithCursor_def Let_def split: option.split)

lemma settle_frame [simp]: "hq_where (settle q) = hq_where q" "hq_callerID (settle q) = hq_callerID q" "matching (settle q) db = matching q db"
  by (simp_all add: settle_def Let_def matching_def)

lemma matching_in_view: "r \<in> set (matching q db) \<Longrightarrow> fst r \<in> set (db_messages db)"
  by (auto simp: matching_def v_messages_def split: if_splits)

section \<open>A search term is matched literally\<close>

lemma strip_drop: "\<exists>k. strip ws s = drop k s"
proof (induction ws s rule: strip.induct)
  case (1 ws s)
  show ?case
  proof (cases "leading ws s = 0")
    case True
    then have "strip ws s = drop 0 s" by (subst strip.simps) simp
    then show ?thesis by blast
  next
    case False
    with 1 obtain k where "strip ws (drop (leading ws s) s) = drop (k + leading ws s) s" by (auto simp: add.commute)
    with False have "strip ws s = drop (k + leading ws s) s" by (subst strip.simps) simp
    then show ?thesis by blast
  qed
qed

lemma leading_strip: "leading ws (strip ws s) = 0"
  by (induction ws s rule: strip.induct) (metis strip.simps)

lemma strip_id: "leading ws s = 0 \<Longrightarrow> strip ws s = s"
  by (subst strip.simps) simp

lemma leading_take: "leading ws s = 0 \<Longrightarrow> leading ws (take k s) = 0"
  by (auto simp: leading_def find_None_iff take_Cons' split: option.splits dest!: find_SomeD)
    (metis length_take min.absorb4 not_le take_all take_take)

lemma TrimSpace_idem: "TrimSpace (TrimSpace s) = TrimSpace s"
proof -
  let ?x = "strip white_space s" and ?t = "TrimSpace s"
  obtain k where "strip (map rev white_space) (rev ?x) = drop k (rev ?x)" using strip_drop by blast
  then have "?t = take (length ?x - k) ?x" by (simp add: TrimSpace_def rev_drop)
  then have "leading white_space ?t = 0" using leading_take [OF leading_strip] by simp
  moreover have "leading (map rev white_space) (rev ?t) = 0" by (simp add: TrimSpace_def leading_strip)
  ultimately show ?thesis by (simp add: TrimSpace_def [of ?t] strip_id)
qed

lemma like_escape_match:
  "like_match (concat (map like_escape t) @ ps) s \<longleftrightarrow> (\<exists>s'. s = t @ s' \<and> like_match ps s')"
proof (induction t arbitrary: s)
  case (Cons c t)
  have "like_match (like_escape c @ q) s \<longleftrightarrow> s \<noteq> [] \<and> hd s = c \<and> like_match q (tl s)" for q s by (simp add: like_escape_def)
  with Cons show ?case by (cases s) auto
qed simp

lemma like_any: "like_match (CHR ''%'' # ps) s \<longleftrightarrow> (\<exists>k \<le> length s. like_match ps (drop k s))"
  by (simp add: Bex_def less_Suc_eq_le del: upt_Suc)

lemma LikeContains_match: "like_match (LikeContains t) s \<longleftrightarrow> (\<exists>a b. s = a @ t @ b)"
proof -
  have "like_match ''%'' u" for u by (auto simp: like_any)
  then have "like_match (LikeContains t) s \<longleftrightarrow> (\<exists>k \<le> length s. \<exists>b. drop k s = t @ b)"
    by (simp add: LikeContains_def like_any like_escape_match del: like_match.simps)
  also have "\<dots> \<longleftrightarrow> (\<exists>a b. s = a @ t @ b)"
    by (metis append_eq_conv_conj append_take_drop_id le_add1 length_append)
  finally show ?thesis .
qed

text \<open>In lower case too, when the case folding works by characters and leaves the three special ones alone.\<close>

lemma LikeContains_lower:
  assumes "\<forall>c. f c \<in> {CHR 0x5C, CHR ''%'', CHR ''_''} \<longleftrightarrow> c \<in> {CHR 0x5C, CHR ''%'', CHR ''_''}"
    and "f (CHR 0x5C) = CHR 0x5C" and "f (CHR ''%'') = CHR ''%''" and "f (CHR ''_'') = CHR ''_''"
  shows "map f (LikeContains t) = LikeContains (map f t)"
proof -
  have "map f (like_escape c) = like_escape (f c)" for c using assms spec [OF assms(1), of c] by (auto simp: like_escape_def)
  then show ?thesis by (simp add: LikeContains_def map_concat comp_def assms)
qed

section \<open>The configuration of a page and the rows it selects\<close>

text \<open>The size of a page: what was asked for if it is between 1 and 100, the default otherwise.\<close>

definition page_size :: "int \<Rightarrow> nat" where
  "page_size n = (if n > 0 \<and> n \<le> 100 then nat n else DefaultLimit)"

definition history_config :: "int \<Rightarrow> HistoryMessageCursor option \<Rightarrow> bool \<Rightarrow> MessageHistoryCursor Config" where
  "history_config n cursor around =
     (let cfg = (case cursor of
            None \<Rightarrow> zero_config\<lparr>cf_Direction := DirectionAfter, cf_Codec := Some JSONBase64Codec_Encode\<rparr>
          | Some c \<Rightarrow> zero_config\<lparr>cf_Cursor := \<lparr>mc_ID = hc_ID c, mc_Before = False\<rparr>, cf_HasCursor := hc_ID c \<noteq> uuid_nil,
              cf_Direction := (if around \<and> hc_Around c \<and> hc_ID c \<noteq> uuid_nil then DirectionAround
                               else if hc_Direction c then DirectionBefore else DirectionAfter),
              cf_Codec := Some RawParamsCursorCodec_Encode\<rparr>)
      in cfg\<lparr>cf_Limit := page_size n, cf_Columns := MessageHistoryColumns, cf_Mapper := Some MessageHistoryCursorMapper\<rparr>)"

lemma page_size_range: "1 \<le> page_size n \<and> page_size n \<le> 100"
  by (auto simp: page_size_def DefaultLimit_def)

lemma id_column: "TrimSpace ''id'' \<noteq> []"
proof -
  have "TrimSpace ''id'' = ''id''" by code_simp
  then show ?thesis by simp
qed

lemma history_config_ok: "config_ok (history_config n cursor around)"
  using page_size_range [of n] id_column
  by (cases cursor) (auto simp: config_ok_def ValidateConfig_def history_config_def MessageHistoryColumns_def zero_config_def cursor_values_def
      MessageHistoryCursorMapper_def Let_def)

lemma history_config_simps [simp]:
  "cf_Limit (history_config n cursor around) = page_size n"
  "cf_Columns (history_config n cursor around) = MessageHistoryColumns"
  "cf_Mapper (history_config n cursor around) = Some MessageHistoryCursorMapper"
  by (simp_all add: history_config_def Let_def)

definition cursor_token :: "HistoryMessageCursor option \<Rightarrow> MessageHistoryCursor \<Rightarrow> string" where
  "cursor_token cursor c = (case cursor of None \<Rightarrow> base64 (map of_char (cursor_json c)) | Some _ \<Rightarrow> [])"

lemma history_config_codec: "cf_Codec (history_config n cursor around) = Some (\<lambda>c. Inr (cursor_token cursor c))"
  by (cases cursor) (simp_all add: history_config_def Let_def cursor_token_def fun_eq_iff JSONBase64Codec_Encode_def RawParamsCursorCodec_Encode_def)

text \<open>Newest first: by the identifier, descending.\<close>

definition newest_first :: "view_row list \<Rightarrow> view_row list" where
  "newest_first rows = sort_key (\<lambda>r. - int (ms_id (fst r))) rows"

lemma sort_key_single: "sort_key (\<lambda>x. [f x]) xs = sort_key f xs" for f :: "'x \<Rightarrow> 'k :: linorder"
proof -
  have "insort_key (\<lambda>x. [f x]) a xs = insort_key f a xs" for a xs by (induction xs) auto
  then show ?thesis by (induction xs) simp_all
qed

lemma row_key_id: "order_key MessageHistoryColumns DirectionAfter (view_col r) = [- int (ms_id (fst r))]"
  by (simp add: order_key_def MessageHistoryColumns_def EffectiveOrder_def signed_def view_col_def)

lemma listing_newest_first: "cf_Columns cfg = MessageHistoryColumns \<Longrightarrow> listing view_col rows cfg = newest_first rows"
  by (simp add: listing_def applyOrderBy_def row_key_id sort_key_single newest_first_def)

lemma cursor_key_id:
  assumes "cf_Columns cfg = MessageHistoryColumns" and "cf_Mapper cfg = Some MessageHistoryCursorMapper" and "mc_ID (cf_Cursor cfg) \<noteq> uuid_nil"
  shows "cursor_key cfg = [- int (mc_ID (cf_Cursor cfg))]"
  using assms by (simp add: cursor_key_def cursor_values_def MessageHistoryCursorMapper_def order_key_def MessageHistoryColumns_def EffectiveOrder_def signed_def)

lemma set_newest_first [simp]: "set (newest_first rows) = set rows" "length (newest_first rows) = length rows"
  by (simp_all add: newest_first_def)

lemma newest_first_distinct:
  assumes "distinct (map (\<lambda>r. ms_id (fst r)) rows)"
  shows "sorted_wrt (\<lambda>a b. ms_id (fst a) > ms_id (fst b)) (newest_first rows)"
proof -
  have "sorted (map (\<lambda>r. - int (ms_id (fst r))) (newest_first rows))" by (simp add: newest_first_def)
  moreover have "mset (map (\<lambda>r. ms_id (fst r)) (newest_first rows)) = mset (map (\<lambda>r. ms_id (fst r)) rows)" by (simp add: newest_first_def)
  then have "distinct (map (\<lambda>r. ms_id (fst r)) (newest_first rows))" using assms by (metis mset_eq_imp_distinct_iff)
  ultimately have "sorted_wrt (\<lambda>a b. ms_id (fst a) \<ge> ms_id (fst b) \<and> ms_id (fst a) \<noteq> ms_id (fst b)) (newest_first rows)"
    by (simp add: sorted_wrt_map distinct_conv_nth sorted_wrt_iff_nth_less sorted_map)
  then show ?thesis by (rule sorted_wrt_mono_rel [rotated]) auto
qed

lemma newest_first_before:
  "sorted_wrt (\<lambda>a b. ms_id (fst a) > ms_id (fst b)) L \<Longrightarrow> k < length L \<Longrightarrow>
     filter (\<lambda>r. ms_id (fst r) < ms_id (fst (L ! k))) L = drop (Suc k) L \<and> filter (\<lambda>r. ms_id (fst r) > ms_id (fst (L ! k))) L = take k L"
proof (induction L arbitrary: k)
  case (Cons x L)
  show ?case
  proof (cases k)
    case 0
    with Cons.prems show ?thesis by (auto simp: filter_id_conv filter_empty_conv)
  next
    case (Suc j)
    with Cons show ?thesis by (auto simp: not_less less_imp_le)
  qed
qed simp

end
