(* ===== verification/History.thy ===== *)
theory History
  imports History_Query Journal
begin

text \<open>
  \<^verbatim>\<open>internal/service/message_history.go\<close> (\<^verbatim>\<open>Search\<close> and \<^verbatim>\<open>SearchMessages\<close>), the handlers of
  \<^verbatim>\<open>internal/handler/grpc/message_history.go\<close> and the mapper \<^verbatim>\<open>internal/handler/grpc/mapper/message_history.go\<close>.
  An identifier of a response is the number its text denotes; \<^verbatim>\<open>uuid.Parse\<close> and \<^verbatim>\<open>structpb.NewStruct\<close> are
  functions of packages and parameters.

  Walking the pages forward yields the whole listing once; a page backward is the one that precedes it; a page around a message is the window of the listing
  at it. A reader of a thread sees its messages only, a search only what was written while the caller was a member, and a deleted message leaves
  an empty trace in the response.
\<close>

section \<open>The service\<close>

record HistoryMessageInputDTO =
  hd_DomainID :: int
  hd_Fields :: "string list"
  hd_IDs :: "uuid list"
  hd_ThreadIDs :: "uuid list"
  hd_SenderIDs :: "uuid list"
  hd_Types :: "int list"
  hd_Cursor :: "HistoryMessageCursor option"
  hd_Size :: int
  hd_CallerID :: uuid
  hd_SystemMessageAllowListTypes :: "string list option"

definition history_query_of :: "HistoryMessageInputDTO \<Rightarrow> history_query" where
  "history_query_of d =
     WithSystemMessageAllowList (hd_SystemMessageAllowListTypes d)
     (WithTypeFilter (hd_Types d)
     (WithLimit (hd_Size d)
     (WithCallerLimitation (hd_CallerID d) (hd_ThreadIDs d)
     (WithThreadIDsFilter (hd_ThreadIDs d)
     (WithSenderIDsFilter (hd_SenderIDs d)
     (WithIDsFilter (hd_IDs d)
     (WithDomainIDsFilter [hd_DomainID d]
     (WithCursor (hd_Cursor d)
     (WithFields (hd_Fields d) NewMessageHistoryQuery)))))))))"

definition history_Search :: "HistoryMessageInputDTO \<Rightarrow> db \<Rightarrow> (HistoryMessage list \<times> MessageHistoryCursor PageInfo) res" where
  "history_Search d db =
     (let q = settle (history_query_of d)
      in bindr (messageHistoryStore_Search (history_ToSQL q) db) (history_BuildPageInfo q))"

record SearchMessagesInputDTO =
  sd_DomainID :: int
  sd_Fields :: "string list"
  sd_Term :: string
  sd_ThreadIDs :: "uuid list"
  sd_SenderIDs :: "uuid list"
  sd_Types :: "int list"
  sd_Cursor :: "HistoryMessageCursor option"
  sd_Size :: int
  sd_CallerID :: uuid
  sd_SystemMessageAllowListTypes :: "string list option"

text \<open>\<^verbatim>\<open>utf8.RuneCountInString\<close>.\<close>

function RuneCount :: "string \<Rightarrow> nat" where
  "RuneCount s = (if s = [] then 0 else Suc (RuneCount (drop (max 1 (rune_width s)) s)))"
  by pat_completeness auto
termination by (relation "measure length") auto

declare RuneCount.simps [simp del]

lemma RuneCount_le: "RuneCount s \<le> length s"
proof (induction s rule: RuneCount.induct)
  case (1 s)
  show ?case
  proof (cases "s = []")
    case False
    then have "RuneCount s = Suc (RuneCount (drop (max 1 (rune_width s)) s))" by (subst RuneCount.simps) simp
    also have "\<dots> \<le> Suc (length (drop (max 1 (rune_width s)) s))" using 1 [OF False] by simp
    also have "\<dots> \<le> length s" using False by (cases s) auto
    finally show ?thesis .
  qed (simp add: RuneCount.simps)
qed

definition search_query_of :: "(string \<Rightarrow> string) \<Rightarrow> string \<Rightarrow> SearchMessagesInputDTO \<Rightarrow> history_query" where
  "search_query_of lower term d =
     WithSystemMessageAllowList (sd_SystemMessageAllowListTypes d)
     (search_WithCursor (sd_Cursor d)
     (WithLimit (sd_Size d)
     (WithCallerScope (sd_CallerID d)
     (WithTypeFilter (sd_Types d)
     (WithSenderIDsFilter (sd_SenderIDs d)
     (WithThreadIDsFilter (sd_ThreadIDs d)
     (WithDomainIDFilter (sd_DomainID d)
     (WithTermFilter lower term
     (WithFields (sd_Fields d) NewMessageSearchQuery)))))))))"

definition SearchMessages ::
    "(string \<Rightarrow> string) \<Rightarrow> SearchMessagesInputDTO option \<Rightarrow> db \<Rightarrow> (HistoryMessage list \<times> MessageHistoryCursor PageInfo) res" where
  "SearchMessages lower req db =
     (case req of None \<Rightarrow> Inl (Err InvalidArgument ''search term is required'')
      | Some d \<Rightarrow>
         let term = TrimSpace (sd_Term d)
         in bindr (fail_if (term = [] \<or> RuneCount term > 256) (Err InvalidArgument ''search term is required'')) (\<lambda>_.
            bindr (fail_if (sd_CallerID d = uuid_nil) (Err InvalidArgument ''caller identity is required'')) (\<lambda>_.
            let q = settle (search_query_of lower term d)
            in bindr (messageHistoryStore_Search (history_ToSQL q) db) (history_BuildPageInfo q))))"

section \<open>Requests\<close>

record CursorRequest =
  cq_Id :: string
  cq_Before :: bool
  cq_Around :: bool

record SearchMessageHistoryRequest =
  hr_Fields :: "string list"
  hr_Ids :: "string list"
  hr_ThreadId :: string
  hr_SenderIds :: "string list"
  hr_Size :: int
  hr_Types :: "int list"
  hr_Cursor :: "CursorRequest option"
  hr_DomainId :: int
  hr_CallerId :: string
  hr_SystemMessageAllowList :: "string list option"

definition IDsParser :: "(string \<Rightarrow> uuid option) \<Rightarrow> string \<Rightarrow> uuid" where
  "IDsParser parse s = (case parse s of None \<Rightarrow> uuid_nil | Some u \<Rightarrow> u)"

definition map_cursor :: "(string \<Rightarrow> uuid option) \<Rightarrow> CursorRequest \<Rightarrow> HistoryMessageCursor" where
  "map_cursor parse c = \<lparr>hc_ID = IDsParser parse (cq_Id c), hc_Direction = cq_Before c, hc_Around = cq_Around c\<rparr>"

text \<open>The list of allowed types is absent or present; a present one without types is empty, not absent.\<close>

definition systemMessageAllowListTypes :: "string list option \<Rightarrow> string list option" where
  "systemMessageAllowListTypes allow = allow"

definition MapSearchMessageHistoryRequest :: "(string \<Rightarrow> uuid option) \<Rightarrow> SearchMessageHistoryRequest \<Rightarrow> HistoryMessageInputDTO" where
  "MapSearchMessageHistoryRequest parse r =
     \<lparr>hd_DomainID = hr_DomainId r, hd_Fields = hr_Fields r, hd_IDs = map (IDsParser parse) (hr_Ids r),
      hd_ThreadIDs = map (IDsParser parse) [hr_ThreadId r], hd_SenderIDs = map (IDsParser parse) (hr_SenderIds r),
      hd_Types = hr_Types r, hd_Cursor = map_option (map_cursor parse) (hr_Cursor r), hd_Size = hr_Size r,
      hd_CallerID = IDsParser parse (hr_CallerId r),
      hd_SystemMessageAllowListTypes = systemMessageAllowListTypes (hr_SystemMessageAllowList r)\<rparr>"

record SearchMessagesRequest =
  qr_Fields :: "string list"
  qr_Q :: string
  qr_ThreadId :: string
  qr_SenderIds :: "string list"
  qr_Size :: int
  qr_Types :: "int list"
  qr_Cursor :: "CursorRequest option"
  qr_DomainId :: int
  qr_CallerId :: string
  qr_SystemMessageAllowList :: "string list option"

definition MapSearchMessagesRequest :: "(string \<Rightarrow> uuid option) \<Rightarrow> SearchMessagesRequest \<Rightarrow> SearchMessagesInputDTO" where
  "MapSearchMessagesRequest parse r =
     (let i = IDsParser parse (qr_ThreadId r)
      in \<lparr>sd_DomainID = qr_DomainId r, sd_Fields = qr_Fields r, sd_Term = qr_Q r, sd_ThreadIDs = (if i \<noteq> uuid_nil then [i] else []),
          sd_SenderIDs = map (IDsParser parse) (qr_SenderIds r), sd_Types = qr_Types r,
          sd_Cursor = map_option (map_cursor parse) (qr_Cursor r), sd_Size = qr_Size r, sd_CallerID = IDsParser parse (qr_CallerId r),
          sd_SystemMessageAllowListTypes = systemMessageAllowListTypes (qr_SystemMessageAllowList r)\<rparr>)"

text \<open>The newest message of a thread, or the given ones, as the caller sees them in the history.\<close>

definition UpdatesHistoryInput :: "(string \<Rightarrow> uuid option) \<Rightarrow> string \<Rightarrow> string \<Rightarrow> int \<Rightarrow> string list option \<Rightarrow> string list \<Rightarrow> HistoryMessageInputDTO" where
  "UpdatesHistoryInput parse threadID callerID domainID allow messageIDs =
     \<lparr>hd_DomainID = domainID, hd_Fields = [], hd_IDs = (if messageIDs \<noteq> [] then map (IDsParser parse) messageIDs else []),
      hd_ThreadIDs = map (IDsParser parse) [threadID], hd_SenderIDs = [], hd_Types = [], hd_Cursor = None,
      hd_Size = max (int (length messageIDs)) 1, hd_CallerID = IDsParser parse callerID,
      hd_SystemMessageAllowListTypes = systemMessageAllowListTypes allow\<rparr>"

section \<open>Responses\<close>

record ThreadMemberPb =
  pm_Id :: "uuid option"
  pm_ContactId :: uuid
  pm_Role :: int

definition mapThreadDialog2ThreadMember :: "ThreadDialog option \<Rightarrow> ThreadMemberPb option" where
  "mapThreadDialog2ThreadMember d =
     map_option (\<lambda>x. \<lparr>pm_Id = (if bm_ID x \<noteq> uuid_nil then Some (bm_ID x) else None), pm_ContactId = td_ContactID x, pm_Role = td_ThreadRole x\<rparr>) d"

record ReactionPb =
  px_Emoji :: string
  px_Count :: int
  px_ReactedByMe :: bool
  px_ReactorIds :: "uuid list"
  px_LastReactedAt :: int

definition mapReactions :: "ReactionAggregate list \<Rightarrow> uuid \<Rightarrow> ReactionPb list" where
  "mapReactions rs callerID =
     map (\<lambda>r. \<lparr>px_Emoji = ra_Emoji r, px_Count = ra_Count r, px_ReactedByMe = (callerID \<noteq> uuid_nil \<and> callerID \<in> set (ra_ReactorIDs r)),
               px_ReactorIds = ra_ReactorIDs r, px_LastReactedAt = ra_LastReactedAt r\<rparr>) rs"

datatype ButtonKind = PbCallback string | PbUrl string | PbRequest string

record KeyboardButtonPb =
  kp_Id :: string
  kp_Label :: string
  kp_Metadata :: "metadata option"
  kp_Kind :: "ButtonKind option"

definition mapHistoryButton :: "(metadata \<Rightarrow> bool) \<Rightarrow> KeyboardButton option \<Rightarrow> KeyboardButtonPb option" where
  "mapHistoryButton structable b =
     map_option (\<lambda>x. \<lparr>kp_Id = kb_ID x, kp_Label = kb_Label x, kp_Metadata = (if structable (kb_Metadata x) then Some (kb_Metadata x) else None),
        kp_Kind = (if kb_Type x = ''callback'' then map_option PbCallback (kb_Data x)
                   else if kb_Type x = ''url'' then map_option PbUrl (kb_URL x)
                   else if kb_Type x = ''request'' then map_option PbRequest (kb_Action x) else None)\<rparr>) b"

text \<open>Nil rows and rows without a button are left out.\<close>

definition mapInteractiveMarkup :: "(metadata \<Rightarrow> bool) \<Rightarrow> KeyboardButtonRow option list \<Rightarrow> KeyboardButtonPb list list" where
  "mapInteractiveMarkup structable rows =
     filter (\<lambda>bs. bs \<noteq> []) (map (List.map_filter (mapHistoryButton structable)) (List.map_filter (\<lambda>r. r) rows))"

definition mapListReplySection :: "(metadata \<Rightarrow> bool) \<Rightarrow> ListReplySection option \<Rightarrow> (string \<times> KeyboardButtonPb list) option" where
  "mapListReplySection structable sec = map_option (\<lambda>x. (ls_Section x, List.map_filter (mapHistoryButton structable) (ls_Buttons x))) sec"

datatype InteractiveKindPb = PbListReply string "(string \<times> KeyboardButtonPb list) list" | PbMarkup "KeyboardButtonPb list list"

definition mapInteractiveList :: "(metadata \<Rightarrow> bool) \<Rightarrow> KeyboardListReply \<Rightarrow> InteractiveKindPb" where
  "mapInteractiveList structable l = PbListReply (lr_Title l) (List.map_filter (mapListReplySection structable) (lr_Sections l))"

record InteractivePb =
  px_SingleUse :: bool
  px_Kind :: "InteractiveKindPb option"

definition mapHistoryInteractive :: "(metadata \<Rightarrow> bool) \<Rightarrow> MessageInteractive option \<Rightarrow> InteractivePb option" where
  "mapHistoryInteractive structable i =
     map_option (\<lambda>x. \<lparr>px_SingleUse = ia_SingleUse x,
        px_Kind = (case ia_ListReply x of Some l \<Rightarrow> Some (mapInteractiveList structable l)
                   | None \<Rightarrow> map_option (\<lambda>rows. PbMarkup (mapInteractiveMarkup structable rows)) (ia_Markup x))\<rparr>) i"

definition mapSystem :: "(metadata \<Rightarrow> bool) \<Rightarrow> MessageSystem option \<Rightarrow> (string \<times> metadata option) option" where
  "mapSystem structable y = map_option (\<lambda>x. (sy_Type x, if structable (sy_Metadata x) then Some (sy_Metadata x) else None)) y"

record ReplyToMessagePb =
  py_MessageId :: uuid
  py_SenderId :: uuid
  py_Type :: string
  py_Body :: string
  py_CreatedAt :: int
  py_IsDeleted :: bool
  py_Attachment :: "ReplyAttachment option"

definition mapReplyTo :: "ReplyToPreview option \<Rightarrow> ReplyToMessagePb option" where
  "mapReplyTo q =
     map_option (\<lambda>x. \<lparr>py_MessageId = rt_MessageID x, py_SenderId = rt_SenderID x, py_Type = MessageType_String (rt_Type x), py_Body = rt_Body x,
        py_CreatedAt = rt_CreatedAt x, py_IsDeleted = rt_IsDeleted x, py_Attachment = rt_Attachment x\<rparr>) q"

record ForwardOriginPb =
  pf_Kind :: int
  pf_SenderName :: string
  pf_OriginalSentAt :: int
  pf_SenderId :: "uuid option"
  pf_SourceMessageId :: "uuid option"

definition mapForwardOrigin :: "ForwardOrigin option \<Rightarrow> ForwardOriginPb option" where
  "mapForwardOrigin f =
     map_option (\<lambda>x. \<lparr>pf_Kind = fo_Kind x, pf_SenderName = fo_SenderName x, pf_OriginalSentAt = fo_OriginalSentAt x, pf_SenderId = fo_SenderID x,
        pf_SourceMessageId = fo_SourceMessageID x\<rparr>) f"

definition mapReactedMetadata :: "callback_row option \<Rightarrow> (uuid \<times> string \<times> string \<times> int) option" where
  "mapReactedMetadata b = map_option (\<lambda>x. (cb_reacted_by x, cb_button_code x, cb_callback_data x, UnixMilli (cb_reacted_at x))) b"

text \<open>Locations, contacts, attachments and delivery failures are passed on with the same fields.\<close>

record HistoryMessagePb =
  ph_Id :: uuid
  ph_ThreadId :: uuid
  ph_SenderId :: uuid
  ph_Type :: int
  ph_CreatedAt :: int
  ph_UpdatedAt :: int
  ph_Seq :: int
  ph_RevisionCount :: int
  ph_Deleted :: bool
  ph_DeletedAt :: int
  ph_DeletedBy :: "ThreadMemberPb option"
  ph_Body :: string
  ph_Metadata :: "metadata option"
  ph_Documents :: "MessageDocument list"
  ph_Images :: "MessageImage list"
  ph_Location :: "MessageLocation option"
  ph_Contact :: "MessageContact option"
  ph_System :: "(string \<times> metadata option) option"
  ph_Interactive :: "InteractivePb option"
  ph_ReactedMetadata :: "(uuid \<times> string \<times> string \<times> int) option"
  ph_ReplyTo :: "ReplyToMessagePb option"
  ph_ForwardOrigin :: "ForwardOriginPb option"
  ph_Reactions :: "ReactionPb list"
  ph_Failures :: "DeliveryFailure list"

text \<open>A deleted message is only its frame; a message whose metadata is not representable is nil in the list.\<close>

definition mapHistoryMessage :: "(metadata \<Rightarrow> bool) \<Rightarrow> uuid \<Rightarrow> HistoryMessage \<Rightarrow> HistoryMessagePb option" where
  "mapHistoryMessage structable callerID m =
     (let out = \<lparr>ph_Id = m_ID m, ph_ThreadId = m_ThreadID m, ph_SenderId = m_SenderID m, ph_Type = m_Type m,
            ph_CreatedAt = max (UnixMilli (m_CreatedAt m)) 0, ph_UpdatedAt = max (UnixMilli (m_UpdatedAt m)) 0, ph_Seq = m_Seq m,
            ph_RevisionCount = hm_RevisionCount m, ph_Deleted = False, ph_DeletedAt = 0, ph_DeletedBy = None, ph_Body = [], ph_Metadata = None,
            ph_Documents = [], ph_Images = [], ph_Location = None, ph_Contact = None, ph_System = None, ph_Interactive = None,
            ph_ReactedMetadata = None, ph_ReplyTo = None, ph_ForwardOrigin = None, ph_Reactions = [], ph_Failures = []\<rparr>
      in case m_DeletedAt m of
           Some t \<Rightarrow> Some (out\<lparr>ph_Deleted := True, ph_DeletedAt := max (UnixMilli t) 0, ph_DeletedBy := mapThreadDialog2ThreadMember (hm_DeletedBy m)\<rparr>)
         | None \<Rightarrow>
            if \<not> structable (m_Metadata m) then None
            else Some (out\<lparr>ph_Body := m_Body m, ph_Metadata := Some (m_Metadata m), ph_Documents := m_Documents m, ph_Images := m_Images m,
                   ph_Location := m_Location m, ph_Contact := m_Contact m, ph_System := mapSystem structable (m_System m),
                   ph_Interactive := mapHistoryInteractive structable (m_Interactive m),
                   ph_ReactedMetadata := mapReactedMetadata (hm_ReactedMetadata m), ph_ReplyTo := mapReplyTo (m_ReplyTo m),
                   ph_ForwardOrigin := mapForwardOrigin (m_ForwardOrigin m),
                   ph_Reactions := mapReactions (hm_Reactions m) callerID, ph_Failures := hm_Failures m\<rparr>))"

text \<open>
  The set of the members compares structs, which for the pointers among their fields means identity: two members read from two rows
  are the same element when they agree and have nil in every such field. The set is listed in no particular order; here it is
  that of the messages.
\<close>

definition go_equal :: "ThreadDialog \<Rightarrow> ThreadDialog \<Rightarrow> bool" where
  "go_equal a b \<longleftrightarrow> a = b \<and> td_DeletedAt a = None \<and> td_InvitedBy a = None \<and> td_LeaveReason a = None \<and> td_Via a = None"

definition insert_member :: "ThreadDialog \<Rightarrow> ThreadDialog list \<Rightarrow> ThreadDialog list" where
  "insert_member d ds = (if \<exists>x \<in> set ds. go_equal x d then ds else ds @ [d])"

definition GetUniqueFrom :: "HistoryMessage list \<Rightarrow> ThreadMemberPb list" where
  "GetUniqueFrom ms = map (\<lambda>d. the (mapThreadDialog2ThreadMember (Some d))) (fold insert_member (List.map_filter m_Member ms) [])"

record SearchMessageHistoryResponse =
  sp_Items :: "HistoryMessagePb option list"
  sp_From :: "ThreadMemberPb list"
  sp_UpdatesCursor :: string
  sp_NextCursor :: "uuid option"
  sp_PrevCursor :: "uuid option"

text \<open>
  No caller, no cursor of updates; a text that is not an identifier fails the statement. The cursor is read before the page.
\<close>

definition updatesCursor :: "(string \<Rightarrow> uuid option) \<Rightarrow> int \<Rightarrow> string \<Rightarrow> db \<Rightarrow> string res" where
  "updatesCursor parse horizon callerID db =
     (if callerID = [] \<or> callerID = uuid_String uuid_nil then Inr []
      else case parse callerID of None \<Rightarrow> Inl (Err Unknown ''invalid input syntax for type uuid'')
           | Some c \<Rightarrow> Inr (ContactCursor c horizon db))"

definition history_response ::
    "(metadata \<Rightarrow> bool) \<Rightarrow> uuid \<Rightarrow> string \<Rightarrow> HistoryMessage list \<times> MessageHistoryCursor PageInfo \<Rightarrow> SearchMessageHistoryResponse" where
  "history_response structable callerID cursor page =
     \<lparr>sp_Items = map (mapHistoryMessage structable callerID) (fst page), sp_From = GetUniqueFrom (fst page), sp_UpdatesCursor = cursor,
      sp_NextCursor = (if pg_HasNextPage (snd page) then Some (mc_ID (pg_NextCursor (snd page))) else None),
      sp_PrevCursor = (if pg_HasPrevPage (snd page) then Some (mc_ID (pg_PrevCursor (snd page))) else None)\<rparr>"

definition SearchThreadMessagesHistory ::
    "(string \<Rightarrow> uuid option) \<Rightarrow> (metadata \<Rightarrow> bool) \<Rightarrow> int \<Rightarrow> SearchMessageHistoryRequest \<Rightarrow> db \<Rightarrow> SearchMessageHistoryResponse res" where
  "SearchThreadMessagesHistory parse structable horizon req db =
     (let d = MapSearchMessageHistoryRequest parse req
      in bindr (updatesCursor parse horizon (hr_CallerId req) db) (\<lambda>cursor.
         bindr (history_Search d db) (\<lambda>page. Inr (history_response structable (hd_CallerID d) cursor page))))"

definition SearchMessages_handler ::
    "(string \<Rightarrow> uuid option) \<Rightarrow> (metadata \<Rightarrow> bool) \<Rightarrow> (string \<Rightarrow> string) \<Rightarrow> int \<Rightarrow> SearchMessagesRequest \<Rightarrow> db \<Rightarrow> SearchMessageHistoryResponse res" where
  "SearchMessages_handler parse structable lower horizon req db =
     (let d = MapSearchMessagesRequest parse req
      in bindr (updatesCursor parse horizon (qr_CallerId req) db) (\<lambda>cursor.
         bindr (SearchMessages lower (Some d) db) (\<lambda>page. Inr (history_response structable (sd_CallerID d) cursor page))))"

section \<open>The page a query returns\<close>

lemma history_cfg: "hq_cfg (settle (history_query_of d)) = history_config (hd_Size d) (hd_Cursor d) True"
  by (auto simp: history_query_of_def settle_def WithLimit_def WithCursor_def NewMessageHistoryQuery_def zero_config_def Let_def
      NewMessageHistoryConfigFromRaw_def parseMessageHistoryFields_def limitOrDefault_def DefaultLimit_def history_config_def page_size_def
      zero_cursor_def split: option.split)

lemma search_cfg: "hq_cfg (settle (search_query_of lower t d)) = history_config (sd_Size d) (sd_Cursor d) False"
  by (auto simp: search_query_of_def settle_def WithLimit_def search_WithCursor_def NewMessageSearchQuery_def NewMessageHistoryQuery_def zero_config_def
      Let_def NewMessageHistoryConfigFromRaw_def parseMessageHistoryFields_def limitOrDefault_def DefaultLimit_def history_config_def page_size_def
      zero_cursor_def split: option.split)

definition row_cursor :: "HistoryMessage \<Rightarrow> MessageHistoryCursor" where
  "row_cursor m = \<lparr>mc_ID = m_ID m, mc_Before = False\<rparr>"

definition run_query :: "history_query \<Rightarrow> db \<Rightarrow> (HistoryMessage list \<times> MessageHistoryCursor PageInfo) res" where
  "run_query q db = bindr (messageHistoryStore_Search (history_ToSQL q) db) (history_BuildPageInfo q)"

lemma run_query_after:
  fixes db :: db
  assumes "hq_cfg q = history_config n cursor around" and "cf_Direction (hq_cfg q) = DirectionAfter"
  defines "xs \<equiv> (case cursor of Some c \<Rightarrow> if hc_ID c \<noteq> uuid_nil then filter (\<lambda>r. ms_id (fst r) < hc_ID c) (newest_first (matching q db))
      else newest_first (matching q db) | None \<Rightarrow> newest_first (matching q db))"
  defines "ms \<equiv> map (selectMessageFields db (hq_callerID q) (hq_fields q)) xs"
  shows "run_query q db = Inr (take (page_size n) ms, page_at zero_cursor row_cursor (cursor_token cursor) (take (page_size n) ms)
     (length xs > page_size n) (xs \<noteq> [] \<and> cf_HasCursor (hq_cfg q)))"
proof -
  let ?cfg = "hq_cfg q" and ?sel = "selectMessageFields db (hq_callerID q) (hq_fields q)"
  have ok: "config_ok ?cfg" and codec: "cf_Codec ?cfg = Some (\<lambda>c. Inr (cursor_token cursor c))" and cols: "cf_Columns ?cfg = MessageHistoryColumns"
    and lim: "cf_Limit ?cfg = page_size n" by (simp_all add: assms(1) history_config_ok history_config_codec)
  have "cf_HasCursor ?cfg \<Longrightarrow> \<exists>c. cursor = Some c \<and> hc_ID c \<noteq> uuid_nil \<and> cf_Cursor ?cfg = \<lparr>mc_ID = hc_ID c, mc_Before = False\<rparr>"
    "\<not> cf_HasCursor ?cfg \<Longrightarrow> cursor = None \<or> (\<exists>c. cursor = Some c \<and> hc_ID c = uuid_nil)"
    by (auto simp: assms(1) history_config_def zero_config_def Let_def split: option.splits)
  then have "Apply view_col (matching q db) ?cfg = Inr (take (page_size n + 1) xs)"
    using Apply_after [OF ok assms(2), of view_col "matching q db"] cursor_key_id [of ?cfg]
    by (cases "cf_HasCursor ?cfg") (auto simp: listing_newest_first cols lim row_key_id assms(1) xs_def)
  then have "history_ToSQL q db = Inr (take (page_size n + 1) ms)"
    using assms(2) by (simp add: history_ToSQL_def ms_def take_map)
  moreover have "BuildPageInfo zero_cursor (take (cf_Limit ?cfg + 1) ms) ?cfg (\<lambda>r. Inr (row_cursor r)) =
      Inr (take (page_size n) ms, page_at zero_cursor row_cursor (cursor_token cursor) (take (page_size n) ms) (length ms > page_size n)
        (ms \<noteq> [] \<and> cf_HasCursor ?cfg))"
    using BuildPageInfo_after [OF ok assms(2) codec, of zero_cursor ms row_cursor] by (simp add: lim)
  ultimately show ?thesis
    using assms(2) by (simp add: run_query_def messageHistoryStore_Search_def history_BuildPageInfo_def Let_def row_cursor_def lim ms_def)
qed

lemma history_Search_run: "history_Search d db = run_query (settle (history_query_of d)) db"
  by (simp add: history_Search_def run_query_def Let_def)

lemma distinct_row_keys:
  "distinct (map (\<lambda>r. ms_id (fst r)) rows) \<Longrightarrow> cf_Columns cfg = MessageHistoryColumns \<Longrightarrow>
     distinct (map (\<lambda>r. order_key (cf_Columns cfg) DirectionAfter (view_col r)) rows)"
  by (simp add: row_key_id distinct_map inj_on_def)

lemma run_query_before:
  fixes db :: db
  assumes "hq_cfg q = history_config n (Some c) around" and "cf_Direction (hq_cfg q) = DirectionBefore" and "hc_ID c \<noteq> uuid_nil"
    and "distinct (map (\<lambda>r. ms_id (fst r)) (matching q db))"
  defines "xs \<equiv> filter (\<lambda>r. ms_id (fst r) > hc_ID c) (newest_first (matching q db))"
  defines "ms \<equiv> map (selectMessageFields db (hq_callerID q) (hq_fields q)) (drop (length xs - page_size n) xs)"
  shows "run_query q db = Inr (ms, page_at zero_cursor row_cursor (\<lambda>_. []) ms (xs \<noteq> []) (length xs > page_size n))"
proof -
  let ?cfg = "hq_cfg q" and ?sel = "selectMessageFields db (hq_callerID q) (hq_fields q)"
  have ok: "config_ok ?cfg" and codec: "cf_Codec ?cfg = Some (\<lambda>x. Inr [])" and cols: "cf_Columns ?cfg = MessageHistoryColumns"
    and lim: "cf_Limit ?cfg = page_size n" and has: "cf_HasCursor ?cfg" "cf_Cursor ?cfg = \<lparr>mc_ID = hc_ID c, mc_Before = False\<rparr>"
    using assms(3) by (simp_all add: assms(1) history_config_ok history_config_codec cursor_token_def) (simp_all add: history_config_def Let_def zero_config_def)
  have "Apply view_col (matching q db) ?cfg = Inr (take (page_size n + 1) (rev xs))"
    using Apply_before [OF ok assms(2) distinct_row_keys [OF assms(4) cols]] cursor_key_id [of ?cfg] assms(3) has
    by (simp add: listing_newest_first cols lim row_key_id assms(1) xs_def)
  then have "history_ToSQL q db = Inr (take (page_size n + 1) (map ?sel (rev xs)))"
    using assms(2) by (simp add: history_ToSQL_def take_map)
  moreover have "BuildPageInfo zero_cursor (take (cf_Limit ?cfg + 1) (map ?sel (rev xs))) ?cfg (\<lambda>r. Inr (row_cursor r)) =
      Inr (rev (take (page_size n) (map ?sel (rev xs))), page_at zero_cursor row_cursor (\<lambda>_. []) (rev (take (page_size n) (map ?sel (rev xs))))
        (map ?sel (rev xs) \<noteq> [] \<and> cf_HasCursor ?cfg) (length (map ?sel (rev xs)) > page_size n))"
    using BuildPageInfo_before [OF ok assms(2), of "\<lambda>_. []" zero_cursor "map ?sel (rev xs)" row_cursor] codec by (simp add: lim)
  moreover have "rev (take (page_size n) (map ?sel (rev xs))) = ms" by (simp add: ms_def take_rev rev_map take_map drop_map flip: rev_map)
  ultimately show ?thesis
    using assms(2) has by (simp add: run_query_def messageHistoryStore_Search_def history_BuildPageInfo_def Let_def row_cursor_def lim)
qed

section \<open>Walking the pages\<close>

text \<open>
  The fields a request selects, and the whole listing it pages through. Whether a request names a cursor has no part in either.
\<close>

definition selected :: "HistoryMessageInputDTO \<Rightarrow> string list" where
  "selected d = hq_fields (settle (history_query_of d))"

definition history_listing :: "HistoryMessageInputDTO \<Rightarrow> db \<Rightarrow> view_row list" where
  "history_listing d db = newest_first (matching (history_query_of d) db)"

definition shown :: "HistoryMessageInputDTO \<Rightarrow> db \<Rightarrow> view_row \<Rightarrow> HistoryMessage" where
  "shown d db = selectMessageFields db (hd_CallerID d) (selected d)"

text \<open>Identifiers are not nil and no message is listed twice.\<close>

definition listable :: "HistoryMessageInputDTO \<Rightarrow> db \<Rightarrow> bool" where
  "listable d db \<longleftrightarrow> distinct (map (\<lambda>r. ms_id (fst r)) (matching (history_query_of d) db))
     \<and> (\<forall>r \<in> set (matching (history_query_of d) db). ms_id (fst r) \<noteq> uuid_nil)"

text \<open>A client that asks for the next page as long as there is one.\<close>

fun walk :: "nat \<Rightarrow> HistoryMessageInputDTO \<Rightarrow> db \<Rightarrow> HistoryMessage list res" where
  "walk 0 d db = Inr []"
| "walk (Suc n) d db =
     bindr (history_Search d db) (\<lambda>(ms, info).
       if pg_HasNextPage info
       then bindr (walk n (d\<lparr>hd_Cursor := Some \<lparr>hc_ID = mc_ID (pg_NextCursor info), hc_Direction = False, hc_Around = False\<rparr>\<rparr>) db) (\<lambda>rest. Inr (ms @ rest))
       else Inr ms)"

lemma query_callerID: "hq_callerID (history_query_of d) = hd_CallerID d"
  by (simp add: history_query_of_def WithSystemMessageAllowList_def WithTypeFilter_def WithLimit_def WithCallerLimitation_def WithThreadIDsFilter_def
      WithSenderIDsFilter_def WithIDsFilter_def WithDomainIDsFilter_def WithCursor_def WithFields_def NewMessageHistoryQuery_def Let_def split: option.split)

lemma query_where_cursor: "hq_where (history_query_of (d\<lparr>hd_Cursor := c\<rparr>)) = hq_where (history_query_of d)"
  by (simp add: history_query_of_def WithSystemMessageAllowList_def WithTypeFilter_def WithCallerLimitation_def WithThreadIDsFilter_def
      WithSenderIDsFilter_def WithIDsFilter_def WithDomainIDsFilter_def split: option.split)

lemma selected_eq: "selected d = (let fs = (if hd_Fields d = [] then defaultFields else valid_fields (hd_Fields d)) in if fs = [] then defaultFields else fs)"
  by (simp add: selected_def settle_def Let_def history_query_of_def) (simp add: WithFields_def)

lemma cursor_irrelevant [simp]:
  "matching (history_query_of (d\<lparr>hd_Cursor := c\<rparr>)) db = matching (history_query_of d) db"
  "selected (d\<lparr>hd_Cursor := c\<rparr>) = selected d" "shown (d\<lparr>hd_Cursor := c\<rparr>) db = shown d db"
  "history_listing (d\<lparr>hd_Cursor := c\<rparr>) db = history_listing d db"
  by (simp_all add: matching_def query_where_cursor selected_eq shown_def history_listing_def)

lemma shown_ID: "''id'' \<in> set (selected d) \<Longrightarrow> m_ID (shown d db r) = ms_id (fst r)"
  by (simp add: shown_def selected_fields)

lemma listable_sorted: "listable d db \<Longrightarrow> sorted_wrt (\<lambda>a b. ms_id (fst a) > ms_id (fst b)) (history_listing d db)"
  unfolding history_listing_def by (rule newest_first_distinct) (simp add: listable_def)

lemma listing_nonnil: "listable d db \<Longrightarrow> k < length (history_listing d db) \<Longrightarrow> ms_id (fst (history_listing d db ! k)) \<noteq> uuid_nil"
  unfolding listable_def by (metis history_listing_def nth_mem set_newest_first(1))

text \<open>The page that starts after the first k messages of the listing.\<close>

definition after_first :: "nat \<Rightarrow> HistoryMessageInputDTO \<Rightarrow> db \<Rightarrow> HistoryMessageInputDTO" where
  "after_first k d db = d\<lparr>hd_Cursor := (if k = 0 then None
     else Some \<lparr>hc_ID = ms_id (fst (history_listing d db ! (k - 1))), hc_Direction = False, hc_Around = False\<rparr>)\<rparr>"

lemma Search_after_first:
  assumes "listable d db" and "k \<le> length (history_listing d db)"
  defines "L \<equiv> history_listing d db" and "s \<equiv> page_size (hd_Size d)"
  shows "\<exists>info. history_Search (after_first k d db) db = Inr (map (shown d db) (take s (drop k L)), info)
     \<and> (pg_HasNextPage info \<longleftrightarrow> k + s < length L) \<and> (pg_HasPrevPage info \<longleftrightarrow> k < length L \<and> k \<noteq> 0)
     \<and> (pg_HasNextPage info \<longrightarrow> pg_NextCursor info = row_cursor (shown d db (L ! (k + s - 1))))"
proof -
  let ?c = "hd_Cursor (after_first k d db)" and ?q = "settle (history_query_of (after_first k d db))"
  have cfg: "hq_cfg ?q = history_config (hd_Size d) ?c True" by (simp add: history_cfg after_first_def)
  have dir: "cf_Direction (hq_cfg ?q) = DirectionAfter" unfolding cfg by (simp add: history_config_def after_first_def zero_config_def Let_def)
  have has: "cf_HasCursor (hq_cfg ?q) \<longleftrightarrow> k \<noteq> 0"
    using listing_nonnil [OF assms(1), of "k - 1"] assms(2) unfolding cfg by (auto simp: history_config_def after_first_def zero_config_def Let_def L_def)
  have xs: "(case ?c of Some c \<Rightarrow> if hc_ID c \<noteq> uuid_nil then filter (\<lambda>r. ms_id (fst r) < hc_ID c) (newest_first (matching ?q db))
      else newest_first (matching ?q db) | None \<Rightarrow> newest_first (matching ?q db)) = drop k L"
    using listing_nonnil [OF assms(1), of "k - 1"] newest_first_before [OF listable_sorted [OF assms(1)], of "k - 1"] assms(2)
    by (auto simp: after_first_def L_def history_listing_def [symmetric])
  have sel: "selectMessageFields db (hq_callerID ?q) (hq_fields ?q) = shown d db"
    by (simp add: shown_def query_callerID after_first_def selected_def [symmetric])
  have ok: "1 \<le> s" using page_size_range by (simp add: s_def)
  have "history_Search (after_first k d db) db = Inr (map (shown d db) (take s (drop k L)),
      page_at zero_cursor row_cursor (cursor_token ?c) (map (shown d db) (take s (drop k L))) (length (drop k L) > s) (drop k L \<noteq> [] \<and> k \<noteq> 0))"
    unfolding history_Search_run run_query_after [OF cfg dir] xs sel has by (simp add: take_map s_def)
  moreover have "last (map (shown d db) (take s (drop k L))) = shown d db (L ! (k + s - 1))" if "s < length (drop k L)"
    using that ok by (subst last_conv_nth) (auto simp: min_def Suc_le_eq add_diff_assoc)
  ultimately show ?thesis by (auto simp: page_at_def L_def)
qed

lemma walk_from:
  assumes "listable d db" and "''id'' \<in> set (selected d)"
  shows "k \<le> length (history_listing d db) \<Longrightarrow> length (history_listing d db) - k < n
    \<Longrightarrow> walk n (after_first k d db) db = Inr (map (shown d db) (drop k (history_listing d db)))"
proof (induction n arbitrary: k)
  case (Suc n)
  let ?L = "history_listing d db" and ?s = "page_size (hd_Size d)"
  obtain info where info: "history_Search (after_first k d db) db = Inr (map (shown d db) (take ?s (drop k ?L)), info)"
    "pg_HasNextPage info \<longleftrightarrow> k + ?s < length ?L" "pg_HasNextPage info \<longrightarrow> pg_NextCursor info = row_cursor (shown d db (?L ! (k + ?s - 1)))"
    using Search_after_first [OF assms(1) Suc.prems(1)] by blast
  have s: "1 \<le> ?s" using page_size_range by simp
  show ?case
  proof (cases "k + ?s < length ?L")
    case True
    have "(after_first k d db)\<lparr>hd_Cursor := Some \<lparr>hc_ID = mc_ID (pg_NextCursor info), hc_Direction = False, hc_Around = False\<rparr>\<rparr> = after_first (k + ?s) d db"
      using True s info(2,3) by (simp add: after_first_def row_cursor_def shown_ID [OF assms(2)])
    moreover have "walk n (after_first (k + ?s) d db) db = Inr (map (shown d db) (drop (k + ?s) ?L))"
      using Suc.prems True s by (intro Suc.IH) auto
    moreover have "map (shown d db) (take ?s (drop k ?L)) @ map (shown d db) (drop (k + ?s) ?L) = map (shown d db) (drop k ?L)"
      by (metis add.commute append_take_drop_id drop_drop map_append)
    ultimately show ?thesis using info True by simp
  next
    case False
    then have "take ?s (drop k ?L) = drop k ?L" by simp
    with False info show ?thesis by simp
  qed
qed simp


text \<open>
  The page before a message of the listing is the one that ends right in front of it, in the same order as when it was read
  forward, and it announces an earlier page exactly when there is one.
\<close>

theorem history_page_before:
  assumes "listable d db" and "k < length (history_listing d db)"
    and "hd_Cursor d = Some \<lparr>hc_ID = ms_id (fst (history_listing d db ! k)), hc_Direction = True, hc_Around = False\<rparr>"
  shows "\<exists>info. history_Search d db = Inr (map (shown d db) (drop (k - page_size (hd_Size d)) (take k (history_listing d db))), info)
    \<and> (pg_HasPrevPage info \<longleftrightarrow> page_size (hd_Size d) < k) \<and> (pg_HasNextPage info \<longleftrightarrow> 0 < k)"
proof -
  let ?q = "settle (history_query_of d)" and ?c = "\<lparr>hc_ID = ms_id (fst (history_listing d db ! k)), hc_Direction = True, hc_Around = False\<rparr>"
  have cfg: "hq_cfg ?q = history_config (hd_Size d) (Some ?c) True" by (simp add: history_cfg assms(3))
  have dir: "cf_Direction (hq_cfg ?q) = DirectionBefore" unfolding cfg by (simp add: history_config_def zero_config_def Let_def)
  have "hc_ID ?c \<noteq> uuid_nil" "distinct (map (\<lambda>r. ms_id (fst r)) (matching ?q db))"
    using listing_nonnil [OF assms(1,2)] assms(1) by (simp_all add: listable_def)
  note page = run_query_before [OF cfg dir this]
  have "filter (\<lambda>r. ms_id (fst r) > hc_ID ?c) (newest_first (matching ?q db)) = take k (history_listing d db)"
    using newest_first_before [OF listable_sorted [OF assms(1)] assms(2)] by (simp add: history_listing_def [symmetric])
  moreover have "selectMessageFields db (hq_callerID ?q) (hq_fields ?q) = shown d db"
    by (simp add: shown_def query_callerID selected_def [symmetric])
  ultimately show ?thesis using page assms(2) unfolding history_Search_run by (auto simp: page_at_def)
qed

section \<open>The page around a message\<close>

definition shown_around :: "HistoryMessageInputDTO \<Rightarrow> db \<Rightarrow> view_row \<Rightarrow> HistoryMessage" where
  "shown_around d db = selectMessageFields db (hd_CallerID d) (if ''id'' \<in> set (selected d) then selected d else selected d @ [''id''])"

text \<open>
  C36. A page around a message is the window of the listing at that message: up to half of the page before it, and it and what follows
  in the rest; either side announces more exactly when there is more. A message that is listed is on the page.
\<close>

theorem history_page_around:
  assumes "listable d db" and "hd_Cursor d = Some \<lparr>hc_ID = i, hc_Direction = dir, hc_Around = True\<rparr>" and "i \<noteq> uuid_nil"
  defines "P \<equiv> filter (\<lambda>r. ms_id (fst r) > i) (history_listing d db)" and "N \<equiv> filter (\<lambda>r. ms_id (fst r) \<le> i) (history_listing d db)"
    and "p \<equiv> page_size (hd_Size d) div 2" and "n \<equiv> page_size (hd_Size d) - page_size (hd_Size d) div 2"
  shows "P @ N = history_listing d db
    \<and> (\<exists>info. history_Search d db = Inr (map (shown_around d db) (drop (length P - p) P @ take n N), info)
       \<and> (pg_HasPrevPage info \<longleftrightarrow> p < length P) \<and> (pg_HasNextPage info \<longleftrightarrow> n < length N))
    \<and> (\<forall>r \<in> set (history_listing d db). ms_id (fst r) = i \<longrightarrow> r \<in> set (take n N))"
proof -
  let ?q = "settle (history_query_of d)" and ?c = "\<lparr>hc_ID = i, hc_Direction = dir, hc_Around = True\<rparr>" and ?L = "history_listing d db"
  let ?sel = "shown_around d db"
  have cfg: "hq_cfg ?q = history_config (hd_Size d) (Some ?c) True" by (simp add: history_cfg assms(2))
  have c: "cf_Direction (hq_cfg ?q) = DirectionAround" "cf_HasCursor (hq_cfg ?q)" "cf_Cursor (hq_cfg ?q) = \<lparr>mc_ID = i, mc_Before = False\<rparr>"
    "config_ok (hq_cfg ?q)" "cf_Limit (hq_cfg ?q) = page_size (hd_Size d)" "cf_Codec (hq_cfg ?q) = Some (\<lambda>c. Inr [])"
    "cf_Columns (hq_cfg ?q) = MessageHistoryColumns"
    unfolding cfg using assms(3) by (simp_all add: history_config_ok history_config_codec cursor_token_def) (simp_all add: history_config_def zero_config_def Let_def)
  have key: "cursor_key (hq_cfg ?q) = [- int i]" using cursor_key_id [of "hq_cfg ?q"] c assms(3) by (simp add: cfg)
  have sorted: "sorted (map (\<lambda>r. [- int (ms_id (fst r))]) ?L)"
    using sorted_listing [of "hq_cfg ?q" view_col "matching (history_query_of d) db"]
    by (simp only: c(7) row_key_id listing_newest_first [OF c(7)] history_listing_def)
  have PN: "takeWhile (\<lambda>r. [- int (ms_id (fst r))] < [- int i]) ?L = P" "dropWhile (\<lambda>r. [- int (ms_id (fst r))] < [- int i]) ?L = N"
    using sorted_before [OF sorted, of "[- int i]"] sorted_from [OF sorted, of "[- int i]"]
    by (simp_all add: P_def N_def le_less eq_commute [of i])
  have dist: "distinct (map (\<lambda>r. order_key (cf_Columns (hq_cfg ?q)) DirectionAfter (view_col r)) (matching ?q db))"
    using assms(1) c(7) by (intro distinct_row_keys) (simp_all add: listable_def)
  have "ApplyAround view_col (matching ?q db) (hq_cfg ?q) = Inr (drop (length P - (p + 1)) P @ take (n + 1) N)"
    using ApplyAround_segment [OF c(4,2) dist] PN
    by (simp add: c row_key_id key listing_newest_first history_listing_def [symmetric] p_def n_def)
  then have "history_ToSQL ?q db = Inr (map ?sel (drop (length P - (p + 1)) P @ take (n + 1) N))"
    using c(1) by (simp add: history_ToSQL_def shown_around_def query_callerID selected_def [symmetric])
  moreover have "m_ID (?sel r) = ms_id (fst r)" for r by (simp add: shown_around_def selected_fields)
  then have "\<forall>r \<in> set (map ?sel P). newerThan i r" "\<forall>r \<in> set (map ?sel N). \<not> newerThan i r" by (auto simp: P_def N_def newerThan_def)
  note window = BuildAroundPageInfo_window [OF c(4,6) this, of zero_cursor row_cursor]
  ultimately have "\<exists>info. history_Search d db = Inr (map ?sel (drop (length P - p) P @ take n N), info)
      \<and> (pg_HasPrevPage info \<longleftrightarrow> p < length P) \<and> (pg_HasNextPage info \<longleftrightarrow> n < length N)"
    using window c unfolding history_Search_run run_query_def p_def n_def
    by (auto simp: messageHistoryStore_Search_def history_BuildPageInfo_def row_cursor_def Let_def drop_map take_map page_at_def)
  moreover have "P @ N = ?L" unfolding PN [symmetric] by simp
  moreover have "r \<in> set (take n N)" if r: "r \<in> set ?L" "ms_id (fst r) = i" for r
  proof -
    have "sorted_wrt (\<lambda>a b. ms_id (fst a) > ms_id (fst b)) N" unfolding N_def by (rule sorted_wrt_filter [OF listable_sorted [OF assms(1)]])
    then obtain x xs where N: "N = x # xs" "\<forall>y \<in> set xs. ms_id (fst y) < ms_id (fst x)" using r by (cases N) (auto simp: N_def filter_empty_conv)
    moreover have "r \<in> set N" "ms_id (fst x) \<le> i" using r N(1) by (auto simp: N_def filter_eq_Cons_iff)
    ultimately have "r = x" using r by auto
    moreover have "n \<noteq> 0" using page_size_range [of "hd_Size d"] unfolding n_def by linarith
    ultimately show ?thesis using N(1) by (cases n) auto
  qed
  ultimately show ?thesis by blast
qed

section \<open>Who reads what\<close>

lemma set_Apply: "Apply col rows cfg = Inr xs \<Longrightarrow> set xs \<subseteq> set rows"
  by (auto simp: Apply_def bindr_Inr_iff dest!: in_set_takeD)

lemma set_ApplyAround: "ApplyAround col rows cfg = Inr xs \<Longrightarrow> set xs \<subseteq> set rows"
  by (cases "aroundLimits (cf_Limit cfg)") (auto simp: ApplyAround_def bindr_Inr_iff Let_def dest!: in_set_takeD)

lemma set_BuildPageInfo: "BuildPageInfo zc rows cfg ex = Inr (ms, info) \<Longrightarrow> set ms \<subseteq> set rows"
  by (auto simp: BuildPageInfo_def bindr_Inr_iff Let_def reverseSlice_rev split: if_splits dest: in_set_takeD)

lemma set_BuildAroundPageInfo: "BuildAroundPageInfo zc rows cfg ex pr = Inr (ms, info) \<Longrightarrow> set ms \<subseteq> set rows"
proof -
  assume b: "BuildAroundPageInfo zc rows cfg ex pr = Inr (ms, info)"
  obtain n p where "aroundLimits (cf_Limit cfg) = (n, p)" by (cases "aroundLimits (cf_Limit cfg)")
  with b have "ms = (if length (takeWhile pr rows) > p then drop (length (takeWhile pr rows) - p) (takeWhile pr rows) else takeWhile pr rows)
      @ (if length (dropWhile pr rows) > n then take n (dropWhile pr rows) else dropWhile pr rows)"
    by (simp add: BuildAroundPageInfo_def bindr_Inr_iff Let_def)
  then have "set ms \<subseteq> set (takeWhile pr rows) \<union> set (dropWhile pr rows)" by (auto dest: in_set_takeD in_set_dropD split: if_splits)
  then show ?thesis by (metis set_append takeWhile_dropWhile_id)
qed

lemma run_query_sound:
  assumes "run_query q db = Inr (ms, info)" and "m \<in> set ms"
  shows "\<exists>r \<in> set (matching q db). \<exists>fs. m = selectMessageFields db (hq_callerID q) fs r \<and> set (hq_fields q) \<subseteq> set fs"
proof -
  obtain rows where rows: "history_ToSQL q db = Inr rows" "history_BuildPageInfo q rows = Inr (ms, info)"
    using assms(1) by (auto simp: run_query_def messageHistoryStore_Search_def bindr_Inr_iff case_res_Inr split: sum.splits)
  have "m \<in> set rows"
    using rows(2) assms(2) set_BuildPageInfo set_BuildAroundPageInfo by (fastforce simp: history_BuildPageInfo_def Let_def split: if_splits)
  then show ?thesis using rows(1) set_Apply [of view_col "matching q db" "hq_cfg q"] set_ApplyAround [of view_col "matching q db" "hq_cfg q"]
    by (fastforce simp: history_ToSQL_def bindr_Inr_iff split: if_splits)
qed

lemma matching_where: "r \<in> set (matching q db) \<Longrightarrow> p \<in> set (hq_where q) \<Longrightarrow> p db r"
  by (auto simp: matching_def)

lemma history_matching:
  assumes "r \<in> set (matching (history_query_of d) db)"
  shows "hd_ThreadIDs d \<noteq> [] \<Longrightarrow> ms_thread_id (fst r) \<in> set (hd_ThreadIDs d)"
    "hd_CallerID d \<noteq> uuid_nil \<Longrightarrow> may_read_any (hd_CallerID d) (hd_ThreadIDs d) db"
    "hd_DomainID d \<noteq> 0 \<Longrightarrow> ms_domain_id (fst r) = hd_DomainID d"
    "hd_SystemMessageAllowListTypes d = Some types \<Longrightarrow> ms_type (fst r) = MessageTypeSystem \<Longrightarrow> \<exists>t md. ms_system (fst r) = Some (t, md) \<and> t \<in> set types"
  using assms
  by (auto simp: matching_def history_query_of_def WithSystemMessageAllowList_def WithTypeFilter_def WithThreadIDsFilter_def WithCallerLimitation_def
      WithSenderIDsFilter_def WithIDsFilter_def WithDomainIDsFilter_def NewMessageHistoryQuery_def split: option.splits if_splits)

lemma may_read_CanRead: "may_read_any c [t] db \<longleftrightarrow> CanRead t c 0 db"
  by (auto simp: may_read_any_def CanRead_def preview_active_def preview_of_def)



section \<open>Deleted messages\<close>

lemma view_reply_hidden:
  "view_reply_to False db m = Some q \<Longrightarrow> \<exists>r \<in> set (db_messages db). ms_id r = rt_MessageID q
     \<and> (ms_deleted_at r \<noteq> None \<longrightarrow> rt_IsDeleted q \<and> rt_Body q = [] \<and> rt_Attachment q = None)"
  by (auto simp: view_reply_to_def message_of_def Let_def bind_eq_Some_conv dest: find_SomeD)

lemma defaults_selected: "hd_Fields d = [] \<Longrightarrow> selected d = defaultFields"
  by (simp add: selected_eq)

lemma default_fields_in:
  "''id'' \<in> set defaultFields" "''body'' \<in> set defaultFields" "''deleted_at'' \<in> set defaultFields" "''reply_to'' \<in> set defaultFields" "''metadata'' \<in> set defaultFields"
  by (simp_all add: defaultFields_def)

definition content_free :: "HistoryMessagePb \<Rightarrow> bool" where
  "content_free pb \<longleftrightarrow> ph_Body pb = [] \<and> ph_Metadata pb = None \<and> ph_Documents pb = [] \<and> ph_Images pb = [] \<and> ph_Location pb = None
     \<and> ph_Contact pb = None \<and> ph_System pb = None \<and> ph_Interactive pb = None \<and> ph_ReplyTo pb = None \<and> ph_ForwardOrigin pb = None
     \<and> ph_Reactions pb = [] \<and> ph_Failures pb = []"

lemma mapHistoryMessage_deleted:
  "mapHistoryMessage structable c h = Some pb \<Longrightarrow> m_DeletedAt h \<noteq> None \<Longrightarrow> ph_Deleted pb \<and> content_free pb \<and> ph_Id pb = m_ID h"
  by (auto simp: mapHistoryMessage_def Let_def content_free_def)

lemma mapHistoryMessage_live:
  "mapHistoryMessage structable c h = Some pb \<Longrightarrow> m_DeletedAt h = None \<Longrightarrow>
     \<not> ph_Deleted pb \<and> ph_Body pb = m_Body h \<and> ph_ReplyTo pb = mapReplyTo (m_ReplyTo h) \<and> ph_Id pb = m_ID h"
  by (auto simp: mapHistoryMessage_def Let_def split: if_splits)

text \<open>
  C38. In the history with its default fields a deleted message is shown as deleted and without any of its content, and where a message
  quotes a deleted one, the quote is empty as well unless the caller administers the thread. What is not deleted is shown with its text.
\<close>

theorem deleted_text_hidden:
  assumes "SearchThreadMessagesHistory parse structable horizon req db = Inr resp" and "parse (hr_CallerId req) = Some c" and "c \<noteq> uuid_nil"
    and "hr_Fields req = []" and "Some pb \<in> set (sp_Items resp)"
  shows "\<exists>m \<in> set (db_messages db). ph_Id pb = ms_id m \<and> (ph_Deleted pb \<longleftrightarrow> ms_deleted_at m \<noteq> None)
    \<and> (ms_deleted_at m \<noteq> None \<longrightarrow> content_free pb) \<and> (ms_deleted_at m = None \<longrightarrow> ph_Body pb = ms_body m)
    \<and> (\<forall>q. ph_ReplyTo pb = Some q \<longrightarrow> \<not> may_audit c db m \<longrightarrow>
        (\<exists>r \<in> set (db_messages db). ms_id r = py_MessageId q
           \<and> (ms_deleted_at r \<noteq> None \<longrightarrow> py_IsDeleted q \<and> py_Body q = [] \<and> py_Attachment q = None)))"
proof -
  let ?d = "MapSearchMessageHistoryRequest parse req"
  have d: "hd_CallerID ?d = c" "hd_Fields ?d = []" using assms(2,4) by (simp_all add: MapSearchMessageHistoryRequest_def IDsParser_def)
  obtain ms info where s: "history_Search ?d db = Inr (ms, info)" and h: "\<exists>h \<in> set ms. mapHistoryMessage structable c h = Some pb"
    using assms(1,5) d(1) by (auto simp: SearchThreadMessagesHistory_def Let_def bindr_Inr_iff history_response_def) (metis prod.collapse)
  from h obtain h where h: "h \<in> set ms" "mapHistoryMessage structable c h = Some pb" by blast
  obtain r fs where r: "r \<in> set (matching (history_query_of ?d) db)" "h = selectMessageFields db c fs r" "set defaultFields \<subseteq> set fs"
    using run_query_sound [OF s [unfolded history_Search_run] h(1)] defaults_selected [OF d(2)] by (auto simp: query_callerID d selected_def)
  then have fs: "''id'' \<in> set fs" "''body'' \<in> set fs" "''deleted_at'' \<in> set fs" "''reply_to'' \<in> set fs" using default_fields_in by auto
  note sel = selected_fields [of db c fs r, folded r(2)]
  have quote: "ph_ReplyTo pb = Some q \<Longrightarrow> mapReplyTo (m_ReplyTo h) = Some q" for q
    using mapHistoryMessage_deleted [OF h(2)] mapHistoryMessage_live [OF h(2)] by (cases "m_DeletedAt h") (auto simp: content_free_def)
  show ?thesis
  proof (intro bexI conjI)
    show "fst r \<in> set (db_messages db)" by (rule matching_in_view [OF r(1)])
    show "\<forall>q. ph_ReplyTo pb = Some q \<longrightarrow> \<not> may_audit c db (fst r) \<longrightarrow> (\<exists>x \<in> set (db_messages db). ms_id x = py_MessageId q
        \<and> (ms_deleted_at x \<noteq> None \<longrightarrow> py_IsDeleted q \<and> py_Body q = [] \<and> py_Attachment q = None))"
      using quote assms(3) fs sel view_reply_hidden [of db "fst r"] by (fastforce simp: replyToColumn_def mapReplyTo_def)
  qed (use mapHistoryMessage_deleted [OF h(2)] mapHistoryMessage_live [OF h(2)] fs sel in \<open>cases "m_DeletedAt h"; auto\<close>)+
qed

text \<open>The request decides which fields are read: without \<^verbatim>\<open>deleted_at\<close> a deleted message is shown as if it were not deleted.\<close>

lemma deleted_text_without_field:
  assumes "''body'' \<in> set fs" and "''deleted_at'' \<notin> set fs" and "structable (m_Metadata (selectMessageFields db c fs r))"
  shows "\<exists>pb. mapHistoryMessage structable c (selectMessageFields db c fs r) = Some pb \<and> \<not> ph_Deleted pb \<and> ph_Body pb = ms_body (fst r)"
  using assms by (simp add: mapHistoryMessage_def Let_def selected_fields)

text \<open>
  Without the field \<^verbatim>\<open>id\<close> the cursor of the next page is nil, and the page it leads to is the first one again: such a client never
  gets past the first page of a longer history.
\<close>

theorem history_pages_repeat:
  assumes "''id'' \<notin> set (selected d)" and "hd_Cursor d = None" and "page_size (hd_Size d) < length (history_listing d db)"
  shows "\<exists>ms info info'. history_Search d db = Inr (ms, info) \<and> pg_HasNextPage info \<and> mc_ID (pg_NextCursor info) = uuid_nil
    \<and> history_Search (d\<lparr>hd_Cursor := Some \<lparr>hc_ID = mc_ID (pg_NextCursor info), hc_Direction = False, hc_Around = False\<rparr>\<rparr>) db = Inr (ms, info')
    \<and> pg_HasNextPage info'"
proof -
  let ?ms = "map (shown d db) (take (page_size (hd_Size d)) (history_listing d db))"
  have page: "history_Search (d\<lparr>hd_Cursor := c\<rparr>) db = Inr (?ms, page_at zero_cursor row_cursor (cursor_token c) ?ms True False)"
    if "c = None \<or> c = Some \<lparr>hc_ID = uuid_nil, hc_Direction = False, hc_Around = False\<rparr>" for c
  proof -
    let ?q = "settle (history_query_of (d\<lparr>hd_Cursor := c\<rparr>))"
    have cfg: "hq_cfg ?q = history_config (hd_Size d) c True" by (simp add: history_cfg)
    have "cf_Direction (hq_cfg ?q) = DirectionAfter" "\<not> cf_HasCursor (hq_cfg ?q)"
      unfolding cfg using that by (auto simp: history_config_def zero_config_def Let_def)
    moreover have "selectMessageFields db (hq_callerID ?q) (hq_fields ?q) = shown d db"
      by (simp add: shown_def query_callerID selected_def [symmetric])
    ultimately show ?thesis
      using that assms(3) unfolding history_Search_run run_query_after [OF cfg \<open>cf_Direction (hq_cfg ?q) = DirectionAfter\<close>]
      by (auto simp: take_map history_listing_def)
  qed
  have ne: "?ms \<noteq> []" using assms(3) page_size_range [of "hd_Size d"] by auto
  have "m_ID (shown d db r) = uuid_nil" for r using assms(1) by (simp add: shown_def selected_fields)
  then have "m_ID (last ?ms) = uuid_nil" using last_in_set [OF ne] by auto
  moreover have "d\<lparr>hd_Cursor := None\<rparr> = d" using assms(2) by simp
  ultimately show ?thesis using page [of None] page [of "Some \<lparr>hc_ID = uuid_nil, hc_Direction = False, hc_Around = False\<rparr>"]
    by (auto simp: page_at_def row_cursor_def)
qed

text \<open>A message two buttons of which were answered is in the view twice.\<close>

lemma answered_twice_listed_twice:
  assumes "m \<in> set (db_messages db)" and "distinct (db_messages db)"
  shows "length (filter (\<lambda>r. fst r = m) (v_messages db)) = max 1 (length (answers_of db m))"
proof -
  define g where "g = (\<lambda>m. if answers_of db m = [] then [(m, None)] else map (\<lambda>b. (m, Some b)) (answers_of db m))"
  have g: "x \<in> set (g y) \<Longrightarrow> fst x = y" for x y by (auto simp: g_def split: if_splits)
  have "filter (\<lambda>r. fst r = m) (g y) = (if y = m then g m else [])" for y using g by (auto simp: filter_id_conv filter_empty_conv)
  then have "distinct ys \<Longrightarrow> length (filter (\<lambda>r. fst r = m) (concat (map g ys))) = (if m \<in> set ys then length (g m) else 0)" for ys
    by (induction ys) auto
  then show ?thesis using assms by (simp add: v_messages_def g_def [symmetric]) (cases "answers_of db m"; simp add: g_def)
qed

section \<open>A thread of three messages\<close>

definition read_thread :: "int \<Rightarrow> string list \<Rightarrow> HistoryMessageCursor option \<Rightarrow> HistoryMessageInputDTO" where
  "read_thread n fs c = \<lparr>hd_DomainID = 7, hd_Fields = fs, hd_IDs = [], hd_ThreadIDs = [6], hd_SenderIDs = [], hd_Types = [], hd_Cursor = c,
     hd_Size = n, hd_CallerID = 54, hd_SystemMessageAllowListTypes = None\<rparr>"

lemma read_matching:
  "matching (history_query_of (read_thread n fs c)) chat_db = map (\<lambda>m. (m, None)) [status_message 11 1, status_message 12 2, status_message 13 3]"
  by (simp add: matching_def history_query_of_def WithSystemMessageAllowList_def WithTypeFilter_def WithThreadIDsFilter_def WithCallerLimitation_def
      WithSenderIDsFilter_def WithIDsFilter_def WithDomainIDsFilter_def NewMessageHistoryQuery_def read_thread_def v_messages_def answers_of_def
      may_read_any_def active_def chat_db_def status_db_def status_message_def zero_message_row_def example_db_def empty_db_def example_dialog_def)

lemma read_listing:
  "history_listing (read_thread n fs c) chat_db = map (\<lambda>m. (m, None)) [status_message 13 3, status_message 12 2, status_message 11 1]"
  by (simp add: history_listing_def read_matching newest_first_def status_message_def)

lemma read_listable: "listable (read_thread n fs c) chat_db"
  by (simp add: listable_def read_matching status_message_def)

lemma read_selected: "selected (read_thread n [] c) = defaultFields" "selected (read_thread n [''body''] c) = [''body'']"
  by (simp_all add: selected_eq read_thread_def defaultFields_def valid_fields_def availableFields_def)


theorem history_page_before_witness:
  "\<exists>ms info. history_Search (read_thread 2 [] (Some \<lparr>hc_ID = 11, hc_Direction = True, hc_Around = False\<rparr>)) chat_db = Inr (ms, info)
     \<and> map m_ID ms = [13, 12] \<and> \<not> pg_HasPrevPage info \<and> pg_HasNextPage info"
proof -
  let ?d = "read_thread 2 [] (Some \<lparr>hc_ID = 11, hc_Direction = True, hc_Around = False\<rparr>)"
  have "page_size (hd_Size ?d) = 2" by (simp add: read_thread_def page_size_def)
  moreover have "hd_Cursor ?d = Some \<lparr>hc_ID = ms_id (fst (history_listing ?d chat_db ! 2)), hc_Direction = True, hc_Around = False\<rparr>"
    unfolding read_listing by (simp add: read_thread_def status_message_def)
  moreover have "2 < length (history_listing ?d chat_db)" by (simp add: read_listing)
  ultimately obtain info where "history_Search ?d chat_db = Inr (map (shown ?d chat_db) (drop (2 - 2) (take 2 (history_listing ?d chat_db))), info)"
    "pg_HasPrevPage info \<longleftrightarrow> 2 < (2 :: nat)" "pg_HasNextPage info \<longleftrightarrow> 0 < (2 :: nat)"
    using history_page_before [OF read_listable] by metis
  then show ?thesis by (simp add: read_listing shown_ID read_selected default_fields_in status_message_def)
qed

theorem history_page_around_witness:
  "\<exists>ms info. history_Search (read_thread 2 [''body''] (Some \<lparr>hc_ID = 12, hc_Direction = False, hc_Around = True\<rparr>)) chat_db = Inr (ms, info)
     \<and> map m_ID ms = [13, 12] \<and> \<not> pg_HasPrevPage info \<and> pg_HasNextPage info"
proof -
  let ?d = "read_thread 2 [''body''] (Some \<lparr>hc_ID = 12, hc_Direction = False, hc_Around = True\<rparr>)"
  have "hd_Cursor ?d = Some \<lparr>hc_ID = 12, hc_Direction = False, hc_Around = True\<rparr>" by (simp add: read_thread_def)
  moreover have "page_size (hd_Size ?d) = 2" by (simp add: read_thread_def page_size_def)
  ultimately obtain info where "history_Search ?d chat_db = Inr (map (shown_around ?d chat_db)
      (let P = filter (\<lambda>r. ms_id (fst r) > 12) (history_listing ?d chat_db); N = filter (\<lambda>r. ms_id (fst r) \<le> 12) (history_listing ?d chat_db)
       in drop (length P - 1) P @ take 1 N), info)"
    "pg_HasPrevPage info \<longleftrightarrow> 1 < length (filter (\<lambda>r. ms_id (fst r) > 12) (history_listing ?d chat_db))"
    "pg_HasNextPage info \<longleftrightarrow> 1 < length (filter (\<lambda>r. ms_id (fst r) \<le> 12) (history_listing ?d chat_db))"
    using history_page_around [OF read_listable, of 2 "[''body'']" "Some \<lparr>hc_ID = 12, hc_Direction = False, hc_Around = True\<rparr>" 12 False] by (auto simp: Let_def)
  then show ?thesis by (simp add: read_listing status_message_def shown_around_def selected_fields)
qed

theorem history_pages_repeat_witness:
  "\<exists>ms info info'. history_Search (read_thread 2 [''body''] None) chat_db = Inr (ms, info) \<and> mc_ID (pg_NextCursor info) = uuid_nil
     \<and> history_Search (read_thread 2 [''body''] (Some \<lparr>hc_ID = mc_ID (pg_NextCursor info), hc_Direction = False, hc_Around = False\<rparr>)) chat_db = Inr (ms, info')"
  using history_pages_repeat [of "read_thread 2 [''body''] None" chat_db]
  by (simp add: read_selected read_listing) (simp add: read_thread_def page_size_def, blast)

definition history_call :: SearchMessageHistoryRequest where
  "history_call = \<lparr>hr_Fields = [], hr_Ids = [], hr_ThreadId = ''t'', hr_SenderIds = [], hr_Size = 2, hr_Types = [], hr_Cursor = None, hr_DomainId = 7,
     hr_CallerId = ''c'', hr_SystemMessageAllowList = None\<rparr>"

definition short_ids :: "string \<Rightarrow> uuid option" where
  "short_ids s = (if s = ''t'' then Some 6 else if s = ''c'' then Some 54 else None)"

lemma history_call_answer:
  "\<exists>resp pb. SearchThreadMessagesHistory short_ids (\<lambda>_. True) 0 history_call chat_db = Inr resp \<and> Some pb \<in> set (sp_Items resp)"
proof -
  have d: "MapSearchMessageHistoryRequest short_ids history_call = read_thread 2 [] None"
    by (simp add: MapSearchMessageHistoryRequest_def history_call_def read_thread_def IDsParser_def short_ids_def systemMessageAllowListTypes_def)
  have "after_first 0 (read_thread 2 [] None) chat_db = read_thread 2 [] None" "page_size (hd_Size (read_thread 2 [] None)) = 2"
    by (simp_all add: after_first_def read_thread_def page_size_def)
  then obtain info where s: "history_Search (read_thread 2 [] None) chat_db =
      Inr (map (shown (read_thread 2 [] None) chat_db) (take 2 (history_listing (read_thread 2 [] None) chat_db)), info)"
    using Search_after_first [OF read_listable, of 0 2 "[]" None] by auto
  have "\<exists>cur. updatesCursor short_ids 0 (hr_CallerId history_call) chat_db = Inr cur"
    by (auto simp: history_call_def updatesCursor_def short_ids_def)
  then obtain cur where u: "updatesCursor short_ids 0 (hr_CallerId history_call) chat_db = Inr cur" by blast
  have "\<exists>pb. mapHistoryMessage (\<lambda>_. True) c h = Some pb" for c h by (simp add: mapHistoryMessage_def Let_def split: option.split)
  then obtain pb where pb: "mapHistoryMessage (\<lambda>_. True) 54 (shown (read_thread 2 [] None) chat_db (status_message 13 3, None)) = Some pb" by blast
  let ?page = "(map (shown (read_thread 2 [] None) chat_db) (take 2 (history_listing (read_thread 2 [] None) chat_db)), info)"
  have "hd_CallerID (read_thread 2 [] None) = 54" by (simp add: read_thread_def)
  then have "SearchThreadMessagesHistory short_ids (\<lambda>_. True) 0 history_call chat_db = Inr (history_response (\<lambda>_. True) 54 cur ?page)"
    using s u by (simp only: SearchThreadMessagesHistory_def d Let_def bindr_simps)
  moreover have "Some pb \<in> set (sp_Items (history_response (\<lambda>_. True) 54 cur ?page))"
    unfolding read_listing history_response_def using pb [symmetric] by simp
  ultimately show ?thesis by blast
qed


theorem deleted_text_hidden_witness:
  "\<exists>resp pb. SearchThreadMessagesHistory short_ids (\<lambda>_. True) 0 history_call chat_db = Inr resp \<and> Some pb \<in> set (sp_Items resp)
     \<and> ph_Id pb \<in> {11, 12, 13} \<and> \<not> ph_Deleted pb"
proof -
  obtain resp pb where r: "SearchThreadMessagesHistory short_ids (\<lambda>_. True) 0 history_call chat_db = Inr resp" "Some pb \<in> set (sp_Items resp)"
    using history_call_answer by blast
  have "short_ids (hr_CallerId history_call) = Some 54" "hr_Fields history_call = []" by (simp_all add: history_call_def short_ids_def)
  then obtain m where "m \<in> set (db_messages chat_db)" "ph_Id pb = ms_id m" "ph_Deleted pb \<longleftrightarrow> ms_deleted_at m \<noteq> None"
    using deleted_text_hidden [OF r(1) _ _ _ r(2), of 54] by auto
  then show ?thesis using r by (auto simp: chat_db_def status_db_def status_message_def zero_message_row_def)
qed

definition find_text :: SearchMessagesInputDTO where
  "find_text = \<lparr>sd_DomainID = 7, sd_Fields = [], sd_Term = '' _ok%'', sd_ThreadIDs = [], sd_SenderIDs = [], sd_Types = [], sd_Cursor = None, sd_Size = 0,
     sd_CallerID = 54, sd_SystemMessageAllowListTypes = None\<rparr>"

definition text_db :: db where
  "text_db = chat_db\<lparr>db_messages := [(status_message 14 4)\<lparr>ms_body := ''100_ok%!'', ms_created_at := 9\<rparr>, (status_message 15 5)\<lparr>ms_body := ''1000ok!'', ms_created_at := 9\<rparr>]\<rparr>"


end
