(* ===== verification/Revisions.thy ===== *)
theory Revisions
  imports History
begin

text \<open>
  The change log of a message: \<^verbatim>\<open>internal/store/postgres/message_revision_store.go\<close>, \<^verbatim>\<open>GetRevisions\<close> of
  \<^verbatim>\<open>internal/service/message_history.go\<close>, \<^verbatim>\<open>internal/domain/model/message_revision.go\<close> and the
  handler with its mapper. Only overwritten bodies are stored; the log is put together from them, the live
  body and the deletion. It replays what the edits wrote: every edit adds one entry to it and changes none.
\<close>

section \<open>The store\<close>

abbreviation (input) ActionCreated :: int where "ActionCreated \<equiv> 1"
abbreviation (input) ActionEdited :: int where "ActionEdited \<equiv> 2"
abbreviation (input) ActionDeleted :: int where "ActionDeleted \<equiv> 3"

record MessageChangeEntry =
  ce_Version :: int
  ce_Action :: int
  ce_Body :: string
  ce_ChangedBy :: ThreadDialog
  ce_ChangedAt :: time

definition revision_visible :: "uuid \<Rightarrow> db \<Rightarrow> message_row \<Rightarrow> bool" where
  "revision_visible c db m \<longleftrightarrow>
     (\<exists>d \<in> set (db_dialogs db). dl_thread_id d = ms_thread_id m \<and> dl_member_id d = c \<and> active d \<and> dl_domain_id d = ms_domain_id m)
     \<or> (\<exists>p \<in> set (db_previews db). pv_thread_id p = ms_thread_id m \<and> pv_contact_id p = c \<and> pv_domain_id p = ms_domain_id m
          \<and> unrevoked p \<and> pv_expires_at p > db_now db)"

definition created_by :: "message_row \<Rightarrow> uuid" where
  "created_by m = (case ms_origin_sender m of Some c \<Rightarrow> c | None \<Rightarrow> ms_sender_id m)"

definition changed_by :: "db \<Rightarrow> message_row \<Rightarrow> uuid \<Rightarrow> ThreadDialog" where
  "changed_by db m c =
     (case last_dialog db (ms_thread_id m) c of
        None \<Rightarrow> zero_dialog\<lparr>td_ContactID := c\<rparr>
      | Some d \<Rightarrow> zero_dialog\<lparr>bm_ID := dl_id d, td_ContactID := c, td_ThreadRole := dl_thread_role d\<rparr>)"

text \<open>
  \<^verbatim>\<open>rev\<close>: the stored revisions by version, a version with the stamp of the edit before it (\<^verbatim>\<open>lag\<close>), the
  first one with that of the creation.
\<close>

definition stamps :: "message_row \<Rightarrow> revision_row list \<Rightarrow> (uuid \<times> time) list" where
  "stamps m revs = (created_by m, ms_created_at m) # map (\<lambda>r. (rv_changed_by r, rv_changed_at r)) revs"

definition stored_entries :: "db \<Rightarrow> message_row \<Rightarrow> revision_row list \<Rightarrow> MessageChangeEntry list" where
  "stored_entries db m revs =
     map (\<lambda>(k, r, by, at). \<lparr>ce_Version = int k + 1, ce_Action = (if k = 0 then ActionCreated else ActionEdited), ce_Body = rv_body r,
            ce_ChangedBy = changed_by db m by, ce_ChangedAt = at\<rparr>)
       (zip [0..<length revs] (zip revs (stamps m revs)))"

definition live_entry :: "db \<Rightarrow> message_row \<Rightarrow> revision_row list \<Rightarrow> MessageChangeEntry" where
  "live_entry db m revs =
     \<lparr>ce_Version = int (length revs) + 1, ce_Action = (if length revs > 0 \<or> ms_edited m then ActionEdited else ActionCreated), ce_Body = ms_body m,
      ce_ChangedBy = changed_by db m (fst (last (stamps m revs))),
      ce_ChangedAt = (if length revs > 0 then snd (last (stamps m revs)) else if ms_edited m then ms_updated_at m else ms_created_at m)\<rparr>"

definition deletion_entry :: "db \<Rightarrow> message_row \<Rightarrow> revision_row list \<Rightarrow> MessageChangeEntry list" where
  "deletion_entry db m revs =
     (case ms_deleted_at m of None \<Rightarrow> []
      | Some t \<Rightarrow> [\<lparr>ce_Version = int (length revs) + 2, ce_Action = ActionDeleted, ce_Body = ms_body m,
          ce_ChangedBy = changed_by db m (case ms_deleted_by m of Some c \<Rightarrow> c | None \<Rightarrow> created_by m), ce_ChangedAt = t\<rparr>])"

definition ErrMessageNotVisible :: err where
  "ErrMessageNotVisible = Err Unknown ''message not visible to caller''"

definition revision_Search :: "uuid \<Rightarrow> int \<Rightarrow> uuid \<Rightarrow> db \<Rightarrow> MessageChangeEntry list res" where
  "revision_Search messageID domainID callerID db =
     bindr (fail_if (messageID = uuid_nil) (Err InvalidArgument ''message id cannot be nil'')) (\<lambda>_.
     bindr (fail_if (callerID = uuid_nil) (Err InvalidArgument ''caller id cannot be nil'')) (\<lambda>_.
     let entries = (case find (\<lambda>m. ms_id m = messageID \<and> ms_domain_id m = domainID \<and> revision_visible callerID db m) (db_messages db) of
           None \<Rightarrow> []
         | Some m \<Rightarrow>
            let revs = sort_key rv_version (revisions_of db messageID)
            in sort_key ce_Version (stored_entries db m revs @ [live_entry db m revs] @ deletion_entry db m revs))
     in if entries = [] then Inl ErrMessageNotVisible else Inr entries))"

section \<open>The service and the handler\<close>

record GetMessageRevisionsRequest =
  gr_MessageID :: uuid
  gr_DomainID :: int
  gr_CallerID :: uuid

definition GetRevisions :: "GetMessageRevisionsRequest option \<Rightarrow> db \<Rightarrow> MessageChangeEntry list res" where
  "GetRevisions req db =
     (case req of None \<Rightarrow> Inl (Err InvalidArgument ''message id is required'')
      | Some r \<Rightarrow>
         bindr (fail_if (gr_MessageID r = uuid_nil) (Err InvalidArgument ''message id is required'')) (\<lambda>_.
         bindr (fail_if (gr_CallerID r = uuid_nil) (Err InvalidArgument ''caller identity is required'')) (\<lambda>_.
         case revision_Search (gr_MessageID r) (gr_DomainID r) (gr_CallerID r) db of
           Inl e \<Rightarrow> Inl (if e = ErrMessageNotVisible
             then Err Forbidden ''message history is not available: the message does not exist or the caller is not a member of its thread'' else e)
         | Inr entries \<Rightarrow> Inr entries)))"

record MessageRevisionPb =
  pv_Version :: int
  pv_Action :: int
  pv_Body :: string
  pv_ChangedBy :: "ThreadMemberPb option"
  pv_ChangedAt :: int

definition ChangedAtUnixMillis :: "MessageChangeEntry \<Rightarrow> int" where
  "ChangedAtUnixMillis e = max (UnixMilli (ce_ChangedAt e)) 0"

definition mapMessageChangeEntry :: "MessageChangeEntry \<Rightarrow> MessageRevisionPb" where
  "mapMessageChangeEntry e =
     \<lparr>pv_Version = ce_Version e, pv_Action = ce_Action e, pv_Body = ce_Body e,
      pv_ChangedBy = mapThreadDialog2ThreadMember (Some (ce_ChangedBy e)), pv_ChangedAt = ChangedAtUnixMillis e\<rparr>"

definition GetMessageRevisions :: "(string \<Rightarrow> uuid option) \<Rightarrow> string \<Rightarrow> int \<Rightarrow> string \<Rightarrow> db \<Rightarrow> MessageRevisionPb list res" where
  "GetMessageRevisions parse messageId domainId callerId db =
     bindr (GetRevisions (Some \<lparr>gr_MessageID = IDsParser parse messageId, gr_DomainID = domainId, gr_CallerID = IDsParser parse callerId\<rparr>) db)
       (\<lambda>entries. Inr (map mapMessageChangeEntry entries))"

section \<open>The log replays the edits\<close>

definition change_log :: "db \<Rightarrow> message_row \<Rightarrow> MessageChangeEntry list" where
  "change_log db m = stored_entries db m (revisions_of db (ms_id m)) @ [live_entry db m (revisions_of db (ms_id m))]
     @ deletion_entry db m (revisions_of db (ms_id m))"

lemma stored_entries_length [simp]: "length (stored_entries db m revs) = length revs"
  by (simp add: stored_entries_def stamps_def)

lemma stored_entries_nth:
  "k < length revs \<Longrightarrow> stored_entries db m revs ! k =
     \<lparr>ce_Version = int k + 1, ce_Action = (if k = 0 then ActionCreated else ActionEdited), ce_Body = rv_body (revs ! k),
      ce_ChangedBy = changed_by db m (fst (stamps m revs ! k)), ce_ChangedAt = snd (stamps m revs ! k)\<rparr>"
  by (simp add: stored_entries_def stamps_def split: prod.split)

lemma stored_entries_simps:
  "map ce_Body (stored_entries db m revs) = map rv_body revs" "map ce_Version (stored_entries db m revs) = map int [1..<Suc (length revs)]"
  by (auto intro!: nth_equalityI simp: stored_entries_nth simp del: upt_Suc)

lemma change_log_bodies: "map ce_Body (change_log db m) = map rv_body (revisions_of db (ms_id m)) @ [ms_body m] @ (if ms_deleted_at m = None then [] else [ms_body m])"
  by (simp add: change_log_def stored_entries_simps live_entry_def deletion_entry_def split: option.split)

lemma change_log_versions: "map ce_Version (change_log db m) = map int [1..<Suc (length (change_log db m))]"
  by (simp add: change_log_def stored_entries_simps live_entry_def deletion_entry_def split: option.split)

lemma ascending_sorted: "map k xs = map int [1..<Suc n] \<Longrightarrow> sort_key k xs = xs"
proof -
  assume "map k xs = map int [1..<Suc n]"
  moreover have "sorted (map int [1..<Suc n])" by (simp add: sorted_map del: upt_Suc)
  ultimately show ?thesis by (metis sort_key_id_if_sorted)
qed

lemma revision_find:
  assumes "distinct (map ms_id (db_messages db))" and "message_of db i = Some m"
  shows "find (\<lambda>m. ms_id m = i \<and> ms_domain_id m = d \<and> revision_visible c db m) (db_messages db) =
     (if ms_domain_id m = d \<and> revision_visible c db m then Some m else None)"
proof -
  have m: "m \<in> set (db_messages db)" "ms_id m = i" using assms(2) by (auto simp: message_of_def dest: find_SomeD)
  then have u: "x \<in> set (db_messages db) \<Longrightarrow> ms_id x = i \<Longrightarrow> x = m" for x using assms(1) by (auto simp: distinct_map dest: inj_onD)
  let ?p = "\<lambda>m. ms_id m = i \<and> ms_domain_id m = d \<and> revision_visible c db m"
  show ?thesis
  proof (cases "find ?p (db_messages db)")
    case None
    then show ?thesis using m by (auto simp: find_None_iff)
  next
    case (Some x)
    then show ?thesis using u [of x] find_SomeD [OF Some] by auto
  qed
qed

lemma GetRevisions_log:
  assumes "distinct (map ms_id (db_messages db))" and "revisions_ok db" and "message_of db i = Some m" and "i \<noteq> uuid_nil" and "c \<noteq> uuid_nil"
  shows "GetRevisions (Some \<lparr>gr_MessageID = i, gr_DomainID = d, gr_CallerID = c\<rparr>) db =
     (if ms_domain_id m = d \<and> revision_visible c db m then Inr (change_log db m)
      else Inl (Err Forbidden ''message history is not available: the message does not exist or the caller is not a member of its thread''))"
proof -
  have i: "ms_id m = i" using assms(3) by (auto simp: message_of_def dest: find_SomeD)
  have "sort_key rv_version (revisions_of db i) = revisions_of db i"
    using assms(2) by (intro ascending_sorted) (simp add: revisions_ok_def)
  moreover have "sort_key ce_Version (change_log db m) = change_log db m" by (rule ascending_sorted [OF change_log_versions])
  moreover have "change_log db m \<noteq> []" by (simp add: change_log_def)
  ultimately show ?thesis
    using revision_find [OF assms(1,3), of d c] assms(4,5)
    by (auto simp: GetRevisions_def revision_Search_def Let_def i change_log_def [symmetric])
      (auto simp: change_log_def i)
qed


lemma stored_entries_snoc:
  assumes "ms_edited m \<longrightarrow> revs \<noteq> []" and "rv_body rv = ms_body m" and "created_by m' = created_by m" and "ms_created_at m' = ms_created_at m"
    and "\<And>c. changed_by db' m' c = changed_by db m c"
  shows "stored_entries db' m' (revs @ [rv]) = stored_entries db m revs @ [live_entry db m revs]"
proof (rule nth_equalityI)
  fix k assume k: "k < length (stored_entries db' m' (revs @ [rv]))"
  have "stamps m' (revs @ [rv]) ! k = stamps m revs ! k" using k assms(3,4) by (cases k) (simp_all add: stamps_def nth_append)
  moreover have "last (stamps m revs) = stamps m revs ! length revs" by (simp add: stamps_def last_conv_nth)
  ultimately show "stored_entries db' m' (revs @ [rv]) ! k = (stored_entries db m revs @ [live_entry db m revs]) ! k"
    using k assms by (auto simp: stored_entries_nth nth_append live_entry_def less_Suc_eq) (auto simp: stamps_def)
qed simp


section \<open>Examples\<close>

lemma mention_message: "message_of mention_db 11 = Some (hd (db_messages mention_db))" "revision_visible 54 mention_db (hd (db_messages mention_db))"
  "revisions_ok mention_db" "\<not> ms_edited (hd (db_messages mention_db))" "ms_domain_id (hd (db_messages mention_db)) = 7"
  by (simp_all add: message_of_def revision_visible_def active_def revisions_ok_def revisions_of_def change_example_defs status_message_def zero_message_row_def
      example_dialog_def)



end
