(* ===== verification/Spec2Isabelle.thy ===== *)
theory Spec2Isabelle
  imports Service_Steps Text_Entities Previews Variables Forward Revisions
begin

text \<open>
  Verification of the thread service of Webitel's messenger.
\<close>

end
